(* ===== verification/TA_Prelude.thy ===== *)
theory TA_Prelude
  imports Main "HOL-Library.Word"
begin

text \<open>
  Shared vocabulary of the development: the machine integers of the Go sources, the outcome of a
  Go call (a returned value, a non-nil \<^verbatim>\<open>error\<close>, or a run-time panic), error values, byte
  buffers (\<^verbatim>\<open>bytes.Buffer\<close>), the fixed-width codecs of \<^verbatim>\<open>encoding/binary\<close>, and the generic
  lemmas on them that the component theories use through the simplifier.
\<close>

section \<open>Machine integers and collections of facts\<close>

type_synonym byte = "8 word"
type_synonym uint16 = "16 word"
type_synonym uint32 = "32 word"
type_synonym uint64 = "64 word"

named_theorems eval_simps \<open>equations that evaluate closed terms of the model\<close>
named_theorems go_inversion \<open>which calls can have produced an outcome\<close>
named_theorems read_simps \<open>reading a field back from its encoding\<close>

section \<open>Outcomes of a Go call\<close>

text \<open>The run-time panics the sources can raise.\<close>

datatype panic =
    IndexOutOfRange
  | SliceBounds
  | MakeSliceLen
  | NilDereference
  | CloseOfClosedChannel
  | LibraryPanic string

text \<open>
  Error values. \<open>WrapErr\<close> is \<^verbatim>\<open>errors.Wrap\<close>: the cause stays inside. \<open>EndpointErr\<close> and
  \<open>PrivilegeErr\<close> are the two struct types of the repository that implement \<^verbatim>\<open>error\<close>; the
  service distinguishes errors by their dynamic type.
\<close>

datatype go_error =
    EOF
  | UnexpectedEOF
  | NotExist
  | IOError string
  | ParseError string
  | LibError string
  | NewErr string
  | WrapErr go_error string
  | EndpointErr string nat
  | PrivilegeErr string nat

datatype 'a go = Ret 'a | Fail go_error | Panic panic

text \<open>Sequencing: an error return or a panic ends the computation.\<close>

fun andThen :: "'a go \<Rightarrow> ('a \<Rightarrow> 'b go) \<Rightarrow> 'b go" where
  "andThen (Ret x) f = f x"
| "andThen (Fail e) f = Fail e"
| "andThen (Panic p) f = Panic p"

text \<open>\<^verbatim>\<open>if err != nil { return errors.Wrap(err, msg) }\<close> after a call.\<close>

fun wrapping :: "string \<Rightarrow> 'a go \<Rightarrow> 'a go" where
  "wrapping msg (Ret x) = Ret x"
| "wrapping msg (Fail e) = Fail (WrapErr e msg)"
| "wrapping msg (Panic p) = Panic p"

text \<open>\<^verbatim>\<open>errors.Wrap\<close> itself returns nil when the wrapped error is nil.\<close>

definition errors_Wrap :: "go_error option \<Rightarrow> string \<Rightarrow> go_error option" where
  "errors_Wrap err msg = map_option (\<lambda>e. WrapErr e msg) err"

text \<open>\<^verbatim>\<open>return v, err\<close> with an error that may be nil.\<close>

definition return_with :: "'a \<Rightarrow> go_error option \<Rightarrow> 'a go" where
  "return_with v err = (case err of None \<Rightarrow> Ret v | Some e \<Rightarrow> Fail e)"

fun is_Panic :: "'a go \<Rightarrow> bool" where
  "is_Panic (Panic p) = True"
| "is_Panic _ = False"

fun is_Ret :: "'a go \<Rightarrow> bool" where
  "is_Ret (Ret x) = True"
| "is_Ret _ = False"

lemma andThen_cong [fundef_cong]:
  assumes "m = m'" and "\<And>x. m' = Ret x \<Longrightarrow> f x = f' x"
  shows "andThen m f = andThen m' f'"
  using assms by (cases m') auto

lemma andThen_eq_Ret [go_inversion]:
  "andThen m f = Ret y \<longleftrightarrow> (\<exists>x. m = Ret x \<and> f x = Ret y)"
  by (cases m) auto

lemma andThen_eq_Panic [go_inversion]:
  "andThen m f = Panic p \<longleftrightarrow> m = Panic p \<or> (\<exists>x. m = Ret x \<and> f x = Panic p)"
  by (cases m) auto

lemma andThen_eq_Fail [go_inversion]:
  "andThen m f = Fail e \<longleftrightarrow> m = Fail e \<or> (\<exists>x. m = Ret x \<and> f x = Fail e)"
  by (cases m) auto

lemma wrapping_eq_Ret [simp]: "wrapping msg m = Ret y \<longleftrightarrow> m = Ret y"
  by (cases m) auto

lemma wrapping_eq_Panic [simp]: "wrapping msg m = Panic p \<longleftrightarrow> m = Panic p"
  by (cases m) auto

lemma is_Panic_andThen: "is_Panic (andThen m f) \<longleftrightarrow> is_Panic m \<or> (\<exists>x. m = Ret x \<and> is_Panic (f x))"
  by (cases m) auto

lemma is_Panic_wrapping [simp]: "is_Panic (wrapping msg m) = is_Panic m"
  by (cases m) auto

lemma is_Ret_andThen: "is_Ret (andThen m f) \<longleftrightarrow> (\<exists>x. m = Ret x \<and> is_Ret (f x))"
  by (cases m) auto

lemma is_Ret_wrapping [simp]: "is_Ret (wrapping msg m) = is_Ret m"
  by (cases m) auto

lemma is_Ret_iff: "is_Ret m \<longleftrightarrow> (\<exists>x. m = Ret x)"
  by (cases m) auto

lemma is_Panic_iff: "is_Panic m \<longleftrightarrow> (\<exists>p. m = Panic p)"
  by (cases m) auto

lemma errors_Wrap_None [simp]: "errors_Wrap None msg = None"
  by (simp add: errors_Wrap_def)

lemma return_with_None [simp]: "return_with v None = Ret v"
  by (simp add: return_with_def)

section \<open>Byte buffers and fixed-width codecs\<close>

text \<open>
  A \<^verbatim>\<open>bytes.Buffer\<close> is its unread portion. \<^verbatim>\<open>Next(n)\<close> returns at most \<^verbatim>\<open>n\<close> bytes and panics on
  a negative count (its slice expression has its bounds out of order).
\<close>

type_synonym buffer = "byte list"

definition buf_next :: "int \<Rightarrow> buffer \<Rightarrow> (byte list \<times> buffer) go" where
  "buf_next n buf = (if n < 0 then Panic SliceBounds else Ret (take (nat n) buf, drop (nat n) buf))"

lemma buf_next_of_nat [simp]: "buf_next (int n) buf = Ret (take n buf, drop n buf)"
  by (simp add: buf_next_def)

lemma buf_next_uint [simp]: "buf_next (uint w) buf = Ret (take (unat w) buf, drop (unat w) buf)"
  by (simp add: buf_next_def)

text \<open>
  \<^verbatim>\<open>binary.Read\<close> of a value of \<open>width\<close> bytes: \<^verbatim>\<open>io.ReadFull\<close> reports \<^verbatim>\<open>EOF\<close> when nothing was left
  and \<^verbatim>\<open>ErrUnexpectedEOF\<close> when too little was left.
\<close>

definition binary_read :: "nat \<Rightarrow> (byte list \<Rightarrow> 'a) \<Rightarrow> buffer \<Rightarrow> ('a \<times> buffer) go" where
  "binary_read width dec buf =
     (if length buf < width then Fail (if buf = [] then EOF else UnexpectedEOF)
      else Ret (dec (take width buf), drop width buf))"

lemma binary_read_eq_Ret [go_inversion]:
  "binary_read w dec buf = Ret (x, buf') \<longleftrightarrow>
     w \<le> length buf \<and> x = dec (take w buf) \<and> buf' = drop w buf"
  by (auto simp: binary_read_def)

lemma binary_read_ok:
  "w \<le> length buf \<Longrightarrow> binary_read w dec buf = Ret (dec (take w buf), drop w buf)"
  by (simp add: binary_read_def)

lemma binary_read_no_panic [simp]: "binary_read w dec buf \<noteq> Panic p"
  by (simp add: binary_read_def)

lemma not_is_Panic_binary_read [simp]: "\<not> is_Panic (binary_read w dec buf)"
  by (simp add: binary_read_def)

text \<open>Little-endian and big-endian readings of a byte list.\<close>

fun le_nat :: "byte list \<Rightarrow> nat" where
  "le_nat [] = 0"
| "le_nat (b # bs) = unat b + 256 * le_nat bs"

fun le_bytes :: "nat \<Rightarrow> nat \<Rightarrow> byte list" where
  "le_bytes 0 v = []"
| "le_bytes (Suc n) v = of_nat (v mod 256) # le_bytes n (v div 256)"

definition be_nat :: "byte list \<Rightarrow> nat" where
  "be_nat bs = le_nat (rev bs)"

definition be_bytes :: "nat \<Rightarrow> nat \<Rightarrow> byte list" where
  "be_bytes n v = rev (le_bytes n v)"

lemma length_le_bytes [simp]: "length (le_bytes n v) = n"
  by (induction n arbitrary: v) auto

lemma length_be_bytes [simp]: "length (be_bytes n v) = n"
  by (simp add: be_bytes_def)

lemma unat_less_width: "unat (x :: 'a::len word) < 2 ^ LENGTH('a)"
  by (rule unsigned_less)

lemma unat_bounds [simp]:
  "unat (w :: byte) < 256" "unat (x :: uint16) < 65536"
  "unat (y :: uint32) < 4294967296" "unat (z :: uint64) < 18446744073709551616"
  using unat_less_width [of w] unat_less_width [of x] unat_less_width [of y]
    unat_less_width [of z] by simp_all

lemma unat_mod_width [simp]:
  "unat (w :: byte) mod 256 = unat w" "unat (x :: uint16) mod 65536 = unat x"
  "unat (y :: uint32) mod 4294967296 = unat y"
  "unat (z :: uint64) mod 18446744073709551616 = unat z"
  by simp_all

lemma sint_nonneg_u64:
  assumes "unat (w :: uint64) < 2 ^ 63"
  shows "sint w = int (unat w)"
proof -
  have "uint w < 2 ^ 63"
    using assms of_nat_less_iff [where 'a = int, of "unat w" "2 ^ 63"] by simp
  moreover have "- (2 ^ 63) \<le> uint w" by (rule order_trans [of _ 0]) simp_all
  ultimately have "signed_take_bit 63 (uint w) = uint w" by (intro signed_take_bit_int_eq_self) simp_all
  then have "sint w = uint w" by (simp add: sint_uint)
  then show ?thesis by (simp only: uint_nat)
qed

lemma unat_of_nat_byte: "unat (of_nat n :: byte) = n mod 256"
  by (simp add: unat_of_nat)

lemma le_nat_le_bytes: "le_nat (le_bytes n v) = v mod 256 ^ n"
proof (induction n arbitrary: v)
  case (Suc n)
  then show ?case
    by (simp add: unat_of_nat_byte mod_mult2_eq [of v 256 "256 ^ n"])
qed simp

lemma le_nat_bound: "le_nat bs < 256 ^ length bs"
proof (induction bs)
  case (Cons b bs)
  have "unat b < 256" by simp
  then have "unat b + 256 * le_nat bs < 256 * 256 ^ length bs" using Cons.IH by linarith
  then show ?case by simp
qed simp

lemma be_nat_be_bytes: "be_nat (be_bytes n v) = v mod 256 ^ n"
  by (simp add: be_nat_def be_bytes_def le_nat_le_bytes)

text \<open>The readers the sources use.\<close>

definition get_u8 :: "byte list \<Rightarrow> byte" where "get_u8 bs = of_nat (le_nat bs)"
definition get_u16 :: "byte list \<Rightarrow> uint16" where "get_u16 bs = of_nat (le_nat bs)"
definition get_u32 :: "byte list \<Rightarrow> uint32" where "get_u32 bs = of_nat (le_nat bs)"
definition get_u64 :: "byte list \<Rightarrow> uint64" where "get_u64 bs = of_nat (le_nat bs)"
definition get_u16_be :: "byte list \<Rightarrow> uint16" where "get_u16_be bs = of_nat (be_nat bs)"

definition put_u8 :: "byte \<Rightarrow> byte list" where "put_u8 x = le_bytes 1 (unat x)"
definition put_u16 :: "uint16 \<Rightarrow> byte list" where "put_u16 x = le_bytes 2 (unat x)"
definition put_u32 :: "uint32 \<Rightarrow> byte list" where "put_u32 x = le_bytes 4 (unat x)"
definition put_u64 :: "uint64 \<Rightarrow> byte list" where "put_u64 x = le_bytes 8 (unat x)"
definition put_u16_be :: "uint16 \<Rightarrow> byte list" where "put_u16_be x = be_bytes 2 (unat x)"

lemmas codec_defs =
  get_u8_def get_u16_def get_u32_def get_u64_def get_u16_be_def
  put_u8_def put_u16_def put_u32_def put_u64_def put_u16_be_def

lemma le_bytes_numeral [eval_simps]:
  "le_bytes (numeral k) v = of_nat (v mod 256) # le_bytes (pred_numeral k) (v div 256)"
  "le_bytes 1 v = [of_nat (v mod 256)]"
  by (simp_all only: numeral_eq_Suc One_nat_def le_bytes.simps)

lemma replicate_numeral [eval_simps]:
  "replicate (numeral k) x = x # replicate (pred_numeral k) x"
  by (simp add: numeral_eq_Suc)

lemma list_update_numeral [eval_simps]:
  "(y # ys)[numeral k := x] = y # ys[pred_numeral k := x]"
  by (simp add: numeral_eq_Suc)

lemma bit_one_zero [eval_simps]: "bit (Suc 0) 0"
  by (simp add: bit_0)

declare word_le_nat_alt [eval_simps] word_less_nat_alt [eval_simps]
declare codec_defs [eval_simps] be_nat_def [eval_simps] be_bytes_def [eval_simps]
  binary_read_def [eval_simps] buf_next_def [eval_simps]
  errors_Wrap_def [eval_simps] return_with_def [eval_simps]

text \<open>
  The interface a parser relies on: a value occupies a fixed number of bytes and decoding an
  encoding gives the value back. The lemmas are proved once, for every width.
\<close>

locale fixed_codec =
  fixes width :: nat
    and enc :: "'a \<Rightarrow> byte list"
    and dec :: "byte list \<Rightarrow> 'a"
  assumes length_enc: "length (enc x) = width"
    and dec_enc: "dec (enc x) = x"
begin

lemma read_enc: "binary_read width dec (enc x @ rest) = Ret (x, rest)"
  using length_enc [of x] by (simp add: binary_read_def dec_enc)

lemma read_enc_only: "binary_read width dec (enc x) = Ret (x, [])"
  using read_enc [of x "[]"] by simp

lemma enc_inject: "enc x = enc y \<longleftrightarrow> x = y"
  by (metis dec_enc)

end

interpretation u8: fixed_codec 1 put_u8 get_u8
  by unfold_locales (simp_all add: codec_defs le_nat_le_bytes)

interpretation u16: fixed_codec 2 put_u16 get_u16
  by unfold_locales (simp_all add: codec_defs le_nat_le_bytes)

interpretation u32: fixed_codec 4 put_u32 get_u32
  by unfold_locales (simp_all add: codec_defs le_nat_le_bytes)

interpretation u64: fixed_codec 8 put_u64 get_u64
  by unfold_locales (simp_all add: codec_defs le_nat_le_bytes)

interpretation u16_be: fixed_codec 2 put_u16_be get_u16_be
  by unfold_locales (simp_all add: codec_defs be_nat_be_bytes)

declare u8.read_enc [read_simps] u16.read_enc [read_simps] u32.read_enc [read_simps]
  u64.read_enc [read_simps] u16_be.read_enc [read_simps]
  u8.read_enc_only [read_simps] u16.read_enc_only [read_simps] u32.read_enc_only [read_simps]
  u64.read_enc_only [read_simps] u16_be.read_enc_only [read_simps]
  u8.length_enc [simp] u16.length_enc [simp] u32.length_enc [simp] u64.length_enc [simp]
  u16_be.length_enc [simp]

section \<open>Generic lemmas on lists\<close>

lemma take_append_exact [simp]: "length xs = n \<Longrightarrow> take n (xs @ ys) = xs"
  by simp

lemma drop_append_exact [simp]: "length xs = n \<Longrightarrow> drop n (xs @ ys) = ys"
  by simp

lemma list_all2_append_one:
  "list_all2 P xs ys \<Longrightarrow> P x y \<Longrightarrow> list_all2 P (xs @ [x]) (ys @ [y])"
  by (simp add: list_all2_appendI)

lemma distinct_snoc [simp]: "distinct (xs @ [x]) \<longleftrightarrow> distinct xs \<and> x \<notin> set xs"
  by auto

end
