(* ===== verification/Go_Strings.thy ===== *)
theory Go_Strings
  imports TA_Prelude "HOL-Library.Sublist"
begin

text \<open>
  The string functions of the Go standard library that the agent calls: conversion between byte
  slices and strings, \<^verbatim>\<open>encoding/hex\<close>, the verbs \<^verbatim>\<open>%x\<close> and \<^verbatim>\<open>%d\<close> of \<^verbatim>\<open>fmt\<close>, \<^verbatim>\<open>strconv.Atoi\<close>, and
  \<^verbatim>\<open>Index\<close>, \<^verbatim>\<open>LastIndex\<close>, \<^verbatim>\<open>Split\<close>, \<^verbatim>\<open>Contains\<close> and \<^verbatim>\<open>Replace\<close> of \<^verbatim>\<open>strings\<close>. A Go string is a
  byte sequence, so it is a HOL \<^typ>\<open>string\<close> (a character is one byte).
\<close>

section \<open>Byte slices and strings\<close>

definition string_of_bytes :: "byte list \<Rightarrow> string" where
  "string_of_bytes bs = map (\<lambda>b. char_of (unat b)) bs"

definition bytes_of_string :: "string \<Rightarrow> byte list" where
  "bytes_of_string s = map (\<lambda>c. of_nat (of_char c)) s"

lemma string_of_bytes_simps [simp]:
  "string_of_bytes [] = []"
  "string_of_bytes (b # bs) = char_of (unat b) # string_of_bytes bs"
  "string_of_bytes (xs @ ys) = string_of_bytes xs @ string_of_bytes ys"
  "length (string_of_bytes bs) = length bs"
  by (simp_all add: string_of_bytes_def)

lemma bytes_of_string_simps [simp]:
  "bytes_of_string [] = []"
  "bytes_of_string (c # cs) = of_nat (of_char c) # bytes_of_string cs"
  "bytes_of_string (xs @ ys) = bytes_of_string xs @ bytes_of_string ys"
  "length (bytes_of_string s) = length s"
  by (simp_all add: bytes_of_string_def)

lemma of_char_less_256 [simp]: "(of_char c :: nat) < 256"
  by simp

lemma string_of_bytes_of_string [simp]: "string_of_bytes (bytes_of_string s) = s"
  by (induction s) (simp_all add: unat_of_nat_byte)

lemma bytes_of_string_of_bytes [simp]: "bytes_of_string (string_of_bytes bs) = bs"
  by (induction bs) simp_all

section \<open>Hexadecimal\<close>

definition hex_digit :: "nat \<Rightarrow> char" where
  "hex_digit n = ''0123456789abcdef'' ! n"

definition hex_EncodeToString :: "byte list \<Rightarrow> string" where
  "hex_EncodeToString bs = concat (map (\<lambda>b. [hex_digit (unat b div 16), hex_digit (unat b mod 16)]) bs)"

text \<open>The verb \<^verbatim>\<open>%x\<close>: lower-case digits without leading zeros.\<close>

fun hex_nat :: "nat \<Rightarrow> string" where
  "hex_nat n = (if n < 16 then [hex_digit n] else hex_nat (n div 16) @ [hex_digit (n mod 16)])"

declare hex_nat.simps [simp del, eval_simps] hex_digit_def [eval_simps]
  hex_EncodeToString_def [eval_simps]

lemma length_hex_EncodeToString [simp]: "length (hex_EncodeToString bs) = 2 * length bs"
  by (induction bs) (simp_all add: hex_EncodeToString_def)

lemma hex_digit_inj: "i < 16 \<Longrightarrow> j < 16 \<Longrightarrow> hex_digit i = hex_digit j \<longleftrightarrow> i = j"
  unfolding hex_digit_def by (subst nth_eq_iff_index_eq) simp_all

lemma hex_EncodeToString_Cons:
  "hex_EncodeToString (b # bs) =
     hex_digit (unat b div 16) # hex_digit (unat b mod 16) # hex_EncodeToString bs"
  by (simp add: hex_EncodeToString_def)

lemma byte_eq_by_nibbles:
  "unat (a :: byte) div 16 = unat b div 16 \<Longrightarrow> unat a mod 16 = unat b mod 16 \<Longrightarrow> a = b"
  by (metis div_mult_mod_eq word_unat_eq_iff)

lemma hex_EncodeToString_inj: "hex_EncodeToString xs = hex_EncodeToString ys \<longleftrightarrow> xs = ys"
proof (induction xs arbitrary: ys)
  case Nil
  then show ?case by (cases ys) (simp_all add: hex_EncodeToString_def)
next
  case IH: (Cons x xs)
  show ?case
  proof (cases ys)
    case Nil
    then show ?thesis by (simp add: hex_EncodeToString_def)
  next
    case (Cons y ys')
    have "unat x < 256" "unat y < 256" by simp_all
    then have "unat x div 16 < 16" "unat y div 16 < 16" by linarith+
    then show ?thesis
      using Cons byte_eq_by_nibbles [of x y] IH [of ys']
      by (auto simp: hex_EncodeToString_Cons hex_digit_inj)
  qed
qed

section \<open>Decimal\<close>

fun dec_nat :: "nat \<Rightarrow> string" where
  "dec_nat n = (if n < 10 then [char_of (48 + n)] else dec_nat (n div 10) @ [char_of (48 + n mod 10)])"

definition dec_int :: "int \<Rightarrow> string" where
  "dec_int i = (if i < 0 then ''-'' @ dec_nat (nat (- i)) else dec_nat (nat i))"

declare dec_nat.simps [simp del, eval_simps] dec_int_def [eval_simps] char_of_def [eval_simps]

definition digit_val :: "char \<Rightarrow> nat option" where
  "digit_val c = (let n = of_char c in if 48 \<le> n \<and> n \<le> 57 then Some (n - 48) else None)"

fun digits_val :: "nat \<Rightarrow> string \<Rightarrow> nat option" where
  "digits_val acc [] = Some acc"
| "digits_val acc (c # cs) =
     (case digit_val c of None \<Rightarrow> None | Some d \<Rightarrow> digits_val (10 * acc + d) cs)"

text \<open>
  \<^verbatim>\<open>strconv.Atoi\<close> on a 64-bit platform: an optional sign, at least one decimal digit, a value in
  the range of \<^verbatim>\<open>int\<close>.
\<close>

definition strconv_Atoi :: "string \<Rightarrow> int go" where
  "strconv_Atoi s =
     (let neg = (s \<noteq> [] \<and> hd s = CHR ''-'');
          ds = (if s \<noteq> [] \<and> (hd s = CHR ''-'' \<or> hd s = CHR ''+'') then tl s else s)
      in if ds = [] then Fail (ParseError ''invalid syntax'')
         else case digits_val 0 ds of
                None \<Rightarrow> Fail (ParseError ''invalid syntax'')
              | Some v \<Rightarrow>
                  if neg \<and> v > 2 ^ 63 \<or> \<not> neg \<and> v \<ge> 2 ^ 63
                  then Fail (ParseError ''value out of range'')
                  else Ret (if neg then - int v else int v))"

declare digit_val_def [eval_simps] strconv_Atoi_def [eval_simps] of_char_def [eval_simps]

lemma strconv_Atoi_no_panic [simp]: "strconv_Atoi s \<noteq> Panic p"
  by (simp add: strconv_Atoi_def Let_def split: option.split)

lemma not_is_Panic_Atoi [simp]: "\<not> is_Panic (strconv_Atoi s)"
  by (simp add: is_Panic_iff)

lemma digit_val_char_of: "d < 10 \<Longrightarrow> digit_val (char_of (48 + d)) = Some d"
  by (simp add: digit_val_def Let_def)

lemma digits_val_append:
  "digits_val acc (xs @ ys) =
     (case digits_val acc xs of None \<Rightarrow> None | Some a \<Rightarrow> digits_val a ys)"
  by (induction xs arbitrary: acc) (auto split: option.split)

lemma digits_val_dec_nat: "digits_val 0 (dec_nat n) = Some n"
proof (induction n rule: dec_nat.induct)
  case (1 n)
  then show ?case
    by (cases "n < 10")
      (simp_all add: dec_nat.simps [of n] digit_val_char_of digits_val_append)
qed

lemma dec_nat_digit: "c \<in> set (dec_nat n) \<Longrightarrow> \<exists>d < 10. c = char_of (48 + d :: nat)"
proof (induction n rule: dec_nat.induct)
  case (1 n)
  then show ?case
    by (cases "n < 10") (auto simp: dec_nat.simps [of n] intro: exI [of _ "n mod 10"])
qed

lemma dec_nat_nonempty [simp]: "dec_nat n \<noteq> []"
  by (subst dec_nat.simps) simp

lemma of_char_48 [simp]: "d < 10 \<Longrightarrow> of_char (char_of (48 + d) :: char) = (48 + d :: nat)"
  by simp

lemma dec_nat_not_char: "of_char c < (48 :: nat) \<or> 57 < (of_char c :: nat) \<Longrightarrow> c \<notin> set (dec_nat n)"
  using dec_nat_digit [of c n] by auto

lemma hd_dec_nat_not_sign: "hd (dec_nat n) \<noteq> CHR ''-''" "hd (dec_nat n) \<noteq> CHR ''+''"
proof -
  have "hd (dec_nat n) \<in> set (dec_nat n)" by (rule hd_in_set) simp
  moreover have "CHR ''-'' \<notin> set (dec_nat n)" "CHR ''+'' \<notin> set (dec_nat n)"
    by (simp_all add: dec_nat_not_char of_char_def)
  ultimately show "hd (dec_nat n) \<noteq> CHR ''-''" "hd (dec_nat n) \<noteq> CHR ''+''" by metis+
qed

lemma strconv_Atoi_dec_nat: "n < 2 ^ 63 \<Longrightarrow> strconv_Atoi (dec_nat n) = Ret (int n)"
  by (simp add: strconv_Atoi_def Let_def digits_val_dec_nat hd_dec_nat_not_sign)

section \<open>Searching and splitting\<close>

fun str_index :: "char \<Rightarrow> string \<Rightarrow> nat option" where
  "str_index c [] = None"
| "str_index c (x # xs) = (if x = c then Some 0 else map_option Suc (str_index c xs))"

definition str_last_index :: "char \<Rightarrow> string \<Rightarrow> nat option" where
  "str_last_index c s = map_option (\<lambda>i. length s - 1 - i) (str_index c (rev s))"

fun split_on :: "char \<Rightarrow> string \<Rightarrow> string list" where
  "split_on c [] = [[]]"
| "split_on c (x # xs) =
     (if x = c then [] # split_on c xs
      else (case split_on c xs of [] \<Rightarrow> [[x]] | y # ys \<Rightarrow> (x # y) # ys))"

fun join_with :: "char \<Rightarrow> string list \<Rightarrow> string" where
  "join_with c [] = []"
| "join_with c [s] = s"
| "join_with c (s # t # ss) = s @ c # join_with c (t # ss)"

fun str_contains :: "string \<Rightarrow> string \<Rightarrow> bool" where
  "str_contains sub [] = (sub = [])"
| "str_contains sub (x # xs) = (take (length sub) (x # xs) = sub \<or> str_contains sub xs)"

definition str_remove :: "char \<Rightarrow> string \<Rightarrow> string" where
  "str_remove c s = filter (\<lambda>x. x \<noteq> c) s"

declare str_last_index_def [eval_simps] str_remove_def [eval_simps]

lemma str_index_eq_None: "str_index c s = None \<longleftrightarrow> c \<notin> set s"
  by (induction s) auto

lemma str_index_Some:
  "str_index c s = Some i \<Longrightarrow> i < length s \<and> s ! i = c \<and> c \<notin> set (take i s)"
proof (induction s arbitrary: i)
  case (Cons x xs)
  then show ?case by (cases i) (auto split: if_splits)
qed simp

lemma str_index_append: "c \<notin> set xs \<Longrightarrow> str_index c (xs @ c # ys) = Some (length xs)"
  by (induction xs) auto

lemma split_on_nonempty [simp]: "split_on c s \<noteq> []"
  by (cases s) (auto split: list.split)

lemma split_on_no_sep: "c \<notin> set s \<Longrightarrow> split_on c s = [s]"
  by (induction s) auto

lemma split_on_append: "c \<notin> set s \<Longrightarrow> split_on c (s @ c # t) = s # split_on c t"
  by (induction s) auto

lemma split_on_join:
  "ss \<noteq> [] \<Longrightarrow> \<forall>s \<in> set ss. c \<notin> set s \<Longrightarrow> split_on c (join_with c ss) = ss"
  by (induction c ss rule: join_with.induct) (auto simp: split_on_no_sep split_on_append)

lemma join_split: "join_with c (split_on c s) = s"
proof (induction s)
  case (Cons x xs)
  obtain y ys where "split_on c xs = y # ys" using split_on_nonempty [of c xs] by (cases "split_on c xs") auto
  with Cons show ?case by (cases ys) auto
qed simp

lemma str_contains_iff: "str_contains sub s \<longleftrightarrow> sublist sub s"
proof (induction s)
  case (Cons x xs)
  have "take (length sub) (x # xs) = sub \<longleftrightarrow> prefix sub (x # xs)"
    by (metis append_eq_conv_conj prefix_def take_is_prefix)
  with Cons show ?case by (simp add: sublist_Cons_right)
qed auto

end
