(* ===== verification/Go_Utf8.thy ===== *)
theory Go_Utf8
  imports Go_Strings
begin

text \<open>
  UTF-8 as the Go run-time and \<^verbatim>\<open>unicode/utf8\<close> implement it: conversion of runes to strings,
  iteration of a string by rune with U+FFFD for every ill-formed byte, \<^verbatim>\<open>strings.Map\<close> with a
  dropping mapping, and \<^verbatim>\<open>unicode.IsPrint\<close>. Above Latin-1 the last consults the Unicode tables,
  which are an argument (\<open>table\<close>) of the model.
\<close>

type_synonym rune = nat

definition RuneError :: rune where "RuneError = 0xFFFD"

definition valid_rune :: "rune \<Rightarrow> bool" where
  "valid_rune r \<longleftrightarrow> r < 0xD800 \<or> 0xDFFF < r \<and> r \<le> 0x10FFFF"

definition utf8_encode :: "rune \<Rightarrow> nat list" where
  "utf8_encode r =
     (if r < 0x80 then [r]
      else if r < 0x800 then [0xC0 + r div 64, 0x80 + r mod 64]
      else if \<not> valid_rune r then [0xEF, 0xBF, 0xBD]
      else if r < 0x10000 then [0xE0 + r div 4096, 0x80 + r div 64 mod 64, 0x80 + r mod 64]
      else [0xF0 + r div 262144, 0x80 + r div 4096 mod 64, 0x80 + r div 64 mod 64, 0x80 + r mod 64])"

definition in_range :: "nat \<Rightarrow> nat \<Rightarrow> nat \<Rightarrow> bool" where
  "in_range lo hi b \<longleftrightarrow> lo \<le> b \<and> b \<le> hi"

text \<open>The accepted range of the second byte depends on the first.\<close>

definition accept_lo :: "nat \<Rightarrow> nat" where
  "accept_lo b0 = (if b0 = 0xE0 then 0xA0 else if b0 = 0xF0 then 0x90 else 0x80)"

definition accept_hi :: "nat \<Rightarrow> nat" where
  "accept_hi b0 = (if b0 = 0xED then 0x9F else if b0 = 0xF4 then 0x8F else 0xBF)"

text \<open>\<^verbatim>\<open>utf8.DecodeRune\<close>: the rune and the number of bytes it used.\<close>

fun utf8_decode :: "nat list \<Rightarrow> rune \<times> nat" where
  "utf8_decode (b0 # bs) =
     (if b0 < 0x80 then (b0, 1)
      else if in_range 0xC2 0xDF b0 then
        (case bs of
           b1 # _ \<Rightarrow> if in_range 0x80 0xBF b1 then ((b0 - 0xC0) * 64 + (b1 - 0x80), 2)
                     else (RuneError, 1)
         | _ \<Rightarrow> (RuneError, 1))
      else if in_range 0xE0 0xEF b0 then
        (case bs of
           b1 # b2 # _ \<Rightarrow>
             if in_range (accept_lo b0) (accept_hi b0) b1 \<and> in_range 0x80 0xBF b2
             then ((b0 - 0xE0) * 4096 + (b1 - 0x80) * 64 + (b2 - 0x80), 3)
             else (RuneError, 1)
         | _ \<Rightarrow> (RuneError, 1))
      else if in_range 0xF0 0xF4 b0 then
        (case bs of
           b1 # b2 # b3 # _ \<Rightarrow>
             if in_range (accept_lo b0) (accept_hi b0) b1 \<and> in_range 0x80 0xBF b2
                  \<and> in_range 0x80 0xBF b3
             then ((b0 - 0xF0) * 262144 + (b1 - 0x80) * 4096 + (b2 - 0x80) * 64 + (b3 - 0x80), 4)
             else (RuneError, 1)
         | _ \<Rightarrow> (RuneError, 1))
      else (RuneError, 1))"
| "utf8_decode [] = (RuneError, 0)"

text \<open>\<^verbatim>\<open>for _, c := range s\<close>: the runes of a string.\<close>

function decode_runes :: "nat list \<Rightarrow> rune list" where
  "decode_runes [] = []"
| "decode_runes (b # bs) =
     (case utf8_decode (b # bs) of (r, w) \<Rightarrow> r # decode_runes (drop (w - 1) bs))"
  by pat_completeness auto
termination
  by (relation "measure length") auto

definition str_runes :: "string \<Rightarrow> rune list" where
  "str_runes s = decode_runes (map of_char s)"

text \<open>The conversion \<^verbatim>\<open>string(runes)\<close>.\<close>

definition string_of_runes :: "rune list \<Rightarrow> string" where
  "string_of_runes rs = map char_of (concat (map utf8_encode rs))"

definition unicode_IsPrint :: "(rune \<Rightarrow> bool) \<Rightarrow> rune \<Rightarrow> bool" where
  "unicode_IsPrint table r =
     (if r \<le> 0xFF then 0x20 \<le> r \<and> r \<le> 0x7E \<or> 0xA1 \<le> r \<and> r \<noteq> 0xAD else table r)"

text \<open>
  \<^verbatim>\<open>removeUnicode\<close> of \<^verbatim>\<open>eventlog/common.go\<close>: \<^verbatim>\<open>strings.Map\<close> with a mapping that keeps printable
  runes and drops (returns -1 for) the others.
\<close>

definition removeUnicode :: "(rune \<Rightarrow> bool) \<Rightarrow> string \<Rightarrow> string" where
  "removeUnicode table input =
     string_of_runes (filter (unicode_IsPrint table) (str_runes input))"

declare RuneError_def [eval_simps] valid_rune_def [eval_simps] utf8_encode_def [eval_simps]
  in_range_def [eval_simps] accept_lo_def [eval_simps] accept_hi_def [eval_simps]
  str_runes_def [eval_simps] string_of_runes_def [eval_simps] unicode_IsPrint_def [eval_simps]
  removeUnicode_def [eval_simps]

section \<open>Decoding an encoding\<close>

lemma valid_RuneError [simp]: "valid_rune RuneError"
  by (simp add: valid_rune_def RuneError_def)

lemma utf8_encode_nonempty [simp]: "utf8_encode r \<noteq> []"
  by (simp add: utf8_encode_def)

lemma split64: "(a :: nat) div 64 * 64 + a mod 64 = a"
  by simp

lemma split4096: "(a :: nat) div 4096 * 4096 + a div 64 mod 64 * 64 + a mod 64 = a"
proof -
  have "a div 4096 = a div 64 div 64" by (simp add: div_mult2_eq [symmetric])
  moreover have "a div 64 div 64 * 64 + a div 64 mod 64 = a div 64" by simp
  moreover have "a div 64 * 64 + a mod 64 = a" by simp
  ultimately show ?thesis by linarith
qed

lemma split262144:
  "(a :: nat) div 262144 * 262144 + a div 4096 mod 64 * 4096 + a div 64 mod 64 * 64 + a mod 64 = a"
proof -
  have "a div 262144 = a div 4096 div 64" by (simp add: div_mult2_eq [symmetric])
  moreover have "a div 4096 div 64 * 64 + a div 4096 mod 64 = a div 4096" by simp
  ultimately show ?thesis using split4096 [of a] by linarith
qed

lemma mod64_le: "(a :: nat) mod 64 \<le> 63"
  by (simp add: less_Suc_eq_le [symmetric])

text \<open>Decoding each of the four shapes, over its fields.\<close>

lemma utf8_decode_2:
  "2 \<le> q \<Longrightarrow> q \<le> 31 \<Longrightarrow> m \<le> 63 \<Longrightarrow>
     utf8_decode ((0xC0 + q) # (0x80 + m) # rest) = (q * 64 + m, 2)"
  by (simp add: in_range_def)

lemma utf8_decode_3:
  "q \<le> 15 \<Longrightarrow> m1 \<le> 63 \<Longrightarrow> m2 \<le> 63 \<Longrightarrow> (q = 0 \<Longrightarrow> 32 \<le> m1) \<Longrightarrow> (q = 13 \<Longrightarrow> m1 \<le> 31) \<Longrightarrow>
     utf8_decode ((0xE0 + q) # (0x80 + m1) # (0x80 + m2) # rest) = (q * 4096 + m1 * 64 + m2, 3)"
  by (auto simp: in_range_def accept_lo_def accept_hi_def)

lemma utf8_decode_4:
  "q \<le> 4 \<Longrightarrow> m1 \<le> 63 \<Longrightarrow> m2 \<le> 63 \<Longrightarrow> m3 \<le> 63 \<Longrightarrow> (q = 0 \<Longrightarrow> 16 \<le> m1) \<Longrightarrow> (q = 4 \<Longrightarrow> m1 \<le> 15) \<Longrightarrow>
     utf8_decode ((0xF0 + q) # (0x80 + m1) # (0x80 + m2) # (0x80 + m3) # rest) =
       (q * 262144 + m1 * 4096 + m2 * 64 + m3, 4)"
  by (auto simp: in_range_def accept_lo_def accept_hi_def)

lemma utf8_decode_encode_2:
  assumes "0x80 \<le> r" and "r < 0x800"
  shows "utf8_decode (utf8_encode r @ rest) = (r, length (utf8_encode r))"
proof -
  have "2 \<le> r div 64" "r div 64 \<le> 31" using assms by linarith+
  from utf8_decode_2 [OF this mod64_le [of r], of rest] show ?thesis
    using assms by (simp add: utf8_encode_def del: utf8_decode.simps)
qed

lemma utf8_decode_encode_3:
  assumes "valid_rune r" and "0x800 \<le> r" and "r < 0x10000"
  shows "utf8_decode (utf8_encode r @ rest) = (r, length (utf8_encode r))"
proof -
  have q: "r div 4096 \<le> 15" using assms by linarith
  have lo: "r div 4096 = 0 \<Longrightarrow> 32 \<le> r div 64 mod 64"
    using assms(2) split4096 [of r] mod64_le [of r] by linarith
  have hi: "r div 4096 = 13 \<Longrightarrow> r div 64 mod 64 \<le> 31"
    using assms split4096 [of r] unfolding valid_rune_def by linarith
  from utf8_decode_3 [OF q mod64_le [of "r div 64"] mod64_le [of r] lo hi, of rest] show ?thesis
    using assms split4096 [of r] by (simp add: utf8_encode_def del: utf8_decode.simps)
qed

lemma utf8_decode_encode_4:
  assumes "valid_rune r" and "0x10000 \<le> r"
  shows "utf8_decode (utf8_encode r @ rest) = (r, length (utf8_encode r))"
proof -
  note m = mod64_le [of "r div 4096"] mod64_le [of "r div 64"] mod64_le [of r]
  have q: "r div 262144 \<le> 4" using assms unfolding valid_rune_def by linarith
  have lo: "r div 262144 = 0 \<Longrightarrow> 16 \<le> r div 4096 mod 64"
    using assms(2) split262144 [of r] m by linarith
  have hi: "r div 262144 = 4 \<Longrightarrow> r div 4096 mod 64 \<le> 15"
    using assms split262144 [of r] unfolding valid_rune_def by linarith
  from utf8_decode_4 [OF q m lo hi, of rest] show ?thesis
    using assms split262144 [of r] by (simp add: utf8_encode_def del: utf8_decode.simps)
qed

lemma utf8_decode_encode:
  assumes "valid_rune r"
  shows "utf8_decode (utf8_encode r @ rest) = (r, length (utf8_encode r))"
proof -
  consider "r < 0x80" | "0x80 \<le> r" "r < 0x800" | "0x800 \<le> r" "r < 0x10000" | "0x10000 \<le> r"
    by linarith
  then show ?thesis
    using assms utf8_decode_encode_2 utf8_decode_encode_3 utf8_decode_encode_4
    by cases (simp_all add: utf8_encode_def)
qed

declare utf8_decode.simps [simp del, eval_simps]

lemma length_utf8_encode_pos: "0 < length (utf8_encode r)"
  by simp

lemma decode_runes_encode_append:
  assumes "valid_rune r"
  shows "decode_runes (utf8_encode r @ rest) = r # decode_runes rest"
proof -
  obtain b bs where e: "utf8_encode r = b # bs" by (cases "utf8_encode r") auto
  then have "utf8_decode (b # bs @ rest) = (r, Suc (length bs))"
    using utf8_decode_encode [OF assms, of rest] by simp
  with e show ?thesis by simp
qed

lemma decode_runes_encode:
  "\<forall>r \<in> set rs. valid_rune r \<Longrightarrow> decode_runes (concat (map utf8_encode rs)) = rs"
  by (induction rs) (simp_all add: decode_runes_encode_append)

lemma utf8_encode_bytes: "b \<in> set (utf8_encode r) \<Longrightarrow> b < 256"
  by (auto simp: utf8_encode_def valid_rune_def split: if_splits)

lemma map_of_char_encoded:
  "map of_char (string_of_runes rs) = concat (map utf8_encode rs)"
proof -
  have "\<forall>b \<in> set (concat (map utf8_encode rs)). b < 256"
    using utf8_encode_bytes by auto
  then have "map (of_char \<circ> char_of) (concat (map utf8_encode rs)) = concat (map utf8_encode rs)"
    by (intro map_idI) auto
  then show ?thesis
    by (simp only: string_of_runes_def map_map)
qed

lemma str_runes_of_runes: "\<forall>r \<in> set rs. valid_rune r \<Longrightarrow> str_runes (string_of_runes rs) = rs"
  by (simp add: str_runes_def map_of_char_encoded decode_runes_encode)

section \<open>Every decoded rune is a scalar value\<close>

lemma utf8_decode_valid: "valid_rune (fst (utf8_decode bs))"
proof (cases bs)
  case (Cons b0 bs')
  consider "b0 < 0x80" | "in_range 0xC2 0xDF b0" | "in_range 0xE0 0xEF b0" | "in_range 0xF0 0xF4 b0"
    | "\<not> b0 < 0x80" "\<not> in_range 0xC2 0xDF b0" "\<not> in_range 0xE0 0xEF b0" "\<not> in_range 0xF0 0xF4 b0"
    by blast
  then show ?thesis
  proof cases
    case 3
    then show ?thesis using Cons
      by (auto simp: utf8_decode.simps in_range_def accept_lo_def accept_hi_def valid_rune_def RuneError_def
          split: list.split)
  next
    case 4
    then show ?thesis using Cons
      by (auto simp: utf8_decode.simps in_range_def accept_lo_def accept_hi_def valid_rune_def RuneError_def
          split: list.split)
  qed (use Cons in \<open>auto simp: utf8_decode.simps in_range_def valid_rune_def RuneError_def split: list.split\<close>)
qed (simp add: utf8_decode.simps)

lemma decode_runes_valid: "r \<in> set (decode_runes bs) \<Longrightarrow> valid_rune r"
proof (induction bs rule: decode_runes.induct)
  case (2 b bs)
  obtain r' w where d: "utf8_decode (b # bs) = (r', w)" by fastforce
  moreover have "valid_rune r'" using utf8_decode_valid [of "b # bs"] d by simp
  ultimately show ?case using 2 by auto
qed simp

lemma str_runes_valid: "r \<in> set (str_runes s) \<Longrightarrow> valid_rune r"
  by (simp add: str_runes_def decode_runes_valid)

section \<open>Cleaning a tag\<close>

lemma str_runes_removeUnicode:
  "str_runes (removeUnicode table s) = filter (unicode_IsPrint table) (str_runes s)"
  unfolding removeUnicode_def by (rule str_runes_of_runes) (auto dest: str_runes_valid)

lemma removeUnicode_idem: "removeUnicode table (removeUnicode table s) = removeUnicode table s"
proof -
  have "removeUnicode table (removeUnicode table s) =
      string_of_runes (filter (unicode_IsPrint table) (str_runes (removeUnicode table s)))"
    by (simp only: removeUnicode_def)
  also have "\<dots> = string_of_runes (filter (unicode_IsPrint table) (str_runes s))"
    by (simp add: str_runes_removeUnicode)
  also have "\<dots> = removeUnicode table s"
    by (simp only: removeUnicode_def)
  finally show ?thesis .
qed

text \<open>Printable ASCII passes unchanged.\<close>

definition printable_ascii :: "string \<Rightarrow> bool" where
  "printable_ascii s \<longleftrightarrow> (\<forall>c \<in> set s. 0x20 \<le> (of_char c :: nat) \<and> (of_char c :: nat) \<le> 0x7E)"

lemma decode_runes_ascii: "\<forall>b \<in> set bs. b < 0x80 \<Longrightarrow> decode_runes bs = bs"
  by (induction bs) (simp_all add: utf8_decode.simps)

lemma removeUnicode_printable_ascii:
  assumes "printable_ascii s"
  shows "removeUnicode table s = s"
proof -
  have r: "str_runes s = map of_char s"
    using assms by (fastforce simp: str_runes_def printable_ascii_def intro!: decode_runes_ascii)
  have "filter (unicode_IsPrint table) (map of_char s) = map of_char s"
    using assms by (intro filter_True) (fastforce simp: printable_ascii_def unicode_IsPrint_def)
  moreover have "concat (map utf8_encode (map of_char s)) = map of_char s"
    using assms by (induction s) (auto simp: printable_ascii_def utf8_encode_def)
  ultimately show ?thesis
    by (simp add: removeUnicode_def r string_of_runes_def comp_def)
qed

end
