(* ===== verification/Pcr_Log.thy ===== *)
theory Pcr_Log
  imports Go_Utf8
begin

text \<open>
  The event-log data model of \<^verbatim>\<open>eventlog/event_log.go\<close> and the operation that files a TPM event
  under its PCR index and bank. The sources contain that operation twice, in \<^verbatim>\<open>createMeasureLog\<close>
  and in the application-event parser; both copies are modelled and shown to meet one interface
  (locale \<open>pcr_log_store\<close>), whose reference is \<open>group_events\<close>: group by key, keys in order
  of first appearance, events in order of arrival.
\<close>

section \<open>Constants\<close>

text \<open>
  The constants of \<^verbatim>\<open>eventlog/common.go\<close>: sizes, names of events of type 0x501, event types, banks
  and algorithm identifiers. The proofs compute with their values; a size is untyped
  in the source and polymorphic here.
\<close>

definition Uint8Size :: "'a :: numeral" where "Uint8Size = 1"
definition Uint16Size :: "'a :: numeral" where "Uint16Size = 2"
definition Uint32Size :: "'a :: numeral" where "Uint32Size = 4"
definition Uint64Size :: "'a :: numeral" where "Uint64Size = 8"
definition TBPolicy :: string where "TBPolicy = ''tb_policy''"
definition VMLinuz :: string where "VMLinuz = ''vmlinuz''"
definition Initrd :: string where "Initrd = ''initrd''"
definition AssetTagEvent :: string where "AssetTagEvent = ''asset-tag''"
definition Event501Index0 :: nat where "Event501Index0 = 0"
definition Event501Index1 :: nat where "Event501Index1 = 1"
definition Event501Index2 :: nat where "Event501Index2 = 2"
definition Event501Index3 :: nat where "Event501Index3 = 3"
definition Event501Index4 :: nat where "Event501Index4 = 4"
definition Event80000001 :: uint32 where "Event80000001 = 0x80000001"
definition Event80000002 :: uint32 where "Event80000002 = 0x80000002"
definition Event80000007 :: uint32 where "Event80000007 = 0x80000007"
definition Event8000000A :: uint32 where "Event8000000A = 0x8000000A"
definition Event8000000B :: uint32 where "Event8000000B = 0x8000000B"
definition Event8000000C :: uint32 where "Event8000000C = 0x8000000C"
definition Event80000010 :: uint32 where "Event80000010 = 0x80000010"
definition Event800000E0 :: uint32 where "Event800000E0 = 0x800000E0"
definition Event00000007 :: uint32 where "Event00000007 = 0x00000007"
definition Event00000001 :: uint32 where "Event00000001 = 0x00000001"
definition Event00000003 :: uint32 where "Event00000003 = 0x00000003"
definition Event00000005 :: uint32 where "Event00000005 = 0x00000005"
definition Event0000000A :: uint32 where "Event0000000A = 0x0000000A"
definition Event0000000C :: uint32 where "Event0000000C = 0x0000000C"
definition Event00000012 :: uint32 where "Event00000012 = 0x00000012"
definition Event00000010 :: uint32 where "Event00000010 = 0x00000010"
definition Event00000011 :: uint32 where "Event00000011 = 0x00000011"
definition EV_IPL :: uint32 where "EV_IPL = 0x0000000D"
definition SHA1 :: string where "SHA1 = ''SHA1''"
definition SHA256 :: string where "SHA256 = ''SHA256''"
definition SHA384 :: string where "SHA384 = ''SHA384''"
definition SHA512 :: string where "SHA512 = ''SHA512''"
definition SM3_256 :: string where "SM3_256 = ''SM3_256''"
definition AlgSHA1 :: uint16 where "AlgSHA1 = 0x4"
definition AlgSHA256 :: uint16 where "AlgSHA256 = 0xb"
definition AlgSHA384 :: uint16 where "AlgSHA384 = 0xc"
definition AlgSHA512 :: uint16 where "AlgSHA512 = 0xd"
definition AlgSM3_256 :: uint16 where "AlgSM3_256 = 0x12"

lemmas event_constants = Uint8Size_def Uint16Size_def Uint32Size_def Uint64Size_def TBPolicy_def VMLinuz_def Initrd_def
  AssetTagEvent_def Event501Index0_def Event501Index1_def Event501Index2_def Event501Index3_def
  Event501Index4_def Event80000001_def Event80000002_def Event80000007_def Event8000000A_def
  Event8000000B_def Event8000000C_def Event80000010_def Event800000E0_def Event00000007_def
  Event00000001_def Event00000003_def Event00000005_def Event0000000A_def Event0000000C_def
  Event00000012_def Event00000010_def Event00000011_def EV_IPL_def SHA1_def SHA256_def SHA384_def
  SHA512_def SM3_256_def AlgSHA1_def AlgSHA256_def AlgSHA384_def AlgSHA512_def AlgSM3_256_def

declare event_constants [simp]

section \<open>Data model\<close>

record TpmEvent =
  TypeID :: string
  TypeName :: string
  Tags :: "string list"
  Measurement :: string

record PcrData =
  Index :: uint32
  Bank :: string

record PcrEventLog =
  Pcr :: PcrData
  TpmEvents :: "TpmEvent list"

section \<open>Filing an event: the two copies of the code\<close>

text \<open>
  The search loop shared by both copies: the first entry with the same index and bank gets the
  event appended and the loop breaks with the flag set.
\<close>

fun merge_loop :: "PcrEventLog list \<Rightarrow> PcrData \<Rightarrow> TpmEvent \<Rightarrow> PcrEventLog list \<times> nat" where
  "merge_loop [] pcr ev = ([], 0)"
| "merge_loop (l # ls) pcr ev =
     (if Index (Pcr l) = Index pcr \<and> Bank (Pcr l) = Bank pcr
      then (l\<lparr>TpmEvents := TpmEvents l @ [ev]\<rparr> # ls, 1)
      else (case merge_loop ls pcr ev of (ls', flag) \<Rightarrow> (l # ls', flag)))"

definition addPcrEvent :: "PcrEventLog list \<Rightarrow> PcrData \<Rightarrow> TpmEvent \<Rightarrow> PcrEventLog list" where
  "addPcrEvent pcrEventLogs pcr ev =
     (let tempPcrEventLog = \<lparr>Pcr = pcr, TpmEvents = [ev]\<rparr>
      in if length pcrEventLogs = 0 then pcrEventLogs @ [tempPcrEventLog]
         else case merge_loop pcrEventLogs pcr ev of
                (logs, flag) \<Rightarrow> if flag = 0 then logs @ [tempPcrEventLog] else logs)"

definition addAppEvent :: "PcrEventLog list \<Rightarrow> PcrData \<Rightarrow> TpmEvent \<Rightarrow> PcrEventLog list" where
  "addAppEvent appEventLogs pcr ev =
     (let tempAppEventLog = \<lparr>Pcr = pcr, TpmEvents = [ev]\<rparr>
      in case (if appEventLogs \<noteq> [] then merge_loop appEventLogs pcr ev else (appEventLogs, 0)) of
           (logs, flag) \<Rightarrow> if flag = 0 then logs @ [tempAppEventLog] else logs)"

declare addPcrEvent_def [eval_simps] addAppEvent_def [eval_simps]

section \<open>The reference: grouping by key\<close>

type_synonym entry = "PcrData \<times> TpmEvent"

definition keys :: "PcrEventLog list \<Rightarrow> PcrData list" where
  "keys logs = map Pcr logs"

definition events_of :: "PcrEventLog list \<Rightarrow> PcrData \<Rightarrow> TpmEvent list" where
  "events_of logs k = concat (map TpmEvents (filter (\<lambda>l. Pcr l = k) logs))"

definition first_occurrences :: "'a list \<Rightarrow> 'a list" where
  "first_occurrences xs = rev (remdups (rev xs))"

definition group_events :: "entry list \<Rightarrow> PcrEventLog list" where
  "group_events es =
     map (\<lambda>k. \<lparr>Pcr = k, TpmEvents = map snd (filter (\<lambda>e. fst e = k) es)\<rparr>)
       (first_occurrences (map fst es))"

text \<open>
  The invariant of a log: one entry for each key and no entry without events. \<open>all_events\<close>
  holds a predicate of all filed events with their key.
\<close>

definition log_inv :: "PcrEventLog list \<Rightarrow> bool" where
  "log_inv logs \<longleftrightarrow> distinct (keys logs) \<and> (\<forall>l \<in> set logs. TpmEvents l \<noteq> [])"

definition all_events :: "(PcrData \<Rightarrow> TpmEvent \<Rightarrow> bool) \<Rightarrow> PcrEventLog list \<Rightarrow> bool" where
  "all_events P logs \<longleftrightarrow> (\<forall>l \<in> set logs. \<forall>e \<in> set (TpmEvents l). P (Pcr l) e)"

declare keys_def [eval_simps] events_of_def [eval_simps] first_occurrences_def [eval_simps]
  group_events_def [eval_simps] log_inv_def [eval_simps] all_events_def [eval_simps]

lemma first_occurrences_snoc:
  "first_occurrences (xs @ [x]) =
     (if x \<in> set xs then first_occurrences xs else first_occurrences xs @ [x])"
  by (simp add: first_occurrences_def)

lemma set_first_occurrences [simp]: "set (first_occurrences xs) = set xs"
  by (simp add: first_occurrences_def)

lemma distinct_first_occurrences [simp]: "distinct (first_occurrences xs)"
  by (simp add: first_occurrences_def)

lemma log_inv_Nil [simp]: "log_inv []"
  by (simp add: log_inv_def keys_def)

lemma keys_Nil [simp]: "keys [] = []"
  by (simp add: keys_def)

lemma events_of_Nil [simp]: "events_of [] k = []"
  by (simp add: events_of_def)

lemma all_events_Nil [simp]: "all_events P []"
  by (simp add: all_events_def)

lemma keys_group_events: "keys (group_events es) = first_occurrences (map fst es)"
  by (simp add: keys_def group_events_def comp_def)

text \<open>Under the invariant a log is determined by its keys and the events of each key.\<close>

lemma events_of_entry:
  assumes "distinct (keys logs)" and "l \<in> set logs"
  shows "events_of logs (Pcr l) = TpmEvents l"
proof -
  have "filter (\<lambda>m. Pcr m = Pcr l) logs = [l]"
    using assms
  proof (induction logs)
    case (Cons m ms)
    have "filter (\<lambda>m'. Pcr m' = Pcr m) ms = []"
      using Cons.prems(1) by (auto simp: keys_def filter_empty_conv) (metis image_eqI)
    with Cons show ?case by (auto simp: keys_def)
  qed simp
  then show ?thesis by (simp add: events_of_def)
qed

lemma log_determined:
  assumes "distinct (keys logs)" and "keys logs = keys logs'"
    and "\<And>k. events_of logs k = events_of logs' k"
  shows "logs = logs'"
proof (rule nth_equalityI)
  show len: "length logs = length logs'"
    using assms(2) by (metis keys_def length_map)
  fix i assume i: "i < length logs"
  have k: "Pcr (logs ! i) = Pcr (logs' ! i)"
    using assms(2) i len by (metis keys_def nth_map)
  have "TpmEvents (logs ! i) = events_of logs (Pcr (logs ! i))"
    using assms(1) i by (simp add: events_of_entry)
  also have "\<dots> = TpmEvents (logs' ! i)"
    using assms i len k by (simp add: events_of_entry)
  finally show "logs ! i = logs' ! i"
    using k by (simp add: PcrEventLog.equality)
qed

lemma all_events_iff:
  assumes "distinct (keys logs)"
  shows "all_events P logs \<longleftrightarrow> (\<forall>k \<in> set (keys logs). \<forall>e \<in> set (events_of logs k). P k e)"
  using events_of_entry [OF assms] by (auto simp: all_events_def keys_def)

lemma events_of_Cons:
  "events_of (l # logs) k = (if Pcr l = k then TpmEvents l else []) @ events_of logs k"
  by (simp add: events_of_def)

lemma events_of_snoc:
  "events_of (logs @ [l]) k = events_of logs k @ (if Pcr l = k then TpmEvents l else [])"
  by (simp add: events_of_def)

lemma events_of_notin: "k \<notin> set (keys logs) \<Longrightarrow> events_of logs k = []"
  by (auto simp: events_of_def keys_def filter_empty_conv)

section \<open>The interface and what its clients get\<close>

locale pcr_log_store =
  fixes add :: "PcrEventLog list \<Rightarrow> PcrData \<Rightarrow> TpmEvent \<Rightarrow> PcrEventLog list"
  assumes keys_add:
      "keys (add logs k e) = (if k \<in> set (keys logs) then keys logs else keys logs @ [k])"
    and events_add:
      "distinct (keys logs) \<Longrightarrow>
         events_of (add logs k e) q = events_of logs q @ (if k = q then [e] else [])"
begin

lemma distinct_add: "distinct (keys logs) \<Longrightarrow> distinct (keys (add logs k e))"
  by (simp add: keys_add)

lemma inv_add:
  assumes "log_inv logs"
  shows "log_inv (add logs k e)"
proof -
  have d: "distinct (keys logs)" using assms by (simp add: log_inv_def)
  have "TpmEvents l \<noteq> []" if l: "l \<in> set (add logs k e)" for l
  proof -
    have ev: "TpmEvents l = events_of logs (Pcr l) @ (if k = Pcr l then [e] else [])"
      using events_of_entry [OF distinct_add [OF d] l] events_add [OF d] by metis
    show ?thesis
    proof (cases "k = Pcr l")
      case False
      have "Pcr l \<in> set (keys (add logs k e))" using l by (simp add: keys_def)
      with False have "Pcr l \<in> set (keys logs)" by (auto simp: keys_add split: if_splits)
      then obtain l' where "l' \<in> set logs" "Pcr l' = Pcr l" by (auto simp: keys_def)
      then have "events_of logs (Pcr l) = TpmEvents l'" using events_of_entry [OF d] by metis
      then show ?thesis using assms \<open>l' \<in> set logs\<close> ev by (simp add: log_inv_def)
    qed (simp add: ev)
  qed
  then show ?thesis using distinct_add [OF d] by (simp add: log_inv_def)
qed

lemma all_add:
  assumes "distinct (keys logs)" and "all_events P logs" and "P k e"
  shows "all_events P (add logs k e)"
  using assms distinct_add [OF assms(1), of k e] events_of_notin [of k logs]
  by (auto simp: all_events_iff keys_add events_add split: if_splits)

text \<open>Filing a list of entries, one after the other.\<close>

lemma inv_fold: "log_inv logs \<Longrightarrow> log_inv (foldl (\<lambda>l (k, e). add l k e) logs es)"
  by (induction es arbitrary: logs) (auto simp: inv_add)

lemma all_fold:
  "log_inv logs \<Longrightarrow> all_events P logs \<Longrightarrow> \<forall>(k, e) \<in> set es. P k e \<Longrightarrow>
     all_events P (foldl (\<lambda>l (k, e). add l k e) logs es)"
proof (induction es arbitrary: logs)
  case (Cons x es)
  obtain k e where x: "x = (k, e)" by fastforce
  have "all_events P (add logs k e)"
    using Cons.prems x by (auto intro: all_add simp: log_inv_def)
  then show ?case using Cons x by (simp add: inv_add)
qed simp

lemma events_fold:
  "log_inv logs \<Longrightarrow> events_of (foldl (\<lambda>l (k, e). add l k e) logs es) q =
     events_of logs q @ map snd (filter (\<lambda>x. fst x = q) es)"
proof (induction es arbitrary: logs)
  case (Cons x es)
  obtain k e where x: "x = (k, e)" by fastforce
  have d: "distinct (keys logs)" using Cons.prems by (simp add: log_inv_def)
  show ?case using Cons x events_add [OF d] by (simp add: inv_add)
qed simp

lemma keys_fold_empty:
  "keys (foldl (\<lambda>l (k, e). add l k e) [] es) = first_occurrences (map fst es)"
proof (induction es rule: rev_induct)
  case (snoc x es)
  obtain k e where "x = (k, e)" by fastforce
  with snoc show ?case by (simp add: keys_add first_occurrences_snoc)
qed (simp add: first_occurrences_def)

text \<open>Filing into the empty log is grouping by key.\<close>

lemma fold_is_group: "foldl (\<lambda>l (k, e). add l k e) [] es = group_events es"
proof (rule log_determined)
  have inv: "log_inv (foldl (\<lambda>l (k, e). add l k e) [] es)" by (simp add: inv_fold)
  then show "distinct (keys (foldl (\<lambda>l (k, e). add l k e) [] es))" by (simp add: log_inv_def)
  show "keys (foldl (\<lambda>l (k, e). add l k e) [] es) = keys (group_events es)"
    by (simp add: keys_fold_empty keys_group_events)
  fix q
  have lhs: "events_of (foldl (\<lambda>l (k, e). add l k e) [] es) q = map snd (filter (\<lambda>x. fst x = q) es)"
    by (simp add: events_fold)
  have d: "distinct (keys (group_events es))" by (simp add: keys_group_events)
  show "events_of (foldl (\<lambda>l (k, e). add l k e) [] es) q = events_of (group_events es) q"
  proof (cases "q \<in> fst ` set es")
    case True
    then have "\<lparr>Pcr = q, TpmEvents = map snd (filter (\<lambda>e. fst e = q) es)\<rparr> \<in> set (group_events es)"
      by (auto simp: group_events_def)
    from events_of_entry [OF d this] show ?thesis by (simp add: lhs)
  next
    case False
    then have "filter (\<lambda>x. fst x = q) es = []" by (auto simp: filter_empty_conv)
    moreover have "q \<notin> set (keys (group_events es))" using False by (simp add: keys_group_events)
    ultimately show ?thesis by (simp add: lhs events_of_notin)
  qed
qed

end

section \<open>Both copies implement the interface\<close>

lemma merge_loop_flag: "snd (merge_loop logs k e) = (if k \<in> set (keys logs) then 1 else 0)"
  by (induction logs) (auto simp: keys_def PcrData.equality split: prod.splits)

lemma merge_loop_keys: "keys (fst (merge_loop logs k e)) = keys logs"
  by (induction logs) (auto simp: keys_def split: prod.splits)

lemma merge_loop_absent: "k \<notin> set (keys logs) \<Longrightarrow> fst (merge_loop logs k e) = logs"
  by (induction logs) (auto simp: keys_def PcrData.equality split: prod.splits)

lemma merge_loop_events:
  "distinct (keys logs) \<Longrightarrow> k \<in> set (keys logs) \<Longrightarrow>
     events_of (fst (merge_loop logs k e)) q = events_of logs q @ (if k = q then [e] else [])"
proof (induction logs)
  case (Cons l ls)
  show ?case
  proof (cases "Pcr l = k")
    case True
    then have "k \<notin> set (keys ls)" using Cons.prems by (simp add: keys_def)
    then have "events_of ls k = []" by (rule events_of_notin)
    then have "concat (map TpmEvents (filter (\<lambda>m. Pcr m = k) ls)) = []" by (simp only: events_of_def)
    with True show ?thesis by (cases "q = k") (simp_all add: events_of_def del: concat_eq_Nil_conv)
  next
    case False
    then have ne: "\<not> (Index (Pcr l) = Index k \<and> Bank (Pcr l) = Bank k)"
      by (auto intro: PcrData.equality)
    have "events_of (fst (merge_loop ls k e)) q = events_of ls q @ (if k = q then [e] else [])"
      using Cons False by (auto simp: keys_def)
    moreover have "fst (merge_loop (l # ls) k e) = l # fst (merge_loop ls k e)"
      using ne by (cases "merge_loop ls k e") auto
    ultimately show ?thesis by (simp add: events_of_Cons del: merge_loop.simps split del: if_split)
  qed
qed simp

lemma addPcrEvent_eq:
  "addPcrEvent logs k e =
     (if k \<in> set (keys logs) then fst (merge_loop logs k e) else logs @ [\<lparr>Pcr = k, TpmEvents = [e]\<rparr>])"
  using merge_loop_flag [of logs k e] merge_loop_absent [of k logs e]
  by (cases "merge_loop logs k e") (auto simp: addPcrEvent_def Let_def split: if_splits)

lemma addAppEvent_eq: "addAppEvent logs k e = addPcrEvent logs k e"
  by (cases logs) (simp_all add: addAppEvent_def addPcrEvent_def Let_def)

interpretation pcr_log: pcr_log_store addPcrEvent
proof unfold_locales
  fix logs k e q
  show "keys (addPcrEvent logs k e) = (if k \<in> set (keys logs) then keys logs else keys logs @ [k])"
    by (simp add: addPcrEvent_eq merge_loop_keys) (simp add: keys_def)
  assume "distinct (keys logs)"
  then show "events_of (addPcrEvent logs k e) q = events_of logs q @ (if k = q then [e] else [])"
    using merge_loop_events [of logs k e q]
    by (cases "k \<in> set (keys logs)") (simp_all add: addPcrEvent_eq events_of_snoc)
qed

interpretation app_log: pcr_log_store addAppEvent
  by unfold_locales (simp_all only: addAppEvent_eq pcr_log.keys_add pcr_log.events_add)

text \<open>A whole list of entries, filed by the code of \<^verbatim>\<open>createMeasureLog\<close>.\<close>

definition add_entries :: "PcrEventLog list \<Rightarrow> entry list \<Rightarrow> PcrEventLog list" where
  "add_entries logs es = foldl (\<lambda>l (k, e). addPcrEvent l k e) logs es"

lemma add_entries_simps [simp]:
  "add_entries logs [] = logs"
  "add_entries logs ((k, e) # es) = add_entries (addPcrEvent logs k e) es"
  "add_entries logs (es @ es') = add_entries (add_entries logs es) es'"
  by (simp_all add: add_entries_def)

lemmas add_entries_inv = pcr_log.inv_fold [folded add_entries_def]
lemmas add_entries_all = pcr_log.all_fold [folded add_entries_def]
lemmas add_entries_events = pcr_log.events_fold [folded add_entries_def]
lemmas add_entries_group = pcr_log.fold_is_group [folded add_entries_def]

end
