(* ===== verification/Event_Tag.thy ===== *)
theory Event_Tag
  imports Pcr_Log
begin

text \<open>
  \<^verbatim>\<open>getEventTag\<close> of \<^verbatim>\<open>eventlog/common.go\<close>: the tag of a UEFI event, computed from the raw event
  data by one of five formats (UEFI variable, firmware blob, string, \<^verbatim>\<open>EV_NO_ACTION\<close>, PFR). Every
  index and slice expression of the code that can be out of range is a panic of the model, and the
  lemmas state exactly when a format panics.
\<close>

section \<open>Event names\<close>

definition eventNameList :: "(uint32 \<times> string) list" where
  "eventNameList =
     [(0x00000000, ''EV_PREBOOT_CERT''),
      (0x00000001, ''EV_POST_CODE''),
      (0x00000002, ''EV_UNUSED''),
      (0x00000003, ''EV_NO_ACTION''),
      (0x00000004, ''EV_SEPARATOR''),
      (0x00000005, ''EV_ACTION''),
      (0x00000006, ''EV_EVENT_TAG''),
      (0x00000007, ''EV_S_CRTM_CONTENTS''),
      (0x00000008, ''EV_S_CRTM_VERSION''),
      (0x00000009, ''EV_CPU_MICROCODE''),
      (0x0000000A, ''EV_PLATFORM_CONFIG_FLAGS''),
      (0x0000000B, ''EV_TABLE_OF_DEVICES''),
      (0x0000000C, ''EV_COMPACT_HASH''),
      (0x0000000D, ''EV_IPL''),
      (0x0000000E, ''EV_IPL_PARTITION_DATA''),
      (0x0000000F, ''EV_NONHOST_CODE''),
      (0x00000010, ''EV_NONHOST_CONFIG''),
      (0x00000011, ''EV_NONHOST_INFO''),
      (0x00000012, ''EV_OMIT_BOOT_DEVICE_EVENTS''),
      (0x80000000, ''EV_EFI_EVENT_BASE''),
      (0x80000001, ''EV_EFI_VARIABLE_DRIVER_CONFIG''),
      (0x80000002, ''EV_EFI_VARIABLE_BOOT''),
      (0x80000003, ''EV_EFI_BOOT_SERVICES_APPLICATION''),
      (0x80000004, ''EV_EFI_BOOT_SERVICES_DRIVER''),
      (0x80000005, ''EV_EFI_RUNTIME_SERVICES_DRIVER''),
      (0x80000006, ''EV_EFI_GPT_EVENT''),
      (0x80000007, ''EV_EFI_ACTION''),
      (0x80000008, ''EV_EFI_PLATFORM_FIRMWARE_BLOB''),
      (0x80000009, ''EV_EFI_HANDOFF_TABLES''),
      (0x8000000A, ''EV_EFI_PLATFORM_FIRMWARE_BLOB2''),
      (0x8000000B, ''EV_EFI_HANDOFF_TABLES2''),
      (0x8000000C, ''EV_EFI_VARIABLE_BOOT2''),
      (0x80000010, ''EV_EFI_HCRTM_EVENT''),
      (0x800000E0, ''EV_EFI_VARIABLE_AUTHORITY''),
      (0x800000E1, ''EV_EFI_SPDM_FIRMWARE_BLOB''),
      (0x800000E2, ''EV_EFI_SPDM_FIRMWARE_CONFIG''),
      (0x401, ''PCR_MAPPING''),
      (0x402, ''HASH_START''),
      (0x403, ''COMBINED_HASH''),
      (0x404, ''MLE_HASH''),
      (0x40A, ''BIOSAC_REG_DATA''),
      (0x40B, ''CPU_SCRTM_STAT''),
      (0x40C, ''LCP_CONTROL_HASH''),
      (0x40D, ''ELEMENTS_HASH''),
      (0x40E, ''STM_HASH''),
      (0x40F, ''OSSINITDATA_CAP_HASH''),
      (0x410, ''SINIT_PUBKEY_HASH''),
      (0x411, ''LCP_HASH''),
      (0x412, ''LCP_DETAILS_HASH''),
      (0x413, ''LCP_AUTHORITIES_HASH''),
      (0x414, ''NV_INFO_HASH''),
      (0x416, ''EVTYPE_KM_HASH''),
      (0x417, ''EVTYPE_BPM_HASH''),
      (0x418, ''EVTYPE_KM_INFO_HASH''),
      (0x419, ''EVTYPE_BPM_INFO_HASH''),
      (0x41A, ''EVTYPE_BOOT_POL_HASH''),
      (0x4FF, ''CAP_VALUE'')]"

definition eventName :: "uint32 \<Rightarrow> string option" where
  "eventName t = map_of eventNameList t"

section \<open>Structures read from event data\<close>

record uefiGUID =
  Data1 :: uint32
  Data2 :: uint16
  Data3 :: uint16
  Data4 :: "byte list"

definition get_uefiGUID :: "byte list \<Rightarrow> uefiGUID" where
  "get_uefiGUID bs =
     \<lparr>Data1 = get_u32 (take 4 bs), Data2 = get_u16 (take 2 (drop 4 bs)),
      Data3 = get_u16 (take 2 (drop 6 bs)), Data4 = take 8 (drop 8 bs)\<rparr>"

record pfrEventDataHeader =
  Version :: byte
  Cpld :: byte
  EventID :: byte
  Attribute :: byte
  Reserved :: uint32
  InfoSize :: uint32
  StringSize :: uint32

definition get_pfrEventDataHeader :: "byte list \<Rightarrow> pfrEventDataHeader" where
  "get_pfrEventDataHeader bs =
     \<lparr>Version = get_u8 (take 1 bs), Cpld = get_u8 (take 1 (drop 1 bs)),
      EventID = get_u8 (take 1 (drop 2 bs)), Attribute = get_u8 (take 1 (drop 3 bs)),
      Reserved = get_u32 (take 4 (drop 4 bs)), InfoSize = get_u32 (take 4 (drop 8 bs)),
      StringSize = get_u32 (take 4 (drop 12 bs))\<rparr>"

section \<open>The five formats\<close>

text \<open>
  UEFI variable: the loop that copies every second byte of the name into the rune array.
\<close>

function rune_loop :: "byte list \<Rightarrow> nat \<Rightarrow> nat \<Rightarrow> nat \<Rightarrow> rune list \<Rightarrow> rune list go" where
  "rune_loop unicodeName limit index index1 runeChar =
     (if index1 < limit then
        (if index1 < length unicodeName \<and> index < length runeChar
         then rune_loop unicodeName limit (index + 1) (index1 + 2)
                (runeChar[index := unat (unicodeName ! index1)])
         else Panic IndexOutOfRange)
      else Ret runeChar)"
  by pat_completeness auto
termination
  by (relation "measure (\<lambda>(_, limit, _, index1, _). limit - index1)") auto

declare rune_loop.simps [simp del, eval_simps]

text \<open>
  \<^verbatim>\<open>make([]rune, n)\<close> panics when \<^verbatim>\<open>n\<close> is negative as an \<^verbatim>\<open>int\<close> or when \<^verbatim>\<open>4*n\<close> bytes exceed the
  run-time's address space of 48 bits.
\<close>

definition max_runes :: nat where "max_runes = 2 ^ 46"

definition uefiVariableTag :: "byte list \<Rightarrow> uint32 \<Rightarrow> string list go" where
  "uefiVariableTag eventData eventSize =
     andThen (wrapping ''error reading Variable Name'' (binary_read 16 get_uefiGUID eventData))
       (\<lambda>(variableName, buf).
     andThen (wrapping ''error reading UnicodeName Length'' (binary_read 8 get_u64 buf))
       (\<lambda>(unicodeNameLength, buf).
     andThen (wrapping ''error reading VariableData Length'' (binary_read 8 get_u64 buf))
       (\<lambda>(variableDataLength, buf).
     if unicodeNameLength + variableDataLength > ucast (eventSize - 32)
     then return_with [] (errors_Wrap None ''Garbage data is filled in place of event data.'')
     else
       andThen (buf_next (sint (unicodeNameLength * 2)) buf) (\<lambda>(unicodeName, _).
       if max_runes < unat unicodeNameLength then Panic MakeSliceLen
       else
         andThen (rune_loop unicodeName (nat (sint (unicodeNameLength * 2))) 0 0
                    (replicate (unat unicodeNameLength) 0))
           (\<lambda>runeChar. Ret [string_of_runes runeChar])))))"

text \<open>Firmware blob: a length byte and that many bytes of description.\<close>

definition blobTag :: "byte list \<Rightarrow> string list go" where
  "blobTag eventData =
     andThen (wrapping ''error reading Blob Description Size'' (binary_read 1 get_u8 eventData))
       (\<lambda>(blobDescriptionSize, buf).
     andThen (buf_next (int (unat blobDescriptionSize)) buf)
       (\<lambda>(blobDesc, _). Ret [string_of_bytes blobDesc]))"

text \<open>String: the event data up to the first NUL.\<close>

abbreviation (input) NUL :: char where "NUL \<equiv> CHR 0x00"

definition stringTag :: "byte list \<Rightarrow> uint32 \<Rightarrow> string list go" where
  "stringTag eventData eventSize =
     andThen (buf_next (int (unat eventSize)) eventData) (\<lambda>(postCode, _).
     let tagName = string_of_bytes postCode
     in case str_index NUL tagName of
          Some nullIndex \<Rightarrow> if nullIndex = 0 then Ret [] else Ret [take nullIndex tagName]
        | None \<Rightarrow> Ret [tagName])"

text \<open>\<^verbatim>\<open>EV_NO_ACTION\<close>: the string up to the NUL and the byte after it in decimal.\<close>

definition noActionTag :: "byte list \<Rightarrow> uint32 \<Rightarrow> string list go" where
  "noActionTag eventData eventSize =
     andThen (buf_next (int (unat eventSize)) eventData) (\<lambda>(noAction, _).
     let tagName = string_of_bytes noAction
     in case str_index NUL tagName of
          Some nullIndex \<Rightarrow>
            if nullIndex = 0 then Ret []
            else if nullIndex + 1 < length tagName
                 then Ret [take nullIndex tagName @ dec_nat (of_char (tagName ! (nullIndex + 1)))]
                 else Panic IndexOutOfRange
        | None \<Rightarrow> Ret [tagName])"

text \<open>PFR: header checks, then a string that has to start with \<^verbatim>\<open>PFR\<close> or \<^verbatim>\<open>pfr\<close>.\<close>

fun attribute_loop :: "byte \<Rightarrow> byte list \<Rightarrow> nat \<Rightarrow> bool" where
  "attribute_loop attr [] index = True"
| "attribute_loop attr (pfrAttr # rest) index =
     (if attr = pfrAttr then True else if index = 5 then False else attribute_loop attr rest (index + 1))"

definition validPFRAttribute :: "byte list" where
  "validPFRAttribute = [0x0, 0x1, 0x2, 0x80, 0x81, 0x82]"

fun bytes_match :: "byte list \<Rightarrow> nat \<Rightarrow> byte list \<Rightarrow> bool go" where
  "bytes_match xs i [] = Ret True"
| "bytes_match xs i (c # cs) =
     (if i < length xs then (if xs ! i = c then bytes_match xs (i + 1) cs else Ret False)
      else Panic IndexOutOfRange)"

definition pfrTag :: "byte list \<Rightarrow> uint32 \<Rightarrow> uint32 \<Rightarrow> string list go" where
  "pfrTag eventData eventSize pcrIndex =
     andThen (wrapping ''error reading PFR Header'' (binary_read 16 get_pfrEventDataHeader eventData))
       (\<lambda>(pfrHeader, buf).
     let pfrEventSize = Uint8Size * 4 + Uint32Size * 3 + InfoSize pfrHeader + StringSize pfrHeader
     in if eventSize \<noteq> pfrEventSize then Ret []
        else if pcrIndex \<noteq> 0 \<and> pcrIndex \<noteq> 1 \<and> pcrIndex \<noteq> 7 \<or> Version pfrHeader \<noteq> 0x01
               \<or> EventID pfrHeader \<le> 1 \<or> EventID pfrHeader \<ge> 6 then Ret []
        else if \<not> attribute_loop (Attribute pfrHeader) validPFRAttribute 0 then Ret []
        else
          let buf = (if InfoSize pfrHeader \<noteq> 0 then drop (unat (InfoSize pfrHeader)) buf else buf)
          in if StringSize pfrHeader \<noteq> 0 then
               let pfrString = take (unat (StringSize pfrHeader)) buf;
                   tagName = (if length pfrString > 0 then string_of_bytes pfrString else [])
               in andThen (bytes_match pfrString 0 [0x50, 0x46, 0x52]) (\<lambda>upper.
                  andThen (if upper then Ret True else bytes_match pfrString 0 [0x70, 0x66, 0x72])
                    (\<lambda>isPfr. if isPfr then Ret [tagName] else Ret []))
             else Ret [])"

section \<open>Dispatch on the event type\<close>

definition getEventTag :: "uint32 \<Rightarrow> byte list \<Rightarrow> uint32 \<Rightarrow> uint32 \<Rightarrow> string list go" where
  "getEventTag eventType eventData eventSize pcrIndex =
     (if eventType = Event80000001 \<or> eventType = Event80000002 \<or> eventType = Event8000000C
         \<or> eventType = Event800000E0
      then uefiVariableTag eventData eventSize
      else if eventType = Event8000000A \<or> eventType = Event8000000B then blobTag eventData
      else if eventType = EV_IPL \<or> eventType = Event00000001 \<or> eventType = Event00000005
              \<or> eventType = Event80000007 \<or> eventType = Event0000000A
              \<or> (eventType = Event0000000C \<and> pcrIndex = 0x6) \<or> eventType = Event00000012
              \<or> eventType = Event80000010 \<or> eventType = Event00000007
      then stringTag eventData eventSize
      else if eventType = Event00000003 then noActionTag eventData eventSize
      else if eventType = Event00000010 \<or> eventType = Event00000011
      then pfrTag eventData eventSize pcrIndex
      else Ret [])"

declare get_uefiGUID_def [eval_simps] get_pfrEventDataHeader_def [eval_simps]
  max_runes_def [eval_simps] uefiVariableTag_def [eval_simps] blobTag_def [eval_simps]
  stringTag_def [eval_simps] noActionTag_def [eval_simps] validPFRAttribute_def [eval_simps]
  pfrTag_def [eval_simps] getEventTag_def [eval_simps]
  eventName_def [eval_simps] eventNameList_def [eval_simps]

section \<open>The copying loop\<close>

lemma rune_loop_run:
  "index \<le> length rc \<Longrightarrow>
     rune_loop name (2 * length rc) index (2 * index) rc =
       (if index < length rc \<and> length name < 2 * length rc - 1 then Panic IndexOutOfRange
        else Ret (take index rc @ map (\<lambda>i. unat (name ! (2 * i))) [index ..< length rc]))"
proof (induction "length rc - index" arbitrary: index rc)
  case 0
  then show ?case by (simp add: rune_loop.simps)
next
  case (Suc k)
  show ?case
  proof (cases "2 * index < length name")
    case True
    let ?rc = "rc[index := unat (name ! (2 * index))]"
    have lt: "index < length rc" using Suc by simp
    have "rune_loop name (2 * length rc) index (2 * index) rc =
        rune_loop name (2 * length ?rc) (Suc index) (2 * Suc index) ?rc"
      using True lt by (subst rune_loop.simps) simp
    also have "\<dots> = (if Suc index < length ?rc \<and> length name < 2 * length ?rc - 1
        then Panic IndexOutOfRange
        else Ret (take (Suc index) ?rc @
                  map (\<lambda>i. unat (name ! (2 * i))) [Suc index ..< length ?rc]))"
      using Suc by (intro Suc.hyps(1)) simp_all
    also have "take (Suc index) ?rc = take index rc @ [unat (name ! (2 * index))]"
      using lt by (simp add: take_Suc_conv_app_nth)
    finally show ?thesis using True lt by (auto simp: upt_conv_Cons)
  next
    case False
    then show ?thesis using Suc by (subst rune_loop.simps) auto
  qed
qed

lemma rune_loop_start:
  "rune_loop name (2 * n) 0 0 (replicate n 0) =
     (if 0 < n \<and> length name < 2 * n - 1 then Panic IndexOutOfRange
      else Ret (map (\<lambda>i. unat (name ! (2 * i))) [0 ..< n]))"
  using rune_loop_run [of 0 "replicate n 0" name] by simp

section \<open>When a format panics\<close>

definition variable_name_length :: "byte list \<Rightarrow> uint64" where
  "variable_name_length d = get_u64 (take 8 (drop 16 d))"

definition variable_data_length :: "byte list \<Rightarrow> uint64" where
  "variable_data_length d = get_u64 (take 8 (drop 24 d))"

definition variable_overrun :: "byte list \<Rightarrow> uint32 \<Rightarrow> bool" where
  "variable_overrun d eventSize \<longleftrightarrow>
     32 \<le> length d \<and>
     variable_name_length d + variable_data_length d \<le> ucast (eventSize - 32) \<and>
     (max_runes < unat (variable_name_length d) \<or>
      length d - 32 + 1 < 2 * unat (variable_name_length d))"

definition no_action_overrun :: "byte list \<Rightarrow> uint32 \<Rightarrow> bool" where
  "no_action_overrun d eventSize \<longleftrightarrow>
     (case str_index NUL (string_of_bytes (take (unat eventSize) d)) of
        None \<Rightarrow> False
      | Some i \<Rightarrow> 0 < i \<and> length (take (unat eventSize) d) \<le> i + 1)"

definition pfr_string :: "byte list \<Rightarrow> byte list" where
  "pfr_string d =
     (let h = get_pfrEventDataHeader (take 16 d)
      in take (unat (StringSize h)) (drop (unat (InfoSize h)) (drop 16 d)))"

definition pfr_accepted :: "byte list \<Rightarrow> uint32 \<Rightarrow> uint32 \<Rightarrow> bool" where
  "pfr_accepted d eventSize pcrIndex \<longleftrightarrow>
     16 \<le> length d \<and>
     (let h = get_pfrEventDataHeader (take 16 d)
      in eventSize = 16 + InfoSize h + StringSize h \<and> pcrIndex \<in> {0, 1, 7} \<and> Version h = 1
         \<and> 1 < EventID h \<and> EventID h < 6 \<and> Attribute h \<in> set validPFRAttribute
         \<and> StringSize h \<noteq> 0)"

definition pfr_overrun :: "byte list \<Rightarrow> uint32 \<Rightarrow> uint32 \<Rightarrow> bool" where
  "pfr_overrun d eventSize pcrIndex \<longleftrightarrow>
     pfr_accepted d eventSize pcrIndex \<and>
     pfr_string d \<in> {[], [0x50], [0x50, 0x46], [0x70], [0x70, 0x66]}"

declare variable_name_length_def [eval_simps] variable_data_length_def [eval_simps]
  variable_overrun_def [eval_simps] no_action_overrun_def [eval_simps] pfr_string_def [eval_simps]
  pfr_accepted_def [eval_simps] pfr_overrun_def [eval_simps]

lemma sint_double:
  assumes "unat (n :: uint64) \<le> max_runes"
  shows "sint (n * 2) = int (2 * unat n)"
proof -
  have "unat n \<le> 70368744177664" using assms by (simp add: max_runes_def)
  then have u: "uint n \<le> 70368744177664" unfolding uint_nat by linarith
  have d: "uint (n * 2) = uint n * uint (2 :: uint64)"
    using u by (intro uint_mult_lem [THEN iffD1]) simp
  have "- (2 ^ 63) \<le> int (unat n) * 2" by (rule order_trans [of _ 0]) simp_all
  then have "- (2 ^ 63) \<le> uint n * uint (2 :: uint64)" by (simp only: uint_nat [of n]) simp
  moreover have "uint n * uint (2 :: uint64) < 2 ^ 63" using u by simp
  ultimately have "sint (n * 2) = uint (n * 2)"
    unfolding sint_uint d by (intro signed_take_bit_int_eq_self) simp_all
  also have "\<dots> = int (unat n) * 2" unfolding d by (simp only: uint_nat [of n]) simp
  finally show ?thesis by simp
qed

text \<open>
  The UEFI-variable format once its header is read. A name longer than the run-time can allocate
  panics in \<^verbatim>\<open>Next\<close> or in \<^verbatim>\<open>make\<close>, whichever comes first.
\<close>

lemma uefiVariableTag_short:
  "length d < 32 \<Longrightarrow> \<exists>e. uefiVariableTag d eventSize = Fail e"
  by (auto simp: uefiVariableTag_def binary_read_def)

lemma uefiVariableTag_body:
  assumes "32 \<le> length d"
  shows "uefiVariableTag d eventSize =
     (if variable_name_length d + variable_data_length d > ucast (eventSize - 32) then Ret []
      else andThen (buf_next (sint (variable_name_length d * 2)) (drop 32 d)) (\<lambda>(name, _).
           if max_runes < unat (variable_name_length d) then Panic MakeSliceLen
           else andThen (rune_loop name (nat (sint (variable_name_length d * 2))) 0 0
                           (replicate (unat (variable_name_length d)) 0))
                  (\<lambda>runeChar. Ret [string_of_runes runeChar])))"
proof -
  have "8 \<le> length d - 16" "8 \<le> length d - 24" "16 \<le> length d" using assms by linarith+
  then show ?thesis
    unfolding variable_name_length_def variable_data_length_def
    by (simp add: uefiVariableTag_def binary_read_ok)
qed

lemma uefiVariableTag_long:
  assumes "32 \<le> length d" and "max_runes < unat (variable_name_length d)"
    and "variable_name_length d + variable_data_length d \<le> ucast (eventSize - 32)"
  shows "is_Panic (uefiVariableTag d eventSize)"
  using assms by (simp add: uefiVariableTag_body buf_next_def not_less)

lemma uefiVariableTag_name:
  assumes "32 \<le> length d" and n: "unat (variable_name_length d) = n" and "n \<le> max_runes"
    and "variable_name_length d + variable_data_length d \<le> ucast (eventSize - 32)"
  shows "uefiVariableTag d eventSize =
     (if length d - 32 + 1 < 2 * n then Panic IndexOutOfRange
      else Ret [string_of_runes (map (\<lambda>i. unat (d ! (32 + 2 * i))) [0 ..< n])])"
proof -
  have sz: "sint (variable_name_length d * 2) = int (2 * n)"
    using sint_double [of "variable_name_length d"] assms by simp
  have short: "0 < n \<and> length (take (2 * n) (drop 32 d)) < 2 * n - 1 \<longleftrightarrow> length d - 32 + 1 < 2 * n"
    by auto
  have nths: "map (\<lambda>i. unat (take (2 * n) (drop 32 d) ! (2 * i))) [0 ..< n] =
      map (\<lambda>i. unat (d ! (32 + 2 * i))) [0 ..< n]"
    using assms(1) by simp
  have "uefiVariableTag d eventSize =
      andThen (rune_loop (take (2 * n) (drop 32 d)) (2 * n) 0 0 (replicate n 0))
        (\<lambda>runeChar. Ret [string_of_runes runeChar])"
    using assms(1,2,3) leD [OF assms(4)]
    by (simp add: uefiVariableTag_body sz del: of_nat_mult)
  then show ?thesis
    by (simp only: rune_loop_start short nths) simp
qed

lemma uefiVariableTag_panic_iff:
  "is_Panic (uefiVariableTag d eventSize) \<longleftrightarrow> variable_overrun d eventSize"
proof (cases "32 \<le> length d \<and>
    variable_name_length d + variable_data_length d \<le> ucast (eventSize - 32)")
  case True
  show ?thesis
  proof (cases "unat (variable_name_length d) \<le> max_runes")
    case small: True
    have "is_Panic (uefiVariableTag d eventSize) \<longleftrightarrow>
        length d - 32 + 1 < 2 * unat (variable_name_length d)"
      using True by (subst uefiVariableTag_name [OF _ refl small]) auto
    with True small show ?thesis by (auto simp: variable_overrun_def)
  next
    case False
    with True show ?thesis by (simp add: variable_overrun_def uefiVariableTag_long)
  qed
next
  case False
  then show ?thesis
    using uefiVariableTag_short [of d eventSize]
    by (cases "32 \<le> length d") (auto simp: variable_overrun_def uefiVariableTag_body)
qed

lemma blobTag_no_panic: "\<not> is_Panic (blobTag d)"
  by (simp add: blobTag_def is_Panic_andThen split: prod.splits)

lemma stringTag_no_panic: "\<not> is_Panic (stringTag d eventSize)"
  by (simp add: stringTag_def Let_def split: option.split)

lemma noActionTag_panic_iff: "is_Panic (noActionTag d eventSize) \<longleftrightarrow> no_action_overrun d eventSize"
  by (auto simp: noActionTag_def no_action_overrun_def Let_def not_less split: option.split)

lemma attribute_loop_valid:
  "attribute_loop a validPFRAttribute 0 \<longleftrightarrow> a \<in> set validPFRAttribute"
  by (simp add: validPFRAttribute_def)

definition is_pfr_string :: "byte list \<Rightarrow> bool go" where
  "is_pfr_string s =
     andThen (bytes_match s 0 [0x50, 0x46, 0x52]) (\<lambda>upper.
       if upper then Ret True else bytes_match s 0 [0x70, 0x66, 0x72])"

lemma is_pfr_string_panic:
  "is_Panic (is_pfr_string s) \<longleftrightarrow> s \<in> {[], [0x50], [0x50, 0x46], [0x70], [0x70, 0x66]}"
proof -
  consider "s = []" | a where "s = [a]" | a b where "s = [a, b]" | a b c t where "s = a # b # c # t"
    by (metis list.exhaust)
  then show ?thesis by cases (auto simp: is_pfr_string_def)
qed

lemma is_pfr_string_Ret:
  "is_pfr_string s = Ret ok \<Longrightarrow>
     ok \<longleftrightarrow> take 3 s = [0x50, 0x46, 0x52] \<or> take 3 s = [0x70, 0x66, 0x72]"
proof -
  assume ret: "is_pfr_string s = Ret ok"
  consider "s = []" | a where "s = [a]" | a b where "s = [a, b]" | a b c t where "s = a # b # c # t"
    by (metis list.exhaust)
  then show ?thesis using ret by cases (auto simp: is_pfr_string_def split: if_splits)
qed

lemma pfrTag_short: "length d < 16 \<Longrightarrow> \<exists>e. pfrTag d eventSize pcrIndex = Fail e"
  by (auto simp: pfrTag_def binary_read_def)

lemma pfrTag_body:
  assumes "16 \<le> length d"
  shows "pfrTag d eventSize pcrIndex =
     (if pfr_accepted d eventSize pcrIndex
      then andThen (is_pfr_string (pfr_string d))
             (\<lambda>isPfr. if isPfr then Ret [string_of_bytes (pfr_string d)] else Ret [])
      else Ret [])"
proof -
  let ?h = "get_pfrEventDataHeader (take 16 d)"
  have assoc: "andThen (is_pfr_string s) f =
      andThen (bytes_match s 0 [0x50, 0x46, 0x52]) (\<lambda>upper.
        andThen (if upper then Ret True else bytes_match s 0 [0x70, 0x66, 0x72]) f)"
    for s and f :: "bool \<Rightarrow> string list go"
    by (cases "bytes_match s 0 [0x50, 0x46, 0x52]") (simp_all add: is_pfr_string_def)
  have tag: "(if 0 < length s then string_of_bytes s else []) = string_of_bytes s" for s
    by (cases s) auto
  have info: "(if InfoSize ?h \<noteq> 0 then drop (unat (InfoSize ?h)) buf else buf) =
      drop (unat (InfoSize ?h)) buf" for buf :: "byte list"
    by simp
  have accepted: "pfr_accepted d eventSize pcrIndex \<longleftrightarrow>
      \<not> eventSize \<noteq> 1 * 4 + 4 * 3 + InfoSize ?h + StringSize ?h \<and>
      \<not> (pcrIndex \<noteq> 0 \<and> pcrIndex \<noteq> 1 \<and> pcrIndex \<noteq> 7 \<or> Version ?h \<noteq> 0x01
         \<or> EventID ?h \<le> 1 \<or> EventID ?h \<ge> 6) \<and>
      attribute_loop (Attribute ?h) validPFRAttribute 0 \<and> StringSize ?h \<noteq> 0"
    using assms
    by (simp only: pfr_accepted_def Let_def attribute_loop_valid not_le [symmetric] Uint8Size_def Uint32Size_def) auto
  have guards: "(if a then x else if b then x else if \<not> c then x else if e then y else x) =
      (if \<not> a \<and> \<not> b \<and> c \<and> e then y else x)" for a b c e and x y :: "string list go"
    by simp
  show ?thesis
    unfolding assoc accepted guards [symmetric] pfr_string_def
    using assms by (simp only: pfrTag_def binary_read_ok Let_def tag info wrapping.simps
        andThen.simps case_prod_conv Uint8Size_def Uint32Size_def)
qed

lemma pfrTag_panic_iff:
  "is_Panic (pfrTag d eventSize pcrIndex) \<longleftrightarrow> pfr_overrun d eventSize pcrIndex"
proof (cases "16 \<le> length d")
  case True
  then show ?thesis
    by (auto simp: pfrTag_body pfr_overrun_def is_Panic_andThen is_pfr_string_panic split: if_splits)
next
  case False
  then show ?thesis
    using pfrTag_short [of d eventSize pcrIndex] by (auto simp: pfr_overrun_def pfr_accepted_def)
qed

section \<open>Tags of events laid out as the firmware specification says\<close>

definition variable_events :: "uint32 list" where
  "variable_events = [0x80000001, 0x80000002, 0x8000000C, 0x800000E0]"

definition string_events :: "uint32 list" where
  "string_events = [0x0D, 0x01, 0x05, 0x80000007, 0x0A, 0x12, 0x80000010, 0x07]"

text \<open>\<^verbatim>\<open>UEFI_VARIABLE_DATA\<close>: GUID, name length in UTF-16 units, data length, name, data.\<close>

definition enc_variable :: "byte list \<Rightarrow> uint16 list \<Rightarrow> byte list \<Rightarrow> byte list" where
  "enc_variable guid name vdata =
     guid @ put_u64 (of_nat (length name)) @ put_u64 (of_nat (length vdata)) @
     concat (map put_u16 name) @ vdata"

declare variable_events_def [eval_simps] string_events_def [eval_simps] enc_variable_def [eval_simps]

lemma length_concat_put_u16 [simp]: "length (concat (map put_u16 name)) = 2 * length name"
  by (induction name) simp_all

lemma nth_concat_put_u16:
  "i < length name \<Longrightarrow> unat (concat (map put_u16 name) ! (2 * i)) = unat (name ! i) mod 256"
proof (induction name arbitrary: i)
  case (Cons u us)
  then show ?case
    by (cases i) (simp_all add: codec_defs numeral_2_eq_2 unat_of_nat_byte nth_append)
qed simp

lemma length_enc_variable:
  "length guid = 16 \<Longrightarrow> length (enc_variable guid name vdata) = 32 + 2 * length name + length vdata"
  by (simp add: enc_variable_def)

lemma enc_variable_fields:
  assumes "length guid = 16"
  shows "variable_name_length (enc_variable guid name vdata) = of_nat (length name)"
    and "variable_data_length (enc_variable guid name vdata) = of_nat (length vdata)"
  using assms by (simp_all add: variable_name_length_def variable_data_length_def enc_variable_def
      u64.dec_enc)

lemma enc_variable_name_bytes:
  assumes "length guid = 16"
  shows "map (\<lambda>i. unat (enc_variable guid name vdata ! (32 + 2 * i))) [0 ..< length name] =
         map (\<lambda>u. unat u mod 256) name"
proof -
  have "drop 32 (enc_variable guid name vdata) = concat (map put_u16 name) @ vdata"
    using assms by (simp add: enc_variable_def)
  then have "enc_variable guid name vdata ! (32 + 2 * i) = concat (map put_u16 name) ! (2 * i)"
    if "i < length name" for i
    using that assms nth_drop [of 32 "enc_variable guid name vdata" "2 * i"]
    by (simp add: length_enc_variable nth_append)
  then show ?thesis
    by (intro nth_equalityI) (simp_all add: nth_concat_put_u16)
qed

lemma unat_u64_of_nat: "n < 2 ^ 32 \<Longrightarrow> unat (of_nat n :: uint64) = n"
  by (simp add: unat_of_nat)

lemma unat_u32_of_nat: "n < 2 ^ 32 \<Longrightarrow> unat (of_nat n :: uint32) = n"
  by (simp add: unat_of_nat)

lemma unat_ucast_of_nat:
  "k < 2 ^ 32 \<Longrightarrow> unat (ucast (of_nat k :: uint32) :: uint64) = k"
  by (simp add: unsigned_ucast_eq unsigned_of_nat take_bit_nat_eq_self)

lemma lengths_fit:
  assumes "32 + 2 * n + m < (2 ^ 32 :: nat)"
  shows "(of_nat n + of_nat m :: uint64) \<le> ucast (of_nat (32 + 2 * n + m) - 32 :: uint32)"
proof -
  have "(of_nat (32 + 2 * n + m) - 32 :: uint32) = of_nat (2 * n + m)" by simp
  moreover have "unat (ucast (of_nat (2 * n + m) :: uint32) :: uint64) = 2 * n + m"
    using assms by (intro unat_ucast_of_nat) simp
  moreover have "unat (of_nat (n + m) :: uint64) = n + m"
    using assms by (intro unat_u64_of_nat) simp
  ultimately show ?thesis
    by (simp only: word_le_nat_alt of_nat_add [symmetric])
qed

lemma uefiVariableTag_enc:
  assumes "length guid = 16" and "length (enc_variable guid name vdata) < 2 ^ 32"
  shows "uefiVariableTag (enc_variable guid name vdata) (of_nat (length (enc_variable guid name vdata)))
    = Ret [string_of_runes (map (\<lambda>u. unat u mod 256) name)]"
proof -
  let ?d = "enc_variable guid name vdata"
  have len: "length ?d = 32 + 2 * length name + length vdata"
    using assms(1) by (rule length_enc_variable)
  have n: "unat (variable_name_length ?d) = length name"
    using assms len by (simp add: enc_variable_fields unat_u64_of_nat)
  have "variable_name_length ?d + variable_data_length ?d \<le> ucast (of_nat (length ?d) - 32 :: uint32)"
    using lengths_fit [of "length name" "length vdata"] assms len
    by (simp only: enc_variable_fields)
  from uefiVariableTag_name [OF _ n _ this] show ?thesis
    using assms len enc_variable_name_bytes [OF assms(1), of name vdata]
    by (simp add: max_runes_def)
qed

lemma char_of_0: "char_of (0 :: nat) = NUL"
  by (simp add: char_of_def)

lemma stringTag_enc:
  assumes "s \<noteq> []" and "NUL \<notin> set s" and "unat eventSize \<ge> length s + 1 + length rest"
  shows "stringTag (bytes_of_string s @ 0 # rest) eventSize = Ret [s]"
  using assms by (simp add: stringTag_def Let_def str_index_append char_of_0)

lemma noActionTag_enc:
  assumes "s \<noteq> []" and "NUL \<notin> set s" and "unat eventSize \<ge> length s + 2"
  shows "noActionTag (bytes_of_string s @ [0, loc]) eventSize = Ret [s @ dec_nat (unat loc)]"
  using assms by (simp add: noActionTag_def Let_def str_index_append char_of_0 nth_append)

lemma blobTag_enc:
  assumes "length desc < 256"
  shows "blobTag (put_u8 (of_nat (length desc)) @ desc @ rest) = Ret [string_of_bytes desc]"
proof -
  have "unat (of_nat (length desc) :: byte) = length desc"
    using assms by (simp add: unat_of_nat_byte)
  then show ?thesis
    using u8.read_enc [of "of_nat (length desc)" "desc @ rest"] by (simp add: blobTag_def)
qed

lemma getEventTag_variable:
  "t \<in> set variable_events \<Longrightarrow> getEventTag t d eventSize pcr = uefiVariableTag d eventSize"
  by (auto simp: variable_events_def getEventTag_def)

lemma getEventTag_string:
  "t \<in> set string_events \<Longrightarrow> getEventTag t d eventSize pcr = stringTag d eventSize"
  by (auto simp: string_events_def getEventTag_def)

lemma getEventTag_panic_cases:
  "is_Panic (getEventTag t d eventSize pcr) \<longleftrightarrow>
     t \<in> set variable_events \<and> variable_overrun d eventSize \<or>
     t = 3 \<and> no_action_overrun d eventSize \<or>
     t \<in> {0x10, 0x11} \<and> pfr_overrun d eventSize pcr"
proof -
  have "3 \<notin> set variable_events" "0x10 \<notin> set variable_events" "0x11 \<notin> set variable_events"
    by (simp_all add: variable_events_def)
  moreover have "t \<in> set variable_events \<longleftrightarrow>
      t = 0x80000001 \<or> t = 0x80000002 \<or> t = 0x8000000C \<or> t = 0x800000E0"
    by (simp add: variable_events_def)
  ultimately show ?thesis
    unfolding getEventTag_def
    by (auto simp: uefiVariableTag_panic_iff noActionTag_panic_iff pfrTag_panic_iff
        blobTag_no_panic stringTag_no_panic)
qed

section \<open>Properties\<close>

text \<open>
  The tag of a UEFI variable event that is laid out as specified and fits its size is the
  variable's name, of which the code keeps the low byte of every UTF-16 unit; the variable's data
  and the declared PCR play no role.
\<close>

lemma getEventTag_variable_name:
  assumes "t \<in> set variable_events" and "length guid = 16"
    and "length (enc_variable guid name vdata) < 2 ^ 32"
  shows "getEventTag t (enc_variable guid name vdata)
      (of_nat (length (enc_variable guid name vdata))) pcr =
    Ret [string_of_runes (map (\<lambda>u. unat u mod 256) name)]"
  using assms by (simp add: getEventTag_variable uefiVariableTag_enc)

end
