(* ===== verification/Measure_Log.thy ===== *)
theory Measure_Log
  imports Event_Tag
begin

text \<open>
  \<^verbatim>\<open>parseTcgSpecEvent\<close>, \<^verbatim>\<open>getHashData\<close> and \<^verbatim>\<open>createMeasureLog\<close> of \<^verbatim>\<open>eventlog/common.go\<close>: the parser of
  binary TCG event logs. One pass of the source's outer loop is \<open>read_event\<close>; the loop itself is
  \<open>measure_loop\<close>, total because every pass consumes bytes. The second half relates the parser to
  an encoder of event logs: parsing an encoded log yields exactly the encoded events, grouped by
  PCR index and bank.
\<close>

section \<open>The header event\<close>

definition parseTcgSpecEvent :: "buffer \<Rightarrow> uint32 \<Rightarrow> (buffer \<times> uint32) go" where
  "parseTcgSpecEvent buf logSize =
     andThen (wrapping ''error reading TCG_PCR_EVENT PCR Index'' (binary_read 4 get_u32 buf))
       (\<lambda>(pcrIndex, buf).
     andThen (wrapping ''error reading TCG_PCR_EVENT Event Type'' (binary_read 4 get_u32 buf))
       (\<lambda>(eventType, buf).
     andThen (wrapping ''error reading TCG_PCR_EVENT Digest'' (binary_read 20 id buf))
       (\<lambda>(digest, buf).
     andThen (wrapping ''error reading TCG_PCR_EVENT Event Size'' (binary_read 4 get_u32 buf))
       (\<lambda>(eventSize, buf).
     andThen (buf_next (int (unat eventSize)) buf) (\<lambda>(event, buf).
     Ret (buf, logSize - (eventSize + 32)))))))"

section \<open>Digests\<close>

definition getHashData :: "int \<Rightarrow> nat \<Rightarrow> buffer \<Rightarrow> string \<times> int \<times> buffer" where
  "getHashData offset digestSize buf =
     (let digest = take digestSize buf
      in (hex_EncodeToString digest, offset + int digestSize, drop digestSize buf))"

text \<open>The algorithm identifiers the parser knows, with digest size and bank name.\<close>

definition hash_alg :: "uint16 \<Rightarrow> (nat \<times> string) option" where
  "hash_alg algID =
     (if algID = AlgSHA1 then Some (20, SHA1)
      else if algID = AlgSHA256 then Some (32, SHA256)
      else if algID = AlgSHA384 then Some (48, SHA384)
      else if algID = AlgSHA512 then Some (64, SHA512)
      else if algID = AlgSM3_256 then Some (32, SM3_256)
      else None)"

definition eventTypeStr :: "uint32 \<Rightarrow> string" where
  "eventTypeStr eventType = ''0x'' @ hex_nat (unat eventType)"

definition Event501 :: string where "Event501 = ''0x501''"

text \<open>Events of type 0x501 are named by their occurrence.\<close>

definition event501_name :: "nat \<Rightarrow> string" where
  "event501_name event501Index =
     (if event501Index = Event501Index0 \<or> event501Index = Event501Index1 then TBPolicy
      else if event501Index = Event501Index2 then VMLinuz
      else if event501Index = Event501Index3 then Initrd
      else if event501Index = Event501Index4 then AssetTagEvent
      else [])"

definition type_name :: "uint32 \<Rightarrow> nat \<Rightarrow> string" where
  "type_name eventType event501Index =
     (case eventName eventType of
        Some name \<Rightarrow> name
      | None \<Rightarrow> if eventTypeStr eventType = Event501 then event501_name event501Index else [])"

definition read_digest :: "uint32 \<Rightarrow> uint32 \<Rightarrow> nat \<Rightarrow> int \<Rightarrow> buffer \<Rightarrow> (entry \<times> int \<times> buffer) go" where
  "read_digest pcrIndex eventType event501Index offset buf =
     andThen (wrapping ''error reading TCG_PCR_EVENT2 Algorithm ID'' (binary_read 2 get_u16 buf))
       (\<lambda>(algID, buf).
     let offset = offset + Uint16Size;
         (bank, measurement, offset, buf) =
           (case hash_alg algID of
              Some (digestSize, bank) \<Rightarrow> (bank, getHashData offset digestSize buf)
            | None \<Rightarrow> ([], [], offset, buf))
     in Ret ((\<lparr>Index = pcrIndex, Bank = bank\<rparr>,
              \<lparr>TypeID = eventTypeStr eventType, TypeName = type_name eventType event501Index,
               Tags = [], Measurement = measurement\<rparr>), offset, buf))"

fun read_digests ::
  "uint32 \<Rightarrow> uint32 \<Rightarrow> nat \<Rightarrow> nat \<Rightarrow> int \<Rightarrow> buffer \<Rightarrow> (entry list \<times> int \<times> buffer) go" where
  "read_digests pcrIndex eventType event501Index 0 offset buf = Ret ([], offset, buf)"
| "read_digests pcrIndex eventType event501Index (Suc n) offset buf =
     andThen (read_digest pcrIndex eventType event501Index offset buf) (\<lambda>(e, offset, buf).
     andThen (read_digests pcrIndex eventType event501Index n offset buf) (\<lambda>(es, offset, buf).
     Ret (e # es, offset, buf)))"

section \<open>Tagging and filing the digests of one event\<close>

text \<open>
  The tags of one digest. \<open>lastEvent\<close> is \<^verbatim>\<open>eventData[hashIndex]\<close>, the last digest of the event,
  whose tags are still unset when it is read.
\<close>

definition event_tags ::
  "(rune \<Rightarrow> bool) \<Rightarrow> bool \<Rightarrow> uint32 \<Rightarrow> byte list \<Rightarrow> uint32 \<Rightarrow> uint32 \<Rightarrow> TpmEvent \<Rightarrow> TpmEvent
     \<Rightarrow> string list go" where
  "event_tags table txtEnabled eventType event eventSize pcrIndex lastEvent ev =
     (if txtEnabled = False then
        (case getEventTag eventType event eventSize pcrIndex of
           Ret tags \<Rightarrow> Ret (map (removeUnicode table) tags)
         | Fail err \<Rightarrow> Ret []
         | Panic p \<Rightarrow> Panic p)
      else if TypeName lastEvent \<noteq> [] then Ret (Tags lastEvent @ [TypeName lastEvent])
      else Ret (Tags ev))"

fun file_entries ::
  "(TpmEvent \<Rightarrow> string list go) \<Rightarrow> PcrEventLog list \<Rightarrow> entry list \<Rightarrow> PcrEventLog list go" where
  "file_entries tagger logs [] = Ret logs"
| "file_entries tagger logs ((k, e) # es) =
     andThen (tagger e) (\<lambda>tags. file_entries tagger (addPcrEvent logs k (e\<lparr>Tags := tags\<rparr>)) es)"

section \<open>The loop over events\<close>

datatype 'a loop_step = Break | Continue 'a

type_synonym loop_state = "PcrEventLog list \<times> nat \<times> int \<times> buffer"

definition read_event ::
  "(rune \<Rightarrow> bool) \<Rightarrow> bool \<Rightarrow> loop_state \<Rightarrow> loop_state loop_step go" where
  "read_event table txtEnabled = (\<lambda>(logs, event501Index, offset, buf).
     andThen (wrapping ''error reading TCG_PCR_EVENT2 PCR Index'' (binary_read 4 get_u32 buf))
       (\<lambda>(pcrIndex, buf).
     let offset = offset + Uint32Size
     in if pcrIndex > 23 \<or> pcrIndex < 0 then Ret Break
     else
     andThen (wrapping ''error reading TCG_PCR_EVENT2 Event Type'' (binary_read 4 get_u32 buf))
       (\<lambda>(eventType, buf).
     let offset = offset + Uint32Size
     in andThen (wrapping ''error reading TCG_PCR_EVENT2 Digest Count'' (binary_read 4 get_u32 buf))
       (\<lambda>(count, buf).
     let offset = offset + Uint32Size
     in if count \<le> 0 \<or> count > 5 then Ret Break
     else
     andThen (read_digests pcrIndex eventType event501Index (unat count) offset buf)
       (\<lambda>(eventData, offset, buf).
     andThen (wrapping ''error reading TCG_PCR_EVENT2 Event Size'' (binary_read 4 get_u32 buf))
       (\<lambda>(eventSize, buf).
     andThen (buf_next (int (unat eventSize)) buf) (\<lambda>(event, buf).
     andThen (file_entries
                (event_tags table txtEnabled eventType event eventSize pcrIndex (snd (last eventData)))
                logs eventData)
       (\<lambda>logs.
     Ret (Continue (logs,
            (if eventTypeStr eventType = Event501 then event501Index + 1 else event501Index),
            offset + Uint32Size + int (unat eventSize), buf))))))))))"

lemma read_digest_Ret:
  "read_digest p t i off buf = Ret (e, off', buf') \<Longrightarrow>
     length buf' + 2 \<le> length buf \<and> off + 2 \<le> off' \<and> off' \<le> off + 66"
  by (auto simp: read_digest_def andThen_eq_Ret binary_read_eq_Ret getHashData_def hash_alg_def
      Let_def split: if_splits)

lemma read_digests_Ret:
  "read_digests p t i n off buf = Ret (es, off', buf') \<Longrightarrow>
     length buf' \<le> length buf \<and> off \<le> off' \<and> off' \<le> off + 66 * int n \<and> length es = n"
proof (induction n arbitrary: off buf es)
  case (Suc n)
  then show ?case by (fastforce simp: andThen_eq_Ret dest: read_digest_Ret)
qed simp

text \<open>What a pass that does not leave the loop has read.\<close>

lemma read_event_ContinueE:
  assumes "read_event table txt (logs, i, off, buf) = Ret (Continue (logs', i', off', buf'))"
  obtains p t n es off1 buf1 sz where
    "12 \<le> length buf" "unat p \<le> 23" "1 \<le> n" "n \<le> 5"
    "read_digests p t i n (off + 12) (drop 12 buf) = Ret (es, off1, buf1)"
    "4 \<le> length buf1" "sz = get_u32 (take 4 buf1)"
    "file_entries (event_tags table txt t (take (unat sz) (drop 4 buf1)) sz p (snd (last es)))
       logs es = Ret logs'"
    "i' = (if eventTypeStr t = Event501 then i + 1 else i)"
    "off' = off1 + 4 + int (unat sz)" "buf' = drop (unat sz) (drop 4 buf1)"
proof -
  define p t c where
    ptc: "p = get_u32 (take 4 buf)" "t = get_u32 (take 4 (drop 4 buf))"
      "c = get_u32 (take 4 (drop 8 buf))"
  from assms have
    "12 \<le> length buf \<and> \<not> p > 23 \<and> c \<noteq> 0 \<and> \<not> c > 5 \<and> (\<exists>es off1 buf1.
       read_digests p t i (unat c) (off + 12) (drop 12 buf) = Ret (es, off1, buf1) \<and>
       4 \<le> length buf1 \<and>
       file_entries (event_tags table txt t (take (unat (get_u32 (take 4 buf1))) (drop 4 buf1))
         (get_u32 (take 4 buf1)) p (snd (last es))) logs es = Ret logs' \<and>
       i' = (if eventTypeStr t = Event501 then i + 1 else i) \<and>
       off' = off1 + 4 + int (unat (get_u32 (take 4 buf1))) \<and>
       buf' = drop (unat (get_u32 (take 4 buf1))) (drop 4 buf1))"
    unfolding read_event_def ptc [symmetric]
    by (auto simp: andThen_eq_Ret binary_read_eq_Ret Let_def ptc [symmetric] add.commute
        split: if_splits)
  then obtain es off1 buf1 where
    "12 \<le> length buf" "\<not> p > 23" "c \<noteq> 0" "\<not> c > 5"
    "read_digests p t i (unat c) (off + 12) (drop 12 buf) = Ret (es, off1, buf1)"
    "4 \<le> length buf1"
    "file_entries (event_tags table txt t (take (unat (get_u32 (take 4 buf1))) (drop 4 buf1))
       (get_u32 (take 4 buf1)) p (snd (last es))) logs es = Ret logs'"
    "i' = (if eventTypeStr t = Event501 then i + 1 else i)"
    "off' = off1 + 4 + int (unat (get_u32 (take 4 buf1)))"
    "buf' = drop (unat (get_u32 (take 4 buf1))) (drop 4 buf1)"
    by blast
  moreover from this(2-4) have "unat p \<le> 23" "1 \<le> unat c" "unat c \<le> 5"
    by (simp_all add: not_less word_le_nat_alt Suc_le_eq unat_gt_0)
  ultimately show thesis using that [of p "unat c" t es off1 buf1 "get_u32 (take 4 buf1)"] by simp
qed

lemma read_event_Continue:
  assumes "read_event table txt (logs, i, off, buf) = Ret (Continue (logs', i', off', buf'))"
  shows "length buf' < length buf" and "off < off'" and "off' \<le> off + 4294967641"
proof -
  have "length buf' < length buf \<and> off < off' \<and> off' \<le> off + 4294967641"
    using assms
  proof (cases rule: read_event_ContinueE)
    case (1 p t n es off1 buf1 sz)
    have "int (unat sz) < 4294967296" "0 \<le> int (unat sz)" using unat_bounds(3) [of sz] by linarith+
    then show ?thesis using 1(1,4,6) read_digests_Ret [OF 1(5)] unfolding 1(10,11) length_drop
      by linarith
  qed
  then show "length buf' < length buf" and "off < off'" and "off' \<le> off + 4294967641" by auto
qed

function measure_loop :: "(rune \<Rightarrow> bool) \<Rightarrow> bool \<Rightarrow> uint32 \<Rightarrow> loop_state \<Rightarrow> PcrEventLog list go" where
  "measure_loop table txtEnabled logSize (logs, event501Index, offset, buf) =
     (if offset < int (unat logSize) then
        (case read_event table txtEnabled (logs, event501Index, offset, buf) of
           Ret Break \<Rightarrow> Ret logs
         | Ret (Continue (logs', event501Index', offset', buf')) \<Rightarrow>
             measure_loop table txtEnabled logSize (logs', event501Index', offset', buf')
         | Fail err \<Rightarrow> Fail err
         | Panic p \<Rightarrow> Panic p)
      else Ret logs)"
  by pat_completeness auto
termination
  by (relation "measure (\<lambda>(_, _, _, _, _, _, buf). length buf)")
    (auto dest: read_event_Continue(1))

declare measure_loop.simps [simp del, eval_simps]

definition createMeasureLog ::
  "(rune \<Rightarrow> bool) \<Rightarrow> buffer \<Rightarrow> uint32 \<Rightarrow> PcrEventLog list \<Rightarrow> bool \<Rightarrow> PcrEventLog list go" where
  "createMeasureLog table buf logSize pcrEventLogs txtEnabled =
     measure_loop table txtEnabled logSize (pcrEventLogs, 0, 0, buf)"

declare parseTcgSpecEvent_def [eval_simps] getHashData_def [eval_simps] hash_alg_def [eval_simps]
  eventTypeStr_def [eval_simps] Event501_def [eval_simps] event501_name_def [eval_simps]
  type_name_def [eval_simps] read_digest_def [eval_simps] event_tags_def [eval_simps]
  read_event_def [eval_simps] createMeasureLog_def [eval_simps]

section \<open>What every parsed log satisfies\<close>

text \<open>An event is filed under a PCR of the TPM and its measurement has the length of its bank.\<close>

definition digest_length :: "string \<Rightarrow> nat" where
  "digest_length bank =
     (if bank = ''SHA1'' then 20
      else if bank = ''SHA256'' then 32
      else if bank = ''SHA384'' then 48
      else if bank = ''SHA512'' then 64
      else if bank = ''SM3_256'' then 32
      else 0)"

definition digest_ok :: "PcrData \<Rightarrow> TpmEvent \<Rightarrow> bool" where
  "digest_ok k e \<longleftrightarrow>
     unat (Index k) \<le> 23 \<and> length (Measurement e) = 2 * digest_length (Bank k) \<and>
     Bank k \<in> {[], ''SHA1'', ''SHA256'', ''SHA384'', ''SHA512'', ''SM3_256''}"

declare digest_length_def [eval_simps] digest_ok_def [eval_simps]

lemma hash_alg_length: "hash_alg a = Some (n, bank) \<Longrightarrow>
    digest_length bank = n \<and> bank \<in> {''SHA1'', ''SHA256'', ''SHA384'', ''SHA512'', ''SM3_256''}"
  by (auto simp: hash_alg_def digest_length_def split: if_splits)

text \<open>A digest is complete as soon as anything follows it in the buffer.\<close>

lemma read_digest_ok:
  assumes "read_digest p t i off buf = Ret ((k, e), off', buf')" and "buf' \<noteq> []" and "unat p \<le> 23"
  shows "digest_ok k e"
proof (cases "hash_alg (get_u16 (take 2 buf))")
  case None
  then show ?thesis
    using assms by (auto simp: read_digest_def andThen_eq_Ret binary_read_eq_Ret Let_def
        digest_ok_def digest_length_def)
next
  case (Some nb)
  then obtain n bank where nb: "hash_alg (get_u16 (take 2 buf)) = Some (n, bank)" by fastforce
  then have "k = \<lparr>Index = p, Bank = bank\<rparr>"
    and "Measurement e = hex_EncodeToString (take n (drop 2 buf))" and "buf' = drop n (drop 2 buf)"
    using assms(1) by (auto simp: read_digest_def andThen_eq_Ret binary_read_eq_Ret Let_def
        getHashData_def)
  then show ?thesis using hash_alg_length [OF nb] assms(2,3) by (auto simp: digest_ok_def)
qed

lemma read_digest_event:
  "read_digest p t i off buf = Ret ((k, e), off', buf') \<Longrightarrow>
     Index k = p \<and> Tags e = [] \<and> TypeName e = type_name t i \<and> TypeID e = eventTypeStr t"
  by (auto simp: read_digest_def andThen_eq_Ret Let_def getHashData_def split: option.splits)

lemma read_digests_event:
  "read_digests p t i n off buf = Ret (es, off', buf') \<Longrightarrow>
     \<forall>(k, e) \<in> set es. Index k = p \<and> Tags e = [] \<and> TypeName e = type_name t i \<and> TypeID e = eventTypeStr t"
proof (induction n arbitrary: off buf es)
  case (Suc n)
  then show ?case by (fastforce simp: andThen_eq_Ret dest: read_digest_event)
qed simp

lemma read_digests_ok:
  "read_digests p t i n off buf = Ret (es, off', buf') \<Longrightarrow> buf' \<noteq> [] \<Longrightarrow> unat p \<le> 23 \<Longrightarrow>
     \<forall>(k, e) \<in> set es. digest_ok k e"
proof (induction n arbitrary: off buf es)
  case (Suc n)
  then obtain e off1 buf1 es1 where
    step: "read_digest p t i off buf = Ret (e, off1, buf1)"
      "read_digests p t i n off1 buf1 = Ret (es1, off', buf')" "es = e # es1"
    by (auto simp: andThen_eq_Ret)
  have "buf1 \<noteq> []" using read_digests_Ret [OF step(2)] Suc.prems(2) by auto
  then show ?case
    using Suc step read_digest_ok [of p t i off buf "fst e" "snd e" off1 buf1] by auto
qed simp

text \<open>All digests of an event get the same tags, and the tags do not touch the invariant.\<close>

definition tag_entries :: "string list \<Rightarrow> entry list \<Rightarrow> entry list" where
  "tag_entries tags es = map (\<lambda>(k, e). (k, e\<lparr>Tags := tags\<rparr>)) es"

lemma file_entries_uniform:
  assumes "\<And>e. e \<in> snd ` set es \<Longrightarrow> tagger e = m" and "es \<noteq> []"
  shows "file_entries tagger logs es =
    andThen m (\<lambda>tags. Ret (add_entries logs (tag_entries tags es)))"
proof (cases m)
  case (Ret tags)
  have "file_entries tagger logs es = Ret (add_entries logs (tag_entries tags es))"
    using assms(1) by (induction es arbitrary: logs) (auto simp: Ret tag_entries_def)
  then show ?thesis by (simp add: Ret)
next
  case (Fail e)
  then show ?thesis using assms by (cases es) auto
next
  case (Panic p)
  then show ?thesis using assms by (cases es) auto
qed

text \<open>The tags of an event, by the kind of log it comes from.\<close>

definition tags_of ::
  "(rune \<Rightarrow> bool) \<Rightarrow> bool \<Rightarrow> uint32 \<Rightarrow> byte list \<Rightarrow> uint32 \<Rightarrow> uint32 \<Rightarrow> nat \<Rightarrow> string list go" where
  "tags_of table txt t d sz p i =
     (if txt then Ret (if type_name t i = [] then [] else [type_name t i])
      else case getEventTag t d sz p of
             Ret tags \<Rightarrow> Ret (map (removeUnicode table) tags)
           | Fail err \<Rightarrow> Ret []
           | Panic q \<Rightarrow> Panic q)"

lemma file_entries_read:
  assumes "read_digests p t i n off buf = Ret (es, off', buf')" and "1 \<le> n"
  shows "file_entries (event_tags table txt t d sz p (snd (last es))) logs es =
    andThen (tags_of table txt t d sz p i) (\<lambda>tags. Ret (add_entries logs (tag_entries tags es)))"
proof -
  have ne: "es \<noteq> []" using read_digests_Ret [OF assms(1)] assms(2) by auto
  have tg: "Tags e = [] \<and> TypeName e = type_name t i" if "e \<in> snd ` set es" for e
    using read_digests_event [OF assms(1)] that by auto
  have "snd (last es) \<in> snd ` set es" using ne by auto
  note last = tg [OF this]
  show ?thesis
  proof (rule file_entries_uniform [OF _ ne])
    fix e assume "e \<in> snd ` set es"
    then show "event_tags table txt t d sz p (snd (last es)) e = tags_of table txt t d sz p i"
      using tg [of e] last by (simp add: event_tags_def tags_of_def)
  qed
qed

lemma digest_ok_tags [simp]: "digest_ok k (e\<lparr>Tags := tags\<rparr>) = digest_ok k e"
  by (simp add: digest_ok_def)

lemma read_event_inv:
  assumes "read_event table txt (logs, i, off, buf) = Ret (Continue (logs', i', off', buf'))"
    and "log_inv logs" and "all_events digest_ok logs"
  shows "log_inv logs' \<and> all_events digest_ok logs'"
  using assms(1)
proof (cases rule: read_event_ContinueE)
  case (1 p t n es off1 buf1 sz)
  have "\<forall>(k, e) \<in> set es. digest_ok k e" using read_digests_ok [OF 1(5) _ 1(2)] 1(6) by fastforce
  then have "\<forall>(k, e) \<in> set (tag_entries tags es). digest_ok k e" for tags
    by (auto simp: tag_entries_def)
  then show ?thesis
    using 1(8) add_entries_inv [OF assms(2)] add_entries_all [OF assms(2,3)]
    by (auto simp: file_entries_read [OF 1(5,3)] andThen_eq_Ret)
qed

lemma measure_loop_invariant:
  assumes "\<And>logs i off buf logs' i' off' buf'. I logs \<Longrightarrow>
      read_event table txt (logs, i, off, buf) = Ret (Continue (logs', i', off', buf')) \<Longrightarrow> I logs'"
  shows "measure_loop table txt logSize (logs, i, off, buf) = Ret logs' \<Longrightarrow> I logs \<Longrightarrow> I logs'"
proof (induction "length buf" arbitrary: logs i off buf rule: less_induct)
  case less
  show ?case
  proof (cases "\<exists>st. off < int (unat logSize) \<and> read_event table txt (logs, i, off, buf) = Ret (Continue st)")
    case True
    then obtain logs1 i1 off1 buf1 where st: "off < int (unat logSize)"
      "read_event table txt (logs, i, off, buf) = Ret (Continue (logs1, i1, off1, buf1))"
      by (metis prod_cases4)
    then have "measure_loop table txt logSize (logs1, i1, off1, buf1) = Ret logs'"
      using less.prems(1) by (simp add: measure_loop.simps [of table "txt" logSize logs])
    then show ?thesis
      using less.hyps read_event_Continue(1) [OF st(2)] assms [OF less.prems(2) st(2)] by blast
  next
    case False
    then have "logs' = logs"
      using less.prems(1)
      by (subst (asm) measure_loop.simps) (auto split: if_splits go.splits loop_step.splits)
    then show ?thesis using less.prems(2) by simp
  qed
qed

lemma measure_loop_inv:
  assumes "measure_loop table txt logSize (logs, i, off, buf) = Ret logs'"
    and "log_inv logs" and "all_events digest_ok logs"
  shows "log_inv logs' \<and> all_events digest_ok logs'"
  using measure_loop_invariant [where I = "\<lambda>l. log_inv l \<and> all_events digest_ok l", OF _ assms(1)]
    read_event_inv assms(2,3) by blast

section \<open>Panics come from the UEFI tags only\<close>

lemma read_digest_no_panic [simp]: "read_digest p t i off buf \<noteq> Panic q"
  by (auto simp: read_digest_def andThen_eq_Panic Let_def split: prod.splits option.splits)

lemma read_digests_no_panic [simp]: "read_digests p t i n off buf \<noteq> Panic q"
  by (induction n arbitrary: off buf) (auto simp: andThen_eq_Panic)

lemma tags_of_txt [simp]: "tags_of table True t d sz p i \<noteq> Panic q"
  by (simp add: tags_of_def)

lemma read_event_txt_no_panic: "read_event table True st \<noteq> Panic q"
proof -
  obtain logs i off buf where st: "st = (logs, i, off, buf)" by (cases st)
  have "1 \<le> unat c" if "\<not> c \<le> 0" for c :: uint32
    using that by (simp add: word_le_nat_alt)
  then show ?thesis
    unfolding st read_event_def
    by (auto simp: andThen_eq_Panic Let_def file_entries_read split: if_splits)
qed

lemma measure_loop_txt_no_panic: "measure_loop table True logSize st \<noteq> Panic q"
proof (induction table "True" logSize st rule: measure_loop.induct)
  case (1 table logSize logs i off buf)
  then show ?case
    by (subst measure_loop.simps)
      (auto split: go.splits loop_step.splits simp: read_event_txt_no_panic)
qed

section \<open>Encoded logs\<close>

text \<open>
  An event as firmware writes it (\<^verbatim>\<open>TCG_PCR_EVENT2\<close>) and its encoding. \<open>wf_event\<close>: a PCR of the
  TPM, one to five digests of known algorithms with the algorithm's length, and event data whose
  size fits its field.
\<close>

record tcg_event =
  ev_pcr :: uint32
  ev_type :: uint32
  ev_digests :: "(uint16 \<times> byte list) list"
  ev_data :: "byte list"

definition enc_digest :: "uint16 \<times> byte list \<Rightarrow> byte list" where
  "enc_digest = (\<lambda>(algID, digest). put_u16 algID @ digest)"

definition enc_event :: "tcg_event \<Rightarrow> byte list" where
  "enc_event e =
     put_u32 (ev_pcr e) @ put_u32 (ev_type e) @ put_u32 (of_nat (length (ev_digests e))) @
     concat (map enc_digest (ev_digests e)) @
     put_u32 (of_nat (length (ev_data e))) @ ev_data e"

definition wf_digest :: "uint16 \<times> byte list \<Rightarrow> bool" where
  "wf_digest = (\<lambda>(algID, digest).
     case hash_alg algID of Some (n, _) \<Rightarrow> length digest = n | None \<Rightarrow> False)"

definition wf_event :: "tcg_event \<Rightarrow> bool" where
  "wf_event e \<longleftrightarrow>
     unat (ev_pcr e) \<le> 23 \<and> ev_digests e \<noteq> [] \<and> length (ev_digests e) \<le> 5 \<and>
     list_all wf_digest (ev_digests e) \<and> length (ev_data e) < 2 ^ 32"

text \<open>The entries an event stands for, when \<open>i\<close> events of type 0x501 came before it.\<close>

definition digest_entry :: "uint32 \<Rightarrow> uint32 \<Rightarrow> nat \<Rightarrow> uint16 \<times> byte list \<Rightarrow> entry" where
  "digest_entry p t i = (\<lambda>(algID, digest).
     (\<lparr>Index = p, Bank = (case hash_alg algID of Some (_, bank) \<Rightarrow> bank | None \<Rightarrow> [])\<rparr>,
      \<lparr>TypeID = eventTypeStr t, TypeName = type_name t i, Tags = [],
       Measurement = hex_EncodeToString digest\<rparr>))"

definition event_entries :: "tcg_event \<Rightarrow> nat \<Rightarrow> entry list" where
  "event_entries e i = map (digest_entry (ev_pcr e) (ev_type e) i) (ev_digests e)"

definition next501 :: "tcg_event \<Rightarrow> nat \<Rightarrow> nat" where
  "next501 e i = (if eventTypeStr (ev_type e) = Event501 then i + 1 else i)"

fun log_entries :: "(rune \<Rightarrow> bool) \<Rightarrow> bool \<Rightarrow> nat \<Rightarrow> tcg_event list \<Rightarrow> entry list go" where
  "log_entries table txt i [] = Ret []"
| "log_entries table txt i (e # es) =
     andThen (tags_of table txt (ev_type e) (ev_data e) (of_nat (length (ev_data e))) (ev_pcr e) i)
       (\<lambda>tags. andThen (log_entries table txt (next501 e i) es)
       (\<lambda>rest. Ret (tag_entries tags (event_entries e i) @ rest)))"

declare enc_digest_def [eval_simps] enc_event_def [eval_simps] wf_digest_def [eval_simps]
  wf_event_def [eval_simps] digest_entry_def [eval_simps] event_entries_def [eval_simps]
  next501_def [eval_simps] tag_entries_def [eval_simps] tags_of_def [eval_simps]

lemma length_enc_digest: "length (enc_digest d) = 2 + length (snd d)"
  by (simp add: enc_digest_def split: prod.splits)

lemma read_digest_enc:
  assumes "wf_digest d"
  shows "read_digest p t i off (enc_digest d @ rest) =
    Ret (digest_entry p t i d, off + int (length (enc_digest d)), rest)"
  using assms
  by (auto simp: read_digest_def enc_digest_def wf_digest_def digest_entry_def read_simps
      getHashData_def split: prod.splits option.splits)

lemma read_digests_enc:
  "list_all wf_digest ds \<Longrightarrow>
     read_digests p t i (length ds) off (concat (map enc_digest ds) @ rest) =
       Ret (map (digest_entry p t i) ds, off + int (length (concat (map enc_digest ds))), rest)"
  by (induction ds arbitrary: off) (auto simp: read_digest_enc algebra_simps)

lemma read_event_enc:
  assumes "wf_event e"
  shows "read_event table txt (logs, i, off, enc_event e @ rest) =
    andThen (tags_of table txt (ev_type e) (ev_data e) (of_nat (length (ev_data e))) (ev_pcr e) i)
      (\<lambda>tags. Ret (Continue (add_entries logs (tag_entries tags (event_entries e i)), next501 e i,
                           off + int (length (enc_event e)), rest)))"
proof -
  let ?n = "length (ev_digests e)"
  have n: "1 \<le> ?n" "?n \<le> 5" and pcr: "\<not> ev_pcr e > 23" and ds: "list_all wf_digest (ev_digests e)"
    and sz: "unat (of_nat (length (ev_data e)) :: uint32) = length (ev_data e)"
    using assms by (auto simp: wf_event_def word_less_nat_alt unat_of_nat Suc_le_eq)
  have c: "unat (of_nat ?n :: uint32) = ?n" using n by (simp add: unat_of_nat)
  have cnt: "\<not> ((of_nat ?n :: uint32) \<le> 0 \<or> (of_nat ?n :: uint32) > 5)"
    using n c unfolding word_le_nat_alt word_less_nat_alt by auto
  note filed = file_entries_read [OF read_digests_enc [OF ds] n(1)]
  have szi: "uint (of_nat (length (ev_data e)) :: uint32) = int (length (ev_data e))"
    by (simp only: uint_nat sz)
  show ?thesis
    using pcr cnt n
    by (cases "tags_of table txt (ev_type e) (ev_data e) (of_nat (length (ev_data e))) (ev_pcr e) i")
      (simp_all add: read_event_def enc_event_def read_simps c sz szi read_digests_enc [OF ds] filed
        event_entries_def next501_def)
qed

text \<open>
  Where the loop ends: the declared size is used up, or what follows has a PCR index beyond 23 or
  a digest count outside one to five.
\<close>

definition enc_log :: "tcg_event list \<Rightarrow> byte list" where
  "enc_log evs = concat (map enc_event evs)"

definition log_stops :: "nat \<Rightarrow> nat \<Rightarrow> byte list \<Rightarrow> bool" where
  "log_stops logSize off rest \<longleftrightarrow>
     logSize \<le> off \<or>
     (4 \<le> length rest \<and> get_u32 (take 4 rest) > 23) \<or>
     (12 \<le> length rest \<and>
        (get_u32 (take 4 (drop 8 rest)) = 0 \<or> get_u32 (take 4 (drop 8 rest)) > 5))"

declare enc_log_def [eval_simps] log_stops_def [eval_simps]

lemma length_enc_event_pos: "0 < length (enc_event e)"
  by (simp add: enc_event_def)

lemma read_event_break:
  assumes "(4 \<le> length rest \<and> get_u32 (take 4 rest) > 23) \<or>
     (12 \<le> length rest \<and>
        (get_u32 (take 4 (drop 8 rest)) = 0 \<or> get_u32 (take 4 (drop 8 rest)) > 5))"
  shows "read_event table txt (logs, i, off, rest) = Ret Break"
proof (cases "get_u32 (take 4 rest) > 23")
  case True
  then show ?thesis using assms by (auto simp: read_event_def binary_read_def Let_def)
next
  case False
  then have "12 \<le> length rest"
    "get_u32 (take 4 (drop 8 rest)) \<le> 0 \<or> get_u32 (take 4 (drop 8 rest)) > 5"
    using assms by auto
  then show ?thesis by (auto simp: read_event_def binary_read_ok)
qed

lemma measure_loop_stop:
  assumes "log_stops (unat logSize) off rest"
  shows "measure_loop table txt logSize (logs, i, int off, rest) = Ret logs"
proof (cases "unat logSize \<le> off")
  case True
  then have "\<not> int off < int (unat logSize)" by linarith
  then show ?thesis by (subst measure_loop.simps) (simp only: if_False)
next
  case False
  then show ?thesis
    using assms by (subst measure_loop.simps) (simp add: log_stops_def read_event_break)
qed

lemma measure_loop_enc:
  "list_all wf_event evs \<Longrightarrow> off + length (enc_log evs) \<le> unat logSize \<Longrightarrow>
     measure_loop table txt logSize (logs, i, int off, enc_log evs @ rest) =
       andThen (log_entries table txt i evs) (\<lambda>es.
         measure_loop table txt logSize
           (add_entries logs es, fold next501 evs i, int (off + length (enc_log evs)), rest))"
proof (induction evs arbitrary: logs i off)
  case Nil
  then show ?case by (simp add: enc_log_def)
next
  case (Cons e evs)
  have "length (enc_log (e # evs)) = length (enc_event e) + length (enc_log evs)"
    by (simp add: enc_log_def)
  then have lt: "int off < int (unat logSize)"
    using Cons.prems(2) length_enc_event_pos [of e] by linarith
  have enc: "enc_log (e # evs) @ rest = enc_event e @ enc_log evs @ rest"
    by (simp add: enc_log_def)
  have IH: "measure_loop table txt logSize
      (logs1, next501 e i, int off + int (length (enc_event e)), enc_log evs @ rest) =
       andThen (log_entries table txt (next501 e i) evs) (\<lambda>es.
         measure_loop table txt logSize (add_entries logs1 es, fold next501 evs (next501 e i),
           int (off + length (enc_log (e # evs))), rest))" for logs1
    using Cons.IH [of "off + length (enc_event e)" logs1 "next501 e i"] Cons.prems
    by (simp add: enc_log_def add.assoc)
  show ?case
    using lt Cons.prems(1) IH unfolding enc
    by (subst measure_loop.simps)
      (cases "tags_of table txt (ev_type e) (ev_data e) (of_nat (length (ev_data e))) (ev_pcr e) i";
       cases "log_entries table txt (next501 e i) evs"; simp add: read_event_enc)
qed

text \<open>In a TXT log the tags never fail, so the entries of a log are a plain list.\<close>

fun txt_entries :: "nat \<Rightarrow> tcg_event list \<Rightarrow> entry list" where
  "txt_entries i [] = []"
| "txt_entries i (e # es) =
     tag_entries (if type_name (ev_type e) i = [] then [] else [type_name (ev_type e) i])
       (event_entries e i) @ txt_entries (next501 e i) es"

lemma log_entries_txt: "log_entries table True i evs = Ret (txt_entries i evs)"
  by (induction evs arbitrary: i) (simp_all add: tags_of_def)

text \<open>In a UEFI log an event stops the parser exactly when its tag runs over the event data.\<close>

definition tag_overrun :: "tcg_event \<Rightarrow> bool" where
  "tag_overrun e \<longleftrightarrow>
     (let sz = of_nat (length (ev_data e))
      in ev_type e \<in> set variable_events \<and> variable_overrun (ev_data e) sz \<or>
         ev_type e = 3 \<and> no_action_overrun (ev_data e) sz \<or>
         ev_type e \<in> {0x10, 0x11} \<and> pfr_overrun (ev_data e) sz (ev_pcr e))"

declare tag_overrun_def [eval_simps]

lemma tags_of_not_Fail [simp]: "tags_of table txt t d sz p i \<noteq> Fail err"
  by (simp add: tags_of_def split: go.splits)

lemma log_entries_not_Fail [simp]: "log_entries table txt i evs \<noteq> Fail err"
  by (induction evs arbitrary: i) (auto simp: andThen_eq_Fail)

lemma tags_of_panic: "is_Panic (tags_of table False t d sz p i) \<longleftrightarrow> is_Panic (getEventTag t d sz p)"
  by (cases "getEventTag t d sz p") (simp_all add: tags_of_def)

lemma log_entries_panic:
  "is_Panic (log_entries table False i evs) \<longleftrightarrow> (\<exists>e \<in> set evs. tag_overrun e)"
proof (induction evs arbitrary: i)
  case (Cons e evs)
  have "is_Panic (tags_of table False (ev_type e) (ev_data e) (of_nat (length (ev_data e))) (ev_pcr e) i)
      \<longleftrightarrow> tag_overrun e"
    by (simp add: tags_of_panic getEventTag_panic_cases tag_overrun_def Let_def)
  moreover have "is_Panic m \<or> (\<exists>x. m = Ret x)" if "\<And>err. m \<noteq> Fail err" for m :: "string list go"
    using that by (cases m) auto
  ultimately show ?case
    using Cons by (simp add: is_Panic_andThen) (metis tags_of_not_Fail)
qed simp

text \<open>Naming the occurrences of event 0x501.\<close>

lemma events_group: "events_of (group_events es) k = map snd (filter (\<lambda>x. fst x = k) es)"
  using add_entries_events [of "[]" es k] by (simp add: add_entries_group)

lemma eventTypeStr_501: "eventTypeStr 0x501 = Event501"
  by (simp add: eval_simps)

lemma type_name_501: "type_name 0x501 i = event501_name i"
  by (simp add: type_name_def eventTypeStr_501) (simp add: eventName_def eventNameList_def)

lemma txt_entries_501_Cons:
  assumes "ev_type e = 0x501 \<and> ev_pcr e = p \<and> (\<exists>d. ev_digests e = [(0xb, d)])"
  shows "\<exists>ev. txt_entries i (e # evs) = (\<lparr>Index = p, Bank = ''SHA256''\<rparr>, ev) # txt_entries (Suc i) evs \<and>
    Tags ev = (if event501_name i = [] then [] else [event501_name i])"
  using assms
  by (auto simp: type_name_501 next501_def eventTypeStr_501 event_entries_def digest_entry_def
      hash_alg_def tag_entries_def)

lemma txt_entries_501:
  "\<forall>e \<in> set evs. ev_type e = 0x501 \<and> ev_pcr e = p \<and> (\<exists>d. ev_digests e = [(0xb, d)]) \<Longrightarrow>
      map Tags (map snd (filter (\<lambda>x. fst x = \<lparr>Index = p, Bank = ''SHA256''\<rparr>) (txt_entries i evs))) =
      map (\<lambda>j. if event501_name j = [] then [] else [event501_name j]) [i ..< i + length evs]"
proof (induction evs arbitrary: i)
  case (Cons e evs)
  obtain ev where "txt_entries i (e # evs) =
        (\<lparr>Index = p, Bank = ''SHA256''\<rparr>, ev) # txt_entries (Suc i) evs"
    "Tags ev = (if event501_name i = [] then [] else [event501_name i])"
    using txt_entries_501_Cons [of e p i evs] Cons.prems
    by (meson list.set_intros(1))
  moreover have "map Tags (map snd (filter (\<lambda>x. fst x = \<lparr>Index = p, Bank = ''SHA256''\<rparr>)
        (txt_entries (Suc i) evs))) =
      map (\<lambda>j. if event501_name j = [] then [] else [event501_name j]) [Suc i ..< Suc i + length evs]"
    using Cons.prems by (intro Cons.IH) (meson list.set_intros(2))
  moreover have "[i ..< i + length (e # evs)] = i # [Suc i ..< Suc i + length evs]"
    using upt_conv_Cons [of i "Suc i + length evs"] by simp
  ultimately show ?case by (simp only: list.map filter.simps fst_conv snd_conv if_True refl)
qed simp

section \<open>Properties\<close>

text \<open>Three small events for the examples below.\<close>

definition sample_separator :: tcg_event where
  "sample_separator =
     \<lparr>ev_pcr = 7, ev_type = 4, ev_digests = [(0x4, replicate 20 0xab)], ev_data = [0, 0, 0, 0]\<rparr>"

definition sample_mle :: "uint32 \<Rightarrow> byte \<Rightarrow> tcg_event" where
  "sample_mle pcr b =
     \<lparr>ev_pcr = pcr, ev_type = 0x404, ev_digests = [(0xb, replicate 32 b)], ev_data = []\<rparr>"

definition sample_no_action :: tcg_event where
  "sample_no_action =
     \<lparr>ev_pcr = 0, ev_type = 3, ev_digests = [(0x4, replicate 20 0)], ev_data = [0x53, 0]\<rparr>"

definition sample_501 :: tcg_event where
  "sample_501 = \<lparr>ev_pcr = 18, ev_type = 0x501, ev_digests = [(0xb, replicate 32 0)], ev_data = []\<rparr>"

declare sample_separator_def [eval_simps] sample_mle_def [eval_simps] sample_no_action_def [eval_simps]

lemma sample_mle_wf: "unat pcr \<le> 23 \<Longrightarrow> wf_event (sample_mle pcr b)"
  by (simp add: sample_mle_def wf_event_def wf_digest_def hash_alg_def)

lemma length_sample_mle: "length (enc_event (sample_mle pcr b)) = 50"
  by (simp add: sample_mle_def enc_event_def enc_digest_def)

lemma sample_mle_entries:
  "txt_entries i (sample_mle pcr b # es) =
     (\<lparr>Index = pcr, Bank = ''SHA256''\<rparr>,
      \<lparr>TypeID = ''0x404'', TypeName = ''MLE_HASH'', Tags = [''MLE_HASH''],
       Measurement = hex_EncodeToString (replicate 32 b)\<rparr>) # txt_entries i es"
proof -
  have "type_name 0x404 i = ''MLE_HASH''" "eventTypeStr 0x404 = ''0x404''"
    by (simp_all add: eval_simps)
  then show ?thesis
    by (simp add: sample_mle_def event_entries_def digest_entry_def tag_entries_def next501_def
        hash_alg_def Event501_def)
qed

text \<open>
  C2: parsing an encoded log of well-formed events, followed by anything at which the loop stops,
  files exactly the digests of the events, in order, with their bank, hexadecimal measurement,
  type, name and tags, on top of the logs collected before.
\<close>

theorem createMeasureLog_encoded:
  assumes "list_all wf_event evs" and "length (enc_log evs) \<le> unat logSize"
    and "log_stops (unat logSize) (length (enc_log evs)) rest"
  shows "createMeasureLog table (enc_log evs @ rest) logSize logs txt =
    andThen (log_entries table txt 0 evs) (\<lambda>es. Ret (add_entries logs es))"
  using measure_loop_enc [of evs 0 logSize table "txt" logs 0 rest] assms
    measure_loop_stop [OF assms(3)]
  by (simp add: createMeasureLog_def)

theorem createMeasureLog_encoded_witness:
  "createMeasureLog (\<lambda>r. False) (enc_log [sample_separator] @ replicate 12 0) 100 [] False =
    Ret [\<lparr>Pcr = \<lparr>Index = 7, Bank = ''SHA1''\<rparr>,
          TpmEvents = [\<lparr>TypeID = ''0x4'', TypeName = ''EV_SEPARATOR'', Tags = [],
                        Measurement = concat (replicate 20 ''ab'')\<rparr>]\<rparr>]"
  using createMeasureLog_encoded [of "[sample_separator]" 100 "replicate 12 0" "\<lambda>r. False" "[]" False]
  by (simp add: eval_simps)

text \<open>
  C5: a TXT log of well-formed events is parsed into its digests grouped by PCR index and bank:
  the groups in the order of their first digest, the events of a group in the order of the log.
\<close>

theorem createMeasureLog_txt_grouped:
  assumes "list_all wf_event evs" and "length (enc_log evs) \<le> unat logSize"
    and "log_stops (unat logSize) (length (enc_log evs)) rest"
  shows "createMeasureLog table (enc_log evs @ rest) logSize [] True =
    Ret (group_events (txt_entries 0 evs))"
  using measure_loop_enc [of evs 0 logSize table True "[]" 0 rest] assms
    measure_loop_stop [OF assms(3)]
  by (simp add: createMeasureLog_def log_entries_txt add_entries_group)

theorem createMeasureLog_txt_grouped_witness:
  "createMeasureLog (\<lambda>r. False) (enc_log [sample_mle 17 1, sample_mle 18 2, sample_mle 17 3] @ [])
     150 [] True = Ret (group_events (txt_entries 0 [sample_mle 17 1, sample_mle 18 2, sample_mle 17 3]))
   \<and> map (\<lambda>l. (unat (Index (Pcr l)), length (TpmEvents l)))
       (group_events (txt_entries 0 [sample_mle 17 1, sample_mle 18 2, sample_mle 17 3]))
      = [(17, 2), (18, 1)]"
proof
  show "createMeasureLog (\<lambda>r. False) (enc_log [sample_mle 17 1, sample_mle 18 2, sample_mle 17 3] @ [])
     150 [] True = Ret (group_events (txt_entries 0 [sample_mle 17 1, sample_mle 18 2, sample_mle 17 3]))"
    by (rule createMeasureLog_txt_grouped)
      (simp_all add: sample_mle_wf enc_log_def length_sample_mle log_stops_def)
  show "map (\<lambda>l. (unat (Index (Pcr l)), length (TpmEvents l)))
       (group_events (txt_entries 0 [sample_mle 17 1, sample_mle 18 2, sample_mle 17 3]))
      = [(17, 2), (18, 1)]"
    by (simp add: sample_mle_entries group_events_def first_occurrences_def del: txt_entries.simps(2))
qed

text \<open>
  C14: whatever bytes are parsed, a returned log has one entry for each PCR index and bank, no entry
  without events, only PCRs 0 to 23, and measurements whose length is that of their bank.
\<close>

theorem createMeasureLog_invariant:
  assumes "createMeasureLog table buf logSize logs txt = Ret logs'"
    and "log_inv logs" and "all_events digest_ok logs"
  shows "log_inv logs' \<and> all_events digest_ok logs'"
  using measure_loop_inv [OF assms(1) [unfolded createMeasureLog_def] assms(2,3)] .

theorem createMeasureLog_invariant_witness:
  "\<exists>logs'. createMeasureLog (\<lambda>r. False) (enc_log [sample_separator]) 42 [] False = Ret logs' \<and>
    log_inv logs' \<and> all_events digest_ok logs' \<and> logs' \<noteq> []"
proof -
  have "\<exists>l. createMeasureLog (\<lambda>r. False) (enc_log [sample_separator]) 42 [] False = Ret [l]"
    by (simp add: eval_simps)
  then obtain l where l: "createMeasureLog (\<lambda>r. False) (enc_log [sample_separator]) 42 [] False = Ret [l]" ..
  show ?thesis using createMeasureLog_invariant [OF l] l by simp
qed

text \<open>C20: parsing a TXT log never panics, whatever bytes it holds.\<close>

theorem createMeasureLog_txt_total: "\<not> is_Panic (createMeasureLog table buf logSize logs True)"
  by (simp add: createMeasureLog_def is_Panic_iff measure_loop_txt_no_panic)

text \<open>
  C34: parsing an encoded UEFI log panics exactly when the data of one of its events is overrun by
  its tag format (a UEFI variable name longer than the event, a NUL at the end of an
  \<^verbatim>\<open>EV_NO_ACTION\<close> string, a PFR string of less than three bytes).
\<close>

theorem createMeasureLog_uefi_panic:
  assumes "list_all wf_event evs" and "length (enc_log evs) \<le> unat logSize"
    and "log_stops (unat logSize) (length (enc_log evs)) rest"
  shows "is_Panic (createMeasureLog table (enc_log evs @ rest) logSize logs False) \<longleftrightarrow>
    (\<exists>e \<in> set evs. tag_overrun e)"
  using measure_loop_enc [of evs 0 logSize table False logs 0 rest] assms
    measure_loop_stop [OF assms(3)] log_entries_panic [of table 0 evs]
  by (simp add: createMeasureLog_def is_Panic_andThen)

theorem createMeasureLog_uefi_panic_witness:
  "is_Panic (createMeasureLog (\<lambda>r. False) (enc_log [sample_no_action] @ []) 40 [] False)"
proof -
  have "list_all wf_event [sample_no_action]" "length (enc_log [sample_no_action]) = 40"
    "tag_overrun sample_no_action"
    by (simp_all add: eval_simps)
  then show ?thesis
    using createMeasureLog_uefi_panic [of "[sample_no_action]" 40 "[]" "\<lambda>r. False" "[]"]
    by (simp add: log_stops_def)
qed

text \<open>
  A log that ends before the size its header declares is an error: the missing PCR index is
  reported as end of file and nothing is returned.
\<close>

lemma createMeasureLog_truncated:
  assumes "list_all wf_event evs" and "length (enc_log evs) < unat logSize"
  shows "createMeasureLog table (enc_log evs) logSize logs True =
    Fail (WrapErr EOF ''error reading TCG_PCR_EVENT2 PCR Index'')"
proof -
  have "int (length (enc_log evs)) < int (unat logSize)" using assms(2) by linarith
  then have "measure_loop table True logSize (l, i, int (length (enc_log evs)), []) =
      Fail (WrapErr EOF ''error reading TCG_PCR_EVENT2 PCR Index'')" for l i
    by (subst measure_loop.simps) (simp add: read_event_def binary_read_def)
  then show ?thesis
    using measure_loop_enc [of evs 0 logSize table True logs 0 "[]"] assms
    by (simp add: createMeasureLog_def log_entries_txt)
qed



end
