(* ===== verification/TA_Constants.thy ===== *)
theory TA_Constants
  imports Go_Strings
begin

text \<open>
  The constants of \<^verbatim>\<open>constants/constants.go\<close> that the modelled code reads: paths, commands and
  names of environment variables.
\<close>

definition InstallationDir :: string where "InstallationDir = ''/opt/trustagent/''"
definition ConfigDir :: string where "ConfigDir = InstallationDir @ ''configuration/''"
definition VarDir :: string where "VarDir = InstallationDir @ ''var/''"
definition RamfsDir :: string where "RamfsDir = VarDir @ ''ramfs/''"
definition SystemInfoDir :: string where "SystemInfoDir = VarDir @ ''system-info/''"
definition PlatformInfoFilePath :: string where "PlatformInfoFilePath = SystemInfoDir @ ''platform-info''"
definition AikCert :: string where "AikCert = ConfigDir @ ''aik.pem''"
definition PrivacyCAFile :: string where "PrivacyCAFile = ConfigDir @ ''privacy-ca.cer''"
definition NatsCredentials :: string where "NatsCredentials = ConfigDir @ ''credentials/trust-agent.creds''"
definition ConfigFilePath :: string where "ConfigFilePath = ConfigDir @ ''config.yml''"
definition BindingKeyCertificatePath :: string where
  "BindingKeyCertificatePath = ''/etc/workload-agent/bindingkey.pem''"
definition TBootXmMeasurePath :: string where "TBootXmMeasurePath = ''/opt/tbootxm/bin/measure''"
definition DevMemFilePath :: string where "DevMemFilePath = ''/dev/mem''"
definition Tpm2FilePath :: string where "Tpm2FilePath = ''/sys/firmware/acpi/tables/TPM2''"
definition LogDir :: string where "LogDir = ''/var/log/trustagent/''"
definition WML_LOG_FILE :: string where "WML_LOG_FILE = LogDir @ ''wml.log''"
definition MeasureLogFilePath :: string where "MeasureLogFilePath = VarDir @ ''measure-log.json''"
definition AppEventFilePath :: string where "AppEventFilePath = RamfsDir @ ''pcr_event_log''"
definition HttpLogFile :: string where "HttpLogFile = LogDir @ ''http.log''"
definition DefaultLogFilePath :: string where "DefaultLogFilePath = LogDir @ ''trustagent.log''"
definition SecurityLogFilePath :: string where "SecurityLogFilePath = LogDir @ ''trustagent-security.log''"
definition TLSCertFilePath :: string where "TLSCertFilePath = ConfigDir @ ''tls-cert.pem''"
definition TLSKeyFilePath :: string where "TLSKeyFilePath = ConfigDir @ ''tls-key.pem''"
definition TrustedJWTSigningCertsDir :: string where "TrustedJWTSigningCertsDir = ConfigDir @ ''jwt/''"
definition TrustedCaCertsDir :: string where "TrustedCaCertsDir = ConfigDir @ ''cacerts/''"

text \<open>\<^verbatim>\<open>time.Second\<close> in the nanoseconds of \<^verbatim>\<open>time.Duration\<close>.\<close>

definition second :: int where "second = 1000000000"

text \<open>Names of environment variables, modes, services and banks; limits and defaults.\<close>

definition FlavorUUIDs :: string where "FlavorUUIDs = ''FLAVOR_UUIDS''"
definition FlavorLabels :: string where "FlavorLabels = ''FLAVOR_LABELS''"
definition TAServiceName :: string where "TAServiceName = ''TA''"
definition ExplicitServiceName :: string where "ExplicitServiceName = ''Trust Agent''"
definition DefaultTaTlsCn :: string where "DefaultTaTlsCn = ''Trust Agent TLS Certificate''"
definition DefaultTaTlsSan :: string where "DefaultTaTlsSan = ''127.0.0.1,localhost''"
definition CommunicationModeHttp :: string where "CommunicationModeHttp = ''http''"
definition CommunicationModeOutbound :: string where "CommunicationModeOutbound = ''outbound''"
definition VerificationServiceName :: string where "VerificationServiceName = ''HVS''"
definition EnvTPMOwnerSecret :: string where "EnvTPMOwnerSecret = ''TPM_OWNER_SECRET''"
definition DefaultKeyAlgorithm :: string where "DefaultKeyAlgorithm = ''rsa''"
definition DefaultKeyAlgorithmLength :: nat where "DefaultKeyAlgorithmLength = 3072"
definition EnvMtwilsonAPIURL :: string where "EnvMtwilsonAPIURL = ''HVS_URL''"
definition EnvTAPort :: string where "EnvTAPort = ''TRUSTAGENT_PORT''"
definition EnvCMSBaseURL :: string where "EnvCMSBaseURL = ''CMS_BASE_URL''"
definition EnvCMSTLSCertDigest :: string where "EnvCMSTLSCertDigest = ''CMS_TLS_CERT_SHA384''"
definition EnvAASBaseURL :: string where "EnvAASBaseURL = ''AAS_API_URL''"
definition EnvTLSCertCommonName :: string where "EnvTLSCertCommonName = ''TA_TLS_CERT_CN''"
definition EnvCertSanList :: string where "EnvCertSanList = ''SAN_LIST''"
definition EnvCurrentIP :: string where "EnvCurrentIP = ''CURRENT_IP''"
definition EnvBearerToken :: string where "EnvBearerToken = ''BEARER_TOKEN''"
definition EnvLogEntryMaxlength :: string where "EnvLogEntryMaxlength = ''LOG_ENTRY_MAXLENGTH''"
definition EnvTALogLevel :: string where "EnvTALogLevel = ''TRUSTAGENT_LOG_LEVEL''"
definition EnvTALogEnableConsoleLog :: string where "EnvTALogEnableConsoleLog = ''TA_ENABLE_CONSOLE_LOG''"
definition EnvTAServerReadTimeout :: string where "EnvTAServerReadTimeout = ''TA_SERVER_READ_TIMEOUT''"
definition EnvTAServerReadHeaderTimeout :: string where "EnvTAServerReadHeaderTimeout = ''TA_SERVER_READ_HEADER_TIMEOUT''"
definition EnvTAServerWriteTimeout :: string where "EnvTAServerWriteTimeout = ''TA_SERVER_WRITE_TIMEOUT''"
definition EnvTAServerIdleTimeout :: string where "EnvTAServerIdleTimeout = ''TA_SERVER_IDLE_TIMEOUT''"
definition EnvTAServerMaxHeaderBytes :: string where "EnvTAServerMaxHeaderBytes = ''TA_SERVER_MAX_HEADER_BYTES''"
definition EnvTAServiceMode :: string where "EnvTAServiceMode = ''TA_SERVICE_MODE''"
definition EnvNATServers :: string where "EnvNATServers = ''NATS_SERVERS''"
definition EnvTAHostId :: string where "EnvTAHostId = ''TA_HOST_ID''"
definition BankSHA1 :: string where "BankSHA1 = ''SHA1''"
definition BankSHA256 :: string where "BankSHA256 = ''SHA256''"
definition BankSHA384 :: string where "BankSHA384 = ''SHA384''"
definition DefaultPort :: int where "DefaultPort = 1443"
definition DefaultLogEntryMaxlength :: int where "DefaultLogEntryMaxlength = 300"
definition FlavorUUIDMaxLength :: nat where "FlavorUUIDMaxLength = 500"
definition FlavorLabelsMaxLength :: nat where "FlavorLabelsMaxLength = 500"
definition DefaultApiTokenExpiration :: int where "DefaultApiTokenExpiration = 31536000"
definition DefaultReadTimeout :: int where "DefaultReadTimeout = 30 * second"
definition DefaultReadHeaderTimeout :: int where "DefaultReadHeaderTimeout = 10 * second"
definition DefaultWriteTimeout :: int where "DefaultWriteTimeout = 10 * second"
definition DefaultIdleTimeout :: int where "DefaultIdleTimeout = 10 * second"
definition DefaultMaxHeaderBytes :: int where "DefaultMaxHeaderBytes = 2 ^ 20"

lemmas constants_defs = InstallationDir_def ConfigDir_def VarDir_def RamfsDir_def SystemInfoDir_def
  PlatformInfoFilePath_def AikCert_def PrivacyCAFile_def NatsCredentials_def ConfigFilePath_def BindingKeyCertificatePath_def TBootXmMeasurePath_def
  DevMemFilePath_def Tpm2FilePath_def AppEventFilePath_def MeasureLogFilePath_def
  LogDir_def WML_LOG_FILE_def HttpLogFile_def DefaultLogFilePath_def SecurityLogFilePath_def
  TLSCertFilePath_def TLSKeyFilePath_def TrustedJWTSigningCertsDir_def TrustedCaCertsDir_def

lemmas setting_names = FlavorUUIDs_def FlavorLabels_def TAServiceName_def ExplicitServiceName_def
  DefaultTaTlsCn_def DefaultTaTlsSan_def CommunicationModeHttp_def CommunicationModeOutbound_def
  VerificationServiceName_def EnvTPMOwnerSecret_def DefaultKeyAlgorithm_def
  DefaultKeyAlgorithmLength_def EnvMtwilsonAPIURL_def EnvTAPort_def EnvCMSBaseURL_def
  EnvCMSTLSCertDigest_def EnvAASBaseURL_def EnvTLSCertCommonName_def EnvCertSanList_def
  EnvCurrentIP_def EnvBearerToken_def EnvLogEntryMaxlength_def EnvTALogLevel_def
  EnvTALogEnableConsoleLog_def EnvTAServerReadTimeout_def EnvTAServerReadHeaderTimeout_def
  EnvTAServerWriteTimeout_def EnvTAServerIdleTimeout_def EnvTAServerMaxHeaderBytes_def
  EnvTAServiceMode_def EnvNATServers_def EnvTAHostId_def BankSHA1_def BankSHA256_def BankSHA384_def
  DefaultPort_def DefaultLogEntryMaxlength_def FlavorUUIDMaxLength_def FlavorLabelsMaxLength_def
  DefaultApiTokenExpiration_def DefaultReadTimeout_def DefaultReadHeaderTimeout_def
  DefaultWriteTimeout_def DefaultIdleTimeout_def DefaultMaxHeaderBytes_def

declare constants_defs [eval_simps] setting_names [simp] setting_names [eval_simps] second_def [eval_simps]

end
