(* ===== verification/Os_Files.thy ===== *)
theory Os_Files
  imports TA_Constants
begin

text \<open>
  The part of \<^verbatim>\<open>os\<close>, \<^verbatim>\<open>io\<close>, \<^verbatim>\<open>ioutil\<close> and \<^verbatim>\<open>bufio\<close> the agent uses. The file system maps a path to
  the state of the file there; an open file is its contents and a position. Physical memory
  (\<^verbatim>\<open>/dev/mem\<close>) and the ACPI tables are files as well.
\<close>

section \<open>Files\<close>

datatype file_state =
    Absent
  | Unreadable go_error
  | Contents "byte list"

type_synonym file_system = "string \<Rightarrow> file_state"

text \<open>\<^verbatim>\<open>os.Stat\<close> followed by \<^verbatim>\<open>os.IsNotExist\<close>; an unreadable file exists.\<close>

definition os_Stat :: "file_system \<Rightarrow> string \<Rightarrow> go_error option" where
  "os_Stat fs path = (case fs path of Absent \<Rightarrow> Some NotExist | _ \<Rightarrow> None)"

fun os_IsNotExist :: "go_error option \<Rightarrow> bool" where
  "os_IsNotExist (Some NotExist) = True"
| "os_IsNotExist _ = False"

definition os_Open :: "file_system \<Rightarrow> string \<Rightarrow> byte list go" where
  "os_Open fs path =
     (case fs path of Absent \<Rightarrow> Fail NotExist | Unreadable e \<Rightarrow> Fail e | Contents bs \<Rightarrow> Ret bs)"

definition ioutil_ReadFile :: "file_system \<Rightarrow> string \<Rightarrow> byte list go" where
  "ioutil_ReadFile fs path = os_Open fs path"

text \<open>The idiom \<^verbatim>\<open>if _, err := os.Stat(p); os.IsNotExist(err) {...}\<close> followed by \<^verbatim>\<open>os.Open\<close>.\<close>

definition stat_open :: "file_system \<Rightarrow> string \<Rightarrow> byte list go" where
  "stat_open fs path =
     (if os_IsNotExist (os_Stat fs path) then Fail (WrapErr NotExist ''file does not exist'')
      else wrapping ''There was an error opening'' (os_Open fs path))"

text \<open>\<^verbatim>\<open>Seek(off, io.SeekStart)\<close> refuses a negative offset; past the end is allowed.\<close>

definition file_Seek :: "int \<Rightarrow> nat go" where
  "file_Seek off = (if off < 0 then Fail (IOError ''invalid argument'') else Ret (nat off))"

text \<open>\<^verbatim>\<open>io.ReadFull\<close> from a position: the bytes and the new position.\<close>

definition io_ReadFull :: "byte list \<Rightarrow> nat \<Rightarrow> nat \<Rightarrow> (byte list \<times> nat) go" where
  "io_ReadFull bs pos n =
     (if n = 0 then Ret ([], pos)
      else if length bs \<le> pos then Fail EOF
      else if length bs < pos + n then Fail UnexpectedEOF
      else Ret (take n (drop pos bs), pos + n))"

declare os_Stat_def [eval_simps] os_Open_def [eval_simps] ioutil_ReadFile_def [eval_simps]
  stat_open_def [eval_simps] file_Seek_def [eval_simps] io_ReadFull_def [eval_simps]

lemma io_ReadFull_eq_Ret [go_inversion]:
  "io_ReadFull bs pos n = Ret (x, pos') \<longleftrightarrow>
     (n = 0 \<or> pos + n \<le> length bs) \<and> x = take n (drop pos bs) \<and> pos' = pos + n"
  by (auto simp: io_ReadFull_def)

lemma io_ReadFull_ok:
  "pos + n \<le> length bs \<Longrightarrow> io_ReadFull bs pos n = Ret (take n (drop pos bs), pos + n)"
  by (auto simp: io_ReadFull_def)

lemma io_ReadFull_no_panic [simp]: "io_ReadFull bs pos n \<noteq> Panic p"
  by (simp add: io_ReadFull_def)

lemma file_Seek_no_panic [simp]: "file_Seek off \<noteq> Panic p"
  by (simp add: file_Seek_def)

lemma file_Seek_nonneg [simp]: "0 \<le> off \<Longrightarrow> file_Seek off = Ret (nat off)"
  by (simp add: file_Seek_def)

lemma os_Open_no_panic [simp]: "os_Open fs path \<noteq> Panic p"
  by (simp add: os_Open_def split: file_state.split)

lemma stat_open_no_panic [simp]: "stat_open fs path \<noteq> Panic p"
  by (simp add: stat_open_def)

lemma stat_open_Contents [simp]: "fs path = Contents bs \<Longrightarrow> stat_open fs path = Ret bs"
  by (simp add: stat_open_def os_Stat_def os_Open_def)

lemma stat_open_eq_Ret: "stat_open fs path = Ret bs \<longleftrightarrow> fs path = Contents bs"
  by (auto simp: stat_open_def os_Stat_def os_Open_def split: file_state.splits)

lemma stat_open_Absent: "fs path = Absent \<Longrightarrow> stat_open fs path = Fail (WrapErr NotExist ''file does not exist'')"
  by (simp add: stat_open_def os_Stat_def)

section \<open>Lines of a text file\<close>

text \<open>
  \<^verbatim>\<open>bufio.Scanner\<close> with its default split function: lines end at a newline, one carriage return
  before it is dropped, a last line without newline counts when it is not empty. Scanning stops
  at a line that does not fit the buffer of 64 KiB; \<^verbatim>\<open>Scan\<close> then returns false as at the end of
  the file.
\<close>

abbreviation (input) LF :: char where "LF \<equiv> CHR 0x0A"
abbreviation (input) CR :: char where "CR \<equiv> CHR 0x0D"
abbreviation (input) TAB :: char where "TAB \<equiv> CHR 0x09"

definition MaxScanTokenSize :: nat where "MaxScanTokenSize = 65536"

definition dropCR :: "string \<Rightarrow> string" where
  "dropCR s = (if s \<noteq> [] \<and> last s = CR then butlast s else s)"

definition raw_lines :: "string \<Rightarrow> string list" where
  "raw_lines s =
     (let ls = split_on LF s in if last ls = [] then butlast ls else ls)"

definition scan_lines :: "string \<Rightarrow> string list" where
  "scan_lines s = map dropCR (takeWhile (\<lambda>l. length l < MaxScanTokenSize) (raw_lines s))"

declare MaxScanTokenSize_def [eval_simps] dropCR_def [eval_simps] raw_lines_def [eval_simps]
  scan_lines_def [eval_simps]

definition text_of_lines :: "string list \<Rightarrow> string" where
  "text_of_lines ls = concat (map (\<lambda>l. l @ [LF]) ls)"

lemma split_on_text:
  "\<forall>l \<in> set ls. LF \<notin> set l \<Longrightarrow> split_on LF (text_of_lines ls @ rest) = ls @ split_on LF rest"
  by (induction ls) (auto simp: text_of_lines_def split_on_append)

lemma raw_lines_text: "\<forall>l \<in> set ls. LF \<notin> set l \<Longrightarrow> raw_lines (text_of_lines ls) = ls"
  using split_on_text [of ls "[]"] by (simp add: raw_lines_def)

lemma scan_lines_text:
  assumes "\<forall>l \<in> set ls. LF \<notin> set l \<and> CR \<notin> set l \<and> length l < MaxScanTokenSize"
  shows "scan_lines (text_of_lines ls) = ls"
proof -
  have "map dropCR ls = ls" using assms by (auto intro!: map_idI simp: dropCR_def) (metis last_in_set)
  moreover have "takeWhile (\<lambda>l. length l < MaxScanTokenSize) ls = ls"
    using assms by (simp add: takeWhile_eq_all_conv)
  ultimately show ?thesis
    using assms by (simp add: scan_lines_def raw_lines_text del: takeWhile_eq_all_conv)
qed

end
