(* ===== verification/Event_Parsers.thy ===== *)
theory Event_Parsers
  imports Measure_Log Os_Files
begin

text \<open>
  The event-log parsers of \<^verbatim>\<open>eventlog/\<close>: the file parser, the UEFI parser (ACPI table \<^verbatim>\<open>TPM2\<close> and
  physical memory), the TXT parser (TXT heap in physical memory), the parser of application
  events, and the aggregate that \<^verbatim>\<open>NewEventLogParser\<close> builds from them. What the parsers see of
  the host is a \<open>log_env\<close>: the files, the system call \<^verbatim>\<open>mmap\<close> (a parameter) and the Unicode
  tables of the Go library.
\<close>

section \<open>What the parsers see of the host\<close>

record log_env =
  files :: file_system
  sys_mmap :: "byte list \<Rightarrow> int \<Rightarrow> int \<Rightarrow> byte list go"
  print_table :: "rune \<Rightarrow> bool"

section \<open>A log in a file\<close>

text \<open>Header event, then the log.\<close>

definition parse_log :: "log_env \<Rightarrow> byte list \<Rightarrow> uint32 \<Rightarrow> bool \<Rightarrow> PcrEventLog list go" where
  "parse_log env buf logSize txtEnabled =
     andThen (wrapping ''error while parsing Event Log Data'' (parseTcgSpecEvent buf logSize))
       (\<lambda>(realBuf, realSize).
     wrapping ''error while creating measure-log data''
       (createMeasureLog (print_table env) realBuf realSize [] txtEnabled))"

definition fileGetEventLogs :: "log_env \<Rightarrow> string \<Rightarrow> PcrEventLog list go" where
  "fileGetEventLogs env file =
     andThen (wrapping ''Failed to read event log file'' (ioutil_ReadFile (files env) file)) (\<lambda>b.
     parse_log env b (of_nat (length b)) False)"

section \<open>UEFI\<close>

definition Tpm2Signature :: string where "Tpm2Signature = ''TPM2''"
definition Tpm2FileLength :: uint32 where "Tpm2FileLength = 76"
definition UefiBaseOffset :: int where "UefiBaseOffset = 68"
definition UefiSizeOffset :: int where "UefiSizeOffset = 64"

definition readUefiEvent :: "log_env \<Rightarrow> string \<Rightarrow> uint32 \<Rightarrow> uint64 \<Rightarrow> buffer go" where
  "readUefiEvent env devMemFilePath uefiEventSize uefiEventAddr =
     andThen (stat_open (files env) devMemFilePath) (\<lambda>mem.
     andThen (wrapping ''error traversing for UEFI Event Address'' (file_Seek (sint uefiEventAddr)))
       (\<lambda>pos.
     andThen (wrapping ''error reading UEFI Event Log'' (io_ReadFull mem pos (unat uefiEventSize)))
       (\<lambda>(eventLogBuffer, _). Ret eventLogBuffer)))"

definition uefiGetEventLogs :: "log_env \<Rightarrow> string \<Rightarrow> string \<Rightarrow> PcrEventLog list go" where
  "uefiGetEventLogs env tpm2FilePath devMemFilePath =
     andThen (stat_open (files env) tpm2FilePath) (\<lambda>tpm2.
     andThen (wrapping ''error reading TPM2 Signature'' (io_ReadFull tpm2 0 Uint32Size)) (\<lambda>(tpm2Sig, pos).
     if Tpm2Signature \<noteq> string_of_bytes tpm2Sig then Fail (NewErr ''Invalid TPM2 Signature'')
     else
     andThen (wrapping ''error reading TPM2 File Length'' (io_ReadFull tpm2 pos Uint32Size)) (\<lambda>(tpm2len, pos).
     let tpm2FileLength = get_u32 tpm2len
     in if tpm2FileLength < Tpm2FileLength then Fail (NewErr ''UEFI Event Info missing'')
     else
     andThen (wrapping ''error traversing for UEFI Event Base Offset'' (file_Seek UefiBaseOffset))
       (\<lambda>pos.
     andThen (wrapping ''error reading UEFI Event Address'' (io_ReadFull tpm2 pos Uint64Size))
       (\<lambda>(uefiEventAddr, _).
     andThen (wrapping ''error traversing for UEFI Event Size Offset'' (file_Seek UefiSizeOffset))
       (\<lambda>pos.
     andThen (wrapping ''error reading UEFI Event Size'' (io_ReadFull tpm2 pos Uint32Size))
       (\<lambda>(uefiEventSize, _).
     let uefiEventSizeLE = get_u32 uefiEventSize;
         uefiEventAddrLE = get_u64 uefiEventAddr
     in andThen (wrapping ''error reading UEFI Event Log''
                   (readUefiEvent env devMemFilePath uefiEventSizeLE uefiEventAddrLE)) (\<lambda>buf.
        parse_log env buf uefiEventSizeLE False))))))))"

section \<open>TXT\<close>

definition TxtHeapBaseOffset :: int where "TxtHeapBaseOffset = 0xFED30300"
definition TxtHeapSizeOffset :: int where "TxtHeapSizeOffset = 0xFED30308"
definition ExtDataElementOffset :: uint64 where "ExtDataElementOffset = 92"

text \<open>
  \<^verbatim>\<open>mmap[off:]\<close>, \<^verbatim>\<open>mmap[lo:hi]\<close> and the little-endian readers of \<^verbatim>\<open>encoding/binary\<close>, which panic
  on a slice that is too short.
\<close>

definition slice_from :: "byte list \<Rightarrow> uint64 \<Rightarrow> byte list go" where
  "slice_from mm off = (if length mm < unat off then Panic SliceBounds else Ret (drop (unat off) mm))"

definition slice_between :: "byte list \<Rightarrow> uint64 \<Rightarrow> uint64 \<Rightarrow> byte list go" where
  "slice_between mm lo hi =
     (if length mm < unat hi \<or> unat hi < unat lo then Panic SliceBounds
      else Ret (take (unat hi - unat lo) (drop (unat lo) mm)))"

definition le_Uint32 :: "byte list \<Rightarrow> uint32 go" where
  "le_Uint32 b = (if length b < 4 then Panic IndexOutOfRange else Ret (get_u32 (take 4 b)))"

definition le_Uint64 :: "byte list \<Rightarrow> uint64 go" where
  "le_Uint64 b = (if length b < 8 then Panic IndexOutOfRange else Ret (get_u64 (take 8 b)))"

definition u32_at :: "byte list \<Rightarrow> uint64 \<Rightarrow> uint32 go" where
  "u32_at mm off = andThen (slice_from mm off) le_Uint32"

definition u64_at :: "byte list \<Rightarrow> uint64 \<Rightarrow> uint64 go" where
  "u64_at mm off = andThen (slice_from mm off) le_Uint64"

text \<open>The walk through the mapped TXT heap.\<close>

definition txtHeapLogs :: "log_env \<Rightarrow> byte list \<Rightarrow> uint64 \<Rightarrow> PcrEventLog list go" where
  "txtHeapLogs env mm txtHeapBaseAddrLE =
     andThen (u64_at mm 0) (\<lambda>biosDataSize.
     andThen (u64_at mm biosDataSize) (\<lambda>osMleDataSize.
     if osMleDataSize \<le> 0 then Fail (NewErr ''Invalid osMleDataSize'')
     else
     andThen (u32_at mm (biosDataSize + osMleDataSize + Uint64Size)) (\<lambda>osSinitVersion.
     if \<not> osSinitVersion \<ge> 6 then Fail (NewErr ''OSInitData.Version was less than 6'')
     else
     let ext = biosDataSize + osMleDataSize + Uint64Size + ExtDataElementOffset
     in andThen (u32_at mm ext) (\<lambda>osSinitExtType.
     if osSinitExtType \<noteq> 0x8 then Fail (NewErr ''OsSinitData.ExtDataElements[0].Type was not 0x8'')
     else
     andThen (u64_at mm (ext + Uint64Size)) (\<lambda>physicalAddress.
     andThen (u32_at mm (ext + Uint64Size + Uint64Size)) (\<lambda>allocatedEventContainerSize.
     andThen (u32_at mm (ext + Uint64Size + Uint64Size + Uint32Size)) (\<lambda>firstRecordOffset.
     andThen (u32_at mm (ext + Uint64Size + Uint64Size + Uint32Size + Uint32Size)) (\<lambda>nextRecordOffset.
     let firstEventLogOffset = (physicalAddress - txtHeapBaseAddrLE) + ucast firstRecordOffset
     in andThen (slice_between mm firstEventLogOffset
                   (firstEventLogOffset + ucast allocatedEventContainerSize)) (\<lambda>firstEventLogBuffer.
     andThen (parse_log env firstEventLogBuffer allocatedEventContainerSize True) (\<lambda>txtEventLogs.
     if nextRecordOffset \<noteq> 0 then
       let nextEventLogOffset = (physicalAddress - txtHeapBaseAddrLE) + ucast nextRecordOffset
       in andThen (slice_from mm nextEventLogOffset) (\<lambda>nextEventLogBuffer.
          wrapping ''error while creating measure-log for next set of TXT Events''
            (createMeasureLog (print_table env) nextEventLogBuffer
               (allocatedEventContainerSize - ucast nextEventLogOffset) txtEventLogs True))
     else Ret txtEventLogs))))))))))"

definition txtGetEventLogs :: "log_env \<Rightarrow> string \<Rightarrow> int \<Rightarrow> int \<Rightarrow> PcrEventLog list go" where
  "txtGetEventLogs env devMemFilePath txtHeapBaseOffset txtHeapSizeOffset =
     andThen (stat_open (files env) devMemFilePath) (\<lambda>mem.
     andThen (wrapping ''error traversing for TXT Heap Base Offset'' (file_Seek txtHeapBaseOffset))
       (\<lambda>pos.
     andThen (wrapping ''error reading TXT Heap Base Address'' (io_ReadFull mem pos Uint64Size))
       (\<lambda>(txtHeapBaseAddr, _).
     andThen (wrapping ''error traversing for TXT Heap Size Offset'' (file_Seek txtHeapSizeOffset))
       (\<lambda>pos.
     andThen (wrapping ''error reading TXT Heap Size'' (io_ReadFull mem pos Uint64Size))
       (\<lambda>(txtHeapSize, _).
     let txtHeapSizeLE = get_u64 txtHeapSize;
         txtHeapBaseAddrLE = get_u64 txtHeapBaseAddr
     in andThen (wrapping ''error reading TXT Heap Data''
                   (sys_mmap env mem (sint txtHeapBaseAddrLE) (sint txtHeapSizeLE)))
          (\<lambda>mm. txtHeapLogs env mm txtHeapBaseAddrLE))))))"

section \<open>Application events\<close>

definition AppEventTypeID :: string where "AppEventTypeID = ''0x90000001''"
definition AppEventName :: string where "AppEventName = ''APPLICATION_AGENT_MEASUREMENT''"

text \<open>One line: bank, PCR index, tag and measurement, separated by tabs.\<close>

definition app_entry :: "string \<Rightarrow> entry go" where
  "app_entry line =
     (let array = split_on TAB line
      in if length array \<le> 1 then Panic IndexOutOfRange
         else
         andThen (wrapping ''error while converting string to integer'' (strconv_Atoi (array ! 1)))
           (\<lambda>index.
         if length array \<le> 2 then Panic IndexOutOfRange
         else if length array \<le> 3 then Panic IndexOutOfRange
         else Ret (\<lparr>Index = word_of_int index, Bank = array ! 0\<rparr>,
                   \<lparr>TypeID = AppEventTypeID, TypeName = AppEventName, Tags = [array ! 2],
                    Measurement = array ! 3\<rparr>)))"

fun app_loop :: "PcrEventLog list \<Rightarrow> string list \<Rightarrow> PcrEventLog list go" where
  "app_loop appEventLogs [] = Ret appEventLogs"
| "app_loop appEventLogs (line # rest) =
     andThen (app_entry line) (\<lambda>(pcr, ev). app_loop (addAppEvent appEventLogs pcr ev) rest)"

definition appGetEventLogs :: "log_env \<Rightarrow> string \<Rightarrow> PcrEventLog list go" where
  "appGetEventLogs env appEventFilePath =
     andThen (stat_open (files env) appEventFilePath) (\<lambda>contents.
     app_loop [] (scan_lines (string_of_bytes contents)))"

section \<open>The parser interface and the aggregate\<close>

datatype EventLogParser =
    fileEventLogParser string
  | uefiEventLogParser string string
  | txtEventLogParser string int int
  | appEventLogParser string

fun GetEventLogs :: "log_env \<Rightarrow> EventLogParser \<Rightarrow> PcrEventLog list go" where
  "GetEventLogs env (fileEventLogParser file) = fileGetEventLogs env file"
| "GetEventLogs env (uefiEventLogParser tpm2FilePath devMemFilePath) =
     uefiGetEventLogs env tpm2FilePath devMemFilePath"
| "GetEventLogs env (txtEventLogParser devMemFilePath baseOffset sizeOffset) =
     txtGetEventLogs env devMemFilePath baseOffset sizeOffset"
| "GetEventLogs env (appEventLogParser path) = appGetEventLogs env path"

definition NewEventLogParser :: "string \<Rightarrow> string \<Rightarrow> EventLogParser list" where
  "NewEventLogParser uefiEventLogFile txtEventLogFile =
     [(if uefiEventLogFile \<noteq> [] then fileEventLogParser uefiEventLogFile
       else uefiEventLogParser Tpm2FilePath DevMemFilePath),
      (if txtEventLogFile \<noteq> [] then fileEventLogParser txtEventLogFile
       else txtEventLogParser DevMemFilePath TxtHeapBaseOffset TxtHeapSizeOffset),
      appEventLogParser AppEventFilePath]"

text \<open>A failing parser is logged and skipped; a panic is not recovered.\<close>

fun aggregate_loop ::
  "log_env \<Rightarrow> PcrEventLog list \<Rightarrow> EventLogParser list \<Rightarrow> PcrEventLog list go" where
  "aggregate_loop env eventLogs [] = Ret eventLogs"
| "aggregate_loop env eventLogs (parser # parsers) =
     (case GetEventLogs env parser of
        Ret events \<Rightarrow> aggregate_loop env (eventLogs @ events) parsers
      | Fail err \<Rightarrow> aggregate_loop env eventLogs parsers
      | Panic p \<Rightarrow> Panic p)"

definition aggregateGetEventLogs :: "log_env \<Rightarrow> EventLogParser list \<Rightarrow> PcrEventLog list go" where
  "aggregateGetEventLogs env parsers = aggregate_loop env [] parsers"

lemmas parser_defs = parse_log_def fileGetEventLogs_def readUefiEvent_def uefiGetEventLogs_def
  txtHeapLogs_def txtGetEventLogs_def appGetEventLogs_def

declare parser_defs [eval_simps] Tpm2Signature_def [eval_simps] Tpm2FileLength_def [eval_simps]
  UefiBaseOffset_def [eval_simps] UefiSizeOffset_def [eval_simps]
  TxtHeapBaseOffset_def [eval_simps] TxtHeapSizeOffset_def [eval_simps]
  ExtDataElementOffset_def [eval_simps] slice_from_def [eval_simps] slice_between_def [eval_simps]
  le_Uint32_def [eval_simps] le_Uint64_def [eval_simps] u32_at_def [eval_simps] u64_at_def [eval_simps]
  AppEventTypeID_def [eval_simps] AppEventName_def [eval_simps] app_entry_def [eval_simps]
  NewEventLogParser_def [eval_simps] aggregateGetEventLogs_def [eval_simps]

section \<open>The contract of a parser\<close>

text \<open>
  What the aggregate and the quote rely on: a returned log satisfies the invariant of logs; a log
  in the binary format has, besides, complete digests filed under PCRs of the TPM.
\<close>

locale event_log_parser =
  fixes getLogs :: "log_env \<Rightarrow> PcrEventLog list go"
  assumes getLogs_inv: "getLogs env = Ret logs \<Longrightarrow> log_inv logs"
begin

lemma getLogs_nonempty: "getLogs env = Ret logs \<Longrightarrow> l \<in> set logs \<Longrightarrow> TpmEvents l \<noteq> []"
  using getLogs_inv by (auto simp: log_inv_def)

lemma getLogs_lookup:
  "getLogs env = Ret logs \<Longrightarrow> l \<in> set logs \<Longrightarrow> events_of logs (Pcr l) = TpmEvents l"
  using getLogs_inv by (auto simp: log_inv_def intro: events_of_entry)

end

locale binary_log_parser = event_log_parser +
  assumes getLogs_digests: "getLogs env = Ret logs \<Longrightarrow> all_events digest_ok logs"
begin

lemma getLogs_entry:
  assumes "getLogs env = Ret logs" and "l \<in> set logs"
  shows "unat (Index (Pcr l)) \<le> 23"
  using getLogs_nonempty [OF assms] getLogs_digests [OF assms(1)] assms(2)
  by (cases "TpmEvents l") (auto simp: all_events_def digest_ok_def)

end

lemma createMeasureLog_ok:
  "createMeasureLog table buf logSize logs txt = Ret logs' \<Longrightarrow> log_inv logs \<Longrightarrow>
     all_events digest_ok logs \<Longrightarrow> log_inv logs' \<and> all_events digest_ok logs'"
  using measure_loop_inv unfolding createMeasureLog_def by blast

lemma parse_log_ok: "parse_log env buf logSize txt = Ret logs \<Longrightarrow> log_inv logs \<and> all_events digest_ok logs"
  by (auto simp: parse_log_def andThen_eq_Ret dest: createMeasureLog_ok)

lemma uefiGetEventLogs_parsed:
  "uefiGetEventLogs env t m = Ret logs \<Longrightarrow> \<exists>buf sz. parse_log env buf sz False = Ret logs"
  by (auto simp: uefiGetEventLogs_def andThen_eq_Ret Let_def split: if_splits)

lemma txtHeapLogs_parsed:
  "txtHeapLogs env mm base = Ret logs \<Longrightarrow>
     \<exists>buf sz logs0. parse_log env buf sz True = Ret logs0 \<and>
       (logs = logs0 \<or> (\<exists>buf' sz'. createMeasureLog (print_table env) buf' sz' logs0 True = Ret logs))"
  unfolding txtHeapLogs_def Let_def
  by (simp add: andThen_eq_Ret split: if_splits) blast+

lemma app_loop_fold:
  "app_loop logs ls = Ret logs' \<Longrightarrow>
     \<exists>es. logs' = foldl (\<lambda>l (k, e). addAppEvent l k e) logs es \<and> list_all2 (\<lambda>l e. app_entry l = Ret e) ls es"
proof (induction ls arbitrary: logs)
  case (Cons l ls)
  then obtain k e where "app_entry l = Ret (k, e)" "app_loop (addAppEvent logs k e) ls = Ret logs'"
    by (auto simp: andThen_eq_Ret)
  moreover from Cons.IH [OF this(2)] obtain es where
    "logs' = foldl (\<lambda>l (k, e). addAppEvent l k e) (addAppEvent logs k e) es"
    "list_all2 (\<lambda>l e. app_entry l = Ret e) ls es" by blast
  ultimately show ?case by (intro exI [of _ "(k, e) # es"]) simp
qed simp

interpretation file_parser: binary_log_parser "\<lambda>env. fileGetEventLogs env path" for path
  by unfold_locales (auto simp: fileGetEventLogs_def andThen_eq_Ret dest: parse_log_ok)

interpretation uefi_parser: binary_log_parser "\<lambda>env. uefiGetEventLogs env tpm2 mem" for tpm2 mem
  by unfold_locales (auto dest!: uefiGetEventLogs_parsed parse_log_ok)

lemma txtGetEventLogs_ok:
  assumes "txtGetEventLogs env mem b s = Ret logs"
  shows "log_inv logs \<and> all_events digest_ok logs"
proof -
  from assms obtain mm base where "txtHeapLogs env mm base = Ret logs"
    by (auto simp: txtGetEventLogs_def andThen_eq_Ret Let_def)
  from txtHeapLogs_parsed [OF this] show ?thesis
    using parse_log_ok createMeasureLog_ok by blast
qed

interpretation txt_parser: binary_log_parser "\<lambda>env. txtGetEventLogs env mem b s" for mem b s
  by unfold_locales (auto dest: txtGetEventLogs_ok)

lemma appGetEventLogs_group:
  assumes "appGetEventLogs env path = Ret logs"
  shows "\<exists>es. logs = group_events es"
  using assms app_loop_fold [of "[]" _ logs] app_log.fold_is_group
  unfolding appGetEventLogs_def andThen_eq_Ret by metis

lemma log_inv_group: "log_inv (group_events es)"
  using pcr_log.inv_fold [of "[]" es] by (simp add: pcr_log.fold_is_group)

interpretation app_parser: event_log_parser "\<lambda>env. appGetEventLogs env path" for path
  using appGetEventLogs_group log_inv_group by unfold_locales blast

interpretation any_parser: event_log_parser "\<lambda>env. GetEventLogs env parser" for parser
  using file_parser.getLogs_inv uefi_parser.getLogs_inv txt_parser.getLogs_inv app_parser.getLogs_inv
  by unfold_locales (cases parser; auto)

section \<open>Encoded logs behind the parsers\<close>

definition enc_spec_event :: "uint32 \<Rightarrow> uint32 \<Rightarrow> byte list \<Rightarrow> byte list \<Rightarrow> byte list" where
  "enc_spec_event pcr t digest dat =
     put_u32 pcr @ put_u32 t @ digest @ put_u32 (of_nat (length dat)) @ dat"

definition is_spec_event :: "byte list \<Rightarrow> bool" where
  "is_spec_event h \<longleftrightarrow> 32 \<le> length h \<and> length h < 2 ^ 32 \<and>
     unat (get_u32 (take 4 (drop 28 h))) = length h - 32"

declare enc_spec_event_def [eval_simps] is_spec_event_def [eval_simps]

lemma is_spec_event_enc:
  "length digest = 20 \<Longrightarrow> 32 + length dat < 2 ^ 32 \<Longrightarrow> is_spec_event (enc_spec_event pcr t digest dat)"
  by (simp add: enc_spec_event_def is_spec_event_def u32.dec_enc unat_of_nat)

lemma parseTcgSpecEvent_skips:
  assumes "is_spec_event h" and "length h \<le> unat logSize"
  shows "\<exists>sz. parseTcgSpecEvent (h @ buf) logSize = Ret (buf, sz) \<and> unat sz = unat logSize - length h"
proof -
  let ?n = "get_u32 (take 4 (drop 28 h))"
  have n: "unat ?n = length h - 32" "32 \<le> length h" "length h < 2 ^ 32"
    using assms(1) by (auto simp: is_spec_event_def)
  have "unat (?n + 32) = length h" using n by (simp add: unat_word_ariths)
  then have "unat (logSize - (?n + 32)) = unat logSize - length h"
    using assms(2) by (simp add: unat_sub word_le_nat_alt)
  moreover have "parseTcgSpecEvent (h @ buf) logSize = Ret (buf, logSize - (?n + 32))"
    using n by (simp add: parseTcgSpecEvent_def binary_read_ok)
  ultimately show ?thesis by blast
qed

lemma parse_log_enc:
  assumes "is_spec_event h" and "list_all wf_event evs"
    and "length h + length (enc_log evs) \<le> unat logSize"
    and "log_stops (unat logSize - length h) (length (enc_log evs)) rest"
  shows "parse_log env (h @ enc_log evs @ rest) logSize txt =
    andThen (log_entries (print_table env) txt 0 evs) (\<lambda>es. Ret (group_events es))"
proof -
  have "length h \<le> unat logSize" using assms(3) by simp
  from parseTcgSpecEvent_skips [OF assms(1) this, of "enc_log evs @ rest"] obtain sz where
    sz: "parseTcgSpecEvent (h @ enc_log evs @ rest) logSize = Ret (enc_log evs @ rest, sz)"
      "unat sz = unat logSize - length h" by blast
  have "createMeasureLog (print_table env) (enc_log evs @ rest) sz [] txt =
      andThen (log_entries (print_table env) txt 0 evs) (\<lambda>es. Ret (group_events es))"
    using measure_loop_enc [of evs 0 sz "print_table env" "txt" "[]" 0 rest] assms sz(2)
      measure_loop_stop [of sz "length (enc_log evs)" rest]
    by (simp add: createMeasureLog_def add_entries_group)
  then show ?thesis
    using sz(1) by (cases "log_entries (print_table env) txt 0 evs") (simp_all add: parse_log_def)
qed

text \<open>The ACPI table that points at the UEFI log.\<close>

definition tpm2_points :: "byte list \<Rightarrow> uint64 \<Rightarrow> uint32 \<Rightarrow> bool" where
  "tpm2_points t addr sz \<longleftrightarrow>
     76 \<le> length t \<and> string_of_bytes (take 4 t) = Tpm2Signature \<and>
     get_u32 (take 4 (drop 4 t)) \<ge> 76 \<and>
     get_u32 (take 4 (drop 64 t)) = sz \<and> get_u64 (take 8 (drop 68 t)) = addr"

text \<open>The fields of the TXT heap that lead to the event log container.\<close>

record txt_heap =
  bios_size :: uint64
  mle_size :: uint64
  container_addr :: uint64
  container_size :: uint32
  first_record :: uint32
  next_record :: uint32

definition heap_layout :: "byte list \<Rightarrow> txt_heap \<Rightarrow> bool" where
  "heap_layout mm h \<longleftrightarrow>
     (let sinit = bios_size h + mle_size h + 8; ext = sinit + ExtDataElementOffset
      in u64_at mm 0 = Ret (bios_size h) \<and> u64_at mm (bios_size h) = Ret (mle_size h) \<and>
         mle_size h \<noteq> 0 \<and>
         (case u32_at mm sinit of Ret v \<Rightarrow> 6 \<le> v | _ \<Rightarrow> False) \<and>
         u32_at mm ext = Ret 8 \<and> u64_at mm (ext + 8) = Ret (container_addr h) \<and>
         u32_at mm (ext + 16) = Ret (container_size h) \<and>
         u32_at mm (ext + 20) = Ret (first_record h) \<and>
         u32_at mm (ext + 24) = Ret (next_record h))"

definition first_offset :: "txt_heap \<Rightarrow> uint64 \<Rightarrow> uint64" where
  "first_offset h base = container_addr h - base + ucast (first_record h)"

definition next_offset :: "txt_heap \<Rightarrow> uint64 \<Rightarrow> uint64" where
  "next_offset h base = container_addr h - base + ucast (next_record h)"

declare tpm2_points_def [eval_simps] heap_layout_def [eval_simps] first_offset_def [eval_simps]
  next_offset_def [eval_simps]

text \<open>
  What the heap holds at the offset of the next record: encoded events and something at which the loop
  stops, within the size the parser computes for this part; without a next record there are none.
\<close>

definition second_part :: "byte list \<Rightarrow> uint64 \<Rightarrow> txt_heap \<Rightarrow> tcg_event list \<Rightarrow> bool" where
  "second_part mm base h evs \<longleftrightarrow>
     (if next_record h = 0 then evs = []
      else list_all wf_event evs \<and>
        (\<exists>rest. slice_from mm (next_offset h base) = Ret (enc_log evs @ rest) \<and>
           length (enc_log evs) \<le> unat (container_size h - ucast (next_offset h base)) \<and>
           log_stops (unat (container_size h - ucast (next_offset h base))) (length (enc_log evs)) rest))"

lemma parse_second_part:
  assumes "list_all wf_event evs" and "length (enc_log evs) \<le> unat sz"
    and "log_stops (unat sz) (length (enc_log evs)) rest"
  shows "createMeasureLog table (enc_log evs @ rest) sz logs True = Ret (add_entries logs (txt_entries 0 evs))"
  using measure_loop_enc [of evs 0 sz table True logs 0 rest] measure_loop_stop [OF assms(3)] assms(1,2)
  by (simp add: createMeasureLog_def log_entries_txt)

lemma heap_walk:
  assumes "heap_layout mm h"
    and "slice_between mm (first_offset h base)
           (first_offset h base + ucast (container_size h)) = Ret container"
    and "parse_log env container (container_size h) True = Ret logs"
    and "second_part mm base h evs"
  shows "txtHeapLogs env mm base = Ret (add_entries logs (txt_entries 0 evs))"
proof -
  obtain v where v: "u32_at mm (bios_size h + mle_size h + 8) = Ret v" "6 \<le> v"
    using assms(1) by (auto simp: heap_layout_def Let_def split: go.splits)
  have reads: "u64_at mm 0 = Ret (bios_size h)" "u64_at mm (bios_size h) = Ret (mle_size h)"
    "mle_size h \<noteq> 0" "u32_at mm (bios_size h + mle_size h + 8 + ExtDataElementOffset) = Ret 8"
    "u64_at mm (bios_size h + mle_size h + 8 + ExtDataElementOffset + 8) = Ret (container_addr h)"
    "u32_at mm (bios_size h + mle_size h + 8 + ExtDataElementOffset + 8 + 8) = Ret (container_size h)"
    "u32_at mm (bios_size h + mle_size h + 8 + ExtDataElementOffset + 8 + 8 + 4) = Ret (first_record h)"
    "u32_at mm (bios_size h + mle_size h + 8 + ExtDataElementOffset + 8 + 8 + 4 + 4) = Ret (next_record h)"
    using assms(1) by (simp_all add: heap_layout_def Let_def add.assoc)
  show ?thesis
  proof (cases "next_record h = 0")
    case True
    then show ?thesis
      using assms(2-4) reads v unfolding txtHeapLogs_def Let_def first_offset_def second_part_def by auto
  next
    case False
    then obtain rest where rest: "list_all wf_event evs"
      "slice_from mm (next_offset h base) = Ret (enc_log evs @ rest)"
      "length (enc_log evs) \<le> unat (container_size h - ucast (next_offset h base))"
      "log_stops (unat (container_size h - ucast (next_offset h base))) (length (enc_log evs)) rest"
      using assms(4) unfolding second_part_def by auto
    show ?thesis
      using assms(2,3) reads v False rest(2) parse_second_part [OF rest(1,3,4), of "print_table env" logs]
      unfolding txtHeapLogs_def Let_def first_offset_def next_offset_def by auto
  qed
qed

text \<open>The lines of the application event file.\<close>

record app_event =
  app_bank :: string
  app_pcr :: nat
  app_tag :: string
  app_measurement :: string

definition enc_app :: "app_event \<Rightarrow> string" where
  "enc_app e = join_with TAB [app_bank e, dec_nat (app_pcr e), app_tag e, app_measurement e]"

definition wf_app :: "app_event \<Rightarrow> bool" where
  "wf_app e \<longleftrightarrow>
     list_all (\<lambda>s. TAB \<notin> set s \<and> LF \<notin> set s \<and> CR \<notin> set s) [app_bank e, app_tag e, app_measurement e] \<and>
     app_pcr e < 2 ^ 32 \<and> length (enc_app e) < MaxScanTokenSize"

definition app_record :: "app_event \<Rightarrow> entry" where
  "app_record e =
     (\<lparr>Index = of_nat (app_pcr e), Bank = app_bank e\<rparr>,
      \<lparr>TypeID = AppEventTypeID, TypeName = AppEventName, Tags = [app_tag e],
       Measurement = app_measurement e\<rparr>)"

declare enc_app_def [eval_simps] wf_app_def [eval_simps] app_record_def [eval_simps]

lemma dec_nat_no_separators [simp]:
  "TAB \<notin> set (dec_nat n)" "LF \<notin> set (dec_nat n)" "CR \<notin> set (dec_nat n)"
  by (simp_all add: dec_nat_not_char of_char_def)

lemma split_enc_app:
  "wf_app e \<Longrightarrow> split_on TAB (enc_app e) = [app_bank e, dec_nat (app_pcr e), app_tag e, app_measurement e]"
  unfolding enc_app_def by (rule split_on_join) (auto simp: wf_app_def)

lemma app_entry_enc: "wf_app e \<Longrightarrow> app_entry (enc_app e) = Ret (app_record e)"
  by (simp add: app_entry_def split_enc_app app_record_def strconv_Atoi_dec_nat wf_app_def)

lemma enc_app_line:
  "wf_app e \<Longrightarrow> LF \<notin> set (enc_app e) \<and> CR \<notin> set (enc_app e) \<and> length (enc_app e) < MaxScanTokenSize"
  by (simp add: wf_app_def enc_app_def)

lemma app_loop_enc:
  "list_all wf_app es \<Longrightarrow>
     app_loop logs (map enc_app es) = Ret (foldl (\<lambda>l (k, e). addAppEvent l k e) logs (map app_record es))"
  by (induction es arbitrary: logs) (auto simp: app_entry_enc split: prod.split)

section \<open>Properties\<close>

text \<open>A small host for the examples below.\<close>

definition sample_mmap :: "byte list \<Rightarrow> int \<Rightarrow> int \<Rightarrow> byte list go" where
  "sample_mmap mem off len =
     (if off < 0 \<or> len \<le> 0 then Fail (IOError ''invalid argument'')
      else Ret (take (nat len) (drop (nat off) mem)))"

definition sample_env :: "(string \<times> byte list) list \<Rightarrow> log_env" where
  "sample_env fs =
     \<lparr>files = (\<lambda>p. case map_of fs p of None \<Rightarrow> Absent | Some bs \<Rightarrow> Contents bs),
      sys_mmap = sample_mmap, print_table = (\<lambda>r. False)\<rparr>"

definition sample_header :: "byte list" where
  "sample_header = enc_spec_event 0 3 (replicate 20 0) []"

definition sample_heap :: txt_heap where
  "sample_heap = \<lparr>bios_size = 8, mle_size = 8, container_addr = 160, container_size = 82,
     first_record = 0, next_record = 82\<rparr>"

definition sample_heap_bytes :: "byte list" where
  "sample_heap_bytes =
     put_u64 8 @ put_u64 8 @ replicate 8 0 @ put_u32 6 @ replicate 88 0 @
     put_u32 8 @ put_u32 28 @ put_u64 160 @ put_u32 82 @ put_u32 0 @ put_u32 82 @
     sample_header @ enc_log [sample_mle 17 1] @ enc_log [sample_mle 17 2] @ replicate 12 0"

declare sample_mmap_def [eval_simps] sample_env_def [eval_simps] sample_header_def [eval_simps]
  sample_heap_def [eval_simps]

lemma sample_header_ok [simp]: "is_spec_event sample_header" "length sample_header = 32"
  by (simp_all add: sample_header_def is_spec_event_enc) (simp add: enc_spec_event_def)

lemma sample_separator_ok [simp]: "wf_event sample_separator" "length (enc_event sample_separator) = 42"
  by (simp_all add: eval_simps)

lemma sample_separator_entries:
  "log_entries table False i [sample_separator] =
     Ret [(\<lparr>Index = 7, Bank = ''SHA1''\<rparr>, \<lparr>TypeID = ''0x4'', TypeName = ''EV_SEPARATOR'', Tags = [],
           Measurement = concat (replicate 20 ''ab'')\<rparr>)]"
  by (simp add: eval_simps)


text \<open>
  The file parser reads a log file (header event, then well-formed events) into the digests of
  the events grouped by PCR index and bank.
\<close>

lemma fileGetEventLogs_reads:
  assumes "files env path = Contents (h @ enc_log evs)" and "is_spec_event h"
    and "list_all wf_event evs" and "length h + length (enc_log evs) < 2 ^ 32"
  shows "GetEventLogs env (fileEventLogParser path) =
    andThen (log_entries (print_table env) False 0 evs) (\<lambda>es. Ret (group_events es))"
proof -
  have sz: "unat (of_nat (length (h @ enc_log evs)) :: uint32) = length h + length (enc_log evs)"
    using assms(4) unfolding unat_of_nat length_append by simp
  then have "log_stops (unat (of_nat (length (h @ enc_log evs)) :: uint32) - length h)
      (length (enc_log evs)) []"
    by (simp only: log_stops_def) simp
  from parse_log_enc [OF assms(2,3) _ this, of env False] show ?thesis
    using assms(1) sz by (simp add: fileGetEventLogs_def ioutil_ReadFile_def os_Open_def)
qed

text \<open>
  C26: the UEFI parser follows the ACPI table to the log in physical memory and reads it: with the
  table and the log in place, the result is the digests of the events grouped by PCR and bank.
\<close>

theorem uefiGetEventLogs_reads:
  assumes "files env tpm2 = Contents t" and "tpm2_points t addr sz"
    and "files env devmem = Contents mem" and "unat addr < 2 ^ 63"
    and "unat addr + unat sz \<le> length mem"
    and "take (unat sz) (drop (unat addr) mem) = h @ enc_log evs @ rest"
    and "is_spec_event h" and "list_all wf_event evs"
    and "log_stops (unat sz - length h) (length (enc_log evs)) rest"
  shows "GetEventLogs env (uefiEventLogParser tpm2 devmem) =
    andThen (log_entries (print_table env) False 0 evs) (\<lambda>es. Ret (group_events es))"
proof -
  have addr: "sint addr = int (unat addr)" using assms(4) by (rule sint_nonneg_u64)
  have "length (h @ enc_log evs @ rest) = unat sz"
    using assms(5) by (simp only: assms(6) [symmetric]) simp
  then have "length h + length (enc_log evs) \<le> unat sz" by simp
  note parsed = parse_log_enc [OF assms(7,8) this assms(9), of env False]
  have "readUefiEvent env devmem sz addr = Ret (h @ enc_log evs @ rest)"
    using assms(3-6) addr by (simp add: readUefiEvent_def io_ReadFull_ok)
  moreover have "\<not> get_u32 (take 4 (drop 4 t)) < 76"
    using assms(2) by (auto simp: tpm2_points_def)
  ultimately show ?thesis
    using assms(1,2) parsed
    by (simp add: uefiGetEventLogs_def io_ReadFull_ok tpm2_points_def UefiBaseOffset_def
        UefiSizeOffset_def Tpm2FileLength_def)
qed

theorem uefiGetEventLogs_reads_witness:
  "GetEventLogs (sample_env
      [(''TPM2'', [0x54, 0x50, 0x4D, 0x32] @ put_u32 76 @ replicate 56 0 @ put_u32 74 @ put_u64 5),
       (''mem'', replicate 5 0xff @ sample_header @ enc_log [sample_separator])])
     (uefiEventLogParser ''TPM2'' ''mem'') =
   Ret [\<lparr>Pcr = \<lparr>Index = 7, Bank = ''SHA1''\<rparr>,
         TpmEvents = [\<lparr>TypeID = ''0x4'', TypeName = ''EV_SEPARATOR'', Tags = [],
                       Measurement = concat (replicate 20 ''ab'')\<rparr>]\<rparr>]"
proof -
  have "tpm2_points ([0x54, 0x50, 0x4D, 0x32] @ put_u32 76 @ replicate 56 0 @ put_u32 74 @ put_u64 5) 5 74"
    by (simp add: eval_simps)
  from uefiGetEventLogs_reads [of "sample_env
      [(''TPM2'', [0x54, 0x50, 0x4D, 0x32] @ put_u32 76 @ replicate 56 0 @ put_u32 74 @ put_u64 5),
       (''mem'', replicate 5 0xff @ sample_header @ enc_log [sample_separator])]" "''TPM2''",
      OF _ this, of "''mem''" "replicate 5 0xff @ sample_header @ enc_log [sample_separator]"
        sample_header "[sample_separator]" "[]"]
  show ?thesis
    by (simp add: sample_env_def enc_log_def sample_separator_entries group_events_def
      first_occurrences_def log_stops_def del: log_entries.simps)
qed

text \<open>
  C25: the TXT parser walks the TXT heap to the event log container and reads its two parts: the result is
  the digests of the events of the container and, after them, of the events at the offset of the next
  record, all grouped by PCR and bank; the occurrences of event 0x501 are counted anew in the second
  part. There is no second part when the offset of the next record is zero.
\<close>

theorem txtGetEventLogs_reads:
  assumes "files env devmem = Contents mem" and "0 \<le> bo" and "0 \<le> so"
    and "nat bo + 8 \<le> length mem" and "nat so + 8 \<le> length mem"
    and "get_u64 (take 8 (drop (nat bo) mem)) = base"
    and "sys_mmap env mem (sint base) (sint (get_u64 (take 8 (drop (nat so) mem)))) = Ret mm"
    and "heap_layout mm hp"
    and "slice_between mm (first_offset hp base) (first_offset hp base + ucast (container_size hp)) =
           Ret (h @ enc_log evs @ rest)"
    and "is_spec_event h" and "list_all wf_event evs"
    and "length h + length (enc_log evs) \<le> unat (container_size hp)"
    and "log_stops (unat (container_size hp) - length h) (length (enc_log evs)) rest"
    and "second_part mm base hp evs2"
  shows "GetEventLogs env (txtEventLogParser devmem bo so) =
    Ret (group_events (txt_entries 0 evs @ txt_entries 0 evs2))"
proof -
  have "parse_log env (h @ enc_log evs @ rest) (container_size hp) True =
      Ret (group_events (txt_entries 0 evs))"
    using parse_log_enc [OF assms(10-13), of env True] by (simp add: log_entries_txt)
  from heap_walk [OF assms(8,9) this assms(14)]
  have "txtHeapLogs env mm base = Ret (group_events (txt_entries 0 evs @ txt_entries 0 evs2))"
    by (simp flip: add_entries_group)
  then show ?thesis using assms(1-7) by (simp add: txtGetEventLogs_def io_ReadFull_ok)
qed

theorem txtGetEventLogs_reads_witness:
  "\<exists>logs. GetEventLogs (sample_env [(''mem'', put_u64 16 @ put_u64 288 @ sample_heap_bytes)])
     (txtEventLogParser ''mem'' 0 8) = Ret logs \<and>
   map (\<lambda>l. (unat (Index (Pcr l)), map Measurement (TpmEvents l))) logs =
     [(17, [hex_EncodeToString (replicate 32 1), hex_EncodeToString (replicate 32 2)])]"
proof -
  let ?env = "sample_env [(''mem'', put_u64 16 @ put_u64 288 @ sample_heap_bytes)]"
  have len: "length sample_heap_bytes = 288"
    by (simp add: sample_heap_bytes_def enc_log_def length_sample_mle)
  have layout: "heap_layout sample_heap_bytes sample_heap"
    by (simp add: heap_layout_def sample_heap_bytes_def sample_heap_def u64_at_def u32_at_def
        slice_from_def le_Uint32_def le_Uint64_def ExtDataElementOffset_def u64.dec_enc u32.dec_enc)
  have first: "slice_between sample_heap_bytes (first_offset sample_heap 16)
      (first_offset sample_heap 16 + ucast (container_size sample_heap)) =
      Ret (sample_header @ enc_log [sample_mle 17 1] @ [])"
    by (simp add: slice_between_def len first_offset_def sample_heap_def)
      (simp add: sample_heap_bytes_def enc_log_def length_sample_mle)
  have "slice_from sample_heap_bytes (next_offset sample_heap 16) = Ret (enc_log [sample_mle 17 2] @ replicate 12 0)"
    by (simp add: slice_from_def len next_offset_def sample_heap_def)
      (simp add: sample_heap_bytes_def enc_log_def length_sample_mle)
  then have second: "second_part sample_heap_bytes 16 sample_heap [sample_mle 17 2]"
    unfolding second_part_def
    by (auto simp: sample_heap_def next_offset_def enc_log_def length_sample_mle sample_mle_wf log_stops_def eval_simps
        intro!: exI [of _ "replicate 12 0"])
  have mmap: "sys_mmap ?env (put_u64 16 @ put_u64 288 @ sample_heap_bytes) (sint (16 :: uint64))
      (sint (get_u64 (take 8 (drop (nat 8) (put_u64 16 @ put_u64 288 @ sample_heap_bytes))))) =
      Ret sample_heap_bytes"
    by (simp add: sample_env_def sample_mmap_def u64.dec_enc len)
  have "GetEventLogs ?env (txtEventLogParser ''mem'' 0 8) =
      Ret (group_events (txt_entries 0 [sample_mle 17 1] @ txt_entries 0 [sample_mle 17 2]))"
    by (rule txtGetEventLogs_reads [OF _ _ _ _ _ _ mmap layout first _ _ _ _ second])
      (simp_all add: sample_env_def sample_heap_def u64.dec_enc enc_log_def length_sample_mle sample_mle_wf
        log_stops_def)
  then show ?thesis
    by (simp add: sample_mle_entries group_events_def first_occurrences_def del: txt_entries.simps(2))
qed

text \<open>
  C27: the application parser reads a file of well-formed lines (bank, PCR, tag and measurement
  separated by tabs) into the measurements grouped by PCR and bank.
\<close>

theorem appGetEventLogs_reads:
  assumes "files env path = Contents (bytes_of_string (text_of_lines (map enc_app es)))"
    and "list_all wf_app es"
  shows "GetEventLogs env (appEventLogParser path) = Ret (group_events (map app_record es))"
proof -
  have "scan_lines (text_of_lines (map enc_app es)) = map enc_app es"
    using assms(2) enc_app_line by (intro scan_lines_text) (auto simp: list_all_iff)
  then show ?thesis
    using assms by (simp add: appGetEventLogs_def app_loop_enc app_log.fold_is_group)
qed

theorem appGetEventLogs_reads_witness:
  "GetEventLogs (sample_env [(''app'', bytes_of_string (text_of_lines (map enc_app
       [\<lparr>app_bank = ''SHA256'', app_pcr = 15, app_tag = ''wlagent'', app_measurement = ''00ff''\<rparr>])))])
     (appEventLogParser ''app'') =
   Ret [\<lparr>Pcr = \<lparr>Index = 15, Bank = ''SHA256''\<rparr>,
         TpmEvents = [\<lparr>TypeID = ''0x90000001'', TypeName = ''APPLICATION_AGENT_MEASUREMENT'',
                       Tags = [''wlagent''], Measurement = ''00ff''\<rparr>]\<rparr>]"
proof -
  let ?e = "\<lparr>app_bank = ''SHA256'', app_pcr = 15, app_tag = ''wlagent'', app_measurement = ''00ff''\<rparr>"
  have "wf_app ?e" by (simp add: eval_simps)
  then show ?thesis
    using appGetEventLogs_reads [of "sample_env [(''app'', bytes_of_string (text_of_lines (map enc_app [?e])))]"
        "''app''" "[?e]"]
    by (simp add: sample_env_def app_record_def group_events_def first_occurrences_def
        AppEventTypeID_def AppEventName_def)
qed

text \<open>
  The aggregate never returns an error: unless a parser panics, it returns the logs of the
  parsers that succeeded, one after the other, and nothing of those that failed.
\<close>

lemma aggregate_collects:
  assumes "\<forall>p \<in> set parsers. \<not> is_Panic (GetEventLogs env p)"
  shows "aggregateGetEventLogs env parsers =
    Ret (concat (map (\<lambda>p. case GetEventLogs env p of Ret logs \<Rightarrow> logs | _ \<Rightarrow> []) parsers))"
proof -
  have "aggregate_loop env acc parsers =
      Ret (acc @ concat (map (\<lambda>p. case GetEventLogs env p of Ret logs \<Rightarrow> logs | _ \<Rightarrow> []) parsers))" for acc
    using assms by (induction parsers arbitrary: acc) (auto split: go.split)
  then show ?thesis by (simp add: aggregateGetEventLogs_def)
qed

lemma aggregate_nonempty:
  assumes "aggregateGetEventLogs env parsers = Ret logs" and "l \<in> set logs"
  shows "TpmEvents l \<noteq> []"
proof -
  have "aggregate_loop env acc parsers = Ret logs \<Longrightarrow> \<forall>l \<in> set acc. TpmEvents l \<noteq> [] \<Longrightarrow>
      \<forall>l \<in> set logs. TpmEvents l \<noteq> []" for acc
  proof (induction parsers arbitrary: acc)
    case (Cons p ps)
    show ?case
    proof (cases "GetEventLogs env p")
      case (Ret events)
      then have "\<forall>l \<in> set (acc @ events). TpmEvents l \<noteq> []"
        using Cons.prems(2) any_parser.getLogs_nonempty [OF Ret] by auto
      then show ?thesis using Cons.IH [of "acc @ events"] Cons.prems(1) Ret by simp
    qed (use Cons in auto)
  qed simp
  from this [of "[]"] show ?thesis using assms by (simp add: aggregateGetEventLogs_def)
qed

end
