(* ===== verification/Go_Codecs.thy ===== *)
theory Go_Codecs
  imports Go_Strings
begin

text \<open>
  \<^verbatim>\<open>encoding/base64\<close> (standard alphabet, padded), \<^verbatim>\<open>crypto/sha1\<close> and the syntax check of
  \<^verbatim>\<open>encoding/json\<close>, as the agent uses them when it builds a quote.
\<close>

section \<open>Base64\<close>

definition b64_alphabet :: string where
  "b64_alphabet = ''ABCDEFGHIJKLMNOPQRSTUVWXYZabcdefghijklmnopqrstuvwxyz0123456789+/''"

definition b64_char :: "nat \<Rightarrow> char" where
  "b64_char n = b64_alphabet ! n"

definition b64_val :: "char \<Rightarrow> nat option" where
  "b64_val c = str_index c b64_alphabet"

abbreviation (input) PAD :: char where "PAD \<equiv> CHR ''=''"

fun base64_encode :: "byte list \<Rightarrow> string" where
  "base64_encode [] = []"
| "base64_encode [a] =
     [b64_char (unat a div 4), b64_char (unat a mod 4 * 16), PAD, PAD]"
| "base64_encode [a, b] =
     [b64_char (unat a div 4), b64_char (unat a mod 4 * 16 + unat b div 16),
      b64_char (unat b mod 16 * 4), PAD]"
| "base64_encode (a # b # c # rest) =
     b64_char (unat a div 4) # b64_char (unat a mod 4 * 16 + unat b div 16) #
     b64_char (unat b mod 16 * 4 + unat c div 64) # b64_char (unat c mod 64) #
     base64_encode rest"

text \<open>
  Decoding skips carriage returns and newlines, wants whole quanta of four characters, and accepts
  padding in the last quantum only; the unused bits of that quantum are ignored.
\<close>

definition b64_byte1 :: "nat \<Rightarrow> nat \<Rightarrow> byte" where "b64_byte1 w x = of_nat (w * 4 + x div 16)"
definition b64_byte2 :: "nat \<Rightarrow> nat \<Rightarrow> byte" where "b64_byte2 x y = of_nat (x mod 16 * 16 + y div 4)"
definition b64_byte3 :: "nat \<Rightarrow> nat \<Rightarrow> byte" where "b64_byte3 y z = of_nat (y mod 4 * 64 + z)"

fun b64_quanta :: "string \<Rightarrow> byte list option" where
  "b64_quanta [] = Some []"
| "b64_quanta (p # q # r # s # rest) =
     (case (b64_val p, b64_val q) of
        (Some w, Some x) \<Rightarrow>
          (case b64_val r of
             None \<Rightarrow> if r = PAD \<and> s = PAD \<and> rest = [] then Some [b64_byte1 w x] else None
           | Some y \<Rightarrow>
               (case b64_val s of
                  None \<Rightarrow> if s = PAD \<and> rest = [] then Some [b64_byte1 w x, b64_byte2 x y] else None
                | Some z \<Rightarrow>
                    map_option (\<lambda>bs. b64_byte1 w x # b64_byte2 x y # b64_byte3 y z # bs)
                      (b64_quanta rest)))
      | _ \<Rightarrow> None)"
| "b64_quanta _ = None"

definition base64_decode :: "string \<Rightarrow> byte list go" where
  "base64_decode s =
     (case b64_quanta (filter (\<lambda>c. c \<noteq> CHR 0x0A \<and> c \<noteq> CHR 0x0D) s) of
        Some bs \<Rightarrow> Ret bs
      | None \<Rightarrow> Fail (ParseError ''illegal base64 data''))"

declare b64_alphabet_def [eval_simps] b64_char_def [eval_simps] b64_val_def [eval_simps]
  b64_byte1_def [eval_simps] b64_byte2_def [eval_simps] b64_byte3_def [eval_simps]
  base64_decode_def [eval_simps]

lemma distinct_b64: "distinct b64_alphabet" "length b64_alphabet = 64"
  by (simp_all add: b64_alphabet_def)

lemma str_index_nth: "distinct s \<Longrightarrow> i < length s \<Longrightarrow> str_index (s ! i) s = Some i"
proof (induction s arbitrary: i)
  case (Cons x xs)
  then show ?case by (cases i) auto
qed simp

lemma b64_val_char [simp]: "n < 64 \<Longrightarrow> b64_val (b64_char n) = Some n"
  unfolding b64_val_def b64_char_def using distinct_b64 by (intro str_index_nth) simp_all

lemma b64_val_PAD [simp]: "b64_val PAD = None"
  by (simp add: b64_val_def b64_alphabet_def)

lemma b64_char_clean: "n < 64 \<Longrightarrow> b64_char n \<noteq> CHR 0x0A \<and> b64_char n \<noteq> CHR 0x0D"
proof -
  assume "n < 64"
  then have "b64_char n \<in> set b64_alphabet" using distinct_b64 by (simp add: b64_char_def)
  moreover have "CHR 0x0A \<notin> set b64_alphabet" "CHR 0x0D \<notin> set b64_alphabet"
    by (simp_all add: b64_alphabet_def)
  ultimately show ?thesis by metis
qed

lemma sextet_bounds [simp]:
  "unat (a :: byte) div 4 < 64" "unat (a :: byte) mod 4 * 16 < 64"
  "unat (a :: byte) mod 4 * 16 + unat (b :: byte) div 16 < 64" "unat (b :: byte) mod 16 * 4 < 64"
  "unat (b :: byte) mod 16 * 4 + unat (c :: byte) div 64 < 64" "unat (c :: byte) mod 64 < 64"
proof -
  have *: "unat a < 256" "unat b < 256" "unat c < 256" by simp_all
  have m: "unat a mod 4 < 4" "unat b mod 16 < 16" by simp_all
  show "unat a div 4 < 64" "unat a mod 4 * 16 < 64" "unat a mod 4 * 16 + unat b div 16 < 64"
    "unat b mod 16 * 4 < 64" "unat b mod 16 * 4 + unat c div 64 < 64" "unat c mod 64 < 64"
    using * m by linarith+
qed

lemma b64_bytes [simp]:
  "b64_byte1 (unat a div 4) (unat a mod 4 * 16) = a"
  "b64_byte1 (unat a div 4) (unat a mod 4 * 16 + unat b div 16) = a"
  "b64_byte2 (unat a mod 4 * 16 + unat b div 16) (unat b mod 16 * 4) = b"
  "b64_byte2 (unat a mod 4 * 16 + unat b div 16) (unat b mod 16 * 4 + unat c div 64) = b"
  "b64_byte3 (unat b mod 16 * 4 + unat c div 64) (unat c mod 64) = c"
proof -
  have word_of_nat: "of_nat (unat w) = w" for w :: byte by simp
  have *: "unat a < 256" "unat b < 256" "unat c < 256" by simp_all
  then have h: "unat b div 16 < 16" "unat c div 64 < 4" by linarith+
  have d: "(unat a mod 4 * 16 + unat b div 16) div 16 = unat a mod 4"
    "(unat a mod 4 * 16 + unat b div 16) mod 16 = unat b div 16"
    "(unat b mod 16 * 4 + unat c div 64) div 4 = unat b mod 16"
    "(unat b mod 16 * 4 + unat c div 64) mod 4 = unat c div 64"
    using h by simp_all
  show "b64_byte1 (unat a div 4) (unat a mod 4 * 16) = a"
    "b64_byte1 (unat a div 4) (unat a mod 4 * 16 + unat b div 16) = a"
    "b64_byte2 (unat a mod 4 * 16 + unat b div 16) (unat b mod 16 * 4) = b"
    "b64_byte2 (unat a mod 4 * 16 + unat b div 16) (unat b mod 16 * 4 + unat c div 64) = b"
    "b64_byte3 (unat b mod 16 * 4 + unat c div 64) (unat c mod 64) = c"
    unfolding b64_byte1_def b64_byte2_def b64_byte3_def d
    by (simp_all only: nonzero_mult_div_cancel_right zero_neq_numeral [symmetric] not_False_eq_True
        div_mult_mod_eq word_of_nat)
qed

lemma b64_quanta_encode: "b64_quanta (base64_encode bs) = Some bs"
  by (induction bs rule: base64_encode.induct) simp_all

lemma base64_encode_clean:
  "c \<in> set (base64_encode bs) \<Longrightarrow> c \<noteq> CHR 0x0A \<and> c \<noteq> CHR 0x0D"
  by (induction bs rule: base64_encode.induct) (auto simp: b64_char_clean)

lemma base64_roundtrip [simp]: "base64_decode (base64_encode bs) = Ret bs"
proof -
  have "filter (\<lambda>c. c \<noteq> CHR 0x0A \<and> c \<noteq> CHR 0x0D) (base64_encode bs) = base64_encode bs"
    using base64_encode_clean by (simp add: filter_id_conv)
  then show ?thesis by (simp add: base64_decode_def b64_quanta_encode)
qed

lemma base64_encode_eq_Nil [simp]: "base64_encode bs = [] \<longleftrightarrow> bs = []"
  by (cases bs rule: base64_encode.cases) simp_all

lemma base64_decode_no_panic [simp]: "base64_decode s \<noteq> Panic p"
  by (simp add: base64_decode_def split: option.split)

section \<open>SHA-1\<close>

unbundle bit_operations_syntax

definition rotl32 :: "nat \<Rightarrow> uint32 \<Rightarrow> uint32" where
  "rotl32 n w = push_bit n w OR drop_bit (32 - n) w"

definition get_u32_be :: "byte list \<Rightarrow> uint32" where "get_u32_be bs = of_nat (be_nat bs)"
definition put_u32_be :: "uint32 \<Rightarrow> byte list" where "put_u32_be w = be_bytes 4 (unat w)"

definition sha1_pad :: "byte list \<Rightarrow> byte list" where
  "sha1_pad msg =
     msg @ [0x80] @ replicate ((119 - length msg mod 64) mod 64) 0 @ be_bytes 8 (8 * length msg)"

fun chunks :: "nat \<Rightarrow> nat \<Rightarrow> byte list \<Rightarrow> byte list list" where
  "chunks 0 n bs = []"
| "chunks (Suc k) n bs = take n bs # chunks k n (drop n bs)"

text \<open>The message schedule, most recent word first.\<close>

fun sha1_extend :: "nat \<Rightarrow> uint32 list \<Rightarrow> uint32 list" where
  "sha1_extend 0 ws = ws"
| "sha1_extend (Suc k) ws =
     sha1_extend k (rotl32 1 (ws ! 2 XOR ws ! 7 XOR ws ! 13 XOR ws ! 15) # ws)"

definition sha1_schedule :: "byte list \<Rightarrow> uint32 list" where
  "sha1_schedule block = rev (sha1_extend 64 (rev (map get_u32_be (chunks 16 4 block))))"

type_synonym sha1_state = "uint32 \<times> uint32 \<times> uint32 \<times> uint32 \<times> uint32"

definition sha1_round :: "nat \<Rightarrow> uint32 \<Rightarrow> sha1_state \<Rightarrow> sha1_state" where
  "sha1_round t w = (\<lambda>(a, b, c, d, e).
     let (f, k) =
       (if t < 20 then ((b AND c) OR (NOT b AND d), 0x5A827999)
        else if t < 40 then (b XOR c XOR d, 0x6ED9EBA1)
        else if t < 60 then ((b AND c) OR (b AND d) OR (c AND d), 0x8F1BBCDC)
        else (b XOR c XOR d, 0xCA62C1D6))
     in (rotl32 5 a + f + e + k + w, a, rotl32 30 b, c, d))"

fun sha1_rounds :: "nat \<Rightarrow> uint32 list \<Rightarrow> sha1_state \<Rightarrow> sha1_state" where
  "sha1_rounds t [] st = st"
| "sha1_rounds t (w # ws) st = sha1_rounds (t + 1) ws (sha1_round t w st)"

definition sha1_block :: "sha1_state \<Rightarrow> byte list \<Rightarrow> sha1_state" where
  "sha1_block = (\<lambda>(a, b, c, d, e) block.
     case sha1_rounds 0 (sha1_schedule block) (a, b, c, d, e) of
       (a', b', c', d', e') \<Rightarrow> (a + a', b + b', c + c', d + d', e + e'))"

definition sha1_Sum :: "byte list \<Rightarrow> byte list" where
  "sha1_Sum msg =
     (let padded = sha1_pad msg
      in case foldl sha1_block (0x67452301, 0xEFCDAB89, 0x98BADCFE, 0x10325476, 0xC3D2E1F0)
                (chunks (length padded div 64) 64 padded) of
           (a, b, c, d, e) \<Rightarrow>
             put_u32_be a @ put_u32_be b @ put_u32_be c @ put_u32_be d @ put_u32_be e)"

lemma length_sha1_Sum [simp]: "length (sha1_Sum msg) = 20"
  by (simp add: sha1_Sum_def Let_def put_u32_be_def split: prod.split)

lemma sha1_pad_blocks: "64 dvd length (sha1_pad msg)"
proof -
  let ?r = "length msg mod 64"
  have "n + 9 + (119 - r) = 64 * (q + 2)" if "r < 64" "64 * q + r = n" for n q r :: nat
    using that by arith
  from this [OF _ mult_div_mod_eq] have
    sum: "length msg + 9 + (119 - ?r) = 64 * (length msg div 64 + 2)" by simp
  have "length (sha1_pad msg) = length msg + 9 + (119 - ?r) mod 64"
    by (simp add: sha1_pad_def)
  then have "length (sha1_pad msg) mod 64 = (length msg + 9 + (119 - ?r)) mod 64"
    by (simp only: mod_add_right_eq)
  also have "\<dots> = 0" unfolding sum by simp
  finally show ?thesis by (simp add: dvd_eq_mod_eq_0)
qed

section \<open>Syntax of JSON\<close>

text \<open>
  The acceptance test of \<^verbatim>\<open>json.Unmarshal\<close> into an empty interface: one JSON value with white space
  around it. Each scanner returns the rest of the input. The fuel bounds the recursion: every
  second call consumes a character, so twice the length of the input is enough.
\<close>

definition json_space :: "char \<Rightarrow> bool" where
  "json_space c \<longleftrightarrow> c = CHR '' '' \<or> c = CHR 0x09 \<or> c = CHR 0x0A \<or> c = CHR 0x0D"

definition skip_space :: "string \<Rightarrow> string" where
  "skip_space s = dropWhile json_space s"

definition is_digit :: "char \<Rightarrow> bool" where
  "is_digit c \<longleftrightarrow> digit_val c \<noteq> None"

definition is_hex :: "char \<Rightarrow> bool" where
  "is_hex c \<longleftrightarrow> is_digit c \<or> c \<in> set ''abcdefABCDEF''"

fun json_string :: "string \<Rightarrow> string option" where
  "json_string [] = None"
| "json_string (c # s) =
     (if c = CHR 0x22 then Some s
      else if c = CHR 0x5C then
        (case s of
           [] \<Rightarrow> None
         | e # t \<Rightarrow>
             if e = CHR ''u'' then
               (case t of
                  h1 # h2 # h3 # h4 # u \<Rightarrow>
                    if is_hex h1 \<and> is_hex h2 \<and> is_hex h3 \<and> is_hex h4 then json_string u else None
                | _ \<Rightarrow> None)
             else if e \<in> set [CHR 0x22, CHR 0x5C, CHR ''/'', CHR ''b'', CHR ''f'', CHR ''n'',
                              CHR ''r'', CHR ''t''] then json_string t
             else None)
      else if (of_char c :: nat) < 32 then None
      else json_string s)"

definition json_digits :: "string \<Rightarrow> string option" where
  "json_digits s = (if s \<noteq> [] \<and> is_digit (hd s) then Some (dropWhile is_digit s) else None)"

definition json_exponent :: "string \<Rightarrow> string option" where
  "json_exponent s =
     (if s \<noteq> [] \<and> (hd s = CHR ''e'' \<or> hd s = CHR ''E'') then
        let t = tl s
        in json_digits (if t \<noteq> [] \<and> (hd t = CHR ''+'' \<or> hd t = CHR ''-'') then tl t else t)
      else Some s)"

definition json_fraction :: "string \<Rightarrow> string option" where
  "json_fraction s =
     (if s \<noteq> [] \<and> hd s = CHR ''.''
      then (case json_digits (tl s) of None \<Rightarrow> None | Some t \<Rightarrow> json_exponent t)
      else json_exponent s)"

definition json_number :: "string \<Rightarrow> string option" where
  "json_number s =
     (let t = (if s \<noteq> [] \<and> hd s = CHR ''-'' then tl s else s)
      in if t \<noteq> [] \<and> hd t = CHR ''0'' then json_fraction (tl t)
         else (case json_digits t of None \<Rightarrow> None | Some u \<Rightarrow> json_fraction u))"

definition json_literal :: "string \<Rightarrow> string \<Rightarrow> string option" where
  "json_literal lit s = (if take (length lit) s = lit then Some (drop (length lit) s) else None)"

fun json_value :: "nat \<Rightarrow> string \<Rightarrow> string option"
  and json_elements :: "nat \<Rightarrow> string \<Rightarrow> string option"
  and json_members :: "nat \<Rightarrow> string \<Rightarrow> string option" where
  "json_value 0 s = None"
| "json_value (Suc n) s =
     (case skip_space s of
        [] \<Rightarrow> None
      | c # t \<Rightarrow>
          if c = CHR ''{'' then
            (case skip_space t of
               d # u \<Rightarrow> if d = CHR ''}'' then Some u else json_members n t
             | [] \<Rightarrow> None)
          else if c = CHR ''['' then
            (case skip_space t of
               d # u \<Rightarrow> if d = CHR '']'' then Some u else json_elements n t
             | [] \<Rightarrow> None)
          else if c = CHR 0x22 then json_string t
          else if c = CHR ''t'' then json_literal ''true'' (c # t)
          else if c = CHR ''f'' then json_literal ''false'' (c # t)
          else if c = CHR ''n'' then json_literal ''null'' (c # t)
          else json_number (c # t))"
| "json_elements 0 s = None"
| "json_elements (Suc n) s =
     (case json_value n s of
        None \<Rightarrow> None
      | Some t \<Rightarrow>
          (case skip_space t of
             [] \<Rightarrow> None
           | d # u \<Rightarrow>
               if d = CHR '','' then json_elements n u
               else if d = CHR '']'' then Some u else None))"
| "json_members 0 s = None"
| "json_members (Suc n) s =
     (case skip_space s of
        [] \<Rightarrow> None
      | q # t \<Rightarrow>
          if q = CHR 0x22 then
            (case json_string t of
               None \<Rightarrow> None
             | Some u \<Rightarrow>
                 (case skip_space u of
                    [] \<Rightarrow> None
                  | col # v \<Rightarrow>
                      if col = CHR '':'' then
                        (case json_value n v of
                           None \<Rightarrow> None
                         | Some w \<Rightarrow>
                             (case skip_space w of
                                [] \<Rightarrow> None
                              | d # x \<Rightarrow>
                                  if d = CHR '','' then json_members n x
                                  else if d = CHR ''}'' then Some x else None))
                      else None))
          else None)"

definition json_Unmarshal :: "byte list \<Rightarrow> unit go" where
  "json_Unmarshal bs =
     (let s = string_of_bytes bs
      in case json_value (2 * length s + 2) s of
           None \<Rightarrow> Fail (ParseError ''invalid JSON'')
         | Some rest \<Rightarrow> if skip_space rest = [] then Ret () else Fail (ParseError ''invalid JSON''))"

declare json_space_def [eval_simps] skip_space_def [eval_simps] is_digit_def [eval_simps]
  is_hex_def [eval_simps] json_digits_def [eval_simps] json_exponent_def [eval_simps]
  json_fraction_def [eval_simps] json_number_def [eval_simps] json_literal_def [eval_simps]
  json_Unmarshal_def [eval_simps]

end
