(* ===== verification/Tpm_Provider.thy ===== *)
theory Tpm_Provider
  imports TA_Constants
begin

text \<open>
  The TPM provider library (\<^verbatim>\<open>lib/tpmprovider\<close>) is not part of the repository: it is a parameter of
  the model, a record of the operations the agent calls over an unknown TPM state \<^typ>\<open>'t\<close>, with
  the handles and indices the library names. \<open>nv_laws\<close> states what the agent relies on of NV
  memory. Code that changes the TPM is written with \<open>thenS\<close>, which threads the state.
\<close>

section \<open>Fallible steps on a state\<close>

fun thenS :: "'a go \<times> 's \<Rightarrow> ('a \<Rightarrow> 's \<Rightarrow> 'b go \<times> 's) \<Rightarrow> 'b go \<times> 's" where
  "thenS (Ret x, s) f = f x s"
| "thenS (Fail e, s) f = (Fail e, s)"
| "thenS (Panic p, s) f = (Panic p, s)"

text \<open>A call that returns only an \<^verbatim>\<open>error\<close>, and the wrapping of its error.\<close>

definition errS :: "go_error option \<times> 's \<Rightarrow> unit go \<times> 's" where
  "errS r = (return_with () (fst r), snd r)"

definition wrapS :: "string \<Rightarrow> 'a go \<times> 's \<Rightarrow> 'a go \<times> 's" where
  "wrapS msg r = (wrapping msg (fst r), snd r)"

lemma thenS_cong [fundef_cong]:
  assumes "m = m'" and "\<And>x s. m' = (Ret x, s) \<Longrightarrow> f x s = f' x s"
  shows "thenS m f = thenS m' f'"
proof -
  obtain r s where m: "m' = (r, s)" by fastforce
  show ?thesis using assms by (cases r) (auto simp: m)
qed

lemma thenS_eq_Ret [go_inversion]:
  "thenS m f = (Ret y, s') \<longleftrightarrow> (\<exists>x s. m = (Ret x, s) \<and> f x s = (Ret y, s'))"
proof -
  obtain r s where "m = (r, s)" by fastforce
  then show ?thesis by (cases r) auto
qed

lemma thenS_eq_Fail [go_inversion]:
  "thenS m f = (Fail e, s') \<longleftrightarrow> m = (Fail e, s') \<or> (\<exists>x s. m = (Ret x, s) \<and> f x s = (Fail e, s'))"
proof -
  obtain r s where "m = (r, s)" by fastforce
  then show ?thesis by (cases r) auto
qed

lemma wrapS_eq_Ret [simp]: "wrapS msg m = (Ret y, s) \<longleftrightarrow> m = (Ret y, s)"
  by (cases m) (auto simp: wrapS_def)

lemma wrapS_Ret [simp]: "wrapS msg (Ret x, s) = (Ret x, s)"
  by (simp add: wrapS_def)

lemma errS_eq_Ret [simp]: "errS r = (Ret u, s) \<longleftrightarrow> r = (None, s)"
  by (cases r) (auto simp: errS_def return_with_def split: option.splits)

lemma errS_None [simp]: "errS (None, s) = (Ret (), s)"
  by (simp add: errS_def)

lemma snd_thenS_invariant:
  "I (snd m) \<Longrightarrow> (\<And>x s. m = (Ret x, s) \<Longrightarrow> I s \<Longrightarrow> I (snd (f x s))) \<Longrightarrow> I (snd (thenS m f))"
proof -
  assume a: "I (snd m)" "\<And>x s. m = (Ret x, s) \<Longrightarrow> I s \<Longrightarrow> I (snd (f x s))"
  obtain r s where "m = (r, s)" by fastforce
  then show ?thesis using a by (cases r) auto
qed

lemma snd_wrapS [simp]: "snd (wrapS msg m) = snd m"
  by (simp add: wrapS_def)

declare errS_def [eval_simps] wrapS_def [eval_simps]

section \<open>The provider\<close>

record 't tpm_provider =
  NewTpmFactory :: "go_error option"
  NewTpmProvider :: "'t \<Rightarrow> go_error option"
  IsPcrBankActive :: "'t \<Rightarrow> string \<Rightarrow> bool \<times> go_error option"
  IsOwnedWithAuth :: "'t \<Rightarrow> string \<Rightarrow> bool go"
  TakeOwnership :: "'t \<Rightarrow> string \<Rightarrow> go_error option \<times> 't"
  NvIndexExists :: "'t \<Rightarrow> uint32 \<Rightarrow> bool go"
  NvRead :: "'t \<Rightarrow> string \<Rightarrow> uint32 \<Rightarrow> uint32 \<Rightarrow> byte list option go"
  NvWrite :: "'t \<Rightarrow> string \<Rightarrow> uint32 \<Rightarrow> uint32 \<Rightarrow> byte list \<Rightarrow> go_error option \<times> 't"
  NvDefine :: "'t \<Rightarrow> string \<Rightarrow> string \<Rightarrow> uint32 \<Rightarrow> nat \<Rightarrow> go_error option \<times> 't"
  NvRelease :: "'t \<Rightarrow> string \<Rightarrow> uint32 \<Rightarrow> go_error option \<times> 't"
  PublicKeyExists :: "'t \<Rightarrow> uint32 \<Rightarrow> bool go"
  CreatePrimaryHandle :: "'t \<Rightarrow> string \<Rightarrow> uint32 \<Rightarrow> go_error option \<times> 't"
  GetTpmQuote :: "'t \<Rightarrow> byte list \<Rightarrow> string list \<Rightarrow> int list \<Rightarrow> byte list go"
  NV_IDX_ASSET_TAG :: uint32
  TPM2_RH_OWNER :: uint32
  TPM_HANDLE_PRIMARY :: uint32
  HEX_PREFIX :: string

text \<open>The call sequence \<^verbatim>\<open>NewTpmFactory\<close>, \<^verbatim>\<open>NewTpmProvider\<close> of the request handlers.\<close>

definition open_tpm :: "'t tpm_provider \<Rightarrow> 't \<Rightarrow> unit go" where
  "open_tpm P s = return_with () (NewTpmProvider P s)"

definition TagIndexSize :: nat where "TagIndexSize = 48"

text \<open>
  NV memory: what was written under an authorization is read back under it, and the owner reads
  it as well; defining an index makes it exist.
\<close>

definition nv_laws :: "'t tpm_provider \<Rightarrow> bool" where
  "nv_laws P \<longleftrightarrow>
     (\<forall>s k idx d s'. length d = TagIndexSize \<longrightarrow> NvWrite P s k idx idx d = (None, s') \<longrightarrow>
        NvRead P s' k idx idx = Ret (Some d) \<and> NvIndexExists P s' idx = Ret True) \<and>
     (\<forall>s ok k idx n s'. NvDefine P s ok k idx n = (None, s') \<longrightarrow> NvIndexExists P s' idx = Ret True)"

lemma nv_write_read:
  "nv_laws P \<Longrightarrow> length d = TagIndexSize \<Longrightarrow> NvWrite P s k idx idx d = (None, s') \<Longrightarrow>
     NvRead P s' k idx idx = Ret (Some d) \<and> NvIndexExists P s' idx = Ret True"
  unfolding nv_laws_def by blast

section \<open>A small TPM\<close>

text \<open>
  A TPM with an owner password, NV indices (password and contents), a primary key and three PCR
  banks, that satisfies the laws; the examples of the other theories run on it.
\<close>

record soft_tpm =
  st_owner :: string
  st_nv :: "(uint32 \<times> string \<times> byte list) list"
  st_primary :: bool
  st_banks :: "string list"

definition soft_read :: "soft_tpm \<Rightarrow> string \<Rightarrow> uint32 \<Rightarrow> uint32 \<Rightarrow> byte list option go" where
  "soft_read s k auth idx =
     (case map_of (st_nv s) idx of
        None \<Rightarrow> Fail (LibError ''no such index'')
      | Some (k', d) \<Rightarrow>
          if auth = idx \<and> k = k' \<or> auth \<noteq> idx \<and> k = st_owner s then Ret (Some d)
          else Fail (LibError ''bad auth''))"

definition soft_write ::
  "soft_tpm \<Rightarrow> string \<Rightarrow> uint32 \<Rightarrow> uint32 \<Rightarrow> byte list \<Rightarrow> go_error option \<times> soft_tpm" where
  "soft_write s k auth idx d =
     (case map_of (st_nv s) idx of
        None \<Rightarrow> (Some (LibError ''no such index''), s)
      | Some (k', old) \<Rightarrow>
          if auth = idx \<and> k = k' \<and> length d = length old
          then (None, s\<lparr>st_nv := (idx, k', d) # st_nv s\<rparr>)
          else (Some (LibError ''bad auth''), s))"

definition soft_define ::
  "soft_tpm \<Rightarrow> string \<Rightarrow> string \<Rightarrow> uint32 \<Rightarrow> nat \<Rightarrow> go_error option \<times> soft_tpm" where
  "soft_define s ok k idx n =
     (if ok = st_owner s \<and> map_of (st_nv s) idx = None
      then (None, s\<lparr>st_nv := (idx, k, replicate n 0xff) # st_nv s\<rparr>)
      else (Some (LibError ''cannot define''), s))"

definition soft_provider :: "soft_tpm tpm_provider" where
  "soft_provider =
     \<lparr>NewTpmFactory = None, NewTpmProvider = (\<lambda>s. None),
      IsPcrBankActive = (\<lambda>s b. (b \<in> set (st_banks s), None)),
      IsOwnedWithAuth = (\<lambda>s k. Ret (k = st_owner s)),
      TakeOwnership = (\<lambda>s k. if st_owner s = [] then (None, s\<lparr>st_owner := k\<rparr>)
                             else (Some (LibError ''owned''), s)),
      NvIndexExists = (\<lambda>s idx. Ret (map_of (st_nv s) idx \<noteq> None)),
      NvRead = soft_read, NvWrite = soft_write, NvDefine = soft_define,
      NvRelease = (\<lambda>s k idx. if k = st_owner s then (None, s\<lparr>st_nv := filter (\<lambda>e. fst e \<noteq> idx) (st_nv s)\<rparr>)
                             else (Some (LibError ''bad auth''), s)),
      PublicKeyExists = (\<lambda>s h. Ret (st_primary s)),
      CreatePrimaryHandle = (\<lambda>s k h. if k = st_owner s then (None, s\<lparr>st_primary := True\<rparr>)
                                     else (Some (LibError ''bad auth''), s)),
      GetTpmQuote = (\<lambda>s nonce banks pcrs. Ret (nonce @ concat (map bytes_of_string banks))),
      NV_IDX_ASSET_TAG = 0x1c10110, TPM2_RH_OWNER = 0x40000001, TPM_HANDLE_PRIMARY = 0x81000000,
      HEX_PREFIX = ''hex:''\<rparr>"

declare open_tpm_def [eval_simps] TagIndexSize_def [eval_simps] soft_read_def [eval_simps]
  soft_write_def [eval_simps] soft_define_def [eval_simps] soft_provider_def [eval_simps]

lemma soft_nv_laws: "nv_laws soft_provider"
  by (auto simp: nv_laws_def soft_provider_def soft_read_def soft_write_def soft_define_def
      split: option.splits if_splits)

end
