(* ===== verification/Quote.thy ===== *)
theory Quote
  imports Go_Codecs Os_Files Tpm_Provider
begin

text \<open>
  \<^verbatim>\<open>common/quote.go\<close>: building a TPM quote. The request's bank list is shortened in place while it
  is being ranged over, so that loop runs on an explicit backing array and length.
\<close>

section \<open>Request, response and host\<close>

record TpmQuoteRequest =
  Nonce :: "byte list"
  Pcrs :: "int list"
  PcrBanks :: "string list"

record TpmQuoteResponse =
  TimeStamp :: int
  ErrorCode :: int
  ErrorMessage :: string
  Aik :: string
  Quote :: string
  EventLog :: string
  TcbMeasurements :: "string list"
  SelectedPcrBanks :: "string list"
  IsTagProvisioned :: bool
  AssetTag :: string

text \<open>The files, the directory listing (sorted by name) and the clock of the host.\<close>

record host =
  host_files :: file_system
  host_dir :: "string \<Rightarrow> string list go"
  host_now :: int

section \<open>Dropping inactive banks\<close>

text \<open>
  \<^verbatim>\<open>for i, pcrBank := range banks\<close> evaluates the slice once: \<open>n\<close> is its length then, and the
  elements are read from the backing array \<open>arr\<close> as the loop reaches them. Dropping element \<open>i\<close> is
  \<^verbatim>\<open>append(banks[:i], banks[i+1:]...)\<close> on the current slice of length \<open>len\<close>: it shifts the array
  to the left, and \<^verbatim>\<open>banks[i+1:]\<close> panics when \<open>i+1\<close> is beyond \<open>len\<close>.
\<close>

function strip_loop ::
  "(string \<Rightarrow> bool) \<Rightarrow> nat \<Rightarrow> nat \<Rightarrow> string list \<Rightarrow> nat \<Rightarrow> (string list \<times> nat) go" where
  "strip_loop isActive n i arr len =
     (if i < n then
        (if isActive (arr ! i) then strip_loop isActive n (i + 1) arr len
         else if len < i + 1 then Panic SliceBounds
         else strip_loop isActive n (i + 1)
                (take i arr @ drop (i + 1) (take len arr) @ drop (len - 1) arr) (len - 1))
      else Ret (arr, len))"
  by pat_completeness auto
termination
  by (relation "measure (\<lambda>(_, n, i, _, _). n - i)") auto

declare strip_loop.simps [simp del, eval_simps]

definition strip_banks :: "(string \<Rightarrow> bool) \<Rightarrow> string list \<Rightarrow> string list go" where
  "strip_banks isActive banks =
     andThen (strip_loop isActive (length banks) 0 banks (length banks))
       (\<lambda>(arr, len). Ret (take len arr))"

section \<open>The parts of a quote\<close>

definition getNonce :: "TpmQuoteRequest \<Rightarrow> string \<Rightarrow> byte list go" where
  "getNonce tpmQuoteRequest assetTag =
     (let taNonce = sha1_Sum (Nonce tpmQuoteRequest)
      in if assetTag \<noteq> [] then
           andThen (base64_decode assetTag) (\<lambda>tagBytes. Ret (sha1_Sum (taNonce @ tagBytes)))
         else Ret taNonce)"

definition readAikAsBase64 :: "host \<Rightarrow> string go" where
  "readAikAsBase64 h =
     (if os_IsNotExist (os_Stat (host_files h) AikCert) then Fail NotExist
      else andThen (wrapping ''Error reading file'' (ioutil_ReadFile (host_files h) AikCert))
             (\<lambda>aikBytes. Ret (base64_encode aikBytes)))"

definition readEventLog :: "host \<Rightarrow> string go" where
  "readEventLog h =
     (if os_IsNotExist (os_Stat (host_files h) MeasureLogFilePath) then Ret []
      else
      andThen (wrapping ''Error reading file'' (ioutil_ReadFile (host_files h) MeasureLogFilePath))
        (\<lambda>eventLogBytes.
      andThen (wrapping ''Error while unmarshalling event log'' (json_Unmarshal eventLogBytes)) (\<lambda>_.
      Ret (string_of_bytes eventLogBytes))))"

definition getQuote :: "'t tpm_provider \<Rightarrow> 't \<Rightarrow> TpmQuoteRequest \<Rightarrow> byte list \<Rightarrow> string go" where
  "getQuote P tpm tpmQuoteRequest nonce =
     andThen (GetTpmQuote P tpm nonce (PcrBanks tpmQuoteRequest) (Pcrs tpmQuoteRequest))
       (\<lambda>quoteBytes. Ret (base64_encode quoteBytes))"

definition filepath_Ext :: "string \<Rightarrow> string" where
  "filepath_Ext path =
     (let r = takeWhile (\<lambda>c. c \<noteq> CHR ''/'') (rev path)
      in if CHR ''.'' \<in> set r then CHR ''.'' # rev (takeWhile (\<lambda>c. c \<noteq> CHR ''.'') r) else [])"

fun tcb_loop :: "host \<Rightarrow> string list \<Rightarrow> string list \<Rightarrow> string list go" where
  "tcb_loop h measurements [] = Ret measurements"
| "tcb_loop h measurements (name # rest) =
     (if filepath_Ext name = ''.xml'' then
        andThen (wrapping ''Error reading manifest file''
                   (ioutil_ReadFile (host_files h) (RamfsDir @ name)))
          (\<lambda>xml. tcb_loop h (measurements @ [string_of_bytes xml]) rest)
      else tcb_loop h measurements rest)"

definition getTcbMeasurements :: "host \<Rightarrow> string list go" where
  "getTcbMeasurements h = andThen (host_dir h RamfsDir) (\<lambda>fileInfo. tcb_loop h [] fileInfo)"

fun allZeros :: "byte list \<Rightarrow> bool" where
  "allZeros [] = True"
| "allZeros (v # vs) = (if v \<noteq> 0 then False else allZeros vs)"

definition getAssetTags :: "'t tpm_provider \<Rightarrow> 't \<Rightarrow> string \<Rightarrow> string go" where
  "getAssetTags P tpm tagSecretKey =
     andThen (wrapping ''Error while checking existence of Nv Index''
                (NvIndexExists P tpm (NV_IDX_ASSET_TAG P))) (\<lambda>tagExists.
     if \<not> tagExists then Ret []
     else
     andThen (wrapping ''Error while performing tpm nv read operation''
                (NvRead P tpm tagSecretKey (NV_IDX_ASSET_TAG P) (NV_IDX_ASSET_TAG P))) (\<lambda>indexBytes.
     case indexBytes of
       None \<Rightarrow> Fail (NewErr ''The tag data was nil'')
     | Some bytes \<Rightarrow>
         if length bytes \<noteq> TagIndexSize then Fail (NewErr ''Invalid tag index length'')
         else if allZeros bytes then Ret []
         else Ret (base64_encode bytes)))"

section \<open>The quote\<close>

definition createTpmQuote ::
  "'t tpm_provider \<Rightarrow> 't \<Rightarrow> host \<Rightarrow> string \<Rightarrow> TpmQuoteRequest \<Rightarrow> TpmQuoteResponse go" where
  "createTpmQuote P tpm h tagSecretKey tpmQuoteRequest =
     andThen (wrapping ''Error while retrieving asset tags'' (getAssetTags P tpm tagSecretKey))
       (\<lambda>assetTag.
     andThen (wrapping ''Error while generating nonce'' (getNonce tpmQuoteRequest assetTag)) (\<lambda>nonce.
     andThen (wrapping ''Error while retrieving tpm quote request''
                (getQuote P tpm tpmQuoteRequest nonce)) (\<lambda>quote.
     andThen (wrapping ''Error while reading Aik as Base64'' (readAikAsBase64 h)) (\<lambda>aik.
     andThen (wrapping ''Error while reading event log'' (readEventLog h)) (\<lambda>eventLog.
     andThen (wrapping ''Error while retrieving TCB measurements'' (getTcbMeasurements h)) (\<lambda>tcb.
     Ret \<lparr>TimeStamp = host_now h, ErrorCode = 0, ErrorMessage = ''OK'', Aik = aik, Quote = quote,
          EventLog = eventLog, TcbMeasurements = tcb,
          SelectedPcrBanks = PcrBanks tpmQuoteRequest,
          IsTagProvisioned = (assetTag \<noteq> []), AssetTag = assetTag\<rparr>))))))"

definition default_banks :: "string list" where
  "default_banks = [BankSHA384, BankSHA256, BankSHA1]"

definition CreateTpmQuoteResponse ::
  "'t tpm_provider \<Rightarrow> 't \<Rightarrow> host \<Rightarrow> string \<Rightarrow> TpmQuoteRequest \<Rightarrow> TpmQuoteResponse go" where
  "CreateTpmQuoteResponse P tpm h tagSecretKey tpmQuoteRequest =
     (if length (Nonce tpmQuoteRequest) = 0
      then Fail (NewErr ''The TpmQuoteRequest does not contain a nonce'')
      else
      let banks = (if length (PcrBanks tpmQuoteRequest) = 0 then default_banks
                   else PcrBanks tpmQuoteRequest)
      in andThen (strip_banks (\<lambda>b. fst (IsPcrBankActive P tpm b)) banks) (\<lambda>banks.
         wrapping ''Error while creating the tpm quote''
           (createTpmQuote P tpm h tagSecretKey (tpmQuoteRequest\<lparr>PcrBanks := banks\<rparr>))))"

definition handleGetTpmQuote ::
  "'t tpm_provider \<Rightarrow> 't \<Rightarrow> host \<Rightarrow> string \<Rightarrow> TpmQuoteRequest option \<Rightarrow> TpmQuoteResponse go" where
  "handleGetTpmQuote P tpm h tagSecretKey quoteRequest =
     andThen (return_with () (NewTpmFactory P)) (\<lambda>_.
     andThen (wrapping ''Error creating tpm provider'' (open_tpm P tpm)) (\<lambda>_.
     case quoteRequest of
       None \<Rightarrow> Fail (NewErr ''TPM quote request cannot be nil'')
     | Some req \<Rightarrow> CreateTpmQuoteResponse P tpm h tagSecretKey req))"

declare strip_banks_def [eval_simps] getNonce_def [eval_simps] readAikAsBase64_def [eval_simps]
  readEventLog_def [eval_simps] getQuote_def [eval_simps] filepath_Ext_def [eval_simps]
  getTcbMeasurements_def [eval_simps] getAssetTags_def [eval_simps] createTpmQuote_def [eval_simps]
  default_banks_def [eval_simps] CreateTpmQuoteResponse_def [eval_simps]
  handleGetTpmQuote_def [eval_simps]

section \<open>Dropping banks: what the loop does\<close>

lemma strip_loop_step:
  "i < n \<Longrightarrow> isActive (arr ! i) \<Longrightarrow> strip_loop isActive n i arr len = strip_loop isActive n (Suc i) arr len"
  by (subst strip_loop.simps) simp

lemma strip_loop_skip:
  "i \<le> k \<Longrightarrow> k \<le> n \<Longrightarrow> (\<And>j. i \<le> j \<Longrightarrow> j < k \<Longrightarrow> isActive (arr ! j)) \<Longrightarrow>
     strip_loop isActive n i arr len = strip_loop isActive n k arr len"
proof (induction "k - i" arbitrary: i)
  case (Suc m)
  have "strip_loop isActive n i arr len = strip_loop isActive n (Suc i) arr len"
    using Suc.hyps(2) Suc.prems(2) Suc.prems(3) [of i] by (intro strip_loop_step) simp_all
  also have "\<dots> = strip_loop isActive n k arr len"
    using Suc.hyps(2) Suc.prems by (intro Suc.hyps(1)) simp_all
  finally show ?case .
qed simp

lemma strip_loop_end: "strip_loop isActive n n arr len = Ret (arr, len)"
  by (simp add: strip_loop.simps)

lemma strip_loop_active:
  assumes "i \<le> n" and "\<And>j. i \<le> j \<Longrightarrow> j < n \<Longrightarrow> isActive (arr ! j)"
  shows "strip_loop isActive n i arr len = Ret (arr, len)"
proof -
  have "strip_loop isActive n i arr len = strip_loop isActive n n arr len"
    using assms by (intro strip_loop_skip) simp_all
  then show ?thesis by (simp only: strip_loop_end)
qed

text \<open>The state after the first inactive bank was dropped.\<close>

lemma strip_loop_first:
  assumes "list_all isActive xs" and "\<not> isActive b"
  shows "strip_loop isActive (length (xs @ b # ys)) 0 (xs @ b # ys) (length (xs @ b # ys)) =
    strip_loop isActive (length (xs @ b # ys)) (Suc (length xs))
      (xs @ ys @ [last (b # ys)]) (length xs + length ys)"
proof -
  let ?l = "xs @ b # ys"
  have "strip_loop isActive (length ?l) 0 ?l (length ?l) =
      strip_loop isActive (length ?l) (length xs) ?l (length ?l)"
    using assms(1) by (intro strip_loop_skip) (auto simp: nth_append list_all_length)
  also have "\<dots> = strip_loop isActive (length ?l) (Suc (length xs))
      (xs @ ys @ drop (length ys) (b # ys)) (length xs + length ys)"
    using assms(2) by (subst strip_loop.simps) simp
  also have "drop (length ys) (b # ys) = [last (b # ys)]"
    by (metis append_butlast_last_id append_eq_conv_conj length_butlast length_tl list.distinct(1) list.sel(3))
  finally show ?thesis .
qed

lemma strip_banks_one:
  assumes "list_all isActive xs" and "\<not> isActive b" and "list_all isActive ys"
  shows "strip_banks isActive (xs @ b # ys) = Ret (xs @ ys)"
proof -
  have act: "isActive ((xs @ ys @ [last (b # ys)]) ! j)" if "Suc (length xs) \<le> j" "j < length (xs @ b # ys)" for j
  proof -
    have ne: "ys \<noteq> []" using that by auto
    have "(xs @ ys @ [last (b # ys)]) ! j \<in> set ys"
    proof (cases "j < length xs + length ys")
      case True
      then have "j - length xs < length ys" using that by linarith
      then show ?thesis using that by (simp add: nth_append)
    next
      case False
      then have "j = length xs + length ys" using that by simp
      then show ?thesis using ne by (simp add: nth_append)
    qed
    then show ?thesis using assms(3) by (auto simp: list_all_iff)
  qed
  have "strip_loop isActive (length (xs @ b # ys)) (Suc (length xs)) (xs @ ys @ [last (b # ys)])
      (length xs + length ys) = Ret (xs @ ys @ [last (b # ys)], length xs + length ys)"
    using act by (intro strip_loop_active) simp_all
  then show ?thesis
    using strip_loop_first [OF assms(1,2), of ys] by (simp add: strip_banks_def del: last.simps)
qed

lemma strip_banks_all: "list_all isActive banks \<Longrightarrow> strip_banks isActive banks = Ret banks"
  using strip_loop_active [of 0 "length banks" isActive banks "length banks"]
  by (simp add: strip_banks_def list_all_length)

text \<open>Once a bank was dropped, an inactive bank at the end of the list is fatal.\<close>

lemma strip_loop_last:
  "length arr = n \<Longrightarrow> len < n \<Longrightarrow> i < n \<Longrightarrow> \<not> isActive (arr ! (n - 1)) \<Longrightarrow>
     strip_loop isActive n i arr len = Panic SliceBounds"
proof (induction "n - i" arbitrary: i arr len)
  case (Suc m)
  show ?case
  proof (cases "isActive (arr ! i)")
    case True
    then have "i \<noteq> n - 1" using Suc.prems(4) by auto
    then have "strip_loop isActive n (Suc i) arr len = Panic SliceBounds"
      using Suc by (intro Suc.hyps(1)) simp_all
    then show ?thesis using True Suc.prems(3) by (simp add: strip_loop_step)
  next
    case inactive: False
    show ?thesis
    proof (cases "len < i + 1")
      case True
      then show ?thesis using inactive Suc.prems(3) by (subst strip_loop.simps) simp
    next
      case False
      let ?arr = "take i arr @ drop (i + 1) (take len arr) @ drop (len - 1) arr"
      have len: "length ?arr = n" "len - 1 < n" "Suc i < n" using False Suc.prems(1,2) by auto
      have "?arr \<noteq> []" using len(1) Suc.prems(3) by auto
      then have "?arr ! (n - 1) = last ?arr" using last_conv_nth [of ?arr] unfolding len(1) by metis
      also have "\<dots> = last arr" using Suc.prems(1) len(2) by (auto simp: last_append last_drop)
      also have "\<dots> = arr ! (n - 1)" using Suc.prems(1,3) by (subst last_conv_nth) auto
      finally have na: "\<not> isActive (?arr ! (n - 1))" using Suc.prems(4) by metis
      have m: "m = n - Suc i" using Suc.hyps(2) by simp
      have "strip_loop isActive n (Suc i) ?arr (len - 1) = Panic SliceBounds"
        by (rule Suc.hyps(1) [OF m len na])
      then show ?thesis using inactive False Suc.prems(3) by (subst strip_loop.simps) simp
    qed
  qed
qed simp

section \<open>What a successful quote consists of\<close>

lemma quote_parts:
  assumes "CreateTpmQuoteResponse P tpm h key req = Ret r"
  shows "\<exists>nonce q. getAssetTags P tpm key = Ret (AssetTag r) \<and> IsTagProvisioned r = (AssetTag r \<noteq> []) \<and>
    getNonce req (AssetTag r) = Ret nonce \<and>
    GetTpmQuote P tpm nonce (SelectedPcrBanks r) (Pcrs req) = Ret q \<and> Quote r = base64_encode q"
proof -
  obtain banks where "createTpmQuote P tpm h key (req\<lparr>PcrBanks := banks\<rparr>) = Ret r"
    using assms by (auto simp: CreateTpmQuoteResponse_def andThen_eq_Ret Let_def split: if_splits)
  then show ?thesis
    by (auto simp: createTpmQuote_def getNonce_def getQuote_def andThen_eq_Ret Let_def)
qed

section \<open>Properties\<close>

text \<open>
  C28: when at most one of the requested banks is inactive, exactly the active banks remain, in the
  order of the request.
\<close>

theorem strip_banks_filters:
  assumes "length (filter (\<lambda>b. \<not> isActive b) banks) \<le> 1"
  shows "strip_banks isActive banks = Ret (filter isActive banks)"
proof (cases "list_all isActive banks")
  case True
  then show ?thesis by (simp add: strip_banks_all list_all_iff)
next
  case False
  then obtain xs b ys where split: "banks = xs @ b # ys" "\<not> isActive b" "list_all isActive xs"
    using split_list_first_prop [of banks "\<lambda>b. \<not> isActive b"] by (auto simp: list_all_iff)
  moreover from this assms have "list_all isActive ys"
    by (auto simp: list_all_iff filter_empty_conv)
  ultimately show ?thesis by (auto simp: strip_banks_one list_all_iff)
qed

theorem strip_banks_filters_witness:
  "strip_banks (\<lambda>b. b \<noteq> ''SHA384'') default_banks = Ret [''SHA256'', ''SHA1'']"
  using strip_banks_filters [of "\<lambda>b. b \<noteq> ''SHA384''" default_banks] by (simp add: default_banks_def)

text \<open>
  When the last requested bank is inactive and another requested bank is inactive as well, the
  loop runs past the shortened slice and panics. With the default request this is a TPM with SHA256
  only.
\<close>

lemma strip_banks_panics:
  assumes "banks = xs @ b # ys" and "\<not> isActive b" and "ys \<noteq> []" and "\<not> isActive (last ys)"
  shows "strip_banks isActive banks = Panic SliceBounds"
proof -
  have "\<not> list_all isActive (butlast banks)"
    using assms(1-3) by (auto simp: list_all_iff butlast_append)
  then obtain us c vs where split: "butlast banks = us @ c # vs" "\<not> isActive c" "list_all isActive us"
    using split_list_first_prop [of "butlast banks" "\<lambda>b. \<not> isActive b"] by (auto simp: list_all_iff)
  define ws where "ws = vs @ [last ys]"
  have banks: "banks = us @ c # ws"
    using split(1) append_butlast_last_id [of banks] assms(1,3) by (simp add: ws_def)
  have "strip_loop isActive (length banks) 0 banks (length banks) = Panic SliceBounds"
    unfolding banks strip_loop_first [OF split(3,2)]
    by (rule strip_loop_last) (use assms(4) in \<open>simp_all add: ws_def nth_append\<close>)
  then show ?thesis by (simp add: strip_banks_def)
qed

text \<open>
  Of two inactive banks next to each other, followed by active ones, only the first is dropped:
  the inactive second one stays in the quote request.
\<close>

lemma strip_banks_keeps_inactive:
  assumes "list_all isActive xs" and "\<not> isActive b" and "\<not> isActive c" and "list_all isActive ys"
    and "ys \<noteq> []"
  shows "strip_banks isActive (xs @ b # c # ys) = Ret (xs @ c # ys)"
proof -
  let ?arr = "xs @ (c # ys) @ [last (b # c # ys)]"
  have "isActive (?arr ! j)" if "Suc (length xs) \<le> j" "j < length (xs @ b # c # ys)" for j
  proof -
    have "?arr ! j = (ys @ [last ys]) ! (j - Suc (length xs))"
      using that assms(5) by (simp add: nth_append nth_Cons')
    moreover have "j - Suc (length xs) < length (ys @ [last ys])" using that by auto
    ultimately have "?arr ! j \<in> set (ys @ [last ys])" by (simp only: nth_mem)
    then show ?thesis using assms(4,5) by (auto simp: list_all_iff)
  qed
  then have "strip_loop isActive (length (xs @ b # c # ys)) (Suc (length xs)) ?arr
      (length xs + length (c # ys)) = Ret (?arr, length xs + length (c # ys))"
    by (intro strip_loop_active) simp_all
  then show ?thesis
    using strip_loop_first [OF assms(1,2), of "c # ys"] by (simp add: strip_banks_def del: last.simps)
qed

text \<open>
  A quote is bound to the request's nonce and to the asset tag it reports: the TPM signs the
  SHA-1 of the nonce, extended with the tag exactly when the response carries one, over the banks
  the response names.
\<close>

lemma quote_binds_tag:
  assumes "CreateTpmQuoteResponse P tpm h key req = Ret r"
  shows "\<exists>tagBytes q. base64_decode (AssetTag r) = Ret tagBytes \<and>
    IsTagProvisioned r = (AssetTag r \<noteq> []) \<and>
    GetTpmQuote P tpm
      (if IsTagProvisioned r then sha1_Sum (sha1_Sum (Nonce req) @ tagBytes) else sha1_Sum (Nonce req))
      (SelectedPcrBanks r) (Pcrs req) = Ret q \<and> Quote r = base64_encode q"
  using quote_parts [OF assms]
  by (auto simp: getNonce_def andThen_eq_Ret Let_def base64_decode_def split: if_splits option.splits)

text \<open>A host whose TPM holds a tag, for the examples.\<close>

definition sample_tpm :: soft_tpm where
  "sample_tpm = \<lparr>st_owner = ''o'', st_nv = [(0x1c10110, ''k'', replicate 48 7)], st_primary = False,
                 st_banks = [''SHA256'', ''SHA1'']\<rparr>"

definition sample_host :: host where
  "sample_host =
     \<lparr>host_files = (\<lambda>p. if p = AikCert then Contents [1, 2, 3] else Absent),
      host_dir = (\<lambda>d. Ret []), host_now = 1600000000\<rparr>"

declare sample_tpm_def [eval_simps] sample_host_def [eval_simps]

text \<open>
  A quote request without nonce is refused before the TPM is asked for anything.
\<close>

lemma quote_needs_nonce:
  "Nonce req = [] \<Longrightarrow>
     CreateTpmQuoteResponse P tpm h key req = Fail (NewErr ''The TpmQuoteRequest does not contain a nonce'')"
  by (simp add: CreateTpmQuoteResponse_def)

end
