(* ===== verification/Request_Handler.thy ===== *)
theory Request_Handler
  imports Quote
begin

text \<open>
  The request handler of \<^verbatim>\<open>common/\<close> that both services call: quote, asset tag, AIK, binding key,
  host information, manifest deployment and application measurement. The state is the TPM and the
  host's files. Library code the agent calls (validation, XML and PEM coding of the library's
  types, the \<^verbatim>\<open>measure\<close> executable) is a field of \<open>agent_env\<close>.
\<close>

section \<open>State and environment\<close>

record 't agent =
  ag_tpm :: 't
  ag_host :: host

record 'm Manifest =
  Uuid :: string
  Label :: string
  manifest_content :: 'm

record TagWriteRequest =
  Tag :: "byte list"
  HardwareUUID :: string

text \<open>One run of the \<^verbatim>\<open>measure\<close> executable: pipe, start, output, exit.\<close>

record measure_run =
  pipe_error :: "go_error option"
  start_error :: "go_error option"
  run_output :: "byte list"
  wait_error :: "go_error option"

record ('t, 'm, 'r, 'i) agent_env =
  tpm_lib :: "'t tpm_provider"
  TagSecretKey :: string
  ValidateHardwareUUID :: "string \<Rightarrow> go_error option"
  ValidateUUIDv4 :: "string \<Rightarrow> go_error option"
  ValidateStrings :: "string list \<Rightarrow> go_error option"
  DefaultSoftwareFlavorPrefix :: string
  DefaultWorkloadFlavorPrefix :: string
  marshal_manifest :: "'m Manifest \<Rightarrow> byte list go"
  unmarshal_measurement :: "byte list \<Rightarrow> 'r go"
  unmarshal_host_info :: "byte list \<Rightarrow> 'i go"
  pem_Decode :: "byte list \<Rightarrow> byte list option"
  write_error :: "string \<Rightarrow> go_error option"
  Lstat_is_symlink :: "string \<Rightarrow> bool go"
  run_measure :: "string \<Rightarrow> measure_run"

definition StatusOK :: nat where "StatusOK = 200"
definition StatusBadRequest :: nat where "StatusBadRequest = 400"
definition StatusUnauthorized :: nat where "StatusUnauthorized = 401"
definition StatusNotFound :: nat where "StatusNotFound = 404"
definition StatusInternalServerError :: nat where "StatusInternalServerError = 500"

lemmas status_defs = StatusOK_def StatusBadRequest_def StatusUnauthorized_def StatusNotFound_def
  StatusInternalServerError_def

declare status_defs [eval_simps]

text \<open>Writing a file, and a call whose error becomes an error of the endpoint.\<close>

definition write_file ::
  "('t, 'm, 'r, 'i) agent_env \<Rightarrow> 't agent \<Rightarrow> string \<Rightarrow> byte list \<Rightarrow> unit go \<times> 't agent" where
  "write_file env ag path bs =
     (case write_error env path of
        Some e \<Rightarrow> (Fail e, ag)
      | None \<Rightarrow>
          (Ret (), ag\<lparr>ag_host := (ag_host ag)\<lparr>host_files := (host_files (ag_host ag))(path := Contents bs)\<rparr>\<rparr>))"

fun endpoint_error :: "string \<Rightarrow> nat \<Rightarrow> 'a go \<Rightarrow> 'a go" where
  "endpoint_error msg code (Ret x) = Ret x"
| "endpoint_error msg code (Fail e) = Fail (EndpointErr msg code)"
| "endpoint_error msg code (Panic p) = Panic p"

lemma endpoint_error_eq_Ret [simp]: "endpoint_error msg code m = Ret x \<longleftrightarrow> m = Ret x"
  by (cases m) auto

lemma endpoint_error_eq_Fail:
  "endpoint_error msg code m = Fail e \<longleftrightarrow> e = EndpointErr msg code \<and> (\<exists>e'. m = Fail e')"
  by (cases m) auto

abbreviation processing_error :: "'a go \<Rightarrow> 'a go" where
  "processing_error \<equiv> endpoint_error ''Error processing request'' StatusInternalServerError"

section \<open>The handlers\<close>

definition handlerGetTpmQuote ::
  "('t, 'm, 'r, 'i) agent_env \<Rightarrow> 't agent \<Rightarrow> TpmQuoteRequest option \<Rightarrow> TpmQuoteResponse go" where
  "handlerGetTpmQuote env ag req =
     handleGetTpmQuote (tpm_lib env) (ag_tpm ag) (ag_host ag) (TagSecretKey env) req"

definition DeployAssetTag ::
  "('t, 'm, 'r, 'i) agent_env \<Rightarrow> 't agent \<Rightarrow> TagWriteRequest \<Rightarrow> unit go \<times> 't agent" where
  "DeployAssetTag env ag req =
     (let P = tpm_lib env; tpm = ag_tpm ag
      in thenS (endpoint_error ''Invalid hardware_uuid'' StatusBadRequest
                  (return_with () (ValidateHardwareUUID env (HardwareUUID req))), ag) (\<lambda>_ ag.
         thenS (return_with () (NewTpmFactory P), ag) (\<lambda>_ ag.
         thenS (processing_error (open_tpm P tpm), ag) (\<lambda>_ ag.
         thenS (processing_error (NvIndexExists P tpm (NV_IDX_ASSET_TAG P)), ag) (\<lambda>nvExists ag.
         if \<not> nvExists
         then (Fail (EndpointErr ''The asset tag index does not exist'' StatusInternalServerError), ag)
         else
           case NvWrite P tpm (TagSecretKey env) (NV_IDX_ASSET_TAG P) (NV_IDX_ASSET_TAG P) (Tag req) of
             (err, tpm') \<Rightarrow> (processing_error (return_with () err), ag\<lparr>ag_tpm := tpm'\<rparr>))))))"

definition getAikPem :: "'t agent \<Rightarrow> byte list go" where
  "getAikPem ag =
     (if os_IsNotExist (os_Stat (host_files (ag_host ag)) AikCert)
      then Fail (WrapErr NotExist ''AIK does not exist'')
      else wrapping ''Error reading aik'' (ioutil_ReadFile (host_files (ag_host ag)) AikCert))"

definition GetAikDerBytes :: "('t, 'm, 'r, 'i) agent_env \<Rightarrow> 't agent \<Rightarrow> byte list go" where
  "GetAikDerBytes env ag =
     andThen (getAikPem ag) (\<lambda>aikBytes.
     case pem_Decode env aikBytes of
       None \<Rightarrow> Fail (NewErr ''There was an error parsing the aik's der bytes'')
     | Some der \<Rightarrow> Ret der)"

definition GetBindingCertificateDerBytes :: "'t agent \<Rightarrow> byte list go" where
  "GetBindingCertificateDerBytes ag =
     (if os_IsNotExist (os_Stat (host_files (ag_host ag)) BindingKeyCertificatePath)
      then Fail (EndpointErr ''Error processing request'' StatusInternalServerError)
      else processing_error (ioutil_ReadFile (host_files (ag_host ag)) BindingKeyCertificatePath))"

definition ReadHostInfo :: "('t, 'm, 'r, 'i) agent_env \<Rightarrow> 't agent \<Rightarrow> 'i go" where
  "ReadHostInfo env ag =
     (if os_IsNotExist (os_Stat (host_files (ag_host ag)) PlatformInfoFilePath)
      then Fail (WrapErr NotExist ''platform-info does not exist'')
      else
      andThen (wrapping ''There was an error reading platform-info''
                 (ioutil_ReadFile (host_files (ag_host ag)) PlatformInfoFilePath)) (\<lambda>jsonData.
      wrapping ''There was an error unmarshalling the hostInfo'' (unmarshal_host_info env jsonData)))"

definition GetHostInfo :: "('t, 'm, 'r, 'i) agent_env \<Rightarrow> 't agent \<Rightarrow> 'i go" where
  "GetHostInfo env ag = wrapping ''Error reading host-info file'' (ReadHostInfo env ag)"

definition manifestFile :: "'m Manifest \<Rightarrow> string" where
  "manifestFile manifest = VarDir @ ''manifest_'' @ Uuid manifest @ ''.xml''"

definition DeploySoftwareManifest ::
  "('t, 'm, 'r, 'i) agent_env \<Rightarrow> 't agent \<Rightarrow> 'm Manifest \<Rightarrow> unit go \<times> 't agent" where
  "DeploySoftwareManifest env ag manifest =
     thenS (endpoint_error ''Error: Failed to marshal manifest'' StatusBadRequest
              (marshal_manifest env manifest), ag) (\<lambda>manifestXml ag.
     thenS (endpoint_error ''Error: Invalid uuid'' StatusBadRequest
              (return_with () (ValidateUUIDv4 env (Uuid manifest))), ag) (\<lambda>_ ag.
     if length (Label manifest) = 0
     then (Fail (EndpointErr ''Error: The manifest did not contain a label'' StatusBadRequest), ag)
     else
     thenS (endpoint_error ''Error: Invalid manifest labels'' StatusBadRequest
              (return_with () (ValidateStrings env [Label manifest])), ag) (\<lambda>_ ag.
     if str_contains (DefaultSoftwareFlavorPrefix env) (Label manifest) \<or>
        str_contains (DefaultWorkloadFlavorPrefix env) (Label manifest)
     then (Fail (EndpointErr '' Default flavor's manifest (%s) is part of installation''
                   StatusBadRequest), ag)
     else
       case write_file env ag (manifestFile manifest) manifestXml of
         (r, ag') \<Rightarrow> (processing_error r, ag'))))"

definition ensure_wml_log ::
  "('t, 'm, 'r, 'i) agent_env \<Rightarrow> 't agent \<Rightarrow> unit go \<times> 't agent" where
  "ensure_wml_log env ag =
     (if os_IsNotExist (os_Stat (host_files (ag_host ag)) WML_LOG_FILE)
      then write_file env ag WML_LOG_FILE []
      else (Ret (), ag))"

definition GetApplicationMeasurement ::
  "('t, 'm, 'r, 'i) agent_env \<Rightarrow> 't agent \<Rightarrow> 'm Manifest \<Rightarrow> 'r go \<times> 't agent" where
  "GetApplicationMeasurement env ag manifest =
     thenS (endpoint_error ''Error: Failed to marshal manifest'' StatusBadRequest
              (marshal_manifest env manifest), ag) (\<lambda>manifestXml ag.
     thenS (case ensure_wml_log env ag of
              (r, ag') \<Rightarrow>
                (endpoint_error ''Error: Unable to open log file'' StatusInternalServerError r, ag'))
       (\<lambda>_ ag.
     thenS (endpoint_error ''Error: Unable to stat tboot path'' StatusInternalServerError
              (Lstat_is_symlink env TBootXmMeasurePath), ag) (\<lambda>symlink ag.
     if symlink
     then (Fail (EndpointErr ''Error: Invalid 'measure' file'' StatusInternalServerError), ag)
     else
       let run = run_measure env (string_of_bytes manifestXml)
       in thenS (processing_error (return_with () (pipe_error run)), ag) (\<lambda>_ ag.
          thenS (processing_error (return_with () (start_error run)), ag) (\<lambda>_ ag.
          thenS (processing_error (return_with () (wait_error run)), ag) (\<lambda>_ ag.
          (processing_error (unmarshal_measurement env (run_output run)), ag)))))))"

lemmas handler_defs = handlerGetTpmQuote_def DeployAssetTag_def getAikPem_def GetAikDerBytes_def
  GetBindingCertificateDerBytes_def ReadHostInfo_def GetHostInfo_def manifestFile_def
  DeploySoftwareManifest_def ensure_wml_log_def GetApplicationMeasurement_def write_file_def

declare handler_defs [eval_simps]

section \<open>What the handlers change\<close>

lemma write_file_Ret:
  "write_file env ag path bs = (Ret u, ag') \<Longrightarrow>
     host_files (ag_host ag') path = Contents bs \<and> ag_tpm ag' = ag_tpm ag \<and>
     (\<forall>p. p \<noteq> path \<longrightarrow> host_files (ag_host ag') p = host_files (ag_host ag) p)"
  by (auto simp: write_file_def split: option.splits)

lemma write_file_Fail: "write_file env ag path bs = (Fail e, ag') \<Longrightarrow> ag' = ag"
  by (auto simp: write_file_def split: option.splits)

lemma write_file_no_panic [simp]: "write_file env ag path bs \<noteq> (Panic p, ag')"
  by (auto simp: write_file_def split: option.splits)

lemma DeployAssetTag_Ret:
  assumes "DeployAssetTag env ag req = (Ret u, ag')"
  shows "NvWrite (tpm_lib env) (ag_tpm ag) (TagSecretKey env) (NV_IDX_ASSET_TAG (tpm_lib env))
      (NV_IDX_ASSET_TAG (tpm_lib env)) (Tag req) = (None, ag_tpm ag') \<and>
    ag_host ag' = ag_host ag"
  using assms unfolding DeployAssetTag_def Let_def
  by (auto simp: thenS_eq_Ret return_with_def split: prod.splits if_splits option.splits)

lemma allZeros_iff: "allZeros bs \<longleftrightarrow> (\<forall>b \<in> set bs. b = 0)"
  by (induction bs) auto

lemma deployed_tag_read_back:
  assumes "nv_laws (tpm_lib env)" and "DeployAssetTag env ag req = (Ret u, ag')"
    and "length (Tag req) = TagIndexSize" and "\<exists>b \<in> set (Tag req). b \<noteq> 0"
  shows "getAssetTags (tpm_lib env) (ag_tpm ag') (TagSecretKey env) = Ret (base64_encode (Tag req))"
  using nv_write_read [OF assms(1,3) conjunct1 [OF DeployAssetTag_Ret [OF assms(2)]]] assms(3,4)
  by (auto simp: getAssetTags_def allZeros_iff)

section \<open>Properties\<close>

text \<open>An environment and a state for the examples.\<close>

definition sample_agent_env :: "(soft_tpm, unit, unit, unit) agent_env" where
  "sample_agent_env =
     \<lparr>tpm_lib = soft_provider, TagSecretKey = ''k'',
      ValidateHardwareUUID = (\<lambda>u. if length u = 36 then None else Some (LibError ''uuid'')),
      ValidateUUIDv4 = (\<lambda>u. if length u = 36 then None else Some (LibError ''uuid'')),
      ValidateStrings = (\<lambda>ss. None),
      DefaultSoftwareFlavorPrefix = ''ISecL_Default_Application_Flavor_v'',
      DefaultWorkloadFlavorPrefix = ''ISecL_Default_Workload_Flavor_v'',
      marshal_manifest = (\<lambda>m. Ret (bytes_of_string (''<Manifest Uuid='' @ Uuid m @ ''/>''))),
      unmarshal_measurement = (\<lambda>bs. Ret ()), unmarshal_host_info = (\<lambda>bs. Ret ()),
      pem_Decode = (\<lambda>bs. Some bs), write_error = (\<lambda>p. None),
      Lstat_is_symlink = (\<lambda>p. Ret (p = TBootXmMeasurePath)),
      run_measure = (\<lambda>x. \<lparr>pipe_error = None, start_error = None, run_output = [], wait_error = None\<rparr>)\<rparr>"

definition sample_agent :: "soft_tpm agent" where
  "sample_agent = \<lparr>ag_tpm = sample_tpm, ag_host = sample_host\<rparr>"

definition sample_uuid :: string where
  "sample_uuid = ''00000000-0000-4000-8000-000000000000''"

declare sample_agent_env_def [eval_simps] sample_agent_def [eval_simps] sample_uuid_def [eval_simps]

text \<open>
  C29: a manifest is deployed only when it marshals, its UUID and label are valid and its label is
  not one of a default flavor; then exactly one file, named after the UUID, is written with the
  manifest's XML, and the TPM is untouched. Otherwise nothing changes.
\<close>

theorem manifest_deployment:
  assumes "DeploySoftwareManifest env ag manifest = (r, ag')"
  shows "if r = Ret () then
      (\<exists>xml. marshal_manifest env manifest = Ret xml \<and>
         host_files (ag_host ag') (manifestFile manifest) = Contents xml) \<and>
      ValidateUUIDv4 env (Uuid manifest) = None \<and> Label manifest \<noteq> [] \<and>
      ValidateStrings env [Label manifest] = None \<and>
      \<not> sublist (DefaultSoftwareFlavorPrefix env) (Label manifest) \<and>
      \<not> sublist (DefaultWorkloadFlavorPrefix env) (Label manifest) \<and>
      ag_tpm ag' = ag_tpm ag \<and>
      (\<forall>p. p \<noteq> manifestFile manifest \<longrightarrow> host_files (ag_host ag') p = host_files (ag_host ag) p)
    else ag' = ag"
proof (cases "marshal_manifest env manifest")
  case (Ret xml)
  show ?thesis
    using assms Ret
    by (cases "write_error env (manifestFile manifest)";
        cases "ValidateUUIDv4 env (Uuid manifest)"; cases "ValidateStrings env [Label manifest]")
      (auto simp: DeploySoftwareManifest_def return_with_def write_file_def str_contains_iff
        split: if_splits)
qed (use assms in \<open>auto simp: DeploySoftwareManifest_def\<close>)

theorem manifest_deployment_witness:
  "\<exists>ag'. DeploySoftwareManifest sample_agent_env sample_agent
        \<lparr>Uuid = sample_uuid, Label = ''app'', manifest_content = ()\<rparr> = (Ret (), ag') \<and>
     host_files (ag_host ag') (VarDir @ ''manifest_'' @ sample_uuid @ ''.xml'') =
       Contents (bytes_of_string (''<Manifest Uuid='' @ sample_uuid @ ''/>'')) \<and>
     ag_tpm ag' = sample_tpm"
proof -
  let ?m = "\<lparr>Uuid = sample_uuid, Label = ''app'', manifest_content = ()\<rparr>"
  obtain ag' where ag': "DeploySoftwareManifest sample_agent_env sample_agent ?m = (Ret (), ag')"
    by (simp add: DeploySoftwareManifest_def sample_agent_env_def sample_uuid_def write_file_def)
  from manifest_deployment [OF this] ag' show ?thesis
    by (auto simp: sample_agent_env_def manifestFile_def sample_agent_def)
qed

text \<open>
  The measurement of an application never runs \<^verbatim>\<open>measure\<close> through a symbolic link: when the
  executable is a link the request fails with an internal error, whatever the executable would do.
\<close>

lemma measure_refuses_symlink:
  assumes "Lstat_is_symlink env TBootXmMeasurePath = Ret True"
  shows "\<not> is_Ret (fst (GetApplicationMeasurement env ag manifest)) \<and>
    GetApplicationMeasurement (env\<lparr>run_measure := f\<rparr>) ag manifest =
      GetApplicationMeasurement env ag manifest"
proof (cases "marshal_manifest env manifest")
  case (Ret xml)
  have same: "ensure_wml_log (env\<lparr>run_measure := f\<rparr>) ag = ensure_wml_log env ag"
    by (simp add: ensure_wml_log_def write_file_def)
  obtain r ag1 where "ensure_wml_log env ag = (r, ag1)" by fastforce
  then show ?thesis
    using assms Ret same by (cases r) (simp_all add: GetApplicationMeasurement_def)
qed (simp_all add: GetApplicationMeasurement_def)

end
