(* ===== verification/Web_Service.thy ===== *)
theory Web_Service
  imports Request_Handler Go_Utf8
begin

text \<open>
  \<^verbatim>\<open>service/webservice.go\<close> and the endpoints of \<^verbatim>\<open>service/\<close>: permission check, error handler and
  route table. The response writer follows \<^verbatim>\<open>net/http\<close>: the status and the headers set so far are
  sent by the first \<^verbatim>\<open>WriteHeader\<close>, explicit or implied by a write; later ones have no effect.
\<close>

section \<open>Requests and responses\<close>

record response =
  rw_header :: "(string \<times> string) list"
  rw_status :: "nat option"
  rw_sent :: "(string \<times> string) list"
  rw_body :: string

definition new_response :: response where
  "new_response = \<lparr>rw_header = [], rw_status = None, rw_sent = [], rw_body = []\<rparr>"

definition header_add :: "string \<Rightarrow> string \<Rightarrow> response \<Rightarrow> response" where
  "header_add k v w = w\<lparr>rw_header := rw_header w @ [(k, v)]\<rparr>"

definition header_set :: "string \<Rightarrow> string \<Rightarrow> response \<Rightarrow> response" where
  "header_set k v w = w\<lparr>rw_header := filter (\<lambda>h. fst h \<noteq> k) (rw_header w) @ [(k, v)]\<rparr>"

definition write_header :: "nat \<Rightarrow> response \<Rightarrow> response" where
  "write_header code w =
     (case rw_status w of
        Some _ \<Rightarrow> w
      | None \<Rightarrow> w\<lparr>rw_status := Some code, rw_sent := rw_header w\<rparr>)"

definition write_body :: "string \<Rightarrow> response \<Rightarrow> response" where
  "write_body s w = (let w = write_header StatusOK w in w\<lparr>rw_body := rw_body w @ s\<rparr>)"

definition http_Error :: "response \<Rightarrow> string \<Rightarrow> nat \<Rightarrow> response" where
  "http_Error w msg code =
     write_body (msg @ [LF])
       (write_header code
         (header_set ''X-Content-Type-Options'' ''nosniff''
           (header_set ''Content-Type'' ''text/plain; charset=utf-8'' w)))"

text \<open>\<open>user_permissions\<close> is what the token middleware put into the request's context.\<close>

record 'p request =
  req_method :: string
  req_path :: string
  content_type :: string
  req_body :: "byte list go"
  user_permissions :: "'p go"

text \<open>
  The library functions behind the endpoints: matching of permissions, decoding of request bodies
  and encoding of results.
\<close>

record ('p, 'm, 'r, 'i) web_env =
  match_permission :: "'p \<Rightarrow> string list \<Rightarrow> bool"
  decode_tag_request :: "byte list \<Rightarrow> TagWriteRequest go"
  decode_quote_request :: "byte list \<Rightarrow> TpmQuoteRequest go"
  unmarshal_manifest :: "byte list \<Rightarrow> 'm Manifest go"
  marshal_quote :: "TpmQuoteResponse \<Rightarrow> byte list go"
  marshal_host_info :: "'i \<Rightarrow> byte list go"
  marshal_measurement :: "'r \<Rightarrow> byte list go"
  version_text :: string

type_synonym ('p, 't) endpointHandler =
  "'p request \<Rightarrow> response \<Rightarrow> 't agent \<Rightarrow> unit go \<times> response \<times> 't agent"

section \<open>Errors\<close>

text \<open>\<^verbatim>\<open>err.Error()\<close>; the texts of the operating system are abbreviated.\<close>

fun error_string :: "go_error \<Rightarrow> string" where
  "error_string EOF = ''EOF''"
| "error_string UnexpectedEOF = ''unexpected EOF''"
| "error_string NotExist = ''no such file or directory''"
| "error_string (IOError m) = m"
| "error_string (ParseError m) = m"
| "error_string (LibError m) = m"
| "error_string (NewErr m) = m"
| "error_string (WrapErr e m) = m @ '': '' @ error_string e"
| "error_string (EndpointErr m c) = dec_nat c @ '': '' @ m"
| "error_string (PrivilegeErr m c) = dec_nat c @ '': '' @ m"

definition unicode_space :: "rune \<Rightarrow> bool" where
  "unicode_space r \<longleftrightarrow>
     9 \<le> r \<and> r \<le> 13 \<or> r = 32 \<or> r = 0x85 \<or> r = 0xA0 \<or> r = 0x1680 \<or> 0x2000 \<le> r \<and> r \<le> 0x200a
     \<or> r = 0x2028 \<or> r = 0x2029 \<or> r = 0x202f \<or> r = 0x205f \<or> r = 0x3000"

definition lower_rune :: "rune \<Rightarrow> rune" where
  "lower_rune r = (if 65 \<le> r \<and> r \<le> 90 then r + 32 else r)"

definition record_not_found :: "string \<Rightarrow> bool" where
  "record_not_found s \<longleftrightarrow>
     dropWhile unicode_space (rev (dropWhile unicode_space (rev (map lower_rune (str_runes s)))))
       = map of_char ''record not found''"

text \<open>
  The type switch knows \<^verbatim>\<open>*EndpointError\<close> and the value type \<^verbatim>\<open>privilegeError\<close>; the error that
  \<^verbatim>\<open>requiresPermission\<close> returns is a pointer \<^verbatim>\<open>*privilegeError\<close> (\<open>PrivilegeErr\<close> here) and takes the
  default branch.
\<close>

definition handle_error :: "go_error \<Rightarrow> response \<Rightarrow> response" where
  "handle_error err w =
     (if record_not_found (error_string err) then http_Error w (error_string err) StatusNotFound
      else case err of
             EndpointErr msg code \<Rightarrow> http_Error w msg code
           | _ \<Rightarrow> http_Error w (error_string err) StatusInternalServerError)"

definition errorHandler ::
  "('p, 't) endpointHandler \<Rightarrow> 'p request \<Rightarrow> response \<Rightarrow> 't agent \<Rightarrow> response \<times> 't agent" where
  "errorHandler eh r w ag =
     (case eh r w ag of
        (Ret _, w', ag') \<Rightarrow> (w', ag')
      | (Fail err, w', ag') \<Rightarrow> (handle_error err w', ag')
      | (Panic p, w', ag') \<Rightarrow> (http_Error w' ''Unknown Error'' StatusInternalServerError, ag'))"

section \<open>Permissions\<close>

definition sts_header :: "response \<Rightarrow> response" where
  "sts_header w = header_add ''Strict-Transport-Security'' ''max-age=63072000; includeSubDomains'' w"

definition requiresPermission ::
  "('p, 'm, 'r, 'i) web_env \<Rightarrow> ('p, 't) endpointHandler \<Rightarrow> string list \<Rightarrow> ('p, 't) endpointHandler" where
  "requiresPermission web eh permissionNames = (\<lambda>r w ag.
     case user_permissions r of
       Fail err \<Rightarrow>
         (Fail (WrapErr err ''Could not get user roles from http context''),
          write_body ''Could not get user roles from http context''
            (sts_header (write_header StatusInternalServerError w)), ag)
     | Panic p \<Rightarrow> (Panic p, w, ag)
     | Ret privileges \<Rightarrow>
         if \<not> match_permission web privileges permissionNames
         then (Fail (PrivilegeErr (''Insufficient privileges to access '' @ req_path r) StatusUnauthorized),
               write_header StatusUnauthorized w, ag)
         else eh r (sts_header w) ag)"

section \<open>Endpoints\<close>

text \<open>A step that does not touch the response, and the reply of a successful endpoint.\<close>

fun on_Ret ::
  "'a go \<Rightarrow> response \<Rightarrow> 't agent \<Rightarrow> ('a \<Rightarrow> unit go \<times> response \<times> 't agent)
     \<Rightarrow> unit go \<times> response \<times> 't agent" where
  "on_Ret (Ret x) w ag f = f x"
| "on_Ret (Fail e) w ag f = (Fail e, w, ag)"
| "on_Ret (Panic p) w ag f = (Panic p, w, ag)"

definition check_content_type :: "'p request \<Rightarrow> string \<Rightarrow> unit go" where
  "check_content_type r expected =
     (if content_type r \<noteq> expected then Fail (EndpointErr ''Invalid content-type'' StatusBadRequest)
      else Ret ())"

definition reply :: "byte list \<Rightarrow> response \<Rightarrow> response" where
  "reply bs w =
     (let w = write_header StatusOK w in if bs = [] then w else write_body (string_of_bytes bs) w)"

definition getVersion :: "('p, 'm, 'r, 'i) web_env \<Rightarrow> ('p, 't) endpointHandler" where
  "getVersion web = (\<lambda>r w ag.
     (Ret (), reply (bytes_of_string (version_text web)) (header_set ''Content-Type'' ''text/plain'' (sts_header w)), ag))"

definition getAik :: "('t, 'm, 'r, 'i) agent_env \<Rightarrow> ('p, 't) endpointHandler" where
  "getAik env = (\<lambda>r w ag.
     on_Ret (check_content_type r []) w ag (\<lambda>_.
     on_Ret (endpoint_error ''Unable to fetch AIK certificate'' StatusInternalServerError
               (GetAikDerBytes env ag)) w ag (\<lambda>aikDer.
     (Ret (), reply aikDer w, ag))))"

definition getPlatformInfo ::
  "('p, 'm, 'r, 'i) web_env \<Rightarrow> ('t, 'm, 'r, 'i) agent_env \<Rightarrow> ('p, 't) endpointHandler" where
  "getPlatformInfo web env = (\<lambda>r w ag.
     on_Ret (check_content_type r []) w ag (\<lambda>_.
     on_Ret (processing_error (GetHostInfo env ag)) w ag (\<lambda>hostInfo.
     on_Ret (processing_error (marshal_host_info web hostInfo)) w ag (\<lambda>hostInfoJSON.
     (Ret (), reply hostInfoJSON (header_set ''Content-Type'' ''application/json'' w), ag)))))"

definition getTpmQuote ::
  "('p, 'm, 'r, 'i) web_env \<Rightarrow> ('t, 'm, 'r, 'i) agent_env \<Rightarrow> ('p, 't) endpointHandler" where
  "getTpmQuote web env = (\<lambda>r w ag.
     on_Ret (check_content_type r ''application/json'') w ag (\<lambda>_.
     on_Ret (endpoint_error ''Error reading request body'' StatusBadRequest (req_body r)) w ag (\<lambda>data.
     on_Ret (endpoint_error ''Error marshaling json data'' StatusBadRequest
               (decode_quote_request web data)) w ag (\<lambda>tpmQuoteRequest.
     on_Ret (endpoint_error ''There was an error collecting the tpm quote'' StatusInternalServerError
               (handlerGetTpmQuote env ag (Some tpmQuoteRequest))) w ag (\<lambda>tpmQuoteResponse.
     on_Ret (endpoint_error ''There was an error serializing the tpm quote'' StatusInternalServerError
               (marshal_quote web tpmQuoteResponse)) w ag (\<lambda>xmlOutput.
     (Ret (), reply xmlOutput (header_set ''Content-Type'' ''application/xml'' w), ag)))))))"

definition getBindingKeyCertificate :: "('p, 't) endpointHandler" where
  "getBindingKeyCertificate = (\<lambda>r w ag.
     on_Ret (check_content_type r []) w ag (\<lambda>_.
     on_Ret (GetBindingCertificateDerBytes ag) w ag (\<lambda>bindingKeyBytes.
     (Ret (), reply bindingKeyBytes (header_set ''Content-Type'' ''application/x-pem-file'' w), ag))))"

definition setAssetTag ::
  "('p, 'm, 'r, 'i) web_env \<Rightarrow> ('t, 'm, 'r, 'i) agent_env \<Rightarrow> ('p, 't) endpointHandler" where
  "setAssetTag web env = (\<lambda>r w ag.
     on_Ret (check_content_type r ''application/json'') w ag (\<lambda>_.
     on_Ret (endpoint_error ''Error parsing request'' StatusBadRequest (req_body r)) w ag (\<lambda>data.
     on_Ret (endpoint_error ''Error processing request'' StatusBadRequest
               (decode_tag_request web data)) w ag (\<lambda>tagWriteRequest.
     case DeployAssetTag env ag tagWriteRequest of
       (res, ag') \<Rightarrow> on_Ret res w ag' (\<lambda>_. (Ret (), write_header StatusOK w, ag'))))))"

definition getApplicationMeasurement ::
  "('p, 'm, 'r, 'i) web_env \<Rightarrow> ('t, 'm, 'r, 'i) agent_env \<Rightarrow> ('p, 't) endpointHandler" where
  "getApplicationMeasurement web env = (\<lambda>r w ag.
     on_Ret (check_content_type r ''application/xml'') w ag (\<lambda>_.
     on_Ret (endpoint_error ''Error reading manifest xml'' StatusBadRequest (req_body r)) w ag
       (\<lambda>manifestXml.
     on_Ret (endpoint_error ''Error: Invalid XML format'' StatusBadRequest
               (unmarshal_manifest web manifestXml)) w ag (\<lambda>manifest.
     case GetApplicationMeasurement env ag manifest of
       (res, ag') \<Rightarrow>
         on_Ret res w ag' (\<lambda>measurement.
         on_Ret (endpoint_error ''Error: Invalid XML format of generated XML''
                   StatusInternalServerError (marshal_measurement web measurement)) w ag'
           (\<lambda>measureBytes. (Ret (), reply measureBytes w, ag')))))))"

definition deployManifest ::
  "('p, 'm, 'r, 'i) web_env \<Rightarrow> ('t, 'm, 'r, 'i) agent_env \<Rightarrow> ('p, 't) endpointHandler" where
  "deployManifest web env = (\<lambda>r w ag.
     on_Ret (check_content_type r ''application/xml'') w ag (\<lambda>_.
     on_Ret (endpoint_error ''Error reading manifest xml'' StatusBadRequest (req_body r)) w ag
       (\<lambda>manifestXml.
     on_Ret (endpoint_error ''Error: Invalid xml format'' StatusBadRequest
               (unmarshal_manifest web manifestXml)) w ag (\<lambda>manifest.
     case DeploySoftwareManifest env ag manifest of
       (res, ag') \<Rightarrow> on_Ret res w ag' (\<lambda>_. (Ret (), write_header StatusOK w, ag'))))))"

section \<open>Routes\<close>

text \<open>
  The routes of \<^verbatim>\<open>newWebService\<close>: method, path below \<^verbatim>\<open>/v2\<close>, required permission (none for the version)
  and endpoint. Requests that match no route are the router's business and not modelled.
\<close>

record ('p, 't) route =
  route_method :: string
  route_path :: string
  route_permission :: "string option"
  route_endpoint :: "('p, 't) endpointHandler"

definition routes ::
  "('p, 'm, 'r, 'i) web_env \<Rightarrow> ('t, 'm, 'r, 'i) agent_env \<Rightarrow> ('p, 't) route list" where
  "routes web env =
     [\<lparr>route_method = ''GET'', route_path = ''/v2/version'', route_permission = None,
       route_endpoint = getVersion web\<rparr>,
      \<lparr>route_method = ''GET'', route_path = ''/v2/aik'', route_permission = Some ''aik:retrieve'',
       route_endpoint = getAik env\<rparr>,
      \<lparr>route_method = ''GET'', route_path = ''/v2/host'', route_permission = Some ''host_info:retrieve'',
       route_endpoint = getPlatformInfo web env\<rparr>,
      \<lparr>route_method = ''POST'', route_path = ''/v2/tpm/quote'', route_permission = Some ''quote:create'',
       route_endpoint = getTpmQuote web env\<rparr>,
      \<lparr>route_method = ''GET'', route_path = ''/v2/binding-key-certificate'',
       route_permission = Some ''binding_key:retrieve'', route_endpoint = getBindingKeyCertificate\<rparr>,
      \<lparr>route_method = ''POST'', route_path = ''/v2/tag'', route_permission = Some ''deploy_tag:create'',
       route_endpoint = setAssetTag web env\<rparr>,
      \<lparr>route_method = ''POST'', route_path = ''/v2/host/application-measurement'',
       route_permission = Some ''application_measurement:create'',
       route_endpoint = getApplicationMeasurement web env\<rparr>,
      \<lparr>route_method = ''POST'', route_path = ''/v2/deploy/manifest'',
       route_permission = Some ''deploy_manifest:create'', route_endpoint = deployManifest web env\<rparr>]"

definition route_handler ::
  "('p, 'm, 'r, 'i) web_env \<Rightarrow> ('p, 't) route \<Rightarrow> ('p, 't) endpointHandler" where
  "route_handler web rt =
     (case route_permission rt of
        None \<Rightarrow> route_endpoint rt
      | Some perm \<Rightarrow> requiresPermission web (route_endpoint rt) [perm])"

definition serve ::
  "('p, 'm, 'r, 'i) web_env \<Rightarrow> ('t, 'm, 'r, 'i) agent_env \<Rightarrow> 'p request \<Rightarrow> 't agent
     \<Rightarrow> (response \<times> 't agent) option" where
  "serve web env r ag =
     map_option (\<lambda>rt. errorHandler (route_handler web rt) r new_response ag)
       (find (\<lambda>rt. route_method rt = req_method r \<and> route_path rt = req_path r) (routes web env))"

lemmas web_defs = new_response_def header_add_def header_set_def write_header_def write_body_def
  http_Error_def unicode_space_def lower_rune_def record_not_found_def handle_error_def
  errorHandler_def sts_header_def requiresPermission_def check_content_type_def reply_def
  getVersion_def getAik_def getPlatformInfo_def getTpmQuote_def getBindingKeyCertificate_def
  setAssetTag_def getApplicationMeasurement_def deployManifest_def routes_def route_handler_def
  serve_def

declare web_defs [eval_simps]

section \<open>The response writer\<close>

lemma write_header_status [simp]:
  "rw_status w = None \<Longrightarrow> rw_status (write_header code w) = Some code"
  "rw_status w = Some c \<Longrightarrow> write_header code w = w"
  by (simp_all add: write_header_def)

lemma header_status [simp]:
  "rw_status (header_set k v w) = rw_status w" "rw_status (header_add k v w) = rw_status w"
  "rw_status (sts_header w) = rw_status w"
  by (simp_all add: header_set_def header_add_def sts_header_def)

lemma header_sent [simp]:
  "rw_sent (header_set k v w) = rw_sent w" "rw_sent (header_add k v w) = rw_sent w"
  by (simp_all add: header_set_def header_add_def)

lemma write_body_status:
  "rw_status (write_body s w) = (case rw_status w of None \<Rightarrow> Some StatusOK | Some c \<Rightarrow> Some c)"
  by (simp add: write_body_def write_header_def split: option.split)

lemma write_body_sent: "rw_status w = Some c \<Longrightarrow> rw_sent (write_body s w) = rw_sent w"
  by (simp add: write_body_def)

lemma http_Error_status:
  "rw_status (http_Error w msg code) = (case rw_status w of None \<Rightarrow> Some code | Some c \<Rightarrow> Some c)"
  by (simp add: http_Error_def write_body_status write_header_def split: option.split)

lemma http_Error_sent: "rw_status w = Some c \<Longrightarrow> rw_sent (http_Error w msg code) = rw_sent w"
  unfolding http_Error_def by (subst write_body_sent [of _ c]) simp_all

lemma reply_status: "rw_status w = None \<Longrightarrow> rw_status (reply bs w) = Some StatusOK"
  by (simp add: reply_def Let_def write_body_status)

lemma reply_sent: "rw_status w = None \<Longrightarrow> rw_sent (reply bs w) = rw_header w"
  by (simp add: reply_def Let_def write_body_def write_header_def)

lemma write_header_sent: "rw_status w = None \<Longrightarrow> rw_sent (write_header c w) = rw_header w"
  by (simp add: write_header_def)

lemma handle_error_status:
  "rw_status w = Some c \<Longrightarrow> rw_status (handle_error err w) = Some c \<and> rw_sent (handle_error err w) = rw_sent w"
  by (auto simp: handle_error_def http_Error_status http_Error_sent split: go_error.split)

lemma handle_error_answers: "rw_status (handle_error err w) \<noteq> None"
  by (auto simp: handle_error_def http_Error_status split: go_error.split option.split)

text \<open>The text of an endpoint error starts with its status, so it is never taken for a missing record.\<close>

lemma str_runes_ascii_Cons:
  "(of_char c :: nat) < 0x80 \<Longrightarrow> \<exists>rs. str_runes (c # s) = of_char c # rs"
  by (simp add: str_runes_def utf8_decode.simps)

lemma trim_keeps_head:
  "\<not> P x \<Longrightarrow> \<exists>ys. dropWhile P (rev (dropWhile P (rev (x # xs)))) = x # ys"
proof -
  assume "\<not> P x"
  then have "dropWhile P (rev xs @ [x]) = dropWhile P (rev xs) @ [x]"
    by (induction xs rule: rev_induct) auto
  then show ?thesis using \<open>\<not> P x\<close> by simp
qed

lemma endpoint_error_not_record: "\<not> record_not_found (error_string (EndpointErr msg code))"
proof -
  obtain c cs where c: "dec_nat code = c # cs" using dec_nat_nonempty [of code] by (cases "dec_nat code") auto
  obtain d where d: "d < 10" "c = char_of (48 + d :: nat)" using dec_nat_digit [of c code] c by auto
  then have val: "of_char c = (48 + d :: nat)" by simp
  obtain rs where rs: "str_runes (error_string (EndpointErr msg code)) = (48 + d) # rs"
    using str_runes_ascii_Cons [of c "cs @ '': '' @ msg"] c val d by auto
  have "\<not> unicode_space (48 + d)" "lower_rune (48 + d) = 48 + d"
    using d(1) by (simp_all add: unicode_space_def lower_rune_def)
  then obtain ys where "dropWhile unicode_space (rev (dropWhile unicode_space (rev
      (map lower_rune (str_runes (error_string (EndpointErr msg code))))))) = (48 + d) # ys"
    using trim_keeps_head [of unicode_space "48 + d" "map lower_rune rs"] rs by auto
  then show ?thesis using d(1) by (auto simp: record_not_found_def of_char_def)
qed

lemma handle_endpoint_error: "handle_error (EndpointErr msg code) w = http_Error w msg code"
  using endpoint_error_not_record [of msg code] by (simp add: handle_error_def)

section \<open>The contract of an endpoint\<close>

text \<open>
  An endpoint either answers 200 with the headers set before it, or fails or panics without
  having written anything. Behind the error handler every request is then answered exactly once.
\<close>

locale endpoint =
  fixes eh :: "('p, 't) endpointHandler"
  assumes answers: "eh r w ag = (Ret u, w', ag') \<Longrightarrow> rw_status w = None \<Longrightarrow>
      rw_status w' = Some StatusOK \<and> set (rw_header w) \<subseteq> set (rw_sent w') \<union> {h. fst h = ''Content-Type''}"
    and fails: "eh r w ag = (Fail e, w', ag') \<Longrightarrow> w' = w"
    and panics: "eh r w ag = (Panic p, w', ag') \<Longrightarrow> w' = w"
begin

lemma answered:
  assumes "rw_status w = None"
  shows "rw_status (fst (errorHandler eh r w ag)) \<noteq> None"
proof -
  obtain res w' ag' where run: "eh r w ag = (res, w', ag')" by (metis prod_cases3)
  show ?thesis
    using run assms answers [of r w ag] handle_error_answers
    by (cases res) (auto simp: errorHandler_def http_Error_status split: option.splits)
qed

lemma recovered:
  "rw_status w = None \<Longrightarrow> eh r w ag = (Panic p, w', ag') \<Longrightarrow>
     errorHandler eh r w ag = (http_Error w ''Unknown Error'' StatusInternalServerError, ag')"
  by (auto simp: errorHandler_def dest: panics)

lemma error_status:
  "rw_status w = None \<Longrightarrow> eh r w ag = (Fail (EndpointErr msg code), w', ag') \<Longrightarrow>
     rw_status (fst (errorHandler eh r w ag)) = Some code"
  by (auto simp: errorHandler_def handle_endpoint_error http_Error_status dest!: fails)

end

lemma on_Ret_eq:
  "on_Ret m w ag f = (Ret u, w', ag') \<longleftrightarrow> (\<exists>x. m = Ret x \<and> f x = (Ret u, w', ag'))"
  "on_Ret m w ag f = (Fail e, w', ag') \<longleftrightarrow>
     (m = Fail e \<and> w' = w \<and> ag' = ag) \<or> (\<exists>x. m = Ret x \<and> f x = (Fail e, w', ag'))"
  "on_Ret m w ag f = (Panic p, w', ag') \<longleftrightarrow>
     (m = Panic p \<and> w' = w \<and> ag' = ag) \<or> (\<exists>x. m = Ret x \<and> f x = (Panic p, w', ag'))"
  by (cases m; auto)+

lemma header_set_header:
  "set (rw_header w) \<subseteq> set (rw_header (header_set ''Content-Type'' v w)) \<union> {h. fst h = ''Content-Type''}"
  by (auto simp: header_set_def)

lemmas endpoint_simps = on_Ret_eq reply_status reply_sent write_header_sent

interpretation version: endpoint "getVersion web" for web
  by unfold_locales
    (auto simp: getVersion_def reply_status reply_sent header_set_def sts_header_def header_add_def)

interpretation aik: endpoint "getAik env" for env
  by unfold_locales (auto simp: getAik_def endpoint_simps)

interpretation platform_info: endpoint "getPlatformInfo web env" for web env
  by unfold_locales (auto simp: getPlatformInfo_def endpoint_simps header_set_def)

interpretation tpm_quote: endpoint "getTpmQuote web env" for web env
  by unfold_locales (auto simp: getTpmQuote_def endpoint_simps header_set_def)

interpretation binding_key: endpoint getBindingKeyCertificate
  by unfold_locales (auto simp: getBindingKeyCertificate_def endpoint_simps header_set_def)

interpretation asset_tag: endpoint "setAssetTag web env" for web env
  by unfold_locales (auto simp: setAssetTag_def endpoint_simps case_prod_unfold)

interpretation measurement: endpoint "getApplicationMeasurement web env" for web env
  by unfold_locales (auto simp: getApplicationMeasurement_def endpoint_simps case_prod_unfold)

interpretation manifest: endpoint "deployManifest web env" for web env
  by unfold_locales (auto simp: deployManifest_def endpoint_simps case_prod_unfold)

lemma requiresPermission_refused:
  assumes "user_permissions r = Ret p" and "\<not> match_permission web p perms"
  shows "\<exists>w'. errorHandler (requiresPermission web eh perms) r new_response ag = (w', ag) \<and>
    rw_status w' = Some StatusUnauthorized \<and> rw_sent w' = []"
proof -
  let ?w = "write_header StatusUnauthorized new_response"
  have w: "rw_status ?w = Some StatusUnauthorized" "rw_sent ?w = []"
    by (simp_all add: new_response_def write_header_def)
  then show ?thesis
    using assms handle_error_status [OF w(1)]
    by (simp add: errorHandler_def requiresPermission_def)
qed

lemma requiresPermission_OK:
  assumes "errorHandler (requiresPermission web eh perms) r new_response ag = (w, ag')"
    and "rw_status w = Some StatusOK"
  shows "\<exists>p. user_permissions r = Ret p \<and> match_permission web p perms"
proof (cases "user_permissions r")
  case (Ret p)
  then show ?thesis
    using requiresPermission_refused [OF Ret, of web perms eh ag] assms by (auto simp: status_defs)
next
  case (Fail e)
  let ?w = "write_body ''Could not get user roles from http context''
      (sts_header (write_header StatusInternalServerError new_response))"
  have "rw_status ?w = Some StatusInternalServerError" by (simp add: write_body_status new_response_def)
  from handle_error_status [OF this] show ?thesis
    using Fail assms by (auto simp: errorHandler_def requiresPermission_def status_defs)
next
  case (Panic q)
  then show ?thesis
    using assms by (auto simp: errorHandler_def requiresPermission_def http_Error_status
        new_response_def status_defs)
qed

lemma endpoint_requiresPermission:
  assumes "endpoint eh"
  shows "rw_status (fst (errorHandler (requiresPermission web eh perms) r new_response ag)) \<noteq> None"
proof -
  have new: "rw_status (sts_header new_response) = None" by (simp add: new_response_def)
  show ?thesis
  proof (cases "user_permissions r")
    case (Ret p)
    show ?thesis
    proof (cases "match_permission web p perms")
      case True
      then have "errorHandler (requiresPermission web eh perms) r new_response ag =
          errorHandler eh r (sts_header new_response) ag"
        using Ret by (simp add: errorHandler_def requiresPermission_def)
      then show ?thesis using endpoint.answered [OF assms new] by simp
    next
      case False
      then show ?thesis
        using requiresPermission_refused [OF Ret, of web perms eh ag] by auto
    qed
  next
    case (Fail e)
    then show ?thesis by (simp add: errorHandler_def requiresPermission_def handle_error_answers)
  next
    case (Panic p)
    then show ?thesis
      by (simp add: errorHandler_def requiresPermission_def http_Error_status split: option.split)
  qed
qed

lemmas endpoint_interpretations = version.endpoint_axioms aik.endpoint_axioms
  platform_info.endpoint_axioms tpm_quote.endpoint_axioms binding_key.endpoint_axioms
  asset_tag.endpoint_axioms measurement.endpoint_axioms manifest.endpoint_axioms

lemma routes_endpoints: "rt \<in> set (routes web env) \<Longrightarrow> endpoint (route_endpoint rt)"
  using endpoint_interpretations by (auto simp: routes_def)

lemma serve_route:
  assumes "serve web env r ag = Some (w, ag')"
  shows "\<exists>rt \<in> set (routes web env). route_method rt = req_method r \<and> route_path rt = req_path r \<and>
    errorHandler (route_handler web rt) r new_response ag = (w, ag')"
  using assms by (auto simp: serve_def find_Some_iff intro!: bexI [OF _ nth_mem])

text \<open>Which endpoints leave the agent's state alone.\<close>

lemma readonly_endpoints:
  "snd (snd (getVersion web r w ag)) = ag" "snd (snd (getAik env r w ag)) = ag"
  "snd (snd (getPlatformInfo web env r w ag)) = ag" "snd (snd (getTpmQuote web env r w ag)) = ag"
  "snd (snd (getBindingKeyCertificate r w ag)) = ag"
proof -
  have on: "snd (snd (on_Ret m w ag f)) = ag" if "\<And>x. snd (snd (f x)) = ag"
    for m :: "'z go" and w and ag :: "'q agent" and f
    using that by (cases m) simp_all
  show "snd (snd (getVersion web r w ag)) = ag" "snd (snd (getAik env r w ag)) = ag"
    "snd (snd (getPlatformInfo web env r w ag)) = ag" "snd (snd (getTpmQuote web env r w ag)) = ag"
    "snd (snd (getBindingKeyCertificate r w ag)) = ag"
    by (simp_all add: getVersion_def getAik_def getPlatformInfo_def getTpmQuote_def
        getBindingKeyCertificate_def on)
qed

lemma errorHandler_state: "snd (errorHandler eh r w ag) = snd (snd (eh r w ag))"
  by (simp add: errorHandler_def split: prod.split go.split)

lemma requiresPermission_state:
  "snd (snd (requiresPermission web eh perms r w ag)) \<noteq> ag \<Longrightarrow>
     (\<exists>p. user_permissions r = Ret p \<and> match_permission web p perms) \<and>
     snd (snd (eh r (sts_header w) ag)) \<noteq> ag"
  by (auto simp: requiresPermission_def split: go.splits if_splits)

section \<open>Properties\<close>

text \<open>A service and requests for the examples: a token is the list of its permissions.\<close>

definition sample_web :: "(string list, unit, unit, unit) web_env" where
  "sample_web =
     \<lparr>match_permission = (\<lambda>p perms. set perms \<subseteq> set p),
      decode_tag_request = (\<lambda>bs. Ret \<lparr>Tag = bs, HardwareUUID = sample_uuid\<rparr>),
      decode_quote_request = (\<lambda>bs. Ret \<lparr>Nonce = bs, Pcrs = [0], PcrBanks = []\<rparr>),
      unmarshal_manifest = (\<lambda>bs. Ret \<lparr>Uuid = sample_uuid, Label = ''app'', manifest_content = ()\<rparr>),
      marshal_quote = (\<lambda>q. Ret (bytes_of_string (Quote q))), marshal_host_info = (\<lambda>i. Ret []),
      marshal_measurement = (\<lambda>m. Ret []), version_text = ''v4.2.0''\<rparr>"

definition sample_request :: "string \<Rightarrow> string list \<Rightarrow> string list request" where
  "sample_request path perms =
     \<lparr>req_method = ''POST'', req_path = path, content_type = ''application/json'',
      req_body = Ret (replicate 48 9), user_permissions = Ret perms\<rparr>"

declare sample_web_def [eval_simps] sample_request_def [eval_simps]

lemma sample_tag_request:
  "\<exists>w ag'. serve sample_web sample_agent_env (sample_request ''/v2/tag'' [''deploy_tag:create'']) sample_agent
     = Some (w, ag') \<and> ag' \<noteq> sample_agent"
  by (simp add: serve_def routes_def sample_request_def route_handler_def requiresPermission_def
      sample_web_def errorHandler_def setAssetTag_def check_content_type_def DeployAssetTag_def
      sample_agent_env_def sample_agent_def sample_uuid_def soft_provider_def soft_write_def
      sample_tpm_def open_tpm_def)

text \<open>
  C21: every request to a route of the service is answered: whatever the endpoint returns, and also
  when it panics, the response has a status.
\<close>

theorem serve_answers:
  assumes "serve web env r ag = Some (w, ag')"
  shows "rw_status w \<noteq> None"
proof -
  obtain rt where rt: "rt \<in> set (routes web env)"
    "errorHandler (route_handler web rt) r new_response ag = (w, ag')"
    using serve_route [OF assms] by blast
  have new: "rw_status new_response = None" by (simp add: new_response_def)
  show ?thesis
  proof (cases "route_permission rt")
    case None
    then show ?thesis
      using endpoint.answered [OF routes_endpoints [OF rt(1)] new, of r ag] rt(2)
      by (simp add: route_handler_def)
  next
    case (Some perm)
    then show ?thesis
      using endpoint_requiresPermission [OF routes_endpoints [OF rt(1)], of web "[perm]" r ag] rt(2)
      by (simp add: route_handler_def)
  qed
qed

theorem serve_answers_witness:
  "\<exists>w ag'. serve sample_web sample_agent_env (sample_request ''/v2/tag'' [''deploy_tag:create''])
     sample_agent = Some (w, ag') \<and> rw_status w \<noteq> None"
  using sample_tag_request serve_answers by blast



text \<open>
  A caller whose token lacks the permission of a route gets status 401 and the agent does not
  change; the response carries none of the headers the code adds after the status.
\<close>

lemma serve_unauthorized:
  assumes "serve web env r ag = Some (w, ag')" and "req_path r \<noteq> ''/v2/version''"
    and "user_permissions r = Ret p"
    and "\<forall>rt \<in> set (routes web env). \<forall>perm. route_path rt = req_path r \<longrightarrow>
      route_permission rt = Some perm \<longrightarrow> \<not> match_permission web p [perm]"
  shows "rw_status w = Some StatusUnauthorized \<and> rw_sent w = [] \<and> ag' = ag"
proof -
  obtain rt where rt: "rt \<in> set (routes web env)" "route_path rt = req_path r"
    "errorHandler (route_handler web rt) r new_response ag = (w, ag')"
    using serve_route [OF assms(1)] by blast
  then obtain perm where "route_permission rt = Some perm"
    using assms(2) by (auto simp: routes_def)
  then show ?thesis
    using requiresPermission_refused [OF assms(3), of web "[perm]" "route_endpoint rt" ag] assms(4) rt
    by (auto simp: route_handler_def)
qed

end
