(* ===== verification/Version_Info.thy ===== *)
theory Version_Info
  imports TA_Constants
begin

text \<open>
  \<^verbatim>\<open>util/version.go\<close>: the components of the build's version string. The parsers report an error on a
  malformed string; \<^verbatim>\<open>GetVersionInfo\<close> ignores it and keeps the zero they return with it. The build
  time is not modelled.
\<close>

abbreviation (input) DOT :: char where "DOT \<equiv> CHR ''.''"

definition parse_error :: "string \<Rightarrow> 'a go" where
  "parse_error v = Fail (NewErr (''Could not parse version string '' @ v))"

definition parseMajorVersion :: "string \<Rightarrow> int go" where
  "parseMajorVersion version =
     (case str_index DOT version of
        None \<Rightarrow> parse_error version
      | Some endIdx \<Rightarrow>
          if endIdx \<le> 0 then parse_error version
          else strconv_Atoi (str_remove CHR ''v'' (take endIdx version)))"

definition parseMinorVersion :: "string \<Rightarrow> int go" where
  "parseMinorVersion version =
     (case str_index DOT version of
        None \<Rightarrow> parse_error version
      | Some startIdx \<Rightarrow>
          if startIdx \<le> 0 then parse_error version
          else
            (case str_index DOT (drop (startIdx + 1) version) of
               None \<Rightarrow> parse_error version
             | Some endIdx \<Rightarrow>
                 if endIdx \<le> 0 then parse_error version
                 else strconv_Atoi (take endIdx (drop (startIdx + 1) version))))"

definition parsePatchVersion :: "string \<Rightarrow> int go" where
  "parsePatchVersion version =
     (case str_last_index DOT version of
        None \<Rightarrow> parse_error version
      | Some startIdx \<Rightarrow>
          if startIdx \<le> 0 then parse_error version
          else strconv_Atoi (drop (startIdx + 1) version))"

record VersionInfo =
  Major :: int
  Minor :: int
  Patch :: int
  Commit :: string
  VersionString :: string

fun or_zero :: "int go \<Rightarrow> int" where
  "or_zero (Ret x) = x"
| "or_zero _ = 0"

definition build_version_info :: "string \<Rightarrow> string \<Rightarrow> string \<Rightarrow> string \<Rightarrow> VersionInfo" where
  "build_version_info version gitHash buildDate branch =
     \<lparr>Major = or_zero (parseMajorVersion version), Minor = or_zero (parseMinorVersion version),
      Patch = or_zero (parsePatchVersion version), Commit = gitHash,
      VersionString =
        ''Trust Agent '' @ version @ ''-'' @ gitHash @ [CHR 0x0A] @ ''Built '' @ buildDate @ [CHR 0x0A]
        @ (if branch \<noteq> [] then ''Branch '' @ [CHR 0x27] @ branch @ [CHR 0x27, CHR 0x0A] else [])\<rparr>"

text \<open>The result is computed once and kept.\<close>

definition GetVersionInfo ::
  "string \<Rightarrow> string \<Rightarrow> string \<Rightarrow> string \<Rightarrow> VersionInfo option \<Rightarrow> VersionInfo \<times> VersionInfo option" where
  "GetVersionInfo version gitHash buildDate branch cache =
     (case cache of
        Some vi \<Rightarrow> (vi, cache)
      | None \<Rightarrow> (let vi = build_version_info version gitHash buildDate branch in (vi, Some vi)))"

definition GetVersion :: "string \<Rightarrow> string \<Rightarrow> string \<Rightarrow> string" where
  "GetVersion version gitHash buildDate =
     ''Service Name: '' @ ExplicitServiceName @ [CHR 0x0A] @ ''Version: '' @ version @ ''-'' @ gitHash @ [CHR 0x0A]
     @ ''Build Date: '' @ buildDate @ [CHR 0x0A]"

declare parse_error_def [eval_simps] parseMajorVersion_def [eval_simps] parseMinorVersion_def [eval_simps]
  parsePatchVersion_def [eval_simps] build_version_info_def [eval_simps] GetVersionInfo_def [eval_simps]
  GetVersion_def [eval_simps]

section \<open>Release versions\<close>

definition release_version :: "nat \<Rightarrow> nat \<Rightarrow> nat \<Rightarrow> string" where
  "release_version a b c = CHR ''v'' # dec_nat a @ DOT # dec_nat b @ DOT # dec_nat c"

declare release_version_def [eval_simps]

lemma dec_nat_plain [simp]: "DOT \<notin> set (dec_nat n)" "CHR ''v'' \<notin> set (dec_nat n)"
  by (simp_all add: dec_nat_not_char of_char_def)

lemma str_remove_dec_nat: "str_remove CHR ''v'' (CHR ''v'' # dec_nat n) = dec_nat n"
proof -
  have "filter (\<lambda>x. x \<noteq> CHR ''v'') (dec_nat n) = dec_nat n"
    using dec_nat_plain(2) [of n] by (intro filter_True) auto
  then show ?thesis by (simp add: str_remove_def)
qed

lemma release_major: "a < 2 ^ 63 \<Longrightarrow> parseMajorVersion (release_version a b c) = Ret (int a)"
proof -
  assume "a < 2 ^ 63"
  moreover have "str_index DOT (release_version a b c) = Some (Suc (length (dec_nat a)))"
    using str_index_append [of DOT "CHR ''v'' # dec_nat a" "dec_nat b @ DOT # dec_nat c"]
    by (simp add: release_version_def)
  ultimately show ?thesis
    by (simp add: parseMajorVersion_def release_version_def str_remove_dec_nat strconv_Atoi_dec_nat)
qed

lemma release_minor: "b < 2 ^ 63 \<Longrightarrow> parseMinorVersion (release_version a b c) = Ret (int b)"
proof -
  assume "b < 2 ^ 63"
  moreover have "str_index DOT (release_version a b c) = Some (Suc (length (dec_nat a)))"
    using str_index_append [of DOT "CHR ''v'' # dec_nat a" "dec_nat b @ DOT # dec_nat c"]
    by (simp add: release_version_def)
  moreover have "drop (Suc (length (dec_nat a)) + 1) (release_version a b c) = dec_nat b @ DOT # dec_nat c"
    by (simp add: release_version_def)
  ultimately show ?thesis
    using dec_nat_nonempty [of b]
    by (simp add: parseMinorVersion_def str_index_append strconv_Atoi_dec_nat)
qed

lemma release_patch: "c < 2 ^ 63 \<Longrightarrow> parsePatchVersion (release_version a b c) = Ret (int c)"
proof -
  let ?pre = "CHR ''v'' # dec_nat a @ DOT # dec_nat b"
  assume "c < 2 ^ 63"
  moreover have "release_version a b c = ?pre @ DOT # dec_nat c" by (simp add: release_version_def)
  moreover from this have "str_last_index DOT (release_version a b c) = Some (length ?pre)"
    using str_index_append [of DOT "rev (dec_nat c)" "rev ?pre"] by (simp add: str_last_index_def)
  ultimately show ?thesis by (simp add: parsePatchVersion_def strconv_Atoi_dec_nat)
qed

section \<open>Properties\<close>

text \<open>
  The version information of a release string \<^verbatim>\<open>vA.B.C\<close> has the three numbers as its components,
  and asking again returns the same information whatever the string is by then.
\<close>

lemma version_info_of_release:
  assumes "a < 2 ^ 63" and "b < 2 ^ 63" and "c < 2 ^ 63"
    and "GetVersionInfo (release_version a b c) hash date branch None = (vi, cache)"
  shows "Major vi = int a \<and> Minor vi = int b \<and> Patch vi = int c \<and>
    GetVersionInfo v2 hash2 date2 branch2 cache = (vi, cache)"
  using assms
  by (auto simp: GetVersionInfo_def build_version_info_def Let_def release_major release_minor release_patch)

end
