(* ===== verification/Service_Config.thy ===== *)
theory Service_Config
  imports TA_Constants
begin

text \<open>
  The task update-service-config (\<^verbatim>\<open>tasks/update_service_config.go\<close>): reading the settings of the
  web service and of logging from the environment. The setup library's accessors and the logging
  library's level parser are parameters.
\<close>

record service_config =
  Port :: int
  ReadTimeout :: int
  ReadHeaderTimeout :: int
  WriteTimeout :: int
  IdleTimeout :: int
  MaxHeaderBytes :: int
  LogEntryMaxLength :: int
  LogLevel :: string
  LogEnableStdout :: bool

text \<open>\<^verbatim>\<open>GetenvInt\<close> returns its value also with an error.\<close>

record setup_context =
  GetenvInt :: "string \<Rightarrow> int \<times> go_error option"
  GetenvString :: "string \<Rightarrow> string go"
  ParseLevel :: "string \<Rightarrow> string go"
  InfoLevel :: string

text \<open>\<^verbatim>\<open>time.Duration(n) * time.Second\<close> is a 64-bit product.\<close>

definition seconds :: "int \<Rightarrow> int" where
  "seconds n = sint (word_of_int n * word_of_int second :: uint64)"

text \<open>\<^verbatim>\<open>strconv.ParseBool\<close> with the value it returns beside an error.\<close>

definition ParseBool :: "string \<Rightarrow> bool" where
  "ParseBool s \<longleftrightarrow> s \<in> set [''1'', ''t'', ''T'', ''TRUE'', ''true'', ''True'']"

definition timeout_of :: "int \<times> go_error option \<Rightarrow> int \<Rightarrow> int" where
  "timeout_of r dflt = (case r of (n, None) \<Rightarrow> seconds n | (_, Some _) \<Rightarrow> dflt)"

text \<open>The sections of the task, in the order of the source.\<close>

definition update_port :: "setup_context \<Rightarrow> service_config \<Rightarrow> service_config" where
  "update_port c cfg =
     (let port = fst (GetenvInt c EnvTAPort)
      in cfg\<lparr>Port := (if port = 0 then DefaultPort else port)\<rparr>)"

definition update_log_length :: "setup_context \<Rightarrow> service_config \<Rightarrow> service_config" where
  "update_log_length c cfg =
     (case GetenvInt c EnvLogEntryMaxlength of
        (n, err) \<Rightarrow> cfg\<lparr>LogEntryMaxLength := (if err = None \<and> n \<ge> DefaultLogEntryMaxlength then n else DefaultLogEntryMaxlength)\<rparr>)"

definition env_log_level :: "setup_context \<Rightarrow> string \<Rightarrow> string" where
  "env_log_level c old =
     (case GetenvString c EnvTALogLevel of
        Ret ll \<Rightarrow> (case ParseLevel c ll of Ret llp \<Rightarrow> llp | _ \<Rightarrow> old)
      | _ \<Rightarrow> old)"

definition update_log_level :: "setup_context \<Rightarrow> service_config \<Rightarrow> service_config" where
  "update_log_level c cfg =
     (let level = env_log_level c (LogLevel cfg)
      in cfg\<lparr>LogLevel := (if level = [] then InfoLevel c else level)\<rparr>)"

definition update_console :: "setup_context \<Rightarrow> service_config \<Rightarrow> service_config" where
  "update_console c cfg =
     cfg\<lparr>LogEnableStdout :=
           (case GetenvString c EnvTALogEnableConsoleLog of
              Ret s \<Rightarrow> s \<noteq> [] \<and> ParseBool s
            | _ \<Rightarrow> False)\<rparr>"

definition update_http :: "setup_context \<Rightarrow> service_config \<Rightarrow> service_config" where
  "update_http c cfg =
     cfg\<lparr>ReadTimeout := timeout_of (GetenvInt c EnvTAServerReadTimeout) DefaultReadTimeout,
         ReadHeaderTimeout := timeout_of (GetenvInt c EnvTAServerReadHeaderTimeout) DefaultReadHeaderTimeout,
         WriteTimeout := timeout_of (GetenvInt c EnvTAServerWriteTimeout) DefaultWriteTimeout,
         IdleTimeout := timeout_of (GetenvInt c EnvTAServerIdleTimeout) DefaultIdleTimeout,
         MaxHeaderBytes := (case GetenvInt c EnvTAServerMaxHeaderBytes of
                              (n, None) \<Rightarrow> n
                            | (_, Some _) \<Rightarrow> DefaultMaxHeaderBytes)\<rparr>"

definition UpdateServiceConfig_Run :: "setup_context \<Rightarrow> service_config \<Rightarrow> unit go \<times> service_config" where
  "UpdateServiceConfig_Run c cfg =
     (Ret (), update_http c (update_console c (update_log_level c (update_log_length c (update_port c cfg)))))"

definition UpdateServiceConfig_Validate :: "service_config \<Rightarrow> unit go" where
  "UpdateServiceConfig_Validate cfg =
     (if Port cfg = 0 \<or> Port cfg > 65535
      then Fail (NewErr ''The Trust-Agent service requires that the configuration contains a valid port number'')
      else Ret ())"

declare seconds_def [eval_simps] ParseBool_def [eval_simps]
  timeout_of_def [eval_simps] update_port_def [eval_simps] update_log_length_def [eval_simps]
  env_log_level_def [eval_simps] update_log_level_def [eval_simps] update_console_def [eval_simps]
  update_http_def [eval_simps] UpdateServiceConfig_Run_def [eval_simps]
  UpdateServiceConfig_Validate_def [eval_simps]

lemma timeout_default: "snd r \<noteq> None \<Longrightarrow> timeout_of r d = d"
  by (cases r) (auto simp: timeout_of_def split: option.splits)

text \<open>The settings of the web server after the task, each from its variable of the environment.\<close>

lemma update_settings:
  "Port (snd (UpdateServiceConfig_Run c cfg)) =
     (if fst (GetenvInt c EnvTAPort) = 0 then DefaultPort else fst (GetenvInt c EnvTAPort))"
  "ReadTimeout (snd (UpdateServiceConfig_Run c cfg)) = timeout_of (GetenvInt c EnvTAServerReadTimeout) DefaultReadTimeout"
  "ReadHeaderTimeout (snd (UpdateServiceConfig_Run c cfg)) =
     timeout_of (GetenvInt c EnvTAServerReadHeaderTimeout) DefaultReadHeaderTimeout"
  "WriteTimeout (snd (UpdateServiceConfig_Run c cfg)) = timeout_of (GetenvInt c EnvTAServerWriteTimeout) DefaultWriteTimeout"
  "IdleTimeout (snd (UpdateServiceConfig_Run c cfg)) = timeout_of (GetenvInt c EnvTAServerIdleTimeout) DefaultIdleTimeout"
  "MaxHeaderBytes (snd (UpdateServiceConfig_Run c cfg)) =
     (case GetenvInt c EnvTAServerMaxHeaderBytes of (n, None) \<Rightarrow> n | (_, Some _) \<Rightarrow> DefaultMaxHeaderBytes)"
  "LogEntryMaxLength (snd (UpdateServiceConfig_Run c cfg)) =
     (case GetenvInt c EnvLogEntryMaxlength of
        (n, None) \<Rightarrow> max n DefaultLogEntryMaxlength | (_, Some _) \<Rightarrow> DefaultLogEntryMaxlength)"
  "LogLevel (snd (UpdateServiceConfig_Run c cfg)) =
     (if env_log_level c (LogLevel cfg) = [] then InfoLevel c else env_log_level c (LogLevel cfg))"
  "LogEnableStdout (snd (UpdateServiceConfig_Run c cfg)) \<longleftrightarrow>
     (\<exists>s. GetenvString c EnvTALogEnableConsoleLog = Ret s \<and> s \<noteq> [] \<and> ParseBool s)"
  by (simp_all add: UpdateServiceConfig_Run_def update_http_def update_console_def update_log_level_def
      update_log_length_def update_port_def Let_def case_prod_unfold split: go.split option.split)

section \<open>Properties\<close>

text \<open>
  C33: update-service-config never fails and determines every setting of the service from its variable of
  the environment or the default of the code: the port (1443 when it is unset or zero), the four timeouts
  (30 seconds for reading, 10 for the others), the header limit (1 MiB), the length of log entries (at
  least 300), the log level (the old one, or info, when the variable names none) and the console log (off).
  Its validation then fails exactly for ports above 65535; negative ports pass.
\<close>

theorem update_service_config_settings:
  assumes "UpdateServiceConfig_Run c cfg = (r, cfg')" and "InfoLevel c \<noteq> []"
  shows "r = Ret () \<and> Port cfg' \<noteq> 0 \<and>
    Port cfg' = (if fst (GetenvInt c ''TRUSTAGENT_PORT'') = 0 then 1443 else fst (GetenvInt c ''TRUSTAGENT_PORT'')) \<and>
    ReadTimeout cfg' = (case GetenvInt c ''TA_SERVER_READ_TIMEOUT'' of (n, None) \<Rightarrow> seconds n | _ \<Rightarrow> 30 * second) \<and>
    ReadHeaderTimeout cfg' =
      (case GetenvInt c ''TA_SERVER_READ_HEADER_TIMEOUT'' of (n, None) \<Rightarrow> seconds n | _ \<Rightarrow> 10 * second) \<and>
    WriteTimeout cfg' = (case GetenvInt c ''TA_SERVER_WRITE_TIMEOUT'' of (n, None) \<Rightarrow> seconds n | _ \<Rightarrow> 10 * second) \<and>
    IdleTimeout cfg' = (case GetenvInt c ''TA_SERVER_IDLE_TIMEOUT'' of (n, None) \<Rightarrow> seconds n | _ \<Rightarrow> 10 * second) \<and>
    MaxHeaderBytes cfg' = (case GetenvInt c ''TA_SERVER_MAX_HEADER_BYTES'' of (n, None) \<Rightarrow> n | _ \<Rightarrow> 1048576) \<and>
    LogEntryMaxLength cfg' = (case GetenvInt c ''LOG_ENTRY_MAXLENGTH'' of (n, None) \<Rightarrow> max n 300 | _ \<Rightarrow> 300) \<and>
    LogLevel cfg' \<noteq> [] \<and>
    LogLevel cfg' = (case andThen (GetenvString c ''TRUSTAGENT_LOG_LEVEL'') (ParseLevel c) of
        Ret level \<Rightarrow> if level = [] then InfoLevel c else level
      | _ \<Rightarrow> if LogLevel cfg = [] then InfoLevel c else LogLevel cfg) \<and>
    (LogEnableStdout cfg' \<longleftrightarrow>
      (\<exists>s. GetenvString c ''TA_ENABLE_CONSOLE_LOG'' = Ret s \<and> s \<noteq> [] \<and> ParseBool s)) \<and>
    (UpdateServiceConfig_Validate cfg' = Ret () \<longleftrightarrow> Port cfg' \<le> 65535)"
proof -
  have r: "r = Ret ()" "cfg' = snd (UpdateServiceConfig_Run c cfg)"
    using assms(1) by (simp_all add: UpdateServiceConfig_Run_def)
  have level: "LogLevel cfg' = (case andThen (GetenvString c ''TRUSTAGENT_LOG_LEVEL'') (ParseLevel c) of
        Ret level \<Rightarrow> if level = [] then InfoLevel c else level
      | _ \<Rightarrow> if LogLevel cfg = [] then InfoLevel c else LogLevel cfg)"
    by (simp add: r(2) update_settings env_log_level_def split: go.split)
  have "LogLevel cfg' \<noteq> []" using assms(2) by (simp add: r(2) update_settings)
  moreover have "UpdateServiceConfig_Validate cfg' = Ret () \<longleftrightarrow> Port cfg' \<le> 65535" "Port cfg' \<noteq> 0"
    by (auto simp: UpdateServiceConfig_Validate_def r(2) update_settings)
  ultimately show ?thesis
    by (intro conjI level) (simp_all add: r update_settings timeout_of_def split: prod.split option.split)
qed

definition sample_context :: setup_context where
  "sample_context =
     \<lparr>GetenvInt = (\<lambda>v. if v = ''TRUSTAGENT_PORT'' then (-1, None) else (0, Some (LibError ''unset''))),
      GetenvString = (\<lambda>v. Fail (LibError ''unset'')), ParseLevel = (\<lambda>s. Fail (LibError ''level'')),
      InfoLevel = ''info''\<rparr>"

theorem update_service_config_settings_witness:
  "\<exists>cfg'. UpdateServiceConfig_Run sample_context
        \<lparr>Port = 0, ReadTimeout = 0, ReadHeaderTimeout = 0, WriteTimeout = 0, IdleTimeout = 0,
         MaxHeaderBytes = 0, LogEntryMaxLength = 0, LogLevel = [], LogEnableStdout = True\<rparr> =
        (Ret (), cfg') \<and> Port cfg' = -1 \<and> ReadTimeout cfg' = 30 * second \<and> WriteTimeout cfg' = 10 * second \<and>
     MaxHeaderBytes cfg' = 1048576 \<and> LogLevel cfg' = ''info'' \<and> \<not> LogEnableStdout cfg' \<and>
     UpdateServiceConfig_Validate cfg' = Ret ()"
proof -
  let ?cfg = "\<lparr>Port = 0, ReadTimeout = 0, ReadHeaderTimeout = 0, WriteTimeout = 0, IdleTimeout = 0,
         MaxHeaderBytes = 0, LogEntryMaxLength = 0, LogLevel = [], LogEnableStdout = True\<rparr>"
  obtain r cfg' where run: "UpdateServiceConfig_Run sample_context ?cfg = (r, cfg')" by fastforce
  have info: "InfoLevel sample_context \<noteq> []" by (simp add: sample_context_def)
  show ?thesis
    using update_service_config_settings [OF run info] run by (simp add: sample_context_def)
qed

end
