(* ===== verification/Outbound_Service.thy ===== *)
theory Outbound_Service
  imports Web_Service Version_Info Service_Config
begin

text \<open>
  The choice of the service (\<^verbatim>\<open>service/service.go\<close>) and the outbound service
  (\<^verbatim>\<open>service/outbound_service.go\<close>), which answers NATS messages. The NATS client is a parameter:
  whether connecting, subscribing and publishing fail. Its published messages are part of the
  state. Both services call the same request handler; \<open>frontend\<close> states what that means for a
  sequence of requests.
\<close>

section \<open>Messages\<close>

text \<open>The decoded message of each subscription; the client library decodes into a fresh value.\<close>

datatype 'm ta_request =
    QuoteRequest TpmQuoteRequest
  | HostInfoRequest
  | AikRequest
  | DeployAssetTagRequest TagWriteRequest
  | BkRequest
  | DeployManifestRequest "'m Manifest"
  | ApplicationMeasurementRequest "'m Manifest"
  | VersionRequest

datatype ('r, 'i) payload =
    QuotePayload TpmQuoteResponse
  | HostInfoPayload 'i
  | BytesPayload "byte list"
  | EmptyPayload
  | MeasurementPayload 'r
  | VersionPayload VersionInfo

datatype subscription =
    QuoteSub | HostInfoSub | AikSub | DeployAssetTagSub | BkSub | DeployManifestSub | MeasurementSub
  | VersionSub

text \<open>
  What \<^verbatim>\<open>Start\<close> asks of the NATS client; durations are in nanoseconds. The handlers of the client's
  events only log and are left out, as is the dialer that honours a proxy.
\<close>

record nats_options =
  nats_Name :: string
  RetryOnFailedConnect :: bool
  MaxReconnects :: int
  ReconnectWait :: int
  nats_Timeout :: int
  InsecureSkipVerify :: bool
  RootCAs :: "byte list list"
  UserCredentials :: string

text \<open>
  The system's certificates (nil when they cannot be read), the contents of the files of a directory
  that match a pattern, the certificates in a PEM text, and the client.
\<close>

record ('r, 'i) nats_lib =
  SystemCertPool :: "byte list list option"
  GetDirFileContents :: "string \<Rightarrow> string \<Rightarrow> byte list list \<times> go_error option"
  CertsFromPEM :: "byte list \<Rightarrow> byte list list"
  nats_Connect :: "string \<Rightarrow> nats_options \<Rightarrow> go_error option"
  NewEncodedConn :: "go_error option"
  CreateSubject :: "string \<Rightarrow> subscription \<Rightarrow> string"
  nats_Subscribe :: "string \<Rightarrow> go_error option"
  nats_Publish :: "string \<Rightarrow> ('r, 'i) payload \<Rightarrow> go_error option"

text \<open>The build's version data, read by \<^verbatim>\<open>util.GetVersionInfo\<close>.\<close>

record build =
  bd_Version :: string
  bd_GitHash :: string
  bd_BuildDate :: string
  bd_Branch :: string

record ('t, 'r, 'i) outbound =
  ob_agent :: "'t agent"
  ob_versionInfo :: "VersionInfo option"
  ob_published :: "(string \<times> ('r, 'i) payload) list"

section \<open>The callbacks\<close>

definition publish ::
  "('r, 'i) nats_lib \<Rightarrow> string \<Rightarrow> ('r, 'i) payload \<Rightarrow> ('t, 'r, 'i) outbound
     \<Rightarrow> unit go \<times> ('t, 'r, 'i) outbound" where
  "publish lib m_reply data s =
     (case nats_Publish lib m_reply data of
        Some e \<Rightarrow> (Fail e, s)
      | None \<Rightarrow> (Ret (), s\<lparr>ob_published := ob_published s @ [(m_reply, data)]\<rparr>))"

text \<open>A call of the request handler, whose error is logged and returned before anything is published.\<close>

definition handled :: "'a go \<times> 't agent \<Rightarrow> ('t, 'r, 'i) outbound \<Rightarrow> 'a go \<times> ('t, 'r, 'i) outbound" where
  "handled r s = (fst r, s\<lparr>ob_agent := snd r\<rparr>)"

definition quote_callback ::
  "('r, 'i) nats_lib \<Rightarrow> ('t, 'm, 'r, 'i) agent_env \<Rightarrow> string \<Rightarrow> TpmQuoteRequest
     \<Rightarrow> ('t, 'r, 'i) outbound \<Rightarrow> unit go \<times> ('t, 'r, 'i) outbound" where
  "quote_callback lib env m_reply quoteRequest s =
     thenS (handled (handlerGetTpmQuote env (ob_agent s) (Some quoteRequest), ob_agent s) s)
       (\<lambda>quoteResponse s. publish lib m_reply (QuotePayload quoteResponse) s)"

definition host_info_callback ::
  "('r, 'i) nats_lib \<Rightarrow> ('t, 'm, 'r, 'i) agent_env \<Rightarrow> string
     \<Rightarrow> ('t, 'r, 'i) outbound \<Rightarrow> unit go \<times> ('t, 'r, 'i) outbound" where
  "host_info_callback lib env m_reply s =
     thenS (handled (GetHostInfo env (ob_agent s), ob_agent s) s)
       (\<lambda>hostInfo s. publish lib m_reply (HostInfoPayload hostInfo) s)"

definition aik_callback ::
  "('r, 'i) nats_lib \<Rightarrow> ('t, 'm, 'r, 'i) agent_env \<Rightarrow> string
     \<Rightarrow> ('t, 'r, 'i) outbound \<Rightarrow> unit go \<times> ('t, 'r, 'i) outbound" where
  "aik_callback lib env m_reply s =
     thenS (handled (GetAikDerBytes env (ob_agent s), ob_agent s) s)
       (\<lambda>aik s. publish lib m_reply (BytesPayload aik) s)"

definition deploy_tag_callback ::
  "('r, 'i) nats_lib \<Rightarrow> ('t, 'm, 'r, 'i) agent_env \<Rightarrow> string \<Rightarrow> TagWriteRequest
     \<Rightarrow> ('t, 'r, 'i) outbound \<Rightarrow> unit go \<times> ('t, 'r, 'i) outbound" where
  "deploy_tag_callback lib env m_reply tagWriteRequest s =
     thenS (handled (DeployAssetTag env (ob_agent s) tagWriteRequest) s)
       (\<lambda>_ s. publish lib m_reply EmptyPayload s)"

definition binding_key_callback ::
  "('r, 'i) nats_lib \<Rightarrow> string \<Rightarrow> ('t, 'r, 'i) outbound \<Rightarrow> unit go \<times> ('t, 'r, 'i) outbound" where
  "binding_key_callback lib m_reply s =
     thenS (handled (GetBindingCertificateDerBytes (ob_agent s), ob_agent s) s)
       (\<lambda>bk s. publish lib m_reply (BytesPayload bk) s)"

definition deploy_manifest_callback ::
  "('r, 'i) nats_lib \<Rightarrow> ('t, 'm, 'r, 'i) agent_env \<Rightarrow> string \<Rightarrow> 'm Manifest
     \<Rightarrow> ('t, 'r, 'i) outbound \<Rightarrow> unit go \<times> ('t, 'r, 'i) outbound" where
  "deploy_manifest_callback lib env m_reply manifest s =
     thenS (handled (DeploySoftwareManifest env (ob_agent s) manifest) s)
       (\<lambda>_ s. publish lib m_reply EmptyPayload s)"

definition measurement_callback ::
  "('r, 'i) nats_lib \<Rightarrow> ('t, 'm, 'r, 'i) agent_env \<Rightarrow> string \<Rightarrow> 'm Manifest
     \<Rightarrow> ('t, 'r, 'i) outbound \<Rightarrow> unit go \<times> ('t, 'r, 'i) outbound" where
  "measurement_callback lib env m_reply manifest s =
     thenS (handled (GetApplicationMeasurement env (ob_agent s) manifest) s)
       (\<lambda>measurement s. publish lib m_reply (MeasurementPayload measurement) s)"

definition version_callback ::
  "('r, 'i) nats_lib \<Rightarrow> build \<Rightarrow> string \<Rightarrow> ('t, 'r, 'i) outbound \<Rightarrow> unit go \<times> ('t, 'r, 'i) outbound" where
  "version_callback lib b m_reply s =
     (case GetVersionInfo (bd_Version b) (bd_GitHash b) (bd_BuildDate b) (bd_Branch b) (ob_versionInfo s) of
        (versionInfo, cache) \<Rightarrow> publish lib m_reply (VersionPayload versionInfo) (s\<lparr>ob_versionInfo := cache\<rparr>))"

text \<open>\<^verbatim>\<open>defer recoverFunc()\<close>: a panic is logged and the callback returns nil.\<close>

fun recoverFunc :: "unit go \<times> 's \<Rightarrow> unit go \<times> 's" where
  "recoverFunc (Panic p, s) = (Ret (), s)"
| "recoverFunc (r, s) = (r, s)"

fun on_message ::
  "('r, 'i) nats_lib \<Rightarrow> build \<Rightarrow> ('t, 'm, 'r, 'i) agent_env \<Rightarrow> string \<Rightarrow> 'm ta_request
     \<Rightarrow> ('t, 'r, 'i) outbound \<Rightarrow> unit go \<times> ('t, 'r, 'i) outbound" where
  "on_message lib b env m_reply (QuoteRequest q) s = recoverFunc (quote_callback lib env m_reply q s)"
| "on_message lib b env m_reply HostInfoRequest s = recoverFunc (host_info_callback lib env m_reply s)"
| "on_message lib b env m_reply AikRequest s = recoverFunc (aik_callback lib env m_reply s)"
| "on_message lib b env m_reply (DeployAssetTagRequest t) s = recoverFunc (deploy_tag_callback lib env m_reply t s)"
| "on_message lib b env m_reply BkRequest s = recoverFunc (binding_key_callback lib m_reply s)"
| "on_message lib b env m_reply (DeployManifestRequest m) s = recoverFunc (deploy_manifest_callback lib env m_reply m s)"
| "on_message lib b env m_reply (ApplicationMeasurementRequest m) s = recoverFunc (measurement_callback lib env m_reply m s)"
| "on_message lib b env m_reply VersionRequest s = recoverFunc (version_callback lib b m_reply s)"

lemmas callback_defs = quote_callback_def host_info_callback_def aik_callback_def deploy_tag_callback_def
  binding_key_callback_def deploy_manifest_callback_def measurement_callback_def version_callback_def

declare callback_defs [eval_simps] publish_def [eval_simps] handled_def [eval_simps]

section \<open>Creating, starting and stopping the services\<close>

text \<open>
  The parameters embed the sections of the configuration, as the structs of \<^verbatim>\<open>service/service.go\<close> do;
  the section of the web service carries the logging settings beside it.
\<close>

record NatsService =
  Servers :: "string list"
  HostID :: string

record NatsParameters = NatsService +
  CredentialFile :: string
  nats_TrustedCaCertsDir :: string

record WebParameters = service_config +
  web_TLSCertFilePath :: string
  web_TLSKeyFilePath :: string
  web_TrustedJWTSigningCertsDir :: string
  web_TrustedCaCertsDir :: string

record ServiceParameters =
  sp_Mode :: string
  sp_Web :: WebParameters
  sp_Nats :: NatsParameters

text \<open>The connection is nil until \<^verbatim>\<open>Start\<close> has made it; \<open>subs\<close> are the subscribed subjects.\<close>

record outbound_service =
  natsParameters :: NatsParameters
  natsConnection :: bool
  subs :: "(string \<times> subscription) list"

definition newOutboundService :: "NatsParameters \<Rightarrow> outbound_service go" where
  "newOutboundService params =
     (if HostID params = []
      then Fail (NewErr ''The configuration does not have a 'nats-host-id'.'')
      else Ret \<lparr>natsParameters = params, natsConnection = False, subs = []\<rparr>)"

fun subscribe_all ::
  "('r, 'i) nats_lib \<Rightarrow> subscription list \<Rightarrow> outbound_service \<Rightarrow> unit go \<times> outbound_service" where
  "subscribe_all lib [] svc = (Ret (), svc)"
| "subscribe_all lib (k # ks) svc =
     (let subject = CreateSubject lib (HostID (natsParameters svc)) k
      in case nats_Subscribe lib subject of
           Some e \<Rightarrow>
             (Fail (if k = MeasurementSub then e
                    else WrapErr e ''NATs client failed to create subscription''), svc)
         | None \<Rightarrow> subscribe_all lib ks (svc\<lparr>subs := subs svc @ [(subject, k)]\<rparr>))"

definition outbound_subscriptions :: "subscription list" where
  "outbound_subscriptions = [QuoteSub, HostInfoSub, AikSub, DeployAssetTagSub, BkSub, DeployManifestSub,
     MeasurementSub, VersionSub]"

text \<open>An error of reading the directory is only logged.\<close>

definition root_cas :: "('r, 'i) nats_lib \<Rightarrow> string \<Rightarrow> byte list list" where
  "root_cas lib dir =
     (let rootCAs = (case SystemCertPool lib of None \<Rightarrow> [] | Some pool \<Rightarrow> pool);
          certs = fst (GetDirFileContents lib dir ''*.pem'')
      in rootCAs @ concat (map (CertsFromPEM lib) certs))"

definition connect_options :: "('r, 'i) nats_lib \<Rightarrow> NatsParameters \<Rightarrow> nats_options" where
  "connect_options lib params =
     \<lparr>nats_Name = HostID params, RetryOnFailedConnect = True, MaxReconnects = -1, ReconnectWait = 5 * second,
      nats_Timeout = 10 * second, InsecureSkipVerify = False,
      RootCAs = root_cas lib (nats_TrustedCaCertsDir params), UserCredentials = CredentialFile params\<rparr>"

text \<open>
  A failed \<^verbatim>\<open>NewEncodedConn\<close> is only logged: the connection stays nil and the first subscription
  dereferences it.
\<close>

definition outbound_Start ::
  "('r, 'i) nats_lib \<Rightarrow> outbound_service \<Rightarrow> unit go \<times> outbound_service" where
  "outbound_Start lib svc =
     (case nats_Connect lib (join_with CHR '','' (Servers (natsParameters svc))) (connect_options lib (natsParameters svc)) of
        Some e \<Rightarrow> (Fail (WrapErr e ''NATs failed to connect to url''), svc)
      | None \<Rightarrow>
          (case NewEncodedConn lib of
             Some e \<Rightarrow> (Panic NilDereference, svc\<lparr>natsConnection := False\<rparr>)
           | None \<Rightarrow> subscribe_all lib outbound_subscriptions (svc\<lparr>natsConnection := True\<rparr>)))"

definition outbound_Stop :: "outbound_service \<Rightarrow> unit go \<times> outbound_service" where
  "outbound_Stop svc =
     (if \<not> natsConnection svc then (Panic NilDereference, svc)
      else (Ret (), svc\<lparr>subs := []\<rparr>))"

text \<open>
  The web service and the \<^verbatim>\<open>http.Server\<close> that \<^verbatim>\<open>Start\<close> makes: its handler is \<open>serve\<close>, its error log a file,
  open or closed, or, when that cannot be opened (\<open>open_http_log\<close>), standard error. \<open>Shutdown\<close> is the
  outcome of shutting it down. The code points of TLS are those of \<^verbatim>\<open>crypto/tls\<close>.
\<close>

datatype http_writer = HttpStderr | HttpFile string bool

record http_server =
  Addr :: string
  ErrorLog :: http_writer
  MinVersion :: uint16
  CipherSuites :: "uint16 list"
  http_ReadTimeout :: int
  http_ReadHeaderTimeout :: int
  http_WriteTimeout :: int
  http_IdleTimeout :: int
  http_MaxHeaderBytes :: int
  http_shut_down :: bool

record web_service =
  webParameters :: WebParameters
  server :: "http_server option"

record web_lib =
  open_http_log :: "go_error option"
  Shutdown :: "http_server \<Rightarrow> go_error option"

definition newWebService :: "WebParameters \<Rightarrow> web_service go" where
  "newWebService params =
     (if Port params = 0 then Fail (NewErr ''Port cannot be zero'')
      else Ret \<lparr>webParameters = params, server = None\<rparr>)"

definition tls_VersionTLS12 :: uint16 where "tls_VersionTLS12 = 0x0303"

definition tls_suites :: "uint16 list" where
  "tls_suites = [0xc02c, 0xc030, 0xc02b, 0xc02f]"

definition make_server :: "http_writer \<Rightarrow> WebParameters \<Rightarrow> http_server" where
  "make_server httpWriter params =
     \<lparr>Addr = CHR '':'' # dec_int (Port params), ErrorLog = httpWriter,
      MinVersion = tls_VersionTLS12, CipherSuites = tls_suites,
      http_ReadTimeout = ReadTimeout params, http_ReadHeaderTimeout = ReadHeaderTimeout params,
      http_WriteTimeout = WriteTimeout params, http_IdleTimeout = IdleTimeout params,
      http_MaxHeaderBytes = MaxHeaderBytes params, http_shut_down = False\<rparr>"

text \<open>
  \<^verbatim>\<open>Start\<close> opens the log for appending and creates it when it is missing; the deferred function closes it when
  \<^verbatim>\<open>Start\<close> returns, while the server goes on writing to it. \<open>start_files\<close> is what a start does to the files.
\<close>

definition http_log_writer :: "web_lib \<Rightarrow> http_writer" where
  "http_log_writer W = (case open_http_log W of Some e \<Rightarrow> HttpStderr | None \<Rightarrow> HttpFile HttpLogFile True)"

fun close_writer :: "http_writer \<Rightarrow> http_writer" where
  "close_writer HttpStderr = HttpStderr"
| "close_writer (HttpFile path opened) = HttpFile path False"

definition web_service_Start :: "web_lib \<Rightarrow> web_service \<Rightarrow> unit go \<times> web_service" where
  "web_service_Start W svc =
     (let httpWriter = http_log_writer W;
          srv = make_server httpWriter (webParameters svc)
      in (Ret (), svc\<lparr>server := Some (srv\<lparr>ErrorLog := close_writer httpWriter\<rparr>)\<rparr>))"

definition web_start_files :: "web_lib \<Rightarrow> file_system \<Rightarrow> file_system" where
  "web_start_files W fs =
     (case http_log_writer W of
        HttpFile path opened \<Rightarrow> (if fs path = Absent then fs(path := Contents []) else fs)
      | HttpStderr \<Rightarrow> fs)"

definition web_service_Stop :: "web_lib \<Rightarrow> web_service \<Rightarrow> unit go \<times> web_service" where
  "web_service_Stop W svc =
     (case server svc of
        None \<Rightarrow> (Ret (), svc)
      | Some srv \<Rightarrow>
          (case Shutdown W srv of
             Some e \<Rightarrow> (Fail e, svc)
           | None \<Rightarrow> (Ret (), svc\<lparr>server := Some (srv\<lparr>http_shut_down := True\<rparr>)\<rparr>)))"

text \<open>The interface \<^verbatim>\<open>TrustAgentService\<close>: its two implementations, and a call of a method.\<close>

datatype ta_service =
    OutboundService outbound_service
  | HttpService web_service

fun service_Start :: "('r, 'i) nats_lib \<Rightarrow> web_lib \<Rightarrow> ta_service \<Rightarrow> unit go \<times> ta_service" where
  "service_Start lib W (OutboundService s) = map_prod id OutboundService (outbound_Start lib s)"
| "service_Start lib W (HttpService s) = map_prod id HttpService (web_service_Start W s)"

fun start_files :: "web_lib \<Rightarrow> ta_service \<Rightarrow> file_system \<Rightarrow> file_system" where
  "start_files W (OutboundService s) fs = fs"
| "start_files W (HttpService s) fs = web_start_files W fs"

fun service_Stop :: "web_lib \<Rightarrow> ta_service \<Rightarrow> unit go \<times> ta_service" where
  "service_Stop W (OutboundService s) = map_prod id OutboundService (outbound_Stop s)"
| "service_Stop W (HttpService s) = map_prod id HttpService (web_service_Stop W s)"

definition lower_equals :: "string \<Rightarrow> string \<Rightarrow> bool" where
  "lower_equals s t \<longleftrightarrow> map lower_rune (str_runes s) = map of_char t"

definition NewTrustAgentService :: "ServiceParameters \<Rightarrow> ta_service go" where
  "NewTrustAgentService parameters =
     (let mode = sp_Mode parameters
      in if lower_equals mode CommunicationModeOutbound then
           wrapping ''Error creating the HVS subscriber''
             (andThen (newOutboundService (sp_Nats parameters)) (\<lambda>s. Ret (OutboundService s)))
         else if mode = [] \<or> lower_equals mode CommunicationModeHttp then
           wrapping ''Error while creating trustagent service''
             (andThen (newWebService (sp_Web parameters)) (\<lambda>s. Ret (HttpService s)))
         else Fail (NewErr (''Unknown communication mode '' @ mode)))"

declare newOutboundService_def [eval_simps] outbound_subscriptions_def [eval_simps] root_cas_def [eval_simps]
  connect_options_def [eval_simps] outbound_Start_def [eval_simps] outbound_Stop_def [eval_simps]
  newWebService_def [eval_simps] tls_VersionTLS12_def [eval_simps] tls_suites_def [eval_simps]
  make_server_def [eval_simps] http_log_writer_def [eval_simps] web_service_Start_def [eval_simps]
  web_start_files_def [eval_simps] web_service_Stop_def [eval_simps]
  lower_equals_def [eval_simps] NewTrustAgentService_def [eval_simps]

text \<open>What a start leaves alone, and that the error log of a started server is never an open file.\<close>

lemma start_files_other: "p \<noteq> HttpLogFile \<Longrightarrow> start_files W svc fs p = fs p"
  by (cases svc) (simp_all add: web_start_files_def http_log_writer_def split: option.split)

lemma error_log_closed:
  assumes "web_service_Start W svc = (Ret (), svc')" and "server svc' = Some srv"
  shows "ErrorLog srv = (if open_http_log W = None then HttpFile HttpLogFile False else HttpStderr)"
  using assms by (auto simp: web_service_Start_def http_log_writer_def Let_def split: option.splits)

section \<open>What a message does\<close>

text \<open>The effect of a request on the agent and what it is answered with, in terms of the handler.\<close>

fun handler_effect :: "('t, 'm, 'r, 'i) agent_env \<Rightarrow> 'm ta_request \<Rightarrow> 't agent \<Rightarrow> 't agent" where
  "handler_effect env (DeployAssetTagRequest t) ag = snd (DeployAssetTag env ag t)"
| "handler_effect env (DeployManifestRequest m) ag = snd (DeploySoftwareManifest env ag m)"
| "handler_effect env (ApplicationMeasurementRequest m) ag = snd (GetApplicationMeasurement env ag m)"
| "handler_effect env _ ag = ag"

fun handler_answer ::
  "build \<Rightarrow> ('t, 'm, 'r, 'i) agent_env \<Rightarrow> VersionInfo option \<Rightarrow> 'm ta_request \<Rightarrow> 't agent \<Rightarrow> ('r, 'i) payload go" where
  "handler_answer b env cache (QuoteRequest q) ag = map_go QuotePayload (handlerGetTpmQuote env ag (Some q))"
| "handler_answer b env cache HostInfoRequest ag = map_go HostInfoPayload (GetHostInfo env ag)"
| "handler_answer b env cache AikRequest ag = map_go BytesPayload (GetAikDerBytes env ag)"
| "handler_answer b env cache (DeployAssetTagRequest t) ag = map_go (\<lambda>_. EmptyPayload) (fst (DeployAssetTag env ag t))"
| "handler_answer b env cache BkRequest ag = map_go BytesPayload (GetBindingCertificateDerBytes ag)"
| "handler_answer b env cache (DeployManifestRequest m) ag =
     map_go (\<lambda>_. EmptyPayload) (fst (DeploySoftwareManifest env ag m))"
| "handler_answer b env cache (ApplicationMeasurementRequest m) ag =
     map_go MeasurementPayload (fst (GetApplicationMeasurement env ag m))"
| "handler_answer b env cache VersionRequest ag =
     Ret (VersionPayload (fst (GetVersionInfo (bd_Version b) (bd_GitHash b) (bd_BuildDate b) (bd_Branch b) cache)))"

definition sent_reply :: "('r, 'i) nats_lib \<Rightarrow> string \<Rightarrow> ('r, 'i) payload go \<Rightarrow> (string \<times> ('r, 'i) payload) list" where
  "sent_reply lib m_reply r =
     (case r of
        Ret data \<Rightarrow> if nats_Publish lib m_reply data = None then [(m_reply, data)] else []
      | _ \<Rightarrow> [])"

lemma publish_effect [simp]:
  "ob_agent (snd (publish lib m_reply data s)) = ob_agent s"
  "ob_published (snd (publish lib m_reply data s)) = ob_published s @ sent_reply lib m_reply (Ret data)"
  by (simp_all add: publish_def sent_reply_def split: option.split)

lemma recoverFunc_snd [simp]: "snd (recoverFunc m) = snd m"
  by (cases m rule: recoverFunc.cases) auto

lemma recoverFunc_no_panic: "\<not> is_Panic (fst (recoverFunc m))"
  by (cases m rule: recoverFunc.cases) auto

text \<open>All callbacks but the version's have one shape.\<close>

lemma handled_publish [simp]:
  "ob_agent (snd (thenS (handled r s) (\<lambda>x s. publish lib m_reply (f x) s))) = snd r"
  "ob_published (snd (thenS (handled r s) (\<lambda>x s. publish lib m_reply (f x) s))) =
     ob_published s @ sent_reply lib m_reply (map_go f (fst r))"
  by (cases "fst r"; simp add: handled_def sent_reply_def)+

lemma on_message_agent:
  "ob_agent (snd (on_message lib b env m_reply m s)) = handler_effect env m (ob_agent s)"
  by (cases m) (simp_all add: callback_defs split: prod.split)

lemma on_message_published:
  "ob_published (snd (on_message lib b env m_reply m s)) =
     ob_published s @ sent_reply lib m_reply (handler_answer b env (ob_versionInfo s) m (ob_agent s))"
  by (cases m) (simp_all add: callback_defs split: prod.split)

lemma on_message_no_panic: "\<not> is_Panic (fst (on_message lib b env m_reply m s))"
  by (cases m) (simp_all add: recoverFunc_no_panic)

section \<open>The contract of a front end\<close>

lemma write_file_tpm [simp]: "ag_tpm (snd (write_file env ag path bs)) = ag_tpm ag"
  by (simp add: write_file_def split: option.split)

lemma manifest_tpm [simp]: "ag_tpm (snd (DeploySoftwareManifest env ag m)) = ag_tpm ag"
  unfolding DeploySoftwareManifest_def
  by (intro snd_thenS_invariant [where I = "\<lambda>s. ag_tpm s = ag_tpm ag"])
    (auto intro!: snd_thenS_invariant [where I = "\<lambda>s. ag_tpm s = ag_tpm ag"] simp: case_prod_unfold)

lemma ensure_wml_log_tpm [simp]: "ag_tpm (snd (ensure_wml_log env ag)) = ag_tpm ag"
  by (simp add: ensure_wml_log_def)

lemma measurement_tpm [simp]: "ag_tpm (snd (GetApplicationMeasurement env ag m)) = ag_tpm ag"
  unfolding GetApplicationMeasurement_def Let_def
  by (intro snd_thenS_invariant [where I = "\<lambda>s. ag_tpm s = ag_tpm ag"])
    (auto intro!: snd_thenS_invariant [where I = "\<lambda>s. ag_tpm s = ag_tpm ag"] simp: case_prod_unfold)

lemma handler_effect_tpm:
  "(\<And>t. m \<noteq> DeployAssetTagRequest t) \<Longrightarrow> ag_tpm (handler_effect env m ag) = ag_tpm ag"
  by (cases m) auto

text \<open>
  A front end turns what it receives into at most one request that may change the agent, and
  changes the agent as the request handler does. \<open>run\<close> is its effect, \<open>writes\<close> the request.
\<close>

locale frontend =
  fixes env :: "('t, 'm, 'r, 'i) agent_env"
    and run :: "'q \<Rightarrow> 't agent \<Rightarrow> 't agent"
    and writes :: "'q \<Rightarrow> 'm ta_request option"
  assumes run_effect: "run q ag = (case writes q of None \<Rightarrow> ag | Some m \<Rightarrow> handler_effect env m ag)"
begin

lemma tpm_kept:
  "(\<And>t. writes q \<noteq> Some (DeployAssetTagRequest t)) \<Longrightarrow> ag_tpm (run q ag) = ag_tpm ag"
  by (auto simp: run_effect handler_effect_tpm split: option.split)

lemma tpm_kept_all:
  "\<forall>q \<in> set qs. \<forall>t. writes q \<noteq> Some (DeployAssetTagRequest t) \<Longrightarrow> ag_tpm (fold run qs ag) = ag_tpm ag"
  by (induction qs arbitrary: ag) (simp_all add: tpm_kept)

lemma last_tag:
  assumes "nv_laws (tpm_lib env)" and "writes q = Some (DeployAssetTagRequest tag)"
    and "DeployAssetTag env (fold run before ag) tag = (Ret u, ag1)"
    and "length (Tag tag) = TagIndexSize" and "\<exists>b \<in> set (Tag tag). b \<noteq> 0"
    and "\<forall>q \<in> set after. \<forall>t. writes q \<noteq> Some (DeployAssetTagRequest t)"
  shows "getAssetTags (tpm_lib env) (ag_tpm (fold run (before @ q # after) ag)) (TagSecretKey env) =
    Ret (base64_encode (Tag tag))"
proof -
  have "run q (fold run before ag) = ag1" using assms(2,3) by (simp add: run_effect)
  then have "ag_tpm (fold run (before @ q # after) ag) = ag_tpm ag1"
    using tpm_kept_all [OF assms(6)] by simp
  then show ?thesis using deployed_tag_read_back [OF assms(1,3-5)] by simp
qed

end

definition nats_run ::
  "('r, 'i) nats_lib \<Rightarrow> build \<Rightarrow> ('t, 'm, 'r, 'i) agent_env \<Rightarrow> string \<times> 'm ta_request \<Rightarrow> 't agent \<Rightarrow> 't agent" where
  "nats_run lib b env q ag =
     ob_agent (snd (on_message lib b env (fst q) (snd q) \<lparr>ob_agent = ag, ob_versionInfo = None, ob_published = []\<rparr>))"

interpretation nats: frontend env "nats_run lib b env" "\<lambda>q. Some (snd q)" for lib b env
  by unfold_locales (simp add: nats_run_def on_message_agent)

section \<open>The web service as a front end\<close>

definition permitted :: "('p, 'm, 'r, 'i) web_env \<Rightarrow> 'p request \<Rightarrow> string \<Rightarrow> bool" where
  "permitted web r perm = (case user_permissions r of Ret p \<Rightarrow> match_permission web p [perm] | _ \<Rightarrow> False)"

definition decoded_body :: "'p request \<Rightarrow> string \<Rightarrow> (byte list \<Rightarrow> 'a go) \<Rightarrow> 'a option" where
  "decoded_body r ctype dec =
     (if content_type r \<noteq> ctype then None
      else case req_body r of
             Ret data \<Rightarrow> (case dec data of Ret x \<Rightarrow> Some x | _ \<Rightarrow> None)
           | _ \<Rightarrow> None)"

text \<open>The request of a caller that may change the agent, when it gets as far as the handler.\<close>

definition web_writes :: "('p, 'm, 'r, 'i) web_env \<Rightarrow> 'p request \<Rightarrow> 'm ta_request option" where
  "web_writes web r =
     (if req_method r \<noteq> ''POST'' then None
      else if req_path r = ''/v2/tag'' \<and> permitted web r ''deploy_tag:create'' then
        map_option DeployAssetTagRequest (decoded_body r ''application/json'' (decode_tag_request web))
      else if req_path r = ''/v2/host/application-measurement'' \<and> permitted web r ''application_measurement:create'' then
        map_option ApplicationMeasurementRequest (decoded_body r ''application/xml'' (unmarshal_manifest web))
      else if req_path r = ''/v2/deploy/manifest'' \<and> permitted web r ''deploy_manifest:create'' then
        map_option DeployManifestRequest (decoded_body r ''application/xml'' (unmarshal_manifest web))
      else None)"

definition web_run ::
  "('p, 'm, 'r, 'i) web_env \<Rightarrow> ('t, 'm, 'r, 'i) agent_env \<Rightarrow> 'p request \<Rightarrow> 't agent \<Rightarrow> 't agent" where
  "web_run web env r ag = (case serve web env r ag of None \<Rightarrow> ag | Some (w, ag') \<Rightarrow> ag')"

lemma snd_snd_on_Ret: "snd (snd (on_Ret m w ag f)) = (case m of Ret x \<Rightarrow> snd (snd (f x)) | _ \<Rightarrow> ag)"
  by (cases m) simp_all

lemma check_content_type_cases:
  "check_content_type r ct = (if content_type r \<noteq> ct then Fail (EndpointErr ''Invalid content-type'' StatusBadRequest) else Ret ())"
  by (simp add: check_content_type_def)

lemma endpoint_error_case:
  "(case endpoint_error msg code m of Ret x \<Rightarrow> f x | Fail e \<Rightarrow> d | Panic p \<Rightarrow> d) = (case m of Ret x \<Rightarrow> f x | Fail e \<Rightarrow> d | Panic p \<Rightarrow> d)"
  by (cases m) simp_all

lemma writing_endpoints:
  "snd (snd (setAssetTag web env r w ag)) =
     (case decoded_body r ''application/json'' (decode_tag_request web) of None \<Rightarrow> ag
      | Some t \<Rightarrow> snd (DeployAssetTag env ag t))"
  "snd (snd (getApplicationMeasurement web env r w ag)) =
     (case decoded_body r ''application/xml'' (unmarshal_manifest web) of None \<Rightarrow> ag
      | Some m \<Rightarrow> snd (GetApplicationMeasurement env ag m))"
  "snd (snd (deployManifest web env r w ag)) =
     (case decoded_body r ''application/xml'' (unmarshal_manifest web) of None \<Rightarrow> ag
      | Some m \<Rightarrow> snd (DeploySoftwareManifest env ag m))"
  by (auto simp: setAssetTag_def getApplicationMeasurement_def deployManifest_def snd_snd_on_Ret
      decoded_body_def check_content_type_cases case_prod_unfold split: go.split option.split)

lemma requiresPermission_permitted:
  "snd (snd (requiresPermission web eh [perm] r w ag)) =
     (if permitted web r perm then snd (snd (eh r (sts_header w) ag)) else ag)"
  by (simp add: requiresPermission_def permitted_def split: go.split)

lemma web_writes_at:
  "req_method r = ''POST'' \<Longrightarrow> req_path r = ''/v2/tag'' \<Longrightarrow> web_writes web r =
     (if permitted web r ''deploy_tag:create''
      then map_option DeployAssetTagRequest (decoded_body r ''application/json'' (decode_tag_request web)) else None)"
  "req_method r = ''POST'' \<Longrightarrow> req_path r = ''/v2/host/application-measurement'' \<Longrightarrow> web_writes web r =
     (if permitted web r ''application_measurement:create''
      then map_option ApplicationMeasurementRequest (decoded_body r ''application/xml'' (unmarshal_manifest web)) else None)"
  "req_method r = ''POST'' \<Longrightarrow> req_path r = ''/v2/deploy/manifest'' \<Longrightarrow> web_writes web r =
     (if permitted web r ''deploy_manifest:create''
      then map_option DeployManifestRequest (decoded_body r ''application/xml'' (unmarshal_manifest web)) else None)"
  "req_method r = ''GET'' \<Longrightarrow> web_writes web r = None"
  "req_path r = ''/v2/tpm/quote'' \<Longrightarrow> web_writes web r = None"
  by (simp_all add: web_writes_def)

lemma routes_effect:
  "list_all (\<lambda>rt. req_method r = route_method rt \<longrightarrow> req_path r = route_path rt \<longrightarrow>
       snd (snd (route_handler web rt r w ag)) =
       (case web_writes web r of None \<Rightarrow> ag | Some m \<Rightarrow> handler_effect env m ag)) (routes web env)"
  by (simp add: routes_def route_handler_def requiresPermission_permitted readonly_endpoints
      writing_endpoints web_writes_at cong: option.case_cong)

lemma web_run_effect:
  "web_run web env r ag = (case web_writes web r of None \<Rightarrow> ag | Some m \<Rightarrow> handler_effect env m ag)"
proof (cases "serve web env r ag")
  case None
  then show ?thesis by (auto simp: web_run_def web_writes_def serve_def routes_def)
next
  case (Some res)
  obtain w ag' where res: "res = (w, ag')" by fastforce
  obtain rt where rt: "rt \<in> set (routes web env)" "route_method rt = req_method r" "route_path rt = req_path r"
    "errorHandler (route_handler web rt) r new_response ag = (w, ag')"
    using serve_route [OF Some [unfolded res]] by blast
  have "ag' = snd (snd (route_handler web rt r new_response ag))"
    using rt(4) errorHandler_state [of "route_handler web rt" r new_response ag] by simp
  also have "\<dots> = (case web_writes web r of None \<Rightarrow> ag | Some m \<Rightarrow> handler_effect env m ag)"
    using routes_effect [of r web new_response ag env] rt(1-3) by (simp add: list_all_iff)
  finally show ?thesis using Some res by (simp add: web_run_def)
qed

interpretation web: frontend env "web_run web env" "web_writes web" for web env
  by unfold_locales (rule web_run_effect)

section \<open>Properties\<close>

text \<open>A NATS client that never fails and a build, for the examples.\<close>

definition sample_nats :: "(unit, unit) nats_lib" where
  "sample_nats = \<lparr>SystemCertPool = Some [], GetDirFileContents = (\<lambda>dir pattern. ([], None)),
     CertsFromPEM = (\<lambda>pem. [pem]), nats_Connect = (\<lambda>url options. None), NewEncodedConn = None,
     CreateSubject = (\<lambda>host k. host), nats_Subscribe = (\<lambda>subject. None), nats_Publish = (\<lambda>subject data. None)\<rparr>"

definition sample_build :: build where
  "sample_build = \<lparr>bd_Version = ''v4.2.0'', bd_GitHash = ''abc'', bd_BuildDate = ''today'', bd_Branch = []\<rparr>"

declare sample_nats_def [eval_simps] sample_build_def [eval_simps]

text \<open>
  C17: a message is answered with at most one publication, to the message's reply subject, and exactly
  when the request handler succeeds (and the client can publish): its result is the payload. After
  an error or a panic nothing is published, and a panic never leaves the callback.
\<close>

theorem message_answered:
  "ob_published (snd (on_message lib b env m_reply m s)) =
     ob_published s @ sent_reply lib m_reply (handler_answer b env (ob_versionInfo s) m (ob_agent s)) \<and>
   \<not> is_Panic (fst (on_message lib b env m_reply m s))"
  by (simp add: on_message_published on_message_no_panic)


text \<open>
  Over any sequence of web requests the asset tag that the agent reports is the one deployed last:
  requests after a successful deployment that are not deployments themselves leave it in place.
\<close>

lemma last_deployed_tag_reported:
  assumes "nv_laws (tpm_lib env)" and "web_writes web r = Some (DeployAssetTagRequest tag)"
    and "DeployAssetTag env (fold (web_run web env) before ag) tag = (Ret u, ag1)"
    and "length (Tag tag) = TagIndexSize" and "\<exists>b \<in> set (Tag tag). b \<noteq> 0"
    and "\<forall>q \<in> set after. \<forall>t. web_writes web q \<noteq> Some (DeployAssetTagRequest t)"
  shows "getAssetTags (tpm_lib env) (ag_tpm (fold (web_run web env) (before @ r # after) ag)) (TagSecretKey env) =
    Ret (base64_encode (Tag tag))"
  by (rule web.last_tag [OF assms])

text \<open>
  The service that is created is the outbound one exactly for the mode outbound (in any case of
  letters) with a host id, and the web service for the empty mode and http with a port; every other
  configuration is an error. A started outbound service has all eight subscriptions.
\<close>

lemma service_choice:
  assumes "NewTrustAgentService params = Ret svc"
  shows "case svc of
      OutboundService s \<Rightarrow> lower_equals (sp_Mode params) ''outbound'' \<and> HostID (sp_Nats params) \<noteq> [] \<and>
        natsParameters s = sp_Nats params \<and>
        (\<forall>lib s'. outbound_Start lib s = (Ret (), s') \<longrightarrow> natsConnection s' \<and>
           subs s' = map (\<lambda>k. (CreateSubject lib (HostID (sp_Nats params)) k, k)) outbound_subscriptions)
    | HttpService s \<Rightarrow> (sp_Mode params = [] \<or> lower_equals (sp_Mode params) ''http'') \<and>
        webParameters s = sp_Web params \<and> Port (sp_Web params) \<noteq> 0"
proof (cases "lower_equals (sp_Mode params) ''outbound''")
  case True
  have all: "subscribe_all lib ks s = (Ret (), s') \<Longrightarrow> natsConnection s' = natsConnection s \<and>
      subs s' = subs s @ map (\<lambda>k. (CreateSubject lib (HostID (natsParameters s)) k, k)) ks"
    for lib :: "('r, 'i) nats_lib" and ks s s'
    by (induction ks arbitrary: s) (auto simp: Let_def split: option.splits)
  show ?thesis
    using assms True
    by (auto simp: NewTrustAgentService_def newOutboundService_def outbound_Start_def Let_def dest!: all
        split: if_splits option.splits)
next
  case False
  then show ?thesis
    using assms
    by (auto simp: NewTrustAgentService_def newWebService_def andThen_eq_Ret Let_def split: if_splits)
qed

end
