(* ===== verification/Setup_Tasks.thy ===== *)
theory Setup_Tasks
  imports Request_Handler
begin

text \<open>
  Setup tasks of \<^verbatim>\<open>tasks/\<close> that provision the TPM (take-ownership, define-tag-index,
  provision-primary-key). A task holds a TPM factory that may be nil; calling a nil factory is a run-time
  panic.
\<close>

section \<open>Opening the TPM\<close>

definition with_tpm ::
  "'t tpm_provider \<Rightarrow> bool \<Rightarrow> ('s \<Rightarrow> 't) \<Rightarrow> 's \<Rightarrow> ('s \<Rightarrow> 'b go \<times> 's) \<Rightarrow> 'b go \<times> 's" where
  "with_tpm P tpmFactory tpm_of s body =
     (if \<not> tpmFactory then (Panic NilDereference, s)
      else thenS (wrapping ''Error while creating NewTpmProvider'' (open_tpm P (tpm_of s)), s)
             (\<lambda>_ s. body s))"

section \<open>take-ownership\<close>

definition TakeOwnership_Run ::
  "'t tpm_provider \<Rightarrow> bool \<Rightarrow> string \<Rightarrow> 't \<Rightarrow> unit go \<times> 't" where
  "TakeOwnership_Run P tpmFactory ownerSecretKey tpm =
     with_tpm P tpmFactory id tpm (\<lambda>tpm.
     thenS (wrapping ''Runtime error while checking the provided owner-secret''
              (IsOwnedWithAuth P tpm ownerSecretKey), tpm) (\<lambda>owned tpm.
     if \<not> owned \<and> ownerSecretKey = []
     then (Fail (NewErr ''The Trust-Agent only supports changing ownership when it is owned with the empty password.''), tpm)
     else if \<not> owned then
       thenS (wrapping ''Runtime error while checking the empty owner-secret''
                (IsOwnedWithAuth P tpm []), tpm) (\<lambda>owned tpm.
       if \<not> owned
       then (Fail (NewErr ''The TPM must be in a clear state to take ownerhsip with a new owner-secret''), tpm)
       else wrapS ''Error performing take ownership with the provided owner-secret''
              (errS (TakeOwnership P tpm ownerSecretKey)))
     else (Ret (), tpm)))"

definition TakeOwnership_Validate ::
  "'t tpm_provider \<Rightarrow> bool \<Rightarrow> string \<Rightarrow> 't \<Rightarrow> unit go \<times> 't" where
  "TakeOwnership_Validate P tpmFactory ownerSecretKey tpm =
     with_tpm P tpmFactory id tpm (\<lambda>tpm.
     thenS (wrapping ''Error while checking if the tpm is already owned with the owner-secret key''
              (IsOwnedWithAuth P tpm ownerSecretKey), tpm) (\<lambda>owned tpm.
     if \<not> owned then (Fail (NewErr ''The tpm is not owned with the current secret key''), tpm)
     else (Ret (), tpm)))"

section \<open>define-tag-index\<close>

text \<open>The task writes the tag secret into the configuration: the state is the TPM and the secret.\<close>

record 't tag_state =
  tag_tpm :: 't
  tagSecretKey :: string

text \<open>A call that changes the TPM and returns an error, in that state.\<close>

definition tag_op :: "string \<Rightarrow> go_error option \<times> 't \<Rightarrow> 't tag_state \<Rightarrow> unit go \<times> 't tag_state" where
  "tag_op msg r s = (wrapping msg (return_with () (fst r)), s\<lparr>tag_tpm := snd r\<rparr>)"

definition ensure_tag_secret ::
  "'t tpm_provider \<Rightarrow> string go \<Rightarrow> 't tag_state \<Rightarrow> unit go \<times> 't tag_state" where
  "ensure_tag_secret P hexRandom s =
     (if tagSecretKey s = [] then
        thenS (wrapping ''Error while generating a tag-secret'' hexRandom, s) (\<lambda>key s.
        (Ret (), s\<lparr>tagSecretKey := HEX_PREFIX P @ key\<rparr>))
      else (Ret (), s))"

text \<open>
  The tag to write: the existing one when it has the size of a tag, else zeros; the old index is
  released so that it can be defined again.
\<close>

definition carry_tag ::
  "'t tpm_provider \<Rightarrow> string \<Rightarrow> 't tag_state \<Rightarrow> byte list go \<times> 't tag_state" where
  "carry_tag P ownerSecretKey s =
     (let newAssetTag = replicate TagIndexSize 0
      in thenS (wrapping ''Error checking if the tag index exists in nvram''
                  (NvIndexExists P (tag_tpm s) (NV_IDX_ASSET_TAG P)), s) (\<lambda>nvExists s.
         if nvExists then
           thenS (wrapping ''Failed to read existing asset tag''
                    (NvRead P (tag_tpm s) ownerSecretKey (TPM2_RH_OWNER P) (NV_IDX_ASSET_TAG P)), s)
             (\<lambda>existing s.
           let newAssetTag =
             (case existing of
                None \<Rightarrow> newAssetTag
              | Some tag \<Rightarrow> if length tag \<noteq> TagIndexSize then newAssetTag else tag)
           in thenS (tag_op ''Error deleting the previous tag index from nvram''
                       (NvRelease P (tag_tpm s) ownerSecretKey (NV_IDX_ASSET_TAG P)) s)
                (\<lambda>_ s. (Ret newAssetTag, s)))
         else (Ret newAssetTag, s)))"

definition DefineTagIndex_Run ::
  "'t tpm_provider \<Rightarrow> bool \<Rightarrow> string \<Rightarrow> string go \<Rightarrow> 't tag_state \<Rightarrow> unit go \<times> 't tag_state" where
  "DefineTagIndex_Run P tpmFactory ownerSecretKey hexRandom s =
     with_tpm P tpmFactory tag_tpm s (\<lambda>s.
     thenS (wrapping ''Runtime error while verifying the owner-secret''
              (IsOwnedWithAuth P (tag_tpm s) ownerSecretKey), s) (\<lambda>owned s.
     if \<not> owned then (Fail (NewErr ''The owner-secret provided cannot access the TPM.''), s)
     else
     thenS (ensure_tag_secret P hexRandom s) (\<lambda>_ s.
     thenS (carry_tag P ownerSecretKey s) (\<lambda>newAssetTag s.
     thenS (tag_op ''Error defining the tag index in nvram''
              (NvDefine P (tag_tpm s) ownerSecretKey (tagSecretKey s) (NV_IDX_ASSET_TAG P) TagIndexSize) s)
       (\<lambda>_ s.
     tag_op ''Error writing tag to nvram''
       (NvWrite P (tag_tpm s) (tagSecretKey s) (NV_IDX_ASSET_TAG P) (NV_IDX_ASSET_TAG P) newAssetTag)
       s)))))"

definition DefineTagIndex_Validate ::
  "'t tpm_provider \<Rightarrow> bool \<Rightarrow> 't tag_state \<Rightarrow> unit go \<times> 't tag_state" where
  "DefineTagIndex_Validate P tpmFactory s =
     with_tpm P tpmFactory tag_tpm s (\<lambda>s.
     thenS (wrapping ''Validation error: NvIndexExists failed''
              (NvIndexExists P (tag_tpm s) (NV_IDX_ASSET_TAG P)), s) (\<lambda>nvExists s.
     if \<not> nvExists then (Fail (NewErr ''The asset tag nvram index was not created''), s)
     else (Ret (), s)))"

section \<open>provision-primary-key\<close>

definition ProvisionPrimaryKey_Run ::
  "'t tpm_provider \<Rightarrow> bool \<Rightarrow> string \<Rightarrow> 't \<Rightarrow> unit go \<times> 't" where
  "ProvisionPrimaryKey_Run P tpmFactory ownerSecretKey tpm =
     with_tpm P tpmFactory id tpm (\<lambda>tpm.
     thenS (wrapping ''Error while checking existence of tpm public key''
              (PublicKeyExists P tpm (TPM_HANDLE_PRIMARY P)), tpm) (\<lambda>exists tpm.
     if \<not> exists then
       wrapS ''Error while creating the primary handle in the TPM''
         (errS (CreatePrimaryHandle P tpm ownerSecretKey (TPM_HANDLE_PRIMARY P)))
     else (Ret (), tpm)))"

text \<open>
  \<^verbatim>\<open>errors.Wrapf(err, ...)\<close> in the branch of a missing key wraps the error of the call before,
  which is nil there.
\<close>

definition ProvisionPrimaryKey_Validate ::
  "'t tpm_provider \<Rightarrow> bool \<Rightarrow> 't \<Rightarrow> unit go \<times> 't" where
  "ProvisionPrimaryKey_Validate P tpmFactory tpm =
     with_tpm P tpmFactory id tpm (\<lambda>tpm.
     thenS (wrapping ''Error while checking existence of tpm public key''
              (PublicKeyExists P tpm (TPM_HANDLE_PRIMARY P)), tpm) (\<lambda>exists tpm.
     let err = None
     in if \<not> exists
        then (return_with () (errors_Wrap err ''The primary key at handle was not created''), tpm)
        else (Ret (), tpm)))"

lemmas task_defs = with_tpm_def tag_op_def TakeOwnership_Run_def TakeOwnership_Validate_def
  ensure_tag_secret_def carry_tag_def DefineTagIndex_Run_def DefineTagIndex_Validate_def
  ProvisionPrimaryKey_Run_def ProvisionPrimaryKey_Validate_def

declare task_defs [eval_simps]

section \<open>Lemmas\<close>

lemma with_tpm_eq_Ret:
  "with_tpm P fac tpm_of s body = (Ret x, s') \<longleftrightarrow>
     fac \<and> NewTpmProvider P (tpm_of s) = None \<and> body s = (Ret x, s')"
  by (auto simp: with_tpm_def open_tpm_def return_with_def thenS_eq_Ret split: option.splits)

lemma tag_op_eq_Ret:
  "tag_op msg r s = (Ret u, s') \<longleftrightarrow> fst r = None \<and> s' = s\<lparr>tag_tpm := snd r\<rparr>"
  by (auto simp: tag_op_def return_with_def split: option.splits)

lemma with_tpm_open:
  "NewTpmProvider P (tpm_of s) = None \<Longrightarrow> with_tpm P True tpm_of s body = body s"
  by (simp add: with_tpm_def open_tpm_def)

lemma snd_thenS_unchanged:
  "snd (thenS (m, s) f) \<noteq> s \<Longrightarrow> \<exists>x. m = Ret x \<and> snd (f x s) \<noteq> s"
  by (cases m) auto

text \<open>The tag the index holds for the owner before the task, or zeros.\<close>

definition previous_tag :: "'t tpm_provider \<Rightarrow> string \<Rightarrow> 't \<Rightarrow> byte list" where
  "previous_tag P ownerSecretKey tpm =
     (if NvIndexExists P tpm (NV_IDX_ASSET_TAG P) = Ret True then
        (case NvRead P tpm ownerSecretKey (TPM2_RH_OWNER P) (NV_IDX_ASSET_TAG P) of
           Ret (Some tag) \<Rightarrow> if length tag = TagIndexSize then tag else replicate TagIndexSize 0
         | _ \<Rightarrow> replicate TagIndexSize 0)
      else replicate TagIndexSize 0)"

declare previous_tag_def [eval_simps]

lemma carry_tag_Ret:
  assumes "carry_tag P owner s = (Ret tag, s')"
  shows "tag = previous_tag P owner (tag_tpm s) \<and> length tag = TagIndexSize \<and>
    tagSecretKey s' = tagSecretKey s"
proof -
  obtain ex where ex: "NvIndexExists P (tag_tpm s) (NV_IDX_ASSET_TAG P) = Ret ex"
    using assms by (auto simp: carry_tag_def Let_def thenS_eq_Ret)
  show ?thesis
  proof (cases ex)
    case True
    then obtain old where "NvRead P (tag_tpm s) owner (TPM2_RH_OWNER P) (NV_IDX_ASSET_TAG P) = Ret old"
      using assms ex by (auto simp: carry_tag_def Let_def thenS_eq_Ret)
    then show ?thesis
      using assms ex True
      by (cases old) (auto simp: carry_tag_def previous_tag_def thenS_eq_Ret tag_op_eq_Ret split: if_splits)
  next
    case False
    then show ?thesis using assms ex by (auto simp: carry_tag_def previous_tag_def)
  qed
qed

lemma ensure_tag_secret_Ret:
  "ensure_tag_secret P rnd s = (Ret u, s') \<Longrightarrow> tag_tpm s' = tag_tpm s"
  by (auto simp: ensure_tag_secret_def thenS_eq_Ret split: if_splits)

lemma DefineTagIndex_Run_Ret:
  assumes "DefineTagIndex_Run P fac owner rnd s = (Ret u, s')"
  shows "\<exists>tpm0. NvWrite P tpm0 (tagSecretKey s') (NV_IDX_ASSET_TAG P) (NV_IDX_ASSET_TAG P)
      (previous_tag P owner (tag_tpm s)) = (None, tag_tpm s')"
proof -
  obtain s1 s2 tag tpm1 tpm2 where
    "ensure_tag_secret P rnd s = (Ret (), s1)" "carry_tag P owner s1 = (Ret tag, s2)"
    "fst (NvWrite P tpm1 (tagSecretKey s2) (NV_IDX_ASSET_TAG P) (NV_IDX_ASSET_TAG P) tag) = None"
    "tpm2 = snd (NvWrite P tpm1 (tagSecretKey s2) (NV_IDX_ASSET_TAG P) (NV_IDX_ASSET_TAG P) tag)"
    "s' = s2\<lparr>tag_tpm := tpm2\<rparr>"
    using assms
    by (auto simp: DefineTagIndex_Run_def with_tpm_eq_Ret thenS_eq_Ret tag_op_eq_Ret split: if_splits)
  then show ?thesis
    using ensure_tag_secret_Ret [of P rnd s "()" s1] carry_tag_Ret [of P owner s1 tag s2]
    by (auto simp: prod_eq_iff)
qed

section \<open>Properties\<close>

text \<open>
  C18: define-tag-index keeps a deployed asset tag: after the task succeeded, the quote code reads
  with the new tag secret exactly the tag the index held before, or no tag when there was none.
\<close>

theorem define_tag_index_keeps_tag:
  assumes "nv_laws P" and "DefineTagIndex_Run P fac owner rnd s = (Ret u, s')"
  shows "getAssetTags P (tag_tpm s') (tagSecretKey s') =
    Ret (if allZeros (previous_tag P owner (tag_tpm s)) then []
         else base64_encode (previous_tag P owner (tag_tpm s)))"
proof -
  have len: "length (previous_tag P owner (tag_tpm s)) = TagIndexSize"
    by (simp add: previous_tag_def split: go.split option.split)
  obtain tpm0 where "NvWrite P tpm0 (tagSecretKey s') (NV_IDX_ASSET_TAG P) (NV_IDX_ASSET_TAG P)
      (previous_tag P owner (tag_tpm s)) = (None, tag_tpm s')"
    using DefineTagIndex_Run_Ret [OF assms(2)] by blast
  from nv_write_read [OF assms(1) len this] show ?thesis by (simp add: getAssetTags_def len)
qed

theorem define_tag_index_keeps_tag_witness:
  "\<exists>s'. DefineTagIndex_Run soft_provider True ''o'' (Ret ''ab'')
        \<lparr>tag_tpm = sample_tpm, tagSecretKey = []\<rparr> = (Ret (), s') \<and>
     getAssetTags soft_provider (tag_tpm s') ''hex:ab'' = Ret (base64_encode (replicate 48 7))"
proof -
  let ?s = "\<lparr>tag_tpm = sample_tpm, tagSecretKey = []\<rparr>"
  have "\<exists>s'. DefineTagIndex_Run soft_provider True ''o'' (Ret ''ab'') ?s = (Ret (), s') \<and>
      tagSecretKey s' = ''hex:ab''"
    by (simp add: DefineTagIndex_Run_def with_tpm_open ensure_tag_secret_def carry_tag_def
        soft_provider_def soft_read_def soft_write_def soft_define_def sample_tpm_def TagIndexSize_def
        tag_op_def)
  then obtain s' where s': "DefineTagIndex_Run soft_provider True ''o'' (Ret ''ab'') ?s = (Ret (), s')"
    "tagSecretKey s' = ''hex:ab''" by blast
  have "previous_tag soft_provider ''o'' (tag_tpm ?s) = replicate 48 7"
    by (simp add: previous_tag_def soft_provider_def soft_read_def sample_tpm_def TagIndexSize_def)
  moreover have "\<not> allZeros (replicate 48 7)" by (simp add: replicate_numeral)
  ultimately show ?thesis
    using define_tag_index_keeps_tag [OF soft_nv_laws s'(1)] s' by auto
qed

text \<open>
  Take-ownership changes the TPM only when the given owner secret is not empty, does not yet
  open the TPM, and the TPM is clear (the empty password owns it).
\<close>

lemma take_ownership_only_when_clear:
  assumes "TakeOwnership_Run P fac secret tpm = (r, tpm')" and "tpm' \<noteq> tpm"
  shows "secret \<noteq> [] \<and> IsOwnedWithAuth P tpm secret = Ret False \<and> IsOwnedWithAuth P tpm [] = Ret True"
proof -
  have "snd (TakeOwnership_Run P fac secret tpm) \<noteq> tpm" using assms by simp
  then show ?thesis
    unfolding TakeOwnership_Run_def with_tpm_def
    by (auto dest!: snd_thenS_unchanged split: if_splits)
qed

text \<open>
  A successful take-ownership passes its own validation, provided taking ownership makes the
  TPM accept the secret.
\<close>

lemma take_ownership_validates:
  assumes "\<And>s s'. TakeOwnership P s secret = (None, s') \<Longrightarrow> IsOwnedWithAuth P s' secret = Ret True"
    and "TakeOwnership_Run P fac secret tpm = (Ret (), tpm')" and "NewTpmProvider P tpm' = None"
  shows "TakeOwnership_Validate P fac secret tpm' = (Ret (), tpm')"
proof -
  have "fac" and "IsOwnedWithAuth P tpm' secret = Ret True"
    using assms(1,2)
    by (auto simp: TakeOwnership_Run_def with_tpm_eq_Ret thenS_eq_Ret split: if_splits)
  then show ?thesis using assms(3) by (simp add: TakeOwnership_Validate_def with_tpm_open)
qed

text \<open>
  The validation of provision-primary-key does not notice a missing key: whenever the TPM can
  be opened and asked, it reports success, also when the key does not exist.
\<close>

lemma primary_key_validation_accepts_missing:
  assumes "NewTpmProvider P tpm = None" and "PublicKeyExists P tpm (TPM_HANDLE_PRIMARY P) = Ret exists"
  shows "ProvisionPrimaryKey_Validate P True tpm = (Ret (), tpm)"
  using assms by (simp add: ProvisionPrimaryKey_Validate_def with_tpm_open)

end
