(* ===== verification/Manifest_Task.thy ===== *)
theory Manifest_Task
  imports Request_Handler
begin

text \<open>
  The task get-configured-manifest (\<^verbatim>\<open>tasks/get-configured-manifest.go\<close>): manifests named by the
  environment are fetched from HVS and saved. \<^verbatim>\<open>saveManifest\<close> has a value receiver: it appends to the
  list of saved files of a copy of the task, and the task itself never sees it.
\<close>

record manifest_client =
  ManifestsClient :: "go_error option"
  GetManifestXmlById :: "string \<Rightarrow> byte list go"
  GetManifestXmlByLabel :: "string \<Rightarrow> byte list go"
  unmarshal_hvs_manifest :: "byte list \<Rightarrow> (string \<times> string) go"
  Getenv :: "string \<Rightarrow> string"

type_synonym 't task_state = "string list \<times> 't agent"

text \<open>
  The file of a manifest. \<^verbatim>\<open>VarDir\<close> ends with a slash and the format string adds another; the operating system
  takes a run of slashes for one. Dot elements are not resolved.
\<close>

fun squeeze_slashes :: "string \<Rightarrow> string" where
  "squeeze_slashes [] = []"
| "squeeze_slashes [c] = [c]"
| "squeeze_slashes (c # d # s) =
     (if c = CHR ''/'' \<and> d = CHR ''/'' then squeeze_slashes (d # s) else c # squeeze_slashes (d # s))"

definition hvsManifestFile :: "string \<Rightarrow> string" where
  "hvsManifestFile uuid = squeeze_slashes (VarDir @ ''/manifest_'' @ uuid @ ''.xml'')"

definition is_default_label :: "('t, 'm, 'r, 'i) agent_env \<Rightarrow> string \<Rightarrow> bool" where
  "is_default_label env label \<longleftrightarrow>
     str_contains (DefaultSoftwareFlavorPrefix env) label \<or>
     str_contains (DefaultWorkloadFlavorPrefix env) label"

definition saveManifest ::
  "('t, 'm, 'r, 'i) agent_env \<Rightarrow> manifest_client \<Rightarrow> byte list \<Rightarrow> 't task_state \<Rightarrow> unit go \<times> 't task_state" where
  "saveManifest env client manifestXml = (\<lambda>(savedManifestFiles, ag).
     thenS (wrapping ''Error while unmarshalling the manifest xml''
              (unmarshal_hvs_manifest client manifestXml), (savedManifestFiles, ag)) (\<lambda>(uuid, label) st.
     if is_default_label env label then (Ret (), st)
     else
       case write_file env ag (hvsManifestFile uuid) manifestXml of
         (res, ag') \<Rightarrow>
           thenS (wrapping ''Error while writing manifest file'' res, (savedManifestFiles, ag')) (\<lambda>_ st.
           let copyOfTask = savedManifestFiles @ [hvsManifestFile uuid]
           in (Ret (), st))))"

text \<open>Fetching and saving the manifests of one list of identifiers.\<close>

fun save_all ::
  "('t, 'm, 'r, 'i) agent_env \<Rightarrow> manifest_client \<Rightarrow> (string \<Rightarrow> byte list go) \<Rightarrow> string list
     \<Rightarrow> 't task_state \<Rightarrow> unit go \<times> 't task_state" where
  "save_all env client fetch [] st = (Ret (), st)"
| "save_all env client fetch (x # xs) st =
     thenS (wrapping ''An error occurred while downloading manifest'' (fetch x), st) (\<lambda>manifestXml st.
     thenS (wrapS ''An error occurred while saving manifest'' (saveManifest env client manifestXml st))
       (\<lambda>_ st. save_all env client fetch xs st))"

fun validate_uuids :: "('t, 'm, 'r, 'i) agent_env \<Rightarrow> string list \<Rightarrow> unit go" where
  "validate_uuids env [] = Ret ()"
| "validate_uuids env (u # us) =
     andThen (wrapping ''Flavor UUID is not a valid uuid'' (return_with () (ValidateUUIDv4 env u)))
       (\<lambda>_. validate_uuids env us)"

definition flavor_uuids :: "('t, 'm, 'r, 'i) agent_env \<Rightarrow> string \<Rightarrow> string list go" where
  "flavor_uuids env envVar =
     (if envVar \<noteq> [] then
        (if length envVar > FlavorUUIDMaxLength then Fail (NewErr ''Flavor UUID exceeds maximum length limit'')
         else andThen (validate_uuids env (split_on CHR '','' envVar))
                (\<lambda>_. Ret (split_on CHR '','' envVar)))
      else Ret [])"

definition flavor_labels :: "('t, 'm, 'r, 'i) agent_env \<Rightarrow> string \<Rightarrow> string list go" where
  "flavor_labels env envVar =
     (if length envVar > FlavorLabelsMaxLength then Fail (NewErr ''Flavor labels exceeds maximum length limit'')
      else
        let flavorLabels = (if envVar \<noteq> [] then split_on CHR '','' envVar else [])
        in andThen (wrapping ''Flavor Labels are not valid labels''
                      (return_with () (ValidateStrings env flavorLabels))) (\<lambda>_. Ret flavorLabels))"

definition GetConfiguredManifest_Run ::
  "('t, 'm, 'r, 'i) agent_env \<Rightarrow> manifest_client \<Rightarrow> 't task_state \<Rightarrow> unit go \<times> 't task_state" where
  "GetConfiguredManifest_Run env client st =
     thenS (wrapping ''Could not create manifests client'' (return_with () (ManifestsClient client)), st)
       (\<lambda>_ st.
     thenS (flavor_uuids env (Getenv client FlavorUUIDs), st) (\<lambda>flavorUUIDs st.
     thenS (flavor_labels env (Getenv client FlavorLabels), st) (\<lambda>flavorLabels st.
     if length flavorUUIDs = 0 \<and> length flavorLabels = 0
     then (Fail (NewErr ''No manifests were specified via the environment variables''), st)
     else
     thenS (save_all env client (GetManifestXmlById client) flavorUUIDs st) (\<lambda>_ st.
     save_all env client (GetManifestXmlByLabel client) flavorLabels st))))"

fun missing_files :: "file_system \<Rightarrow> string list \<Rightarrow> bool \<Rightarrow> bool" where
  "missing_files fs [] missing = missing"
| "missing_files fs (f # files) missing =
     missing_files fs files (if os_IsNotExist (os_Stat fs f) then True else missing)"

definition GetConfiguredManifest_Validate :: "'t task_state \<Rightarrow> unit go" where
  "GetConfiguredManifest_Validate = (\<lambda>(savedManifestFiles, ag).
     if missing_files (host_files (ag_host ag)) savedManifestFiles False
     then Fail (NewErr ''One or more manifest files were not created.'')
     else Ret ())"

lemmas manifest_task_defs = hvsManifestFile_def is_default_label_def saveManifest_def flavor_uuids_def
  flavor_labels_def GetConfiguredManifest_Run_def GetConfiguredManifest_Validate_def

declare manifest_task_defs [eval_simps]

section \<open>Lemmas\<close>

lemma saveManifest_saved: "fst (snd (saveManifest env client xml st)) = fst st"
proof -
  obtain saved ag where st: "st = (saved, ag)" by fastforce
  show ?thesis
    unfolding st saveManifest_def prod.case
    by (rule snd_thenS_invariant [where I = "\<lambda>s. fst s = fst (saved, ag)"])
      (auto split: prod.split intro!: snd_thenS_invariant [where I = "\<lambda>s. fst s = saved"])
qed

lemma save_all_saved: "fst (snd (save_all env client fetch xs st)) = fst st"
proof (induction xs arbitrary: st)
  case (Cons x xs)
  show ?case
    unfolding save_all.simps
    by (intro snd_thenS_invariant [where I = "\<lambda>s. fst s = fst st"])
      (auto simp: saveManifest_saved Cons.IH)
qed simp

lemma GetConfiguredManifest_Run_saved:
  "fst (snd (GetConfiguredManifest_Run env client st)) = fst st"
  unfolding GetConfiguredManifest_Run_def
  by (intro snd_thenS_invariant [where I = "\<lambda>s. fst s = fst st"])
    (auto simp: save_all_saved intro!: snd_thenS_invariant [where I = "\<lambda>s. fst s = fst st"])

lemma missing_files_iff:
  "missing_files fs files missing \<longleftrightarrow> missing \<or> (\<exists>f \<in> set files. os_IsNotExist (os_Stat fs f))"
  by (induction files arbitrary: missing) auto

section \<open>Properties\<close>

text \<open>
  The validation of get-configured-manifest cannot fail after a run: the task's list of saved
  files stays empty, so it succeeds on every state of the file system, with or without the files.
\<close>

lemma manifest_validation_is_vacuous:
  assumes "GetConfiguredManifest_Run env client ([], ag) = (r, (saved, ag'))"
  shows "GetConfiguredManifest_Validate (saved, ag'') = Ret ()"
  using GetConfiguredManifest_Run_saved [of env client "([], ag)"] assms
  by (simp add: GetConfiguredManifest_Validate_def)

text \<open>For a UUID without slashes the file is that of the manifest deployment.\<close>

lemma squeeze_no_slash: "CHR ''/'' \<notin> set s \<Longrightarrow> squeeze_slashes s = s"
  by (induction s rule: squeeze_slashes.induct) auto

lemma squeeze_Cons: "c \<noteq> CHR ''/'' \<Longrightarrow> squeeze_slashes (c # s) = c # squeeze_slashes s"
  by (cases s) simp_all

lemma hvsManifestFile_path:
  assumes "CHR ''/'' \<notin> set uuid"
  shows "hvsManifestFile uuid = manifestFile \<lparr>Uuid = uuid, Label = l, manifest_content = c\<rparr>"
proof -
  have "squeeze_slashes (uuid @ ''.xml'') = uuid @ ''.xml''" using assms by (intro squeeze_no_slash) simp
  then show ?thesis by (simp add: hvsManifestFile_def manifestFile_def constants_defs squeeze_Cons)
qed

text \<open>
  What a run has to write: the bytes of every fetched manifest, in the order of the requests, at the path of
  the UUID in it, but nothing for a default flavor. A later manifest of the same UUID replaces an earlier
  one.
\<close>

fun to_save :: "('t, 'm, 'r, 'i) agent_env \<Rightarrow> manifest_client \<Rightarrow> byte list go \<Rightarrow> (string \<times> byte list) list" where
  "to_save env client (Ret xml) =
     (case unmarshal_hvs_manifest client xml of
        Ret (uuid, label) \<Rightarrow> if is_default_label env label then [] else [(hvsManifestFile uuid, xml)]
      | _ \<Rightarrow> [])"
| "to_save env client _ = []"

definition is_manifest :: "manifest_client \<Rightarrow> byte list go \<Rightarrow> bool" where
  "is_manifest client fetched \<longleftrightarrow> (\<exists>xml m. fetched = Ret xml \<and> unmarshal_hvs_manifest client xml = Ret m)"

definition after_writes :: "(string \<times> byte list) list \<Rightarrow> file_system \<Rightarrow> file_system" where
  "after_writes ws fs = (\<lambda>p. case map_of (rev ws) p of Some bs \<Rightarrow> Contents bs | None \<Rightarrow> fs p)"

lemma after_writes_simps [simp]:
  "after_writes [] fs = fs" "after_writes [(p, bs)] fs = fs(p := Contents bs)"
  "after_writes (ws @ ws') fs = after_writes ws' (after_writes ws fs)"
  by (auto simp: after_writes_def fun_eq_iff map_add_def split: option.split)

lemma saveManifest_Ret:
  assumes "saveManifest env client xml (saved, ag) = (Ret u, (saved', ag'))"
  shows "is_manifest client (Ret xml) \<and> ag_tpm ag' = ag_tpm ag \<and>
    host_files (ag_host ag') = after_writes (to_save env client (Ret xml)) (host_files (ag_host ag))"
proof -
  obtain uuid label where m: "unmarshal_hvs_manifest client xml = Ret (uuid, label)"
    using assms by (auto simp: saveManifest_def thenS_eq_Ret)
  show ?thesis
  proof (cases "is_default_label env label")
    case True
    then show ?thesis using assms m by (simp add: saveManifest_def is_manifest_def)
  next
    case False
    then have "write_file env ag (hvsManifestFile uuid) xml = (Ret (), ag')"
      using assms m by (auto simp: saveManifest_def thenS_eq_Ret Let_def split: prod.splits)
    then show ?thesis
      using write_file_Ret [of env ag "hvsManifestFile uuid" xml "()" ag'] m False
      by (auto simp: is_manifest_def fun_eq_iff)
  qed
qed

lemma save_all_Ret:
  "save_all env client fetch xs (saved, ag) = (Ret u, (saved', ag')) \<Longrightarrow>
     (\<forall>x \<in> set xs. is_manifest client (fetch x)) \<and> ag_tpm ag' = ag_tpm ag \<and>
     host_files (ag_host ag') = after_writes (concat (map (\<lambda>x. to_save env client (fetch x)) xs)) (host_files (ag_host ag))"
proof (induction xs arbitrary: saved ag)
  case (Cons x xs)
  obtain xml saved1 ag1 where
    f: "fetch x = Ret xml" and s: "saveManifest env client xml (saved, ag) = (Ret (), (saved1, ag1))"
    and r: "save_all env client fetch xs (saved1, ag1) = (Ret u, (saved', ag'))"
    using Cons.prems by (auto simp: thenS_eq_Ret)
  show ?case using saveManifest_Ret [OF s] Cons.IH [OF r] f by simp
qed simp

text \<open>
  C32: when get-configured-manifest reports success, every manifest that the environment names was
  fetched and parsed, and the files are exactly those of before with the bytes fetched from HVS at the path
  of each manifest's UUID (the last ones fetched for that UUID); nothing is written for a manifest whose
  label is that of a default flavor, and the TPM is not touched.
\<close>

theorem get_configured_manifest_saves:
  assumes "GetConfiguredManifest_Run env client (saved, ag) = (Ret u, (saved', ag'))"
    and "flavor_uuids env (Getenv client ''FLAVOR_UUIDS'') = Ret uuids"
    and "flavor_labels env (Getenv client ''FLAVOR_LABELS'') = Ret labels"
    and "fetched = map (GetManifestXmlById client) uuids @ map (GetManifestXmlByLabel client) labels"
  shows "fetched \<noteq> [] \<and> (\<forall>f \<in> set fetched. \<exists>xml m. f = Ret xml \<and> unmarshal_hvs_manifest client xml = Ret m) \<and>
    ag_tpm ag' = ag_tpm ag \<and>
    (\<forall>p. host_files (ag_host ag') p =
      (case map_of (rev (concat (map (to_save env client) fetched))) p of
         Some xml \<Rightarrow> Contents xml | None \<Rightarrow> host_files (ag_host ag) p))"
proof -
  obtain saved1 ag1 where
    ids: "save_all env client (GetManifestXmlById client) uuids (saved, ag) = (Ret (), (saved1, ag1))"
    and labels: "save_all env client (GetManifestXmlByLabel client) labels (saved1, ag1) = (Ret u, (saved', ag'))"
    and ne: "uuids @ labels \<noteq> []"
    using assms(1-3) by (auto simp: GetConfiguredManifest_Run_def thenS_eq_Ret split: if_splits)
  have "host_files (ag_host ag') = after_writes (concat (map (to_save env client) fetched)) (host_files (ag_host ag))"
    using save_all_Ret [OF ids] save_all_Ret [OF labels] by (simp add: assms(4) comp_def)
  moreover have "\<forall>f \<in> set fetched. is_manifest client f" "ag_tpm ag' = ag_tpm ag"
    using save_all_Ret [OF ids] save_all_Ret [OF labels] by (auto simp: assms(4))
  ultimately show ?thesis using ne by (auto simp: assms(4) is_manifest_def after_writes_def)
qed

definition sample_client :: manifest_client where
  "sample_client = \<lparr>ManifestsClient = None, GetManifestXmlById = (\<lambda>u. Ret (bytes_of_string u)),
     GetManifestXmlByLabel = (\<lambda>l. Ret []),
     unmarshal_hvs_manifest = (\<lambda>x. Ret (string_of_bytes x, ''app'')),
     Getenv = (\<lambda>v. if v = ''FLAVOR_UUIDS'' then sample_uuid else [])\<rparr>"

theorem get_configured_manifest_saves_witness:
  "\<exists>saved' ag'. GetConfiguredManifest_Run sample_agent_env sample_client ([], sample_agent) =
      (Ret (), (saved', ag')) \<and>
     host_files (ag_host ag') (''/opt/trustagent/var/manifest_'' @ sample_uuid @ ''.xml'') = Contents (bytes_of_string sample_uuid)"
proof -
  have ids: "flavor_uuids sample_agent_env (Getenv sample_client ''FLAVOR_UUIDS'') = Ret [sample_uuid]"
    by (simp add: flavor_uuids_def sample_client_def sample_agent_env_def sample_uuid_def)
  have labels: "flavor_labels sample_agent_env (Getenv sample_client ''FLAVOR_LABELS'') = Ret []"
    by (simp add: flavor_labels_def sample_client_def sample_agent_env_def)
  have label: "\<not> is_default_label sample_agent_env ''app''"
    by (simp add: is_default_label_def sample_agent_env_def)
  have "\<exists>saved' ag'. GetConfiguredManifest_Run sample_agent_env sample_client ([], sample_agent) =
      (Ret (), (saved', ag'))"
    unfolding GetConfiguredManifest_Run_def setting_names ids labels
    using label by (simp add: sample_client_def saveManifest_def write_file_def sample_agent_env_def)
  then obtain saved' ag' where run: "GetConfiguredManifest_Run sample_agent_env sample_client
      ([], sample_agent) = (Ret (), (saved', ag'))" by blast
  have "CHR ''/'' \<notin> set sample_uuid" by (simp add: sample_uuid_def)
  from hvsManifestFile_path [OF this]
  have path: "hvsManifestFile sample_uuid = ''/opt/trustagent/var/manifest_'' @ sample_uuid @ ''.xml''"
    by (simp add: manifestFile_def constants_defs)
  have "to_save sample_agent_env sample_client (Ret (bytes_of_string sample_uuid)) =
      [(hvsManifestFile sample_uuid, bytes_of_string sample_uuid)]"
    using label by (simp add: sample_client_def)
  then show ?thesis
    using get_configured_manifest_saves [OF run ids labels refl] run by (simp add: sample_client_def path)
qed

end
