(* ===== verification/Agent_Config.thy ===== *)
theory Agent_Config
  imports Service_Config Outbound_Service
begin

text \<open>
  \<^verbatim>\<open>config/config.go\<close>: the configuration, reading it from the environment and from its file, and
  saving it. YAML coding, the setup library's accessors and the file operations that may fail are
  parameters.
\<close>

section \<open>The configuration\<close>

text \<open>The web service and logging settings are the record of update-service-config.\<close>

record TrustAgentConfiguration =
  configFile :: string
  Mode :: string
  cfg_service :: service_config
  HVS_Url :: string
  cfg_TagSecretKey :: string
  AAS_BaseURL :: string
  CMS_BaseURL :: string
  TLSCertDigest :: string
  CertSAN :: string
  CertCN :: string
  Nats :: NatsService
  ApiToken :: string

record config_lib =
  ctx :: setup_context
  ValidateHexString :: "string \<Rightarrow> go_error option"
  yaml_Decode :: "byte list \<Rightarrow> TrustAgentConfiguration go"
  yaml_Encode :: "TrustAgentConfiguration \<Rightarrow> byte list go"
  create_error :: "string \<Rightarrow> go_error option"
  chmod_error :: "string \<Rightarrow> go_error option"
  log_open_error :: "string \<Rightarrow> go_error option"

definition empty_config :: TrustAgentConfiguration where
  "empty_config =
     \<lparr>configFile = [], Mode = [],
      cfg_service = \<lparr>Port = 0, ReadTimeout = 0, ReadHeaderTimeout = 0, WriteTimeout = 0, IdleTimeout = 0,
        MaxHeaderBytes = 0, LogEntryMaxLength = 0, LogLevel = [], LogEnableStdout = False\<rparr>,
      HVS_Url = [], cfg_TagSecretKey = [], AAS_BaseURL = [], CMS_BaseURL = [], TLSCertDigest = [],
      CertSAN = [], CertCN = [], Nats = \<lparr>Servers = [], HostID = []\<rparr>, ApiToken = []\<rparr>"

definition set_level :: "string \<Rightarrow> TrustAgentConfiguration \<Rightarrow> TrustAgentConfiguration" where
  "set_level l cfg = cfg\<lparr>cfg_service := (cfg_service cfg)\<lparr>LogLevel := l\<rparr>\<rparr>"

section \<open>The configuration file\<close>

text \<open>Only a file that cannot be opened is taken for missing; it then starts blank.\<close>

definition NewConfigFromYaml :: "config_lib \<Rightarrow> file_system \<Rightarrow> string \<Rightarrow> TrustAgentConfiguration go" where
  "NewConfigFromYaml L fs pathToYaml =
     andThen (case os_Open fs pathToYaml of
                Ret bs \<Rightarrow> yaml_Decode L bs
              | _ \<Rightarrow> Ret (set_level (InfoLevel (ctx L)) empty_config))
       (\<lambda>c. Ret (c\<lparr>configFile := pathToYaml\<rparr>))"

text \<open>
  The existing file is truncated when it is opened, before the configuration is encoded; a new one
  is created and its mode changed.
\<close>

definition config_Save :: "config_lib \<Rightarrow> TrustAgentConfiguration \<Rightarrow> file_system \<Rightarrow> unit go \<times> file_system" where
  "config_Save L cfg fs =
     (if configFile cfg = [] then (Fail (NewErr ''no config file''), fs)
      else
        thenS (case fs (configFile cfg) of
                 Contents _ \<Rightarrow> (Ret (), fs(configFile cfg := Contents []))
               | Unreadable e \<Rightarrow> (Fail e, fs)
               | Absent \<Rightarrow>
                   (case create_error L (configFile cfg) of
                      Some e \<Rightarrow> (Fail e, fs)
                    | None \<Rightarrow> (return_with () (chmod_error L (configFile cfg)), fs(configFile cfg := Contents []))))
          (\<lambda>_ fs.
        thenS (yaml_Encode L cfg, fs) (\<lambda>bs fs. (Ret (), fs(configFile cfg := Contents bs)))))"

section \<open>The environment\<close>

text \<open>\<^verbatim>\<open>GetenvString\<close> returns the empty string beside an error.\<close>

definition env_value :: "config_lib \<Rightarrow> string \<Rightarrow> string" where
  "env_value L v = (case GetenvString (ctx L) v of Ret s \<Rightarrow> s | _ \<Rightarrow> [])"

text \<open>The sections of the function, each from the old value of its setting to the new one.\<close>

definition load_url :: "config_lib \<Rightarrow> string \<Rightarrow> string \<Rightarrow> string" where
  "load_url L v old = (let e = env_value L v in if e \<noteq> [] \<and> old \<noteq> e then e else old)"

definition load_aas :: "config_lib \<Rightarrow> string \<Rightarrow> string" where
  "load_aas L old =
     (let e = env_value L EnvAASBaseURL
      in if e \<noteq> [] \<and> old \<noteq> e then (if last e = CHR ''/'' then e else e @ ''/'') else old)"

definition load_log_level :: "config_lib \<Rightarrow> string \<Rightarrow> string" where
  "load_log_level L old =
     (let level = env_log_level (ctx L) old in if level = [] then InfoLevel (ctx L) else level)"

definition load_digest :: "config_lib \<Rightarrow> string \<Rightarrow> string go" where
  "load_digest L old =
     (let e = env_value L EnvCMSTLSCertDigest
      in if e = [] then Ret old
         else if length e \<noteq> 96 then Fail (NewErr ''Invalid length CMS_TLS_CERT_SHA384'')
         else if ValidateHexString L e \<noteq> None
              then Fail (NewErr ''CMS_TLS_CERT_SHA384 is not a valid hex string'')
         else Ret (if old \<noteq> e then e else old))"

definition blank :: "string \<Rightarrow> bool" where
  "blank s \<longleftrightarrow> list_all unicode_space (str_runes s)"

definition load_or_default :: "config_lib \<Rightarrow> string \<Rightarrow> string \<Rightarrow> string \<Rightarrow> string" where
  "load_or_default L v dflt old =
     (let e = env_value L v in if e \<noteq> [] then e else if blank old then dflt else old)"

definition load_nats :: "config_lib \<Rightarrow> NatsService \<Rightarrow> NatsService" where
  "load_nats L n =
     (let servers = env_value L EnvNATServers; host = env_value L EnvTAHostId;
          n = (if servers \<noteq> [] then n\<lparr>Servers := split_on CHR '','' servers\<rparr> else n)
      in if host \<noteq> [] then n\<lparr>HostID := host\<rparr> else n)"

definition load_mode :: "config_lib \<Rightarrow> TrustAgentConfiguration \<Rightarrow> TrustAgentConfiguration" where
  "load_mode L cfg =
     (let e = env_value L EnvTAServiceMode
      in if e \<noteq> [] \<and> (e = CommunicationModeHttp \<or> e = CommunicationModeOutbound) then
           (if e = CommunicationModeOutbound then cfg\<lparr>Mode := e, Nats := load_nats L (Nats cfg)\<rparr> else cfg\<lparr>Mode := e\<rparr>)
         else cfg\<lparr>Mode := CommunicationModeHttp\<rparr>)"

definition LoadEnvironmentVariables ::
  "config_lib \<Rightarrow> TrustAgentConfiguration \<Rightarrow> unit go \<times> TrustAgentConfiguration" where
  "LoadEnvironmentVariables L cfg =
     (let cfg = cfg\<lparr>HVS_Url := load_url L EnvMtwilsonAPIURL (HVS_Url cfg)\<rparr>;
          cfg = cfg\<lparr>AAS_BaseURL := load_aas L (AAS_BaseURL cfg)\<rparr>;
          cfg = cfg\<lparr>CMS_BaseURL := load_url L EnvCMSBaseURL (CMS_BaseURL cfg)\<rparr>;
          cfg = set_level (load_log_level L (LogLevel (cfg_service cfg))) cfg
      in case load_digest L (TLSCertDigest cfg) of
           Fail e \<Rightarrow> (Fail e, cfg)
         | Panic p \<Rightarrow> (Panic p, cfg)
         | Ret digest \<Rightarrow>
             (let cfg = cfg\<lparr>TLSCertDigest := digest\<rparr>;
                  cfg = cfg\<lparr>CertCN := load_or_default L EnvTLSCertCommonName DefaultTaTlsCn (CertCN cfg)\<rparr>;
                  cfg = cfg\<lparr>CertSAN := load_or_default L EnvCertSanList DefaultTaTlsSan (CertSAN cfg)\<rparr>
              in (Ret (), load_mode L cfg)))"

section \<open>The loggers\<close>

text \<open>
  A logger has a level (none when the text of the level does not parse: the zero value), a maximal length
  of its entries and its writers in the order of \<^verbatim>\<open>io.MultiWriter\<close>, which stops at the first writer that
  fails. A file that could not be opened is a nil \<^verbatim>\<open>*os.File\<close>, to which every write fails.
\<close>

datatype log_writer = Stdout | LogFile string | NilFile

record logger =
  lg_level :: "string option"
  lg_max_length :: int
  lg_writers :: "log_writer list"

record loggers =
  default_logger :: logger
  security_logger :: logger

text \<open>A missing log file is created; an error of \<^verbatim>\<open>os.Chmod\<close> is only logged.\<close>

definition open_log :: "config_lib \<Rightarrow> string \<Rightarrow> file_system \<Rightarrow> log_writer \<times> file_system" where
  "open_log L path fs =
     (case log_open_error L path of
        Some e \<Rightarrow> (NilFile, fs)
      | None \<Rightarrow> (LogFile path, if fs path = Absent then fs(path := Contents []) else fs))"

definition log_level :: "config_lib \<Rightarrow> TrustAgentConfiguration \<Rightarrow> TrustAgentConfiguration" where
  "log_level L cfg =
     (let level = (if LogLevel (cfg_service cfg) = [] then InfoLevel (ctx L) else LogLevel (cfg_service cfg))
      in set_level (if is_Ret (ParseLevel (ctx L) level) then level else InfoLevel (ctx L)) cfg)"

definition LogConfiguration ::
  "config_lib \<Rightarrow> bool \<Rightarrow> TrustAgentConfiguration \<times> file_system
     \<Rightarrow> loggers \<times> TrustAgentConfiguration \<times> file_system" where
  "LogConfiguration L stdOut s =
     (let (defaultLogFile, fs) = open_log L DefaultLogFilePath (snd s);
          (secLogFile, fs) = open_log L SecurityLogFilePath fs;
          ioWriterDefault = (if stdOut then [Stdout, defaultLogFile] else [defaultLogFile]);
          ioWriterSecurity = ioWriterDefault @ [secLogFile];
          cfg = log_level L (fst s);
          llp = (case ParseLevel (ctx L) (LogLevel (cfg_service cfg)) of Ret l \<Rightarrow> Some l | _ \<Rightarrow> None);
          maxLength = LogEntryMaxLength (cfg_service cfg)
      in (\<lparr>default_logger = \<lparr>lg_level = llp, lg_max_length = maxLength, lg_writers = ioWriterDefault\<rparr>,
           security_logger = \<lparr>lg_level = llp, lg_max_length = maxLength, lg_writers = ioWriterSecurity\<rparr>\<rparr>,
          cfg, fs))"

text \<open>One formatted entry, on the console and the files; files are opened for appending.\<close>

definition append_file :: "string \<Rightarrow> byte list \<Rightarrow> file_system \<Rightarrow> file_system" where
  "append_file path bs fs = (case fs path of Contents old \<Rightarrow> fs(path := Contents (old @ bs)) | _ \<Rightarrow> fs)"

fun log_write :: "log_writer list \<Rightarrow> byte list \<Rightarrow> byte list \<times> file_system \<Rightarrow> byte list \<times> file_system" where
  "log_write [] bs s = s"
| "log_write (Stdout # ws) bs s = log_write ws bs (fst s @ bs, snd s)"
| "log_write (LogFile path # ws) bs s = log_write ws bs (fst s, append_file path bs (snd s))"
| "log_write (NilFile # ws) bs s = s"

lemmas config_defs = empty_config_def set_level_def NewConfigFromYaml_def config_Save_def env_value_def
  load_url_def load_aas_def load_log_level_def load_digest_def load_or_default_def
  load_nats_def load_mode_def LoadEnvironmentVariables_def open_log_def log_level_def
  LogConfiguration_def append_file_def

declare config_defs [eval_simps] blank_def [eval_simps]

section \<open>Lemmas\<close>

lemma load_idem [simp]:
  "load_url L v (load_url L v x) = load_url L v x" "load_aas L (load_aas L x) = load_aas L x"
  "load_log_level L (load_log_level L x) = load_log_level L x"
  by (auto simp: load_url_def load_aas_def load_log_level_def env_log_level_def Let_def split: go.split)

lemma load_or_default_idem [simp]:
  "\<not> blank d \<Longrightarrow> load_or_default L v d (load_or_default L v d x) = load_or_default L v d x"
  by (simp add: load_or_default_def Let_def)

lemma load_digest_idem: "load_digest L x = Ret y \<Longrightarrow> load_digest L y = Ret y"
  by (auto simp: load_digest_def Let_def split: if_splits)

lemma load_nats_idem [simp]: "load_nats L (load_nats L n) = load_nats L n"
  by (simp add: load_nats_def Let_def)

lemma load_mode_cases:
  "load_mode L cfg =
     (if env_value L ''TA_SERVICE_MODE'' = ''outbound'' then cfg\<lparr>Mode := ''outbound'', Nats := load_nats L (Nats cfg)\<rparr>
      else cfg\<lparr>Mode := ''http''\<rparr>)"
  by (simp add: load_mode_def Let_def)

lemma ascii_blank: "blank s \<longleftrightarrow> list_all unicode_space (map of_char s)" if "\<forall>c \<in> set s. (of_char c :: nat) < 0x80"
  using that decode_runes_ascii [of "map of_char s"] by (simp add: blank_def str_runes_def)

lemma defaults_not_blank [simp]:
  "\<not> blank ''Trust Agent TLS Certificate''" "\<not> blank ''127.0.0.1,localhost''"
  by (simp_all add: ascii_blank unicode_space_def)

lemma saved_config_read:
  assumes "\<And>c bs. yaml_Encode L c = Ret bs \<Longrightarrow> yaml_Decode L bs = Ret (c\<lparr>configFile := []\<rparr>)"
    and "config_Save L cfg fs = (Ret (), fs')"
  shows "NewConfigFromYaml L fs' (configFile cfg) = Ret cfg"
proof -
  obtain bs where "yaml_Encode L cfg = Ret bs" "fs' (configFile cfg) = Contents bs"
    using assms(2) by (auto simp: config_Save_def thenS_eq_Ret split: if_splits)
  then show ?thesis using assms(1) by (simp add: NewConfigFromYaml_def os_Open_def)
qed

lemma lower_http [simp]: "lower_equals ''http'' ''http''" "\<not> lower_equals ''http'' ''outbound''"
proof -
  have "str_runes ''http'' = map of_char ''http''"
    using decode_runes_ascii [of "map of_char ''http''"] by (simp add: str_runes_def)
  then show "lower_equals ''http'' ''http''" "\<not> lower_equals ''http'' ''outbound''"
    by (simp_all add: lower_equals_def lower_rune_def)
qed

section \<open>Properties\<close>

text \<open>
  Reading the environment twice is reading it once: applied to its own result, with the same
  environment, the function changes nothing and returns the same error.
\<close>

lemma load_environment_idempotent:
  "LoadEnvironmentVariables L (snd (LoadEnvironmentVariables L cfg)) = LoadEnvironmentVariables L cfg"
proof (cases "load_digest L (TLSCertDigest cfg)")
  case (Ret d)
  then show ?thesis
    using load_digest_idem [OF Ret]
    by (cases "env_value L ''TA_SERVICE_MODE'' = ''outbound''")
      (simp_all add: LoadEnvironmentVariables_def set_level_def load_mode_cases Let_def)
qed (simp_all add: LoadEnvironmentVariables_def set_level_def Let_def)

text \<open>
  Reading the environment for a setup command without TA_SERVICE_MODE, or with a mode that is not
  spelled http or outbound, turns an outbound agent into a web agent: the mode becomes http whatever
  the configuration file had, and the service created from it is never the outbound one.
\<close>

lemma setup_resets_mode:
  assumes "LoadEnvironmentVariables L cfg = (Ret (), cfg')" and "env_value L ''TA_SERVICE_MODE'' \<noteq> ''outbound''"
  shows "Mode cfg' = ''http'' \<and> NewTrustAgentService \<lparr>sp_Mode = Mode cfg', sp_Web = web, sp_Nats = nats\<rparr> \<noteq> Ret (OutboundService s)"
proof -
  have "Mode cfg' = ''http''"
    using assms by (auto simp: LoadEnvironmentVariables_def load_mode_cases Let_def split: go.splits)
  then show ?thesis by (simp add: NewTrustAgentService_def newWebService_def)
qed

definition sample_config_lib :: config_lib where
  "sample_config_lib =
     \<lparr>ctx = sample_context, ValidateHexString = (\<lambda>s. None), yaml_Decode = (\<lambda>bs. Ret empty_config),
      yaml_Encode = (\<lambda>c. Ret [1]), create_error = (\<lambda>p. None), chmod_error = (\<lambda>p. None),
      log_open_error = (\<lambda>p. Some (IOError ''permission denied''))\<rparr>"

text \<open>What logging leaves alone: all files but the two logs, and all settings but the level.\<close>

lemma open_log_other: "p \<noteq> path \<Longrightarrow> snd (open_log L path fs) p = fs p"
  by (simp add: open_log_def split: option.split)

lemma LogConfiguration_files:
  "p \<noteq> DefaultLogFilePath \<Longrightarrow> p \<noteq> SecurityLogFilePath \<Longrightarrow> snd (snd (LogConfiguration L out (cfg, fs))) p = fs p"
  by (simp add: LogConfiguration_def open_log_other Let_def case_prod_unfold)

lemma LogConfiguration_cfg [simp]: "fst (snd (LogConfiguration L out s)) = log_level L (fst s)"
  by (simp add: LogConfiguration_def Let_def case_prod_unfold)

lemma LogConfiguration_refused:
  "log_open_error L DefaultLogFilePath \<noteq> None \<Longrightarrow> log_open_error L SecurityLogFilePath \<noteq> None \<Longrightarrow>
     snd (snd (LogConfiguration L out s)) = snd s"
  by (auto simp: LogConfiguration_def open_log_def Let_def case_prod_unfold split: option.split)



text \<open>
  A saved configuration is read back: after a successful save of a configuration that belongs to a
  file, reading that file gives the configuration, provided YAML decoding inverts encoding on the
  exported fields. A failure to encode leaves the file empty.
\<close>

lemma config_save_load:
  assumes "\<And>c bs. yaml_Encode L c = Ret bs \<Longrightarrow> yaml_Decode L bs = Ret (c\<lparr>configFile := []\<rparr>)"
    and "config_Save L cfg fs = (r, fs')"
  shows "(r = Ret () \<longrightarrow> NewConfigFromYaml L fs' (configFile cfg) = Ret cfg) \<and>
    (\<forall>bs e. fs (configFile cfg) = Contents bs \<longrightarrow> yaml_Encode L cfg = Fail e \<longrightarrow> configFile cfg \<noteq> [] \<longrightarrow>
       fs' (configFile cfg) = Contents []) \<and>
    (\<forall>p. p \<noteq> configFile cfg \<longrightarrow> fs' p = fs p)"
proof -
  have frame: "fs' p = fs p" if "p \<noteq> configFile cfg" for p
    using assms(2) that
    by (cases "yaml_Encode L cfg")
      (auto simp: config_Save_def return_with_def split: if_splits file_state.splits option.splits)
  have "fs' (configFile cfg) = Contents []"
    if "fs (configFile cfg) = Contents bs" "yaml_Encode L cfg = Fail e" "configFile cfg \<noteq> []" for bs e
    using assms(2) that by (auto simp: config_Save_def)
  then show ?thesis using frame saved_config_read [OF assms(1)] assms(2) by blast
qed

end
