(* ===== verification/Hvs_Tasks.thy ===== *)
theory Hvs_Tasks
  imports Agent_Config
begin

text \<open>
  The setup tasks that talk to HVS and AAS: create-host, create-host-unique-flavor,
  download-api-token and download-credential (\<^verbatim>\<open>tasks/\<close>), with \<^verbatim>\<open>util/connection_string.go\<close> and
  \<^verbatim>\<open>util/bearer_token.go\<close>. The services are parameters over an unknown state \<^typ>\<open>'h\<close>.
\<close>

section \<open>Registering the host\<close>

text \<open>\<open>ParseIP\<close> is \<^verbatim>\<open>net.ParseIP\<close> followed by \<^verbatim>\<open>String\<close>; \<open>SearchHosts\<close> gives the hosts of that name.\<close>

record 'h hvs_client =
  os_Getenv :: "string \<Rightarrow> string"
  ParseIP :: "string \<Rightarrow> string option"
  HostsClient :: "go_error option"
  FlavorsClient :: "go_error option"
  SearchHosts :: "'h \<Rightarrow> string \<Rightarrow> string list go"
  hvs_CreateHost :: "'h \<Rightarrow> string \<Rightarrow> string \<Rightarrow> go_error option \<times> 'h"
  hvs_CreateFlavor :: "'h \<Rightarrow> string \<Rightarrow> string list \<Rightarrow> go_error option \<times> 'h"
  FlavorPartHostUnique :: string

definition GetCurrentIP :: "'h hvs_client \<Rightarrow> string go" where
  "GetCurrentIP H =
     (let currentIP = os_Getenv H EnvCurrentIP
      in if currentIP = [] then Fail (NewErr ''CURRENT_IP is not define in the environment'')
         else case ParseIP H currentIP of
                None \<Rightarrow> Fail (NewErr (''Could not parse ip address '' @ currentIP))
              | Some ip \<Rightarrow> Ret ip)"

definition GetConnectionString :: "string \<Rightarrow> int \<Rightarrow> string" where
  "GetConnectionString ip port = ''intel:https://'' @ ip @ '':'' @ dec_int port"

definition GetBearerToken :: "(string \<Rightarrow> string) \<Rightarrow> string" where
  "GetBearerToken getenv = getenv EnvBearerToken"

definition CreateHost_Run :: "'h hvs_client \<Rightarrow> bool \<Rightarrow> int \<Rightarrow> 'h \<Rightarrow> unit go \<times> 'h" where
  "CreateHost_Run H clientFactory trustAgentPort h =
     (if \<not> clientFactory then (Panic NilDereference, h)
      else
      thenS (wrapping ''Could not create host client'' (return_with () (HostsClient H)), h) (\<lambda>_ h.
      thenS (wrapping ''The create-host task requires the CURRENT_IP environment variable'' (GetCurrentIP H), h)
        (\<lambda>currentIP h.
      thenS (wrapping ''Error while retrieving host collection'' (SearchHosts H h currentIP), h) (\<lambda>hosts h.
      if length hosts = 0
      then errS (hvs_CreateHost H h currentIP (GetConnectionString currentIP trustAgentPort))
      else (Fail (NewErr (''Host with IP address '' @ currentIP @ '' already exists'')), h)))))"

definition CreateHost_Validate :: "'h hvs_client \<Rightarrow> bool \<Rightarrow> 'h \<Rightarrow> unit go \<times> 'h" where
  "CreateHost_Validate H clientFactory h =
     (if \<not> clientFactory then (Panic NilDereference, h)
      else
      thenS (wrapping ''Could not create host client'' (return_with () (HostsClient H)), h) (\<lambda>_ h.
      thenS (wrapping ''The create-host task requires the CURRENT_IP environment variable'' (GetCurrentIP H), h)
        (\<lambda>currentIP h.
      thenS (wrapping ''Error searching for host collection'' (SearchHosts H h currentIP), h) (\<lambda>hosts h.
      if length hosts = 0 then (Fail (NewErr (''Host with ip '' @ currentIP @ '' was not created'')), h)
      else (Ret (), h)))))"

definition CreateHostUniqueFlavor_Run :: "'h hvs_client \<Rightarrow> bool \<Rightarrow> int \<Rightarrow> 'h \<Rightarrow> unit go \<times> 'h" where
  "CreateHostUniqueFlavor_Run H clientFactory trustAgentPort h =
     (if \<not> clientFactory then (Panic NilDereference, h)
      else
      thenS (wrapping ''Could not create flavor client'' (return_with () (FlavorsClient H)), h) (\<lambda>_ h.
      thenS (wrapping ''The create-host-unique-flavor task requires the CURRENT_IP environment variable''
               (GetCurrentIP H), h) (\<lambda>currentIP h.
      wrapS ''Error while creating host unique flavor''
        (errS (hvs_CreateFlavor H h (GetConnectionString currentIP trustAgentPort) [FlavorPartHostUnique H])))))"

definition CreateHostUniqueFlavor_Validate :: "unit go" where
  "CreateHostUniqueFlavor_Validate = Ret ()"

section \<open>Tokens and credentials\<close>

record custom_claims =
  Subject :: string
  ValiditySecs :: int
  claim_service :: string
  claim_rules :: "string list"

record aas_client =
  GetenvSecret :: "string \<Rightarrow> string go"
  GetCertsFromDir :: "string \<Rightarrow> go_error option"
  HTTPClientWithCA :: "go_error option"
  GetCustomClaimsToken :: "string \<Rightarrow> string \<Rightarrow> custom_claims \<Rightarrow> byte list go"
  GetCredentials :: "string \<Rightarrow> string \<Rightarrow> string \<Rightarrow> string \<Rightarrow> byte list go"
  credentials_write :: "byte list \<Rightarrow> go_error option"

text \<open>The checks and the HTTP client both tasks start with; \<open>subject\<close> is the host's UUID or id.\<close>

definition aas_setup :: "aas_client \<Rightarrow> string \<Rightarrow> string \<Rightarrow> string \<Rightarrow> string go" where
  "aas_setup C aasUrl subject missing =
     (case GetenvSecret C EnvBearerToken of
        Panic p \<Rightarrow> Panic p
      | Fail _ \<Rightarrow> Fail (NewErr '' BEARER_TOKEN is not set'')
      | Ret bearerToken \<Rightarrow>
          if bearerToken = [] then Fail (NewErr '' BEARER_TOKEN is not set'')
          else if subject = [] then Fail (NewErr missing)
          else if aasUrl = [] then Fail (NewErr ''AAS_API_URL is not set'')
          else
            andThen (wrapping ''Error while reading certs'' (return_with () (GetCertsFromDir C TrustedCaCertsDir))) (\<lambda>_.
            andThen (wrapping ''Error while creating http client'' (return_with () (HTTPClientWithCA C))) (\<lambda>_.
            Ret bearerToken)))"

definition api_token_claims :: "string \<Rightarrow> custom_claims" where
  "api_token_claims hostHardwareUUID =
     \<lparr>Subject = hostHardwareUUID, ValiditySecs = DefaultApiTokenExpiration, claim_service = VerificationServiceName,
      claim_rules = [''reports:create:*'', ''hosts:search:*'']\<rparr>"

definition DownloadApiToken_Run ::
  "config_lib \<Rightarrow> aas_client \<Rightarrow> string \<Rightarrow> string \<Rightarrow> TrustAgentConfiguration \<times> file_system
     \<Rightarrow> unit go \<times> TrustAgentConfiguration \<times> file_system" where
  "DownloadApiToken_Run L C aasUrl hostHardwareUUID s =
     thenS (aas_setup C aasUrl hostHardwareUUID
              ''Host hardware UUID must be set to download API token from AAS'', s) (\<lambda>bearerToken s.
     thenS (wrapping ''Error while getting custom claims token''
              (GetCustomClaimsToken C aasUrl bearerToken (api_token_claims hostHardwareUUID)), s)
       (\<lambda>apiTokenBytes s.
     let cfg = (fst s)\<lparr>ApiToken := string_of_bytes apiTokenBytes\<rparr>
     in case config_Save L cfg (snd s) of
          (r, fs) \<Rightarrow>
            (wrapping ''Error while saving API token from aas into TA configuration'' r, (cfg, fs))))"

definition DownloadApiToken_Validate :: "TrustAgentConfiguration \<Rightarrow> unit go" where
  "DownloadApiToken_Validate cfg =
     (if ApiToken cfg = [] then Fail (NewErr ''API token does not exist in TA config.yml'') else Ret ())"

definition DownloadCredential_Run ::
  "aas_client \<Rightarrow> string \<Rightarrow> string \<Rightarrow> file_system \<Rightarrow> unit go \<times> file_system" where
  "DownloadCredential_Run C aasUrl hostId fs =
     thenS (aas_setup C aasUrl hostId ''TA_HOST_ID is not set'', fs) (\<lambda>bearerToken fs.
     thenS (wrapping ''Error while retrieving credential file from aas''
              (GetCredentials C aasUrl bearerToken TAServiceName hostId), fs) (\<lambda>credentialFileBytes fs.
     case credentials_write C credentialFileBytes of
       Some e \<Rightarrow> (Fail (WrapErr e ''Error while saving credentials''), fs)
     | None \<Rightarrow> (Ret (), fs(NatsCredentials := Contents credentialFileBytes))))"

definition DownloadCredential_Validate :: "file_system \<Rightarrow> unit go" where
  "DownloadCredential_Validate fs =
     (if os_IsNotExist (os_Stat fs NatsCredentials) then Fail (NewErr ''credential file does not exist'')
      else Ret ())"

lemmas hvs_task_defs = GetCurrentIP_def GetConnectionString_def GetBearerToken_def CreateHost_Run_def
  CreateHost_Validate_def CreateHostUniqueFlavor_Run_def CreateHostUniqueFlavor_Validate_def
  aas_setup_def api_token_claims_def DownloadApiToken_Run_def
  DownloadApiToken_Validate_def DownloadCredential_Run_def DownloadCredential_Validate_def

declare hvs_task_defs [eval_simps]

section \<open>Lemmas\<close>

lemma DownloadApiToken_Run_Ret:
  assumes "DownloadApiToken_Run L C aasUrl hw (cfg, fs) = (Ret u, cfg', fs')"
  obtains bearer token where "GetenvSecret C ''BEARER_TOKEN'' = Ret bearer" "bearer \<noteq> []" "hw \<noteq> []"
    "GetCustomClaimsToken C aasUrl bearer (api_token_claims hw) = Ret token"
    "cfg' = cfg\<lparr>ApiToken := string_of_bytes token\<rparr>" "config_Save L cfg' fs = (Ret (), fs')"
proof -
  obtain bearer token where a: "aas_setup C aasUrl hw ''Host hardware UUID must be set to download API token from AAS'' = Ret bearer"
    and k: "GetCustomClaimsToken C aasUrl bearer (api_token_claims hw) = Ret token"
    and r: "(case config_Save L (cfg\<lparr>ApiToken := string_of_bytes token\<rparr>) fs of (r, fs) \<Rightarrow>
        (wrapping ''Error while saving API token from aas into TA configuration'' r,
         (cfg\<lparr>ApiToken := string_of_bytes token\<rparr>, fs))) = (Ret u, (cfg', fs'))"
    using assms by (auto simp: DownloadApiToken_Run_def thenS_eq_Ret Let_def)
  have "cfg' = cfg\<lparr>ApiToken := string_of_bytes token\<rparr>" "config_Save L cfg' fs = (Ret (), fs')"
    using r by (auto split: prod.splits)
  moreover have "GetenvSecret C ''BEARER_TOKEN'' = Ret bearer \<and> bearer \<noteq> [] \<and> hw \<noteq> []"
    using a by (auto simp: aas_setup_def andThen_eq_Ret split: go.splits if_splits)
  ultimately show ?thesis using k that by blast
qed

section \<open>Properties\<close>

text \<open>
  Create-host registers the host once: a successful run created it under the current address with
  the connection string of the agent's port, found no host of that name before, passes its own
  validation, and a second run fails without a change, provided a created host is found by its name.
\<close>

lemma create_host_once:
  assumes "CreateHost_Run H cf port h = (Ret u, h')"
    and "\<forall>h name conn h'. hvs_CreateHost H h name conn = (None, h') \<longrightarrow>
           (\<exists>hosts. SearchHosts H h' name = Ret hosts \<and> hosts \<noteq> [])"
  shows "\<exists>ip. GetCurrentIP H = Ret ip \<and> SearchHosts H h ip = Ret [] \<and>
    hvs_CreateHost H h ip (''intel:https://'' @ ip @ '':'' @ dec_int port) = (None, h') \<and>
    CreateHost_Validate H cf h' = (Ret (), h') \<and>
    CreateHost_Run H cf port h' = (Fail (NewErr (''Host with IP address '' @ ip @ '' already exists'')), h')"
proof -
  obtain ip where ip: "cf" "HostsClient H = None" "GetCurrentIP H = Ret ip" "SearchHosts H h ip = Ret []"
    "hvs_CreateHost H h ip (GetConnectionString ip port) = (None, h')"
    using assms(1)
    by (auto simp: CreateHost_Run_def thenS_eq_Ret return_with_def split: if_splits option.splits)
  obtain hosts where "SearchHosts H h' ip = Ret hosts" "hosts \<noteq> []" using assms(2) ip(5) by blast
  then show ?thesis
    using ip by (auto simp: CreateHost_Run_def CreateHost_Validate_def GetConnectionString_def)
qed

definition sample_hvs :: "(string \<times> string) list hvs_client" where
  "sample_hvs = \<lparr>os_Getenv = (\<lambda>v. ''10.0.0.1''), ParseIP = (\<lambda>s. Some s), HostsClient = None, FlavorsClient = None,
     SearchHosts = (\<lambda>h name. Ret (map snd (filter (\<lambda>e. fst e = name) h))),
     hvs_CreateHost = (\<lambda>h name conn. (None, (name, conn) # h)), hvs_CreateFlavor = (\<lambda>h c p. (None, h)),
     FlavorPartHostUnique = ''HOST_UNIQUE''\<rparr>"

text \<open>
  A downloaded API token survives a restart: when download-api-token succeeds, it asked AAS for a
  token of the host's UUID with the two rules the agent needs, and the configuration read from the
  file afterwards has that token; only the token changed.
\<close>

lemma api_token_persists:
  assumes "DownloadApiToken_Run L C aasUrl hw (cfg, fs) = (Ret u, (cfg', fs'))"
    and "\<And>c bs. yaml_Encode L c = Ret bs \<Longrightarrow> yaml_Decode L bs = Ret (c\<lparr>configFile := []\<rparr>)"
  shows "\<exists>bearer token. GetenvSecret C ''BEARER_TOKEN'' = Ret bearer \<and> bearer \<noteq> [] \<and> hw \<noteq> [] \<and>
    GetCustomClaimsToken C aasUrl bearer
      \<lparr>Subject = hw, ValiditySecs = 31536000, claim_service = ''HVS'',
       claim_rules = [''reports:create:*'', ''hosts:search:*'']\<rparr> = Ret token \<and>
    cfg' = cfg\<lparr>ApiToken := string_of_bytes token\<rparr> \<and>
    NewConfigFromYaml L fs' (configFile cfg) = Ret (cfg\<lparr>ApiToken := string_of_bytes token\<rparr>)"
proof -
  obtain bearer token where t: "GetenvSecret C ''BEARER_TOKEN'' = Ret bearer" "bearer \<noteq> []" "hw \<noteq> []"
    "GetCustomClaimsToken C aasUrl bearer (api_token_claims hw) = Ret token"
    "cfg' = cfg\<lparr>ApiToken := string_of_bytes token\<rparr>" "config_Save L cfg' fs = (Ret (), fs')"
    using DownloadApiToken_Run_Ret [OF assms(1)] .
  then show ?thesis using saved_config_read [OF assms(2) t(6)] by (auto simp: api_token_claims_def)
qed

definition sample_aas :: aas_client where
  "sample_aas = \<lparr>GetenvSecret = (\<lambda>v. Ret ''b''), GetCertsFromDir = (\<lambda>d. None), HTTPClientWithCA = None,
     GetCustomClaimsToken = (\<lambda>u b c. Ret (bytes_of_string ''T'')), GetCredentials = (\<lambda>u b t h. Ret []), credentials_write = (\<lambda>bs. None)\<rparr>"

end
