(* ===== verification/Go_Crypto.thy ===== *)
theory Go_Crypto
  imports Go_Codecs
begin

text \<open>
  What the provisioning code uses of \<^verbatim>\<open>crypto/cipher\<close> (CBC decryption over a block cipher),
  \<^verbatim>\<open>encoding/asn1\<close> (one raw DER value and the bytes after it) and \<^verbatim>\<open>encoding/pem\<close> (encoding a block).
  The block cipher is a parameter: a function from blocks to blocks for each key.
\<close>

section \<open>Cipher block chaining\<close>

definition xor_bytes :: "byte list \<Rightarrow> byte list \<Rightarrow> byte list" where
  "xor_bytes xs ys = map2 (XOR) xs ys"

definition BlockSize :: nat where "BlockSize = 16"

fun cbc_dec :: "(byte list \<Rightarrow> byte list) \<Rightarrow> byte list \<Rightarrow> byte list list \<Rightarrow> byte list" where
  "cbc_dec d prev [] = []"
| "cbc_dec d prev (c # cs) = xor_bytes (d c) prev @ cbc_dec d c cs"

text \<open>
  \<^verbatim>\<open>NewCBCDecrypter\<close> panics on an initialization vector that is not a block, \<^verbatim>\<open>CryptBlocks\<close> on input
  that is not a whole number of blocks.
\<close>

definition cbc_CryptBlocks :: "(byte list \<Rightarrow> byte list) \<Rightarrow> byte list \<Rightarrow> byte list \<Rightarrow> byte list go" where
  "cbc_CryptBlocks d iv src =
     (if length iv \<noteq> BlockSize then Panic (LibraryPanic ''cipher.NewCBCDecrypter: IV length must equal block size'')
      else if length src mod BlockSize \<noteq> 0 then Panic (LibraryPanic ''crypto/cipher: input not full blocks'')
      else Ret (cbc_dec d iv (chunks (length src div BlockSize) BlockSize src)))"

text \<open>Only keys of the three AES sizes are accepted.\<close>

definition aes_NewCipher :: "byte list \<Rightarrow> unit go" where
  "aes_NewCipher key =
     (if length key = 16 \<or> length key = 24 \<or> length key = 32 then Ret ()
      else Fail (LibError ''crypto/aes: invalid key size''))"

text \<open>The sender's side: PKCS#7 padding and CBC encryption.\<close>

fun cbc_enc :: "(byte list \<Rightarrow> byte list) \<Rightarrow> byte list \<Rightarrow> byte list list \<Rightarrow> byte list" where
  "cbc_enc e prev [] = []"
| "cbc_enc e prev (p # ps) = (let c = e (xor_bytes p prev) in c @ cbc_enc e c ps)"

definition pkcs7_pad :: "byte list \<Rightarrow> byte list" where
  "pkcs7_pad pt = (let n = BlockSize - length pt mod BlockSize in pt @ replicate n (of_nat n))"

definition encrypt_padded :: "(byte list \<Rightarrow> byte list) \<Rightarrow> byte list \<Rightarrow> byte list \<Rightarrow> byte list" where
  "encrypt_padded e iv pt =
     (let padded = pkcs7_pad pt in cbc_enc e iv (chunks (length padded div BlockSize) BlockSize padded))"

declare xor_bytes_def [eval_simps] BlockSize_def [eval_simps] cbc_CryptBlocks_def [eval_simps]
  aes_NewCipher_def [eval_simps] pkcs7_pad_def [eval_simps] encrypt_padded_def [eval_simps]

lemma length_xor_bytes [simp]: "length (xor_bytes xs ys) = min (length xs) (length ys)"
  by (simp add: xor_bytes_def)

lemma xor_bytes_twice: "length xs = length ys \<Longrightarrow> xor_bytes (xor_bytes xs ys) ys = xs"
proof (induction xs ys rule: list_induct2)
  case (Cons x xs y ys)
  have "(x XOR y) XOR y = x" by (simp add: xor.assoc)
  then show ?case using Cons by (simp add: xor_bytes_def)
qed (simp add: xor_bytes_def)

lemma chunks_concat:
  "\<forall>b \<in> set bs. length b = n \<Longrightarrow> chunks (length bs) n (concat bs) = bs"
  by (induction bs) auto

lemma concat_chunks: "length bs = k * n \<Longrightarrow> concat (chunks k n bs) = bs"
proof (induction k arbitrary: bs)
  case (Suc k)
  have "concat (chunks k n (drop n bs)) = drop n bs" using Suc by simp
  then show ?case by simp
qed simp

lemma length_chunks [simp]: "length (chunks k n bs) = k"
  by (induction k arbitrary: bs) auto

lemma chunks_block: "length bs = k * n \<Longrightarrow> b \<in> set (chunks k n bs) \<Longrightarrow> length b = n"
proof (induction k arbitrary: bs)
  case (Suc k)
  have "length (drop n bs) = k * n" using Suc.prems(1) by simp
  then show ?case using Suc.IH [of "drop n bs"] Suc.prems by auto
qed simp

lemma length_concat_blocks: "\<forall>b \<in> set bs. length b = n \<Longrightarrow> length (concat bs) = length bs * n"
  by (induction bs) auto

text \<open>The blocks of an encryption, for a cipher that maps blocks to blocks.\<close>

fun cbc_blocks :: "(byte list \<Rightarrow> byte list) \<Rightarrow> byte list \<Rightarrow> byte list list \<Rightarrow> byte list list" where
  "cbc_blocks e prev [] = []"
| "cbc_blocks e prev (p # ps) = (let c = e (xor_bytes p prev) in c # cbc_blocks e c ps)"

lemma cbc_enc_blocks: "cbc_enc e prev ps = concat (cbc_blocks e prev ps)"
  by (induction ps arbitrary: prev) (auto simp: Let_def)

lemma length_cbc_blocks [simp]: "length (cbc_blocks e prev ps) = length ps"
  by (induction ps arbitrary: prev) (auto simp: Let_def)

lemma cbc_blocks_lengths:
  assumes "\<And>b. length b = BlockSize \<Longrightarrow> length (e b) = BlockSize"
  shows "length prev = BlockSize \<Longrightarrow> \<forall>p \<in> set ps. length p = BlockSize \<Longrightarrow>
    \<forall>c \<in> set (cbc_blocks e prev ps). length c = BlockSize"
proof (induction ps arbitrary: prev)
  case (Cons p ps)
  then have "length (e (xor_bytes p prev)) = BlockSize" by (simp add: assms)
  then show ?case using Cons.IH [of "e (xor_bytes p prev)"] Cons.prems by (simp add: Let_def)
qed simp

lemma cbc_dec_blocks:
  assumes "\<And>b. length b = BlockSize \<Longrightarrow> length (e b) = BlockSize \<and> d (e b) = b"
  shows "length prev = BlockSize \<Longrightarrow> \<forall>p \<in> set ps. length p = BlockSize \<Longrightarrow>
    cbc_dec d prev (cbc_blocks e prev ps) = concat ps"
  by (induction ps arbitrary: prev) (simp_all add: Let_def assms xor_bytes_twice)

lemma pkcs7_pad_length: "length (pkcs7_pad pt) mod BlockSize = 0" "length pt < length (pkcs7_pad pt)"
  "last (pkcs7_pad pt) = of_nat (length (pkcs7_pad pt) - length pt)" "length (pkcs7_pad pt) - length pt \<le> BlockSize"
proof -
  have lt: "length pt mod 16 < 16" by simp
  have len: "length (pkcs7_pad pt) = length pt + (16 - length pt mod 16)"
    by (simp add: pkcs7_pad_def BlockSize_def)
  have "length pt + (16 - length pt mod 16) = 16 * (length pt div 16) + 16"
    using mult_div_mod_eq [of 16 "length pt"] lt by arith
  then show "length (pkcs7_pad pt) mod BlockSize = 0" by (simp add: len BlockSize_def)
  show "length pt < length (pkcs7_pad pt)" using lt by (simp add: len)
  show "last (pkcs7_pad pt) = of_nat (length (pkcs7_pad pt) - length pt)"
    by (simp add: len pkcs7_pad_def BlockSize_def last_append last_replicate) (metis lt not_le)
  show "length (pkcs7_pad pt) - length pt \<le> BlockSize" by (simp add: len BlockSize_def)
qed

lemma cbc_roundtrip:
  assumes "\<And>b. length b = BlockSize \<Longrightarrow> length (e b) = BlockSize \<and> d (e b) = b" and "length iv = BlockSize"
  shows "cbc_CryptBlocks d iv (encrypt_padded e iv pt) = Ret (pkcs7_pad pt)"
proof -
  let ?p = "pkcs7_pad pt" and ?n = "length (pkcs7_pad pt) div BlockSize"
  let ?ps = "chunks ?n BlockSize ?p"
  let ?cs = "cbc_blocks e iv ?ps"
  have len: "length ?p = ?n * BlockSize" using pkcs7_pad_length(1) [of pt] by (metis add.right_neutral div_mult_mod_eq)
  then have ps: "\<forall>p \<in> set ?ps. length p = BlockSize" using chunks_block by blast
  have cs: "\<forall>c \<in> set ?cs. length c = BlockSize"
    using cbc_blocks_lengths [OF _ assms(2) ps] assms(1) by blast
  have blob: "encrypt_padded e iv pt = concat ?cs" by (simp add: encrypt_padded_def Let_def cbc_enc_blocks)
  have clen: "length (concat ?cs) = ?n * BlockSize"
    using length_concat_blocks [OF cs] by simp
  then have "chunks (length (concat ?cs) div BlockSize) BlockSize (concat ?cs) = ?cs"
    using chunks_concat [OF cs] by (simp add: BlockSize_def)
  then show ?thesis
    using clen assms(2) cbc_dec_blocks [OF assms(1) assms(2) ps] concat_chunks [OF len]
    by (simp add: blob cbc_CryptBlocks_def)
qed

section \<open>One DER value\<close>

text \<open>
  \<^verbatim>\<open>asn1.Unmarshal\<close> into a \<^verbatim>\<open>RawValue\<close>: the tag (in base 128 after the escape 0x1f), the length in
  short or long form, then that many bytes. The result is the rest of the input.
\<close>

abbreviation asn1_error :: "string \<Rightarrow> 'a go" where
  "asn1_error msg \<equiv> Fail (ParseError msg)"

fun parseBase128Int :: "nat \<Rightarrow> nat \<Rightarrow> byte list \<Rightarrow> (nat \<times> byte list) go" where
  "parseBase128Int shifted ret [] = asn1_error ''truncated base 128 integer''"
| "parseBase128Int shifted ret (b # bs) =
     (if shifted = 5 then asn1_error ''base 128 integer too large''
      else
        let ret = ret * 128 + unat b mod 128
        in if unat b < 128
           then (if ret > 2147483647 then asn1_error ''base 128 integer too large'' else Ret (ret, bs))
           else parseBase128Int (shifted + 1) ret bs)"

fun long_length :: "nat \<Rightarrow> nat \<Rightarrow> byte list \<Rightarrow> (nat \<times> byte list) go" where
  "long_length 0 len bs = Ret (len, bs)"
| "long_length (Suc n) len [] = asn1_error ''truncated tag or length''"
| "long_length (Suc n) len (b # bs) =
     (if len \<ge> 2 ^ 23 then asn1_error ''length too large''
      else
        let len = len * 256 + unat b
        in if len = 0 then asn1_error ''superfluous leading zeros in length''
           else long_length n len bs)"

definition parse_length :: "byte list \<Rightarrow> (nat \<times> byte list) go" where
  "parse_length bs =
     (case bs of
        [] \<Rightarrow> asn1_error ''truncated tag or length''
      | b # bs \<Rightarrow>
          if unat b < 128 then Ret (unat b, bs)
          else if unat b = 128 then asn1_error ''indefinite length found (not DER)''
          else andThen (long_length (unat b - 128) 0 bs) (\<lambda>(len, bs).
                 if len < 128 then asn1_error ''non-minimal length'' else Ret (len, bs)))"

definition parse_tag :: "byte list \<Rightarrow> byte list go" where
  "parse_tag bs =
     (case bs of
        [] \<Rightarrow> asn1_error ''sequence truncated''
      | b # bs \<Rightarrow>
          if unat b mod 32 = 31 then
            andThen (parseBase128Int 0 0 bs) (\<lambda>(tag, bs).
              if tag < 31 then asn1_error ''non-minimal tag'' else Ret bs)
          else Ret bs)"

definition asn1_Unmarshal :: "byte list \<Rightarrow> byte list go" where
  "asn1_Unmarshal bs =
     andThen (parse_tag bs) (\<lambda>rest.
     andThen (parse_length rest) (\<lambda>(len, rest).
     if length rest < len then asn1_error ''data truncated'' else Ret (drop len rest)))"

text \<open>The DER encoding of contents of up to 65535 bytes under a tag below 31.\<close>

definition der_length :: "nat \<Rightarrow> byte list" where
  "der_length n =
     (if n < 128 then [of_nat n]
      else if n < 256 then [0x81, of_nat n]
      else [0x82, of_nat (n div 256), of_nat (n mod 256)])"

definition der_encode :: "byte \<Rightarrow> byte list \<Rightarrow> byte list" where
  "der_encode tag content = tag # der_length (length content) @ content"

declare parse_length_def [eval_simps] parse_tag_def [eval_simps] asn1_Unmarshal_def [eval_simps]
  der_length_def [eval_simps] der_encode_def [eval_simps]

lemma parse_der_length: "n < 65536 \<Longrightarrow> parse_length (der_length n @ bs) = Ret (n, bs)"
proof -
  assume n: "n < 65536"
  have two: "long_length 2 l (a # b # xs) = long_length (Suc (Suc 0)) l (a # b # xs)" for l a b xs
    by (simp only: numeral_2_eq_2)
  consider "n < 128" | "128 \<le> n" "n < 256" | "256 \<le> n" by linarith
  then show ?thesis
  proof cases
    case 3
    then have "n div 256 < 256" "n div 256 \<noteq> 0" using n by auto
    then show ?thesis
      using 3 by (simp add: der_length_def parse_length_def unat_of_nat_byte two Let_def)
  qed (simp_all add: der_length_def parse_length_def unat_of_nat_byte Let_def)
qed

lemma asn1_Unmarshal_der:
  assumes "unat tag mod 32 \<noteq> 31" and "length content < 65536"
  shows "asn1_Unmarshal (der_encode tag content @ rest) = Ret rest"
  using assms by (simp add: asn1_Unmarshal_def der_encode_def parse_tag_def parse_der_length)

lemma asn1_rest:
  assumes "asn1_Unmarshal bs = Ret rest"
  shows "\<exists>v. bs = v @ rest"
proof -
  have b128: "parseBase128Int k r xs = Ret (t, ys) \<Longrightarrow> \<exists>v. xs = v @ ys" for k r xs t ys
    by (induction k r xs rule: parseBase128Int.induct) (auto simp: Let_def Cons_eq_append_conv split: if_splits)
  have ll: "long_length n l xs = Ret (t, ys) \<Longrightarrow> \<exists>v. xs = v @ ys" for n l xs t ys
    by (induction n l xs rule: long_length.induct) (auto simp: Let_def Cons_eq_append_conv split: if_splits)
  have len: "parse_length xs = Ret (t, ys) \<Longrightarrow> \<exists>v. xs = v @ ys" for xs t ys
    by (auto simp: parse_length_def andThen_eq_Ret Cons_eq_append_conv dest!: ll split: list.splits if_splits)
  have tag: "parse_tag xs = Ret ys \<Longrightarrow> \<exists>v. xs = v @ ys" for xs ys
    by (auto simp: parse_tag_def andThen_eq_Ret Cons_eq_append_conv dest!: b128 split: list.splits if_splits)
  obtain r1 n r2 where r: "parse_tag bs = Ret r1" "parse_length r1 = Ret (n, r2)" "rest = drop n r2"
    using assms by (auto simp: asn1_Unmarshal_def andThen_eq_Ret split: if_splits)
  from tag [OF r(1)] len [OF r(2)] show ?thesis
    unfolding r(3) by (metis append.assoc append_take_drop_id)
qed

section \<open>PEM\<close>

text \<open>\<^verbatim>\<open>pem.Encode\<close> of a block without headers: Base64 in lines of 64 characters.\<close>

function pem_lines :: "string \<Rightarrow> string" where
  "pem_lines s = (if s = [] then [] else take 64 s @ [CHR 0x0A] @ pem_lines (drop 64 s))"
  by pat_completeness auto
termination by (relation "measure length") auto

declare pem_lines.simps [simp del, eval_simps]

definition pem_Encode :: "string \<Rightarrow> byte list \<Rightarrow> byte list" where
  "pem_Encode type bs =
     bytes_of_string (''-----BEGIN '' @ type @ ''-----'' @ [CHR 0x0A] @ pem_lines (base64_encode bs)
       @ ''-----END '' @ type @ ''-----'' @ [CHR 0x0A])"

declare pem_Encode_def [eval_simps]

end
