(* ===== verification/Aik_Provisioning.thy ===== *)
theory Aik_Provisioning
  imports Setup_Tasks Go_Crypto
begin

text \<open>
  The task provision-aik (\<^verbatim>\<open>tasks/provision_aik.go\<close>) with the endorsement certificate
  (\<^verbatim>\<open>util/endorsement_certificate.go\<close>) and the privacy CA key (\<^verbatim>\<open>util/privacy_ca.go\<close>) it reads. The
  privacy CA library, the HVS client, certificate parsing and the AES block function are
  parameters; the framing of the credential, CBC, unpadding and DER trimming are defined.
\<close>

section \<open>Parameters and state\<close>

record 't aik_tpm =
  base :: "'t tpm_provider"
  CreateEk :: "'t \<Rightarrow> string \<Rightarrow> uint32 \<Rightarrow> go_error option \<times> 't"
  IsValidEk :: "'t \<Rightarrow> string \<Rightarrow> uint32 \<Rightarrow> uint32 \<Rightarrow> bool go"
  CreateAik :: "'t \<Rightarrow> string \<Rightarrow> go_error option \<times> 't"
  GetAikBytes :: "'t \<Rightarrow> byte list go"
  GetAikName :: "'t \<Rightarrow> byte list go"
  ActivateCredential :: "'t \<Rightarrow> string \<Rightarrow> byte list \<Rightarrow> byte list \<Rightarrow> byte list go"
  TPM_HANDLE_EK :: uint32
  NV_IDX_RSA_ENDORSEMENT_CERTIFICATE :: uint32
  NV_IDX_X509_P384_EK_CERTCHAIN :: uint32

record IdentityRequest =
  AikModulus :: "byte list"
  TpmVersion :: string
  AikName :: "byte list"

record IdentityProofRequest =
  Credential :: "byte list"
  Secret :: "byte list"
  SymmetricBlob :: "byte list"
  IV :: "byte list"

datatype 'k public_key = RsaKey 'k | OtherKey

text \<open>
  \<^typ>\<open>'k\<close> are RSA keys, \<^typ>\<open>'c\<close> the encrypted challenge payloads. \<open>write_result\<close> says what reaches a
  file that was opened and truncated, and the error of the write.
\<close>

record ('k, 'c) aik_env =
  x509_ParseCertificate :: "byte list \<Rightarrow> 'k public_key go"
  NewPrivacyCA :: "IdentityRequest \<Rightarrow> go_error option"
  GetIdentityChallengeRequest :: "byte list \<Rightarrow> 'k \<Rightarrow> IdentityRequest \<Rightarrow> 'c go"
  PrivacyCAClient :: "go_error option"
  GetIdentityProofRequest :: "'c \<Rightarrow> IdentityProofRequest go"
  GetIdentityProofResponse :: "'c \<Rightarrow> IdentityProofRequest go"
  DownloadPrivacyCa :: "byte list go"
  aes_decrypt :: "byte list \<Rightarrow> byte list \<Rightarrow> byte list"
  open_error :: "string \<Rightarrow> go_error option"
  write_result :: "string \<Rightarrow> byte list \<Rightarrow> byte list \<times> go_error option"

record ('t, 'k) aik_state =
  aik_agent :: "'t agent"
  privacyCAInstance :: "'k option"

abbreviation aik_tpm_of :: "('t, 'k) aik_state \<Rightarrow> 't" where
  "aik_tpm_of s \<equiv> ag_tpm (aik_agent s)"

abbreviation aik_files :: "('t, 'k) aik_state \<Rightarrow> file_system" where
  "aik_files s \<equiv> host_files (ag_host (aik_agent s))"

definition set_tpm :: "'t \<Rightarrow> ('t, 'k) aik_state \<Rightarrow> ('t, 'k) aik_state" where
  "set_tpm tpm s = s\<lparr>aik_agent := (aik_agent s)\<lparr>ag_tpm := tpm\<rparr>\<rparr>"

definition set_file :: "string \<Rightarrow> byte list \<Rightarrow> ('t, 'k) aik_state \<Rightarrow> ('t, 'k) aik_state" where
  "set_file path bs s =
     s\<lparr>aik_agent := (aik_agent s)\<lparr>ag_host := (ag_host (aik_agent s))
        \<lparr>host_files := (host_files (ag_host (aik_agent s)))(path := Contents bs)\<rparr>\<rparr>\<rparr>"

text \<open>\<^verbatim>\<open>os.OpenFile(path, O_WRONLY|O_CREATE|O_TRUNC)\<close> followed by one write.\<close>

definition create_and_write ::
  "('k, 'c) aik_env \<Rightarrow> string \<Rightarrow> string \<Rightarrow> string \<Rightarrow> byte list \<Rightarrow> ('t, 'k) aik_state
     \<Rightarrow> unit go \<times> ('t, 'k) aik_state" where
  "create_and_write env open_msg write_msg path bs s =
     (case open_error env path of
        Some e \<Rightarrow> (Fail (WrapErr e open_msg), s)
      | None \<Rightarrow>
          (case write_result env path bs of
             (written, err) \<Rightarrow> (wrapping write_msg (return_with () err), set_file path written s)))"

section \<open>The endorsement certificate\<close>

definition trimEkCertForTrailingData :: "('k, 'c) aik_env \<Rightarrow> byte list \<Rightarrow> byte list go" where
  "trimEkCertForTrailingData env ekCertBytes =
     (case asn1_Unmarshal ekCertBytes of
        Ret rest \<Rightarrow>
          if length rest > 0 then
            let cert = take (length ekCertBytes - length rest) ekCertBytes
            in andThen (wrapping ''Error while parsing endorsement certificate in bytes into x509 certificate''
                          (x509_ParseCertificate env cert)) (\<lambda>_. Ret cert)
          else Ret ekCertBytes
      | Fail err \<Rightarrow> Fail (WrapErr err ''Error while asn1 unmarshalling endorsement certificate in bytes'')
      | Panic p \<Rightarrow> Panic p)"

text \<open>\<^verbatim>\<open>NvRead\<close> may return nil bytes, which the code treats as an empty slice.\<close>

fun nil_bytes :: "byte list option \<Rightarrow> byte list" where
  "nil_bytes None = []"
| "nil_bytes (Some bs) = bs"

definition GetEndorsementKeyCertificateBytes ::
  "('k, 'c) aik_env \<Rightarrow> 't aik_tpm \<Rightarrow> 't \<Rightarrow> string \<Rightarrow> byte list go" where
  "GetEndorsementKeyCertificateBytes env A tpm ownerSecretKey =
     (let P = base A
      in andThen (wrapping ''Could not create tpm factory'' (return_with () (NewTpmFactory P))) (\<lambda>_.
         andThen (wrapping ''Error while creating NewTpmProvider'' (open_tpm P tpm)) (\<lambda>_.
         andThen (wrapping ''Error checking if the EK Certificate is present''
                    (NvIndexExists P tpm (NV_IDX_RSA_ENDORSEMENT_CERTIFICATE A))) (\<lambda>ekCertificateExists.
         if \<not> ekCertificateExists
         then Fail (NewErr ''The TPM does not have an RSA EK Certificate at the default index'')
         else
         andThen (wrapping ''Error while performing tpm Nv read operation for getting endorsement certificate in bytes''
                    (NvRead P tpm ownerSecretKey (TPM2_RH_OWNER P) (NV_IDX_RSA_ENDORSEMENT_CERTIFICATE A)))
           (\<lambda>nv.
         andThen (trimEkCertForTrailingData env (nil_bytes nv)) (\<lambda>ekCertBytes.
         andThen (wrapping ''Error checking if the EK Issuing Cert Chain is present''
                    (NvIndexExists P tpm (NV_IDX_X509_P384_EK_CERTCHAIN A))) (\<lambda>chainExists.
         if chainExists then
           andThen (wrapping ''Error while performing tpm Nv read operation for getting endorsement certificate chain in bytes''
                      (NvRead P tpm ownerSecretKey (TPM2_RH_OWNER P) (NV_IDX_X509_P384_EK_CERTCHAIN A)))
             (\<lambda>chain. Ret (nil_bytes chain @ ekCertBytes))
         else Ret ekCertBytes)))))))"

section \<open>The privacy CA\<close>

definition GetPrivacyCA :: "('k, 'c) aik_env \<Rightarrow> ('t, 'k) aik_state \<Rightarrow> 'k go \<times> ('t, 'k) aik_state" where
  "GetPrivacyCA env s =
     (case privacyCAInstance s of
        Some key \<Rightarrow> (Ret key, s)
      | None \<Rightarrow>
          if os_IsNotExist (os_Stat (aik_files s) PrivacyCAFile)
          then (Fail (WrapErr NotExist ''File does not exist''), s)
          else
            thenS (wrapping ''Error while reading Privacy CA Certificate file''
                     (ioutil_ReadFile (aik_files s) PrivacyCAFile), s) (\<lambda>privacyCaBytes s.
            thenS (wrapping ''Error while parsing Privacy CA Certificate''
                     (x509_ParseCertificate env privacyCaBytes), s) (\<lambda>cert s.
            case cert of
              RsaKey key \<Rightarrow> (Ret key, s\<lparr>privacyCAInstance := Some key\<rparr>)
            | OtherKey \<Rightarrow> (Panic (LibraryPanic ''interface conversion''), s))))"

section \<open>The steps of the task\<close>

definition createAik ::
  "'t aik_tpm \<Rightarrow> bool \<Rightarrow> string \<Rightarrow> ('t, 'k) aik_state \<Rightarrow> unit go \<times> ('t, 'k) aik_state" where
  "createAik A tpmFactory ownerSecretKey s =
     with_tpm (base A) tpmFactory aik_tpm_of s (\<lambda>s.
     case CreateEk A (aik_tpm_of s) ownerSecretKey (TPM_HANDLE_EK A) of
       (err, tpm1) \<Rightarrow>
     thenS (wrapping ''Error while creating EK'' (return_with () err), set_tpm tpm1 s) (\<lambda>_ s.
     thenS (wrapping ''Error validating EK''
              (IsValidEk A (aik_tpm_of s) ownerSecretKey (TPM_HANDLE_EK A)
                 (NV_IDX_RSA_ENDORSEMENT_CERTIFICATE A)), s) (\<lambda>isValidEk s.
     if \<not> isValidEk
     then (Fail (NewErr ''The EK does not have a public key that matches the EK Certificate''), s)
     else
       case CreateAik A (aik_tpm_of s) ownerSecretKey of
         (err, tpm2) \<Rightarrow> (wrapping ''Error while creating AIK'' (return_with () err), set_tpm tpm2 s))))"

definition populateIdentityRequest ::
  "'t aik_tpm \<Rightarrow> bool \<Rightarrow> ('t, 'k) aik_state \<Rightarrow> IdentityRequest go \<times> ('t, 'k) aik_state" where
  "populateIdentityRequest A tpmFactory s =
     with_tpm (base A) tpmFactory aik_tpm_of s (\<lambda>s.
     thenS (GetAikBytes A (aik_tpm_of s), s) (\<lambda>aikPublicKeyBytes s.
     thenS (wrapping ''Error while retrieving Aik Name from tpm'' (GetAikName A (aik_tpm_of s)), s)
       (\<lambda>name s.
     (Ret \<lparr>AikModulus = aikPublicKeyBytes, TpmVersion = ''2.0'', AikName = name\<rparr>, s))))"

text \<open>A field of the proof request: a big-endian 16-bit size, then the bytes.\<close>

definition sized_field :: "string \<Rightarrow> byte list \<Rightarrow> byte list go" where
  "sized_field what field =
     andThen (wrapping (''Error while reading '' @ what @ '' size'') (binary_read 2 get_u16_be field))
       (\<lambda>(sz, buf).
     if sz = 0 \<or> unat sz > length field then Fail (NewErr (''Invalid '' @ what @ '' size''))
     else andThen (buf_next (int (unat sz)) buf) (\<lambda>(bs, buf). Ret bs))"

text \<open>The last byte says how many bytes of padding to drop.\<close>

definition unpad :: "byte list \<Rightarrow> byte list go" where
  "unpad decrypted =
     (if decrypted = [] then Panic IndexOutOfRange
      else if unat (last decrypted) > length decrypted then Panic SliceBounds
      else Ret (take (length decrypted - unat (last decrypted)) decrypted))"

definition activateCredential ::
  "('k, 'c) aik_env \<Rightarrow> 't aik_tpm \<Rightarrow> bool \<Rightarrow> string \<Rightarrow> IdentityProofRequest \<Rightarrow> ('t, 'k) aik_state
     \<Rightarrow> byte list go \<times> ('t, 'k) aik_state" where
  "activateCredential env A tpmFactory ownerSecretKey req s =
     with_tpm (base A) tpmFactory aik_tpm_of s (\<lambda>s.
     thenS (sized_field ''credential'' (Credential req), s) (\<lambda>credentialBytes s.
     thenS (sized_field ''secret'' (Secret req), s) (\<lambda>secretBytes s.
     thenS (wrapping ''Error while performing tpm activate credential operation''
              (ActivateCredential A (aik_tpm_of s) ownerSecretKey credentialBytes secretBytes), s)
       (\<lambda>symmetricKey s.
     thenS (aes_NewCipher symmetricKey, s) (\<lambda>_ s.
     thenS (cbc_CryptBlocks (aes_decrypt env symmetricKey) (IV req) (SymmetricBlob req), s) (\<lambda>decrypted s.
     (unpad decrypted, s)))))))"

definition ProvisionAik_Run ::
  "('k, 'c) aik_env \<Rightarrow> 't aik_tpm \<Rightarrow> bool \<Rightarrow> bool \<Rightarrow> string \<Rightarrow> ('t, 'k) aik_state
     \<Rightarrow> unit go \<times> ('t, 'k) aik_state" where
  "ProvisionAik_Run env A clientFactory tpmFactory ownerSecretKey s =
     (if \<not> clientFactory then (Panic NilDereference, s)
      else
      thenS (wrapping ''Failed to create privacyca-client'' (return_with () (PrivacyCAClient env)), s) (\<lambda>_ s.
      thenS (wrapping ''Failed to get the endorsement certificate from the TPM''
               (GetEndorsementKeyCertificateBytes env A (aik_tpm_of s) ownerSecretKey), s) (\<lambda>ekCertBytes s.
      thenS (wrapS ''Failed to create AIK'' (createAik A tpmFactory ownerSecretKey s)) (\<lambda>_ s.
      thenS (wrapS ''Failed to populate the identity request'' (populateIdentityRequest A tpmFactory s))
        (\<lambda>identityRequest s.
      thenS (wrapS ''Error while retrieving privacyca certificate'' (GetPrivacyCA env s)) (\<lambda>privacyCaCert s.
      thenS (wrapping ''Unable to get new privacyca instance''
               (return_with () (NewPrivacyCA env identityRequest)), s) (\<lambda>_ s.
      thenS (wrapping ''Failed to encrypt the endorsement certificate''
               (GetIdentityChallengeRequest env ekCertBytes privacyCaCert identityRequest), s) (\<lambda>challenge s.
      thenS (wrapping ''HVS returned an error while processing the identity proof request''
               (GetIdentityProofRequest env challenge), s) (\<lambda>proof s.
      thenS (wrapS ''Error while performing activate credential''
               (activateCredential env A tpmFactory ownerSecretKey proof s)) (\<lambda>decrypted1 s.
      thenS (wrapS ''Failed to populate the identity challenge response''
               (populateIdentityRequest A tpmFactory s)) (\<lambda>identityRequest2 s.
      thenS (wrapping ''Failed to retrieve the identity challenge from HVS''
               (GetIdentityChallengeRequest env decrypted1 privacyCaCert identityRequest2), s) (\<lambda>response s.
      thenS (wrapping ''HVS returned an error while processing the identity proof response''
               (GetIdentityProofResponse env response), s) (\<lambda>proof2 s.
      thenS (wrapS ''Failed to activate credential''
               (activateCredential env A tpmFactory ownerSecretKey proof2 s)) (\<lambda>decrypted2 s.
      thenS (wrapping ''The decrypted AIK is not a valid x509 certificate''
               (x509_ParseCertificate env decrypted2), s) (\<lambda>_ s.
      create_and_write env ''Could not create file'' ''Could not encode the AIK to pem'' AikCert
        (pem_Encode ''CERTIFICATE'' decrypted2) s)))))))))))))))"

definition ProvisionAik_Validate :: "('t, 'k) aik_state \<Rightarrow> unit go" where
  "ProvisionAik_Validate s =
     (if os_IsNotExist (os_Stat (aik_files s) AikCert)
      then Fail (WrapErr NotExist ''The aik certificate was not created'')
      else Ret ())"

section \<open>download-privacy-ca\<close>

text \<open>\<^verbatim>\<open>ioutil.WriteFile\<close> opens, truncates and writes.\<close>

definition DownloadPrivacyCA_Run ::
  "('k, 'c) aik_env \<Rightarrow> bool \<Rightarrow> ('t, 'k) aik_state \<Rightarrow> unit go \<times> ('t, 'k) aik_state" where
  "DownloadPrivacyCA_Run env clientFactory s =
     (if \<not> clientFactory then (Panic NilDereference, s)
      else
      thenS (wrapping ''Could not create privacy-ca client'' (return_with () (PrivacyCAClient env)), s) (\<lambda>_ s.
      thenS (wrapping ''Error while downloading privacyCA file'' (DownloadPrivacyCa env), s) (\<lambda>ca s.
      create_and_write env ''Error while writing privacy ca file'' ''Error while writing privacy ca file''
        PrivacyCAFile ca s)))"

definition DownloadPrivacyCA_Validate ::
  "('k, 'c) aik_env \<Rightarrow> ('t, 'k) aik_state \<Rightarrow> unit go \<times> ('t, 'k) aik_state" where
  "DownloadPrivacyCA_Validate env s = thenS (GetPrivacyCA env s) (\<lambda>_ s. (Ret (), s))"

lemmas aik_defs = set_tpm_def set_file_def create_and_write_def trimEkCertForTrailingData_def
  GetEndorsementKeyCertificateBytes_def GetPrivacyCA_def createAik_def populateIdentityRequest_def
  sized_field_def unpad_def activateCredential_def ProvisionAik_Run_def ProvisionAik_Validate_def
  DownloadPrivacyCA_Run_def DownloadPrivacyCA_Validate_def

declare aik_defs [eval_simps]

section \<open>Lemmas\<close>

lemma sized_field_enc:
  assumes "bs \<noteq> []" and "length bs < 65536"
  shows "sized_field what (put_u16_be (of_nat (length bs)) @ bs @ rest) = Ret bs"
proof -
  have n: "unat (of_nat (length bs) :: uint16) = length bs" using assms(2) by (simp add: unat_of_nat)
  then have "(of_nat (length bs) :: uint16) \<noteq> 0" using assms(1) by (metis length_0_conv unat_0)
  then show ?thesis by (simp add: sized_field_def read_simps n)
qed

lemma unpad_pad: "unpad (pkcs7_pad pt) = Ret pt"
proof -
  let ?p = "pkcs7_pad pt"
  note pad = pkcs7_pad_length [of pt]
  have n: "unat (last ?p) = length ?p - length pt"
    using pad(3,4) by (simp add: unat_of_nat BlockSize_def)
  have "take (length pt) ?p = pt" by (simp add: pkcs7_pad_def Let_def)
  moreover have "?p \<noteq> []" "length ?p - unat (last ?p) = length pt" using pad(2) n by auto
  ultimately show ?thesis using n by (simp add: unpad_def)
qed

lemma length_cbc_dec:
  assumes "\<And>b. length b = BlockSize \<Longrightarrow> length (d b) = BlockSize"
  shows "length prev = BlockSize \<Longrightarrow> \<forall>c \<in> set cs. length c = BlockSize \<Longrightarrow>
    length (cbc_dec d prev cs) = length cs * BlockSize"
  by (induction cs arbitrary: prev) (simp_all add: assms)

text \<open>The state of the task up to the symmetric key.\<close>

lemma activateCredential_key:
  assumes "NewTpmProvider (base A) (aik_tpm_of s) = None"
    and "sized_field ''credential'' (Credential req) = Ret cred" and "sized_field ''secret'' (Secret req) = Ret secret"
    and "ActivateCredential A (aik_tpm_of s) owner cred secret = Ret key" and "aes_NewCipher key = Ret ()"
  shows "activateCredential env A True owner req s =
    (andThen (cbc_CryptBlocks (aes_decrypt env key) (IV req) (SymmetricBlob req)) unpad, s)"
  using assms
  by (cases "cbc_CryptBlocks (aes_decrypt env key) (IV req) (SymmetricBlob req)")
    (simp_all add: activateCredential_def with_tpm_open)

lemma createAik_Ret:
  assumes "createAik A fac owner s = (Ret u, s')"
  shows "\<exists>tpm1. IsValidEk A tpm1 owner (TPM_HANDLE_EK A) (NV_IDX_RSA_ENDORSEMENT_CERTIFICATE A) = Ret True \<and>
    CreateEk A (aik_tpm_of s) owner (TPM_HANDLE_EK A) = (None, tpm1) \<and>
    CreateAik A tpm1 owner = (None, aik_tpm_of s')"
  using assms
  by (auto simp: createAik_def with_tpm_eq_Ret thenS_eq_Ret set_tpm_def return_with_def
      split: prod.splits if_splits option.splits)

text \<open>The handshake behind a successful run: each value is computed from the ones before it.\<close>

lemma ProvisionAik_Run_Ret:
  assumes "ProvisionAik_Run env A cf fac owner s = (Ret u, s')"
  obtains s1 s2 s3 s4 s5 s6 ekCert req ca challenge proof1 nonce req2 response proof2 der cert where
    "GetEndorsementKeyCertificateBytes env A (aik_tpm_of s) owner = Ret ekCert"
    "createAik A fac owner s = (Ret (), s1)"
    "populateIdentityRequest A fac s1 = (Ret req, s2)" "GetPrivacyCA env s2 = (Ret ca, s3)"
    "GetIdentityChallengeRequest env ekCert ca req = Ret challenge"
    "GetIdentityProofRequest env challenge = Ret proof1"
    "activateCredential env A fac owner proof1 s3 = (Ret nonce, s4)"
    "populateIdentityRequest A fac s4 = (Ret req2, s5)"
    "GetIdentityChallengeRequest env nonce ca req2 = Ret response"
    "GetIdentityProofResponse env response = Ret proof2"
    "activateCredential env A fac owner proof2 s5 = (Ret der, s6)"
    "x509_ParseCertificate env der = Ret cert"
    "create_and_write env ''Could not create file'' ''Could not encode the AIK to pem'' AikCert
        (pem_Encode ''CERTIFICATE'' der) s6 = (Ret u, s')"
  using assms unfolding ProvisionAik_Run_def
  by (auto simp: thenS_eq_Ret split: if_splits)

lemma create_and_write_Ret:
  assumes "create_and_write env om wm path bs s = (Ret u, s')"
  shows "aik_files s' path = Contents (fst (write_result env path bs)) \<and> snd (write_result env path bs) = None"
  using assms
  by (auto simp: create_and_write_def set_file_def return_with_def split: option.splits prod.splits)

section \<open>Properties\<close>

text \<open>
  C13: the agent recovers what HVS encrypted for it. When credential and secret are framed with their
  sizes, the TPM activates them to a key of a valid size, and the blob is the CBC encryption of the
  padded text under that key, then activating the credential returns the text, of any length, and
  leaves the state alone.
\<close>

theorem activateCredential_recovers:
  assumes "NewTpmProvider (base A) (aik_tpm_of s) = None"
    and "Credential req = put_u16_be (of_nat (length cred)) @ cred @ rest1" and "cred \<noteq> []" and "length cred < 65536"
    and "Secret req = put_u16_be (of_nat (length secret)) @ secret @ rest2" and "secret \<noteq> []" and "length secret < 65536"
    and "ActivateCredential A (aik_tpm_of s) owner cred secret = Ret key" and "aes_NewCipher key = Ret ()"
    and "length (IV req) = BlockSize" and "SymmetricBlob req = encrypt_padded enc (IV req) text"
    and "\<And>b. length b = BlockSize \<Longrightarrow> length (enc b) = BlockSize \<and> aes_decrypt env key (enc b) = b"
  shows "activateCredential env A True owner req s = (Ret text, s)"
  using activateCredential_key [OF assms(1) _ _ assms(8,9), of req env] cbc_roundtrip [OF assms(12,10), of "text"]
    sized_field_enc [OF assms(3,4)] sized_field_enc [OF assms(6,7)] assms(2,5,11)
  by (simp add: unpad_pad)

text \<open>A TPM and a privacy CA for the examples: the cipher is an exclusive or with the key.\<close>

definition sample_aik_tpm :: "soft_tpm aik_tpm" where
  "sample_aik_tpm = \<lparr>base = soft_provider, CreateEk = (\<lambda>s ow h. (None, s)), IsValidEk = (\<lambda>s ow h i. Ret True),
     CreateAik = (\<lambda>s ow. (None, s)), GetAikBytes = (\<lambda>s. Ret [1]), GetAikName = (\<lambda>s. Ret [2]),
     ActivateCredential = (\<lambda>s ow c k. Ret (replicate 16 5)), TPM_HANDLE_EK = 0x81010000,
     NV_IDX_RSA_ENDORSEMENT_CERTIFICATE = 0x1c00002, NV_IDX_X509_P384_EK_CERTCHAIN = 0x1c00100\<rparr>"

definition sample_proof :: "byte list \<Rightarrow> IdentityProofRequest" where
  "sample_proof pt = \<lparr>Credential = [0, 1, 7], Secret = [0, 1, 8],
     SymmetricBlob = encrypt_padded (xor_bytes (replicate 16 5)) (replicate 16 0) pt, IV = replicate 16 0\<rparr>"

definition sample_aik_env :: "(unit, byte list) aik_env" where
  "sample_aik_env = \<lparr>x509_ParseCertificate = (\<lambda>bs. Ret (RsaKey ())), NewPrivacyCA = (\<lambda>r. None),
     GetIdentityChallengeRequest = (\<lambda>bs k r. Ret bs), PrivacyCAClient = None,
     GetIdentityProofRequest = (\<lambda>c. Ret (sample_proof [42])), GetIdentityProofResponse = (\<lambda>c. Ret (sample_proof [48, 0])),
     DownloadPrivacyCa = Ret [3], aes_decrypt = (\<lambda>key b. xor_bytes key b), open_error = (\<lambda>p. None),
     write_result = (\<lambda>p bs. (bs, None))\<rparr>"

definition sample_aik_state :: "(soft_tpm, unit) aik_state" where
  "sample_aik_state = \<lparr>aik_agent = \<lparr>ag_tpm = sample_tpm\<lparr>st_nv := [(0x1c00002, ''e'', der_encode 0x30 [1, 2])]\<rparr>,
     ag_host = sample_host\<rparr>, privacyCAInstance = Some ()\<rparr>"

lemma xor_bytes_key: "length key = length b \<Longrightarrow> xor_bytes key (xor_bytes key b) = b"
proof (induction key b rule: list_induct2)
  case (Cons x xs y ys)
  have "x XOR (x XOR y) = y" by (simp add: xor.assoc [symmetric])
  then show ?case using Cons by (simp add: xor_bytes_def)
qed (simp add: xor_bytes_def)

theorem activateCredential_recovers_witness:
  "activateCredential sample_aik_env sample_aik_tpm True ''o'' (sample_proof [42]) sample_aik_state =
     (Ret [42], sample_aik_state)"
proof (rule activateCredential_recovers [where cred = "[7]" and secret = "[8]" and key = "replicate 16 5"
      and enc = "xor_bytes (replicate 16 5)" and ?rest1.0 = "[]" and ?rest2.0 = "[]"])
  show "length (xor_bytes (replicate 16 5) b) = BlockSize \<and>
      aes_decrypt sample_aik_env (replicate 16 5) (xor_bytes (replicate 16 5) b) = b" if "length b = BlockSize" for b
    using that xor_bytes_key [of "replicate 16 5" b] by (simp add: sample_aik_env_def BlockSize_def)
qed (simp_all add: sample_aik_tpm_def sample_aik_state_def sample_proof_def soft_provider_def BlockSize_def
    aes_NewCipher_def put_u16_be_def be_bytes_def le_bytes_numeral)

text \<open>
  With a key from the TPM, the task panics exactly when the reply of HVS has an initialization
  vector that is not a block, a blob that is not a positive number of blocks, or a last plaintext
  byte larger than the blob: the padding is not validated.
\<close>

lemma activateCredential_panics:
  assumes "NewTpmProvider (base A) (aik_tpm_of s) = None"
    and "sized_field ''credential'' (Credential req) = Ret cred" and "sized_field ''secret'' (Secret req) = Ret secret"
    and "ActivateCredential A (aik_tpm_of s) owner cred secret = Ret key" and "aes_NewCipher key = Ret ()"
    and "\<And>b. length b = BlockSize \<Longrightarrow> length (aes_decrypt env key b) = BlockSize"
  shows "is_Panic (fst (activateCredential env A True owner req s)) \<longleftrightarrow>
    length (IV req) \<noteq> BlockSize \<or> SymmetricBlob req = [] \<or> length (SymmetricBlob req) mod BlockSize \<noteq> 0 \<or>
    unat (last (cbc_dec (aes_decrypt env key) (IV req)
       (chunks (length (SymmetricBlob req) div BlockSize) BlockSize (SymmetricBlob req)))) > length (SymmetricBlob req)"
proof (cases "length (IV req) = BlockSize \<and> length (SymmetricBlob req) mod BlockSize = 0")
  case True
  let ?cs = "chunks (length (SymmetricBlob req) div BlockSize) BlockSize (SymmetricBlob req)"
  let ?d = "cbc_dec (aes_decrypt env key) (IV req) ?cs"
  have n: "length (SymmetricBlob req) = length (SymmetricBlob req) div BlockSize * BlockSize"
    using True by (metis add.right_neutral div_mult_mod_eq)
  have len: "length ?d = length (SymmetricBlob req)"
  proof -
    have "\<forall>c \<in> set ?cs. length c = BlockSize" using chunks_block [OF n] by blast
    with assms(6) conjunct1 [OF True] have "length ?d = length ?cs * BlockSize" by (rule length_cbc_dec)
    then show ?thesis unfolding length_chunks n [symmetric] .
  qed
  then have "?d = [] \<longleftrightarrow> SymmetricBlob req = []" by (metis length_0_conv)
  then show ?thesis
    using True len activateCredential_key [OF assms(1-5), of env]
    by (simp add: cbc_CryptBlocks_def unpad_def)
next
  case False
  then show ?thesis
    using activateCredential_key [OF assms(1-5), of env] by (auto simp: cbc_CryptBlocks_def)
qed

text \<open>
  The endorsement certificate is read from the TPM without what follows it in the index: for a
  certificate in DER with any trailing bytes, the task gets the certificate alone, preceded by the
  issuing chain when the TPM has one.
\<close>

lemma endorsement_certificate_trimmed:
  assumes "NewTpmFactory (base A) = None" and "NewTpmProvider (base A) tpm = None"
    and "NvIndexExists (base A) tpm (NV_IDX_RSA_ENDORSEMENT_CERTIFICATE A) = Ret True"
    and "NvRead (base A) tpm owner (TPM2_RH_OWNER (base A)) (NV_IDX_RSA_ENDORSEMENT_CERTIFICATE A) =
           Ret (Some (der_encode tag content @ trailing))"
    and "unat tag mod 32 \<noteq> 31" and "length content < 65536"
    and "x509_ParseCertificate env (der_encode tag content) = Ret cert"
    and "NvIndexExists (base A) tpm (NV_IDX_X509_P384_EK_CERTCHAIN A) = Ret has_chain"
    and "NvRead (base A) tpm owner (TPM2_RH_OWNER (base A)) (NV_IDX_X509_P384_EK_CERTCHAIN A) = Ret (Some chain)"
  shows "GetEndorsementKeyCertificateBytes env A tpm owner =
    Ret ((if has_chain then chain else []) @ der_encode tag content)"
proof -
  have "trimEkCertForTrailingData env (der_encode tag content @ trailing) = Ret (der_encode tag content)"
    using assms(7) asn1_Unmarshal_der [OF assms(5,6), of trailing]
    by (simp add: trimEkCertForTrailingData_def Let_def)
  then show ?thesis
    using assms by (simp add: GetEndorsementKeyCertificateBytes_def open_tpm_def Let_def)
qed

text \<open>
  C19: a successful provision-aik has validated the endorsement key against its certificate before it
  created the identity key, sent HVS the nonce it recovered from the first proof, and left the
  certificate recovered from the second proof, a valid one, on disk: the AIK endpoint then serves
  exactly that certificate and the task's validation passes.
\<close>

theorem provisioned_aik_is_served:
  assumes "ProvisionAik_Run env A cf fac owner s = (Ret u, s')"
    and "\<And>bs. write_result env AikCert bs = (bs, None)"
    and "\<And>der. is_Ret (x509_ParseCertificate env der) \<Longrightarrow>
           pem_Decode agenv (pem_Encode ''CERTIFICATE'' der) = Some der"
  shows "\<exists>tpm1 s3 s4 s5 s6 ca proof1 nonce req2 response proof2 der cert.
    IsValidEk A tpm1 owner (TPM_HANDLE_EK A) (NV_IDX_RSA_ENDORSEMENT_CERTIFICATE A) = Ret True \<and>
    activateCredential env A fac owner proof1 s3 = (Ret nonce, s4) \<and>
    GetIdentityChallengeRequest env nonce ca req2 = Ret response \<and>
    GetIdentityProofResponse env response = Ret proof2 \<and>
    activateCredential env A fac owner proof2 s5 = (Ret der, s6) \<and>
    x509_ParseCertificate env der = Ret cert \<and>
    GetAikDerBytes agenv (aik_agent s') = Ret der \<and> ProvisionAik_Validate s' = Ret ()"
  using assms(1)
proof (cases rule: ProvisionAik_Run_Ret)
  case (1 s1 s2 s3 s4 s5 s6 ekCert req ca challenge proof1 nonce req2 response proof2 der cert)
  have cert: "aik_files s' AikCert = Contents (pem_Encode ''CERTIFICATE'' der)"
    using create_and_write_Ret [OF 1(13)] assms(2) by simp
  then have "GetAikDerBytes agenv (aik_agent s') = Ret der" "ProvisionAik_Validate s' = Ret ()"
    using assms(3) [of der] 1(12)
    by (simp_all add: GetAikDerBytes_def getAikPem_def ProvisionAik_Validate_def os_Stat_def
        ioutil_ReadFile_def os_Open_def)
  then show ?thesis using createAik_Ret [OF 1(2)] 1(7,9-12) by blast
qed

lemma sample_activate:
  "activateCredential (sample_aik_env\<lparr>x509_ParseCertificate := x\<rparr>) sample_aik_tpm True ''o'' (sample_proof pt) s =
     (Ret pt, s)"
proof -
  have dec: "cbc_CryptBlocks (xor_bytes (replicate 16 5)) (replicate 16 0)
      (encrypt_padded (xor_bytes (replicate 16 5)) (replicate 16 0) pt) = Ret (pkcs7_pad pt)"
    by (rule cbc_roundtrip) (simp_all add: BlockSize_def xor_bytes_key)
  show ?thesis
    by (subst activateCredential_key [where cred = "[7]" and secret = "[8]" and key = "replicate 16 5"])
      (simp_all add: dec unpad_pad sample_aik_tpm_def sample_proof_def sample_aik_env_def
        soft_provider_def aes_NewCipher_def sized_field_def buf_next_def binary_read_def get_u16_be_def be_nat_def)
qed

lemma sample_aik_fields:
  "NewPrivacyCA sample_aik_env r = None" "GetIdentityChallengeRequest sample_aik_env bs k r = Ret bs"
  "PrivacyCAClient sample_aik_env = None" "GetIdentityProofRequest sample_aik_env c = Ret (sample_proof [42])"
  "GetIdentityProofResponse sample_aik_env c = Ret (sample_proof [48, 0])"
  "open_error sample_aik_env p = None" "write_result sample_aik_env p bs = (bs, None)"
  by (simp_all add: sample_aik_env_def)

text \<open>The TPM of the examples has an endorsement certificate, an owner password and no chain.\<close>

definition sample_ek :: "soft_tpm \<Rightarrow> bool" where
  "sample_ek t \<longleftrightarrow> st_owner t = ''o'' \<and> map_of (st_nv t) 0x1c00002 = Some (''e'', der_encode 0x30 [1, 2]) \<and>
     map_of (st_nv t) 0x1c00100 = None"

lemma sample_endorsement:
  assumes "sample_ek t"
  shows "GetEndorsementKeyCertificateBytes env sample_aik_tpm t ''o'' = Ret (der_encode 0x30 [1, 2])"
proof -
  have "asn1_Unmarshal (der_encode 0x30 [1, 2]) = Ret []"
    using asn1_Unmarshal_der [of "0x30" "[1, 2]" "[]"] by simp
  then show ?thesis
    using assms by (simp add: sample_ek_def GetEndorsementKeyCertificateBytes_def sample_aik_tpm_def soft_provider_def
        soft_read_def open_tpm_def trimEkCertForTrailingData_def)
qed

lemma sample_steps:
  "createAik sample_aik_tpm True ''o'' s = (Ret (), s)"
  "populateIdentityRequest sample_aik_tpm True s = (Ret \<lparr>AikModulus = [1], TpmVersion = ''2.0'', AikName = [2]\<rparr>, s)"
  "privacyCAInstance s = Some () \<Longrightarrow> GetPrivacyCA env s = (Ret (), s)"
  by (simp_all add: createAik_def populateIdentityRequest_def GetPrivacyCA_def with_tpm_open sample_aik_tpm_def
      soft_provider_def set_tpm_def)

lemma sample_provisioned:
  assumes "sample_ek (aik_tpm_of s)" and "privacyCAInstance s = Some ()" and "x [48, 0] = Ret cert"
  shows "ProvisionAik_Run (sample_aik_env\<lparr>x509_ParseCertificate := x\<rparr>) sample_aik_tpm True True ''o'' s =
    (Ret (), set_file AikCert (pem_Encode ''CERTIFICATE'' [48, 0]) s)"
  using sample_activate [of x "[42]" s] sample_activate [of x "[48, 0]" s] assms
  by (simp add: ProvisionAik_Run_def sample_steps sample_endorsement create_and_write_def sample_aik_fields)

theorem provisioned_aik_is_served_witness:
  "\<exists>s'. ProvisionAik_Run (sample_aik_env\<lparr>x509_ParseCertificate := \<lambda>bs. if bs = [48, 0] then Ret (RsaKey ()) else Fail EOF\<rparr>)
       sample_aik_tpm True True ''o'' sample_aik_state = (Ret (), s') \<and>
     GetAikDerBytes (sample_agent_env\<lparr>pem_Decode := \<lambda>bs. Some [48, 0]\<rparr>) (aik_agent s') = Ret [48, 0] \<and>
     ProvisionAik_Validate s' = Ret ()"
proof -
  let ?x = "\<lambda>bs. if bs = [48, 0 :: byte] then Ret (RsaKey ()) else Fail EOF"
  let ?env = "sample_aik_env\<lparr>x509_ParseCertificate := ?x\<rparr>"
  let ?ag = "sample_agent_env\<lparr>pem_Decode := \<lambda>bs. Some [48, 0]\<rparr>"
  have "\<exists>s'. ProvisionAik_Run ?env sample_aik_tpm True True ''o'' sample_aik_state = (Ret (), s')"
    by (subst sample_provisioned) (simp_all add: sample_ek_def sample_aik_state_def sample_tpm_def)
  then obtain s' where s': "ProvisionAik_Run ?env sample_aik_tpm True True ''o'' sample_aik_state = (Ret (), s')" ..
  have w: "write_result ?env AikCert bs = (bs, None)" for bs by (simp add: sample_aik_env_def)
  have pem: "pem_Decode ?ag (pem_Encode ''CERTIFICATE'' der) = Some der"
    if "is_Ret (x509_ParseCertificate ?env der)" for der
    using that by (simp split: if_splits)
  obtain der where "x509_ParseCertificate ?env der = Ret (RsaKey ())" "GetAikDerBytes ?ag (aik_agent s') = Ret der"
    "ProvisionAik_Validate s' = Ret ()"
    using provisioned_aik_is_served [OF s' w pem] by (auto split: if_splits)
  then show ?thesis using s' by (auto split: if_splits)
qed

end
