(* ===== verification/Go_Json.thy ===== *)
theory Go_Json
  imports Go_Codecs Go_Utf8
begin

text \<open>
  \<^verbatim>\<open>json.Marshal\<close> of \<^verbatim>\<open>encoding/json\<close> for the values the agent writes: objects with fields in the
  order of the struct, slices, strings with the HTML-safe escapes, unsigned numbers and \<^verbatim>\<open>null\<close> for a
  nil slice. Its output is compact and is accepted by the syntax check of \<^theory_text>\<open>Go_Codecs\<close>
  (\<open>json_Unmarshal_Marshal\<close>), whatever the bytes of the strings are.
\<close>

section \<open>Encoding\<close>

datatype json =
    JNull
  | JNum nat
  | JStr string
  | JArr "json list"
  | JObj "(string \<times> json) list"

text \<open>
  \<^verbatim>\<open>encodeState.string\<close> with \<^verbatim>\<open>escapeHTML\<close>: a byte below 0x80 that is not in \<^verbatim>\<open>htmlSafeSet\<close> is
  escaped, an invalid byte becomes the replacement character, and U+2028 and U+2029 are escaped.
\<close>

definition escape_ascii :: "nat \<Rightarrow> string" where
  "escape_ascii b =
     (if b = 0x22 \<or> b = 0x5C then [CHR 0x5C, char_of b]
      else if b = 0x0A then [CHR 0x5C, CHR ''n'']
      else if b = 0x0D then [CHR 0x5C, CHR ''r'']
      else if b = 0x09 then [CHR 0x5C, CHR ''t'']
      else if b < 0x20 \<or> b = 0x3C \<or> b = 0x3E \<or> b = 0x26
      then CHR 0x5C # ''u00'' @ [hex_digit (b div 16), hex_digit (b mod 16)]
      else [char_of b])"

function escape_bytes :: "nat list \<Rightarrow> string" where
  "escape_bytes [] = []"
| "escape_bytes (b # bs) =
     (if b < 0x80 then escape_ascii b @ escape_bytes bs
      else case utf8_decode (b # bs) of (r, w) \<Rightarrow>
        if r = RuneError \<and> w = 1 then CHR 0x5C # ''ufffd'' @ escape_bytes bs
        else (if r = 0x2028 \<or> r = 0x2029 then CHR 0x5C # ''u202'' @ [hex_digit (r mod 16)]
              else map char_of (take w (b # bs))) @ escape_bytes (drop (w - 1) bs))"
  by pat_completeness auto
termination
  by (relation "measure length") auto

definition encode_string :: "string \<Rightarrow> string" where
  "encode_string s = CHR 0x22 # escape_bytes (map of_char s) @ [CHR 0x22]"

fun json_encode :: "json \<Rightarrow> string"
  and encode_elements :: "json list \<Rightarrow> string"
  and encode_members :: "(string \<times> json) list \<Rightarrow> string" where
  "json_encode JNull = ''null''"
| "json_encode (JNum n) = dec_nat n"
| "json_encode (JStr s) = encode_string s"
| "json_encode (JArr xs) = CHR ''['' # encode_elements xs @ [CHR '']'']"
| "json_encode (JObj fs) = CHR ''{'' # encode_members fs @ [CHR ''}'']"
| "encode_elements [] = []"
| "encode_elements [x] = json_encode x"
| "encode_elements (x # y # xs) = json_encode x @ CHR '','' # encode_elements (y # xs)"
| "encode_members [] = []"
| "encode_members [(k, v)] = encode_string k @ CHR '':'' # json_encode v"
| "encode_members ((k, v) # m # ms) =
     encode_string k @ CHR '':'' # json_encode v @ CHR '','' # encode_members (m # ms)"

definition json_Marshal :: "json \<Rightarrow> byte list" where
  "json_Marshal j = bytes_of_string (json_encode j)"

declare escape_ascii_def [eval_simps] encode_string_def [eval_simps] json_Marshal_def [eval_simps]

section \<open>Strings\<close>

definition plain_char :: "char \<Rightarrow> bool" where
  "plain_char c \<longleftrightarrow> c \<noteq> CHR 0x22 \<and> c \<noteq> CHR 0x5C \<and> 32 \<le> (of_char c :: nat)"

lemma json_string_plain: "\<forall>c \<in> set p. plain_char c \<Longrightarrow> json_string (p @ s) = json_string s"
  by (induction p) (auto simp: plain_char_def)

lemma is_hex_hex_digit: "n < 16 \<Longrightarrow> is_hex (hex_digit n)"
proof -
  have "list_all is_hex ''0123456789abcdef''"
    by (simp add: is_hex_def is_digit_def digit_val_def of_char_def)
  then show "n < 16 \<Longrightarrow> is_hex (hex_digit n)" by (simp add: list_all_length hex_digit_def)
qed

lemma json_string_u:
  "is_hex a \<Longrightarrow> is_hex b \<Longrightarrow> is_hex c \<Longrightarrow> is_hex d \<Longrightarrow>
     json_string (CHR 0x5C # CHR ''u'' # a # b # c # d # s) = json_string s"
  by simp

lemma is_hex_lits: "is_hex (CHR ''0'')" "is_hex (CHR ''2'')" "is_hex (CHR ''d'')" "is_hex (CHR ''f'')"
  by (simp_all add: is_hex_def is_digit_def digit_val_def of_char_def)

lemma plain_char_of:
  fixes b :: nat
  assumes "32 \<le> b" and "b < 256" and "b \<noteq> 0x22" and "b \<noteq> 0x5C"
  shows "plain_char (char_of b)"
proof -
  have "(of_char (char_of b) :: nat) = b" using assms by simp
  moreover have "(of_char (CHR 0x22) :: nat) = 0x22" "(of_char (CHR 0x5C) :: nat) = 0x5C"
    by (simp_all add: of_char_def)
  ultimately show ?thesis unfolding plain_char_def using assms by metis
qed

lemma json_string_ascii: "b < 128 \<Longrightarrow> json_string (escape_ascii b @ s) = json_string s"
proof -
  assume b: "b < 128"
  have q: "char_of (34 :: nat) = CHR 0x22" "char_of (92 :: nat) = CHR 0x5C"
    by (simp_all add: char_of_def bit_Suc_0_iff)
  have "json_string ([char_of b] @ s) = json_string s"
    if "32 \<le> b" "b \<noteq> 0x22" "b \<noteq> 0x5C"
    using that b plain_char_of [of b] by (intro json_string_plain) simp
  then show ?thesis
    using b by (auto simp: escape_ascii_def q is_hex_lits is_hex_hex_digit)
qed

lemma utf8_decode_high:
  assumes "utf8_decode (b # bs) = (r, w)" and "128 \<le> b" and "x \<in> set (take w (b # bs))"
  shows "128 \<le> x"
  using assms
  by (auto simp: utf8_decode.simps in_range_def accept_lo_def split: if_splits list.splits)

lemma json_string_bytes:
  "\<forall>x \<in> set bs. x < 256 \<Longrightarrow> json_string (escape_bytes bs @ s) = json_string s"
proof (induction bs rule: escape_bytes.induct)
  case (2 b bs)
  obtain r w where d: "utf8_decode (b # bs) = (r, w)" by fastforce
  show ?case
  proof (cases "b < 128")
    case True
    then show ?thesis using 2 by (simp add: json_string_ascii)
  next
    case False
    have "\<forall>c \<in> set (map char_of (take w (b # bs))). plain_char c"
    proof
      fix c assume "c \<in> set (map char_of (take w (b # bs)))"
      then obtain x where x: "c = char_of x" "x \<in> set (take w (b # bs))" by auto
      have "128 \<le> x" using utf8_decode_high [OF d _ x(2)] False by simp
      moreover have "x < 256" using in_set_takeD [OF x(2)] 2(4) by auto
      ultimately show "plain_char c" using x(1) plain_char_of [of x] by simp
    qed
    note pl = json_string_plain [OF this]
    have dr: "\<forall>x \<in> set (drop (w - 1) bs). x < 256" using 2(4) by (auto dest: in_set_dropD)
    then show ?thesis
      using False 2 d pl by (auto simp: is_hex_lits is_hex_hex_digit)
  qed
qed simp

lemma json_string_encoded: "json_string (escape_bytes (map of_char k) @ CHR 0x22 # s) = Some s"
  by (simp add: json_string_bytes)

section \<open>Numbers\<close>

definition delimited :: "string \<Rightarrow> bool" where
  "delimited s \<longleftrightarrow> s = [] \<or> hd s \<in> {CHR '','', CHR '']'', CHR ''}''}"

lemma dec_nat_hd_zero: "hd (dec_nat n) = CHR ''0'' \<Longrightarrow> n = 0"
proof (induction n rule: dec_nat.induct)
  case (1 n)
  have z: "(of_char (CHR ''0'') :: nat) = 48" by (simp add: of_char_def)
  show ?case
  proof (cases "n < 10")
    case True
    then have "of_char (char_of (48 + n)) = (48 :: nat)" using 1(2) z by (metis dec_nat.simps list.sel(1))
    then show ?thesis using True by simp
  next
    case False
    then have "hd (dec_nat (n div 10)) = CHR ''0''" using 1(2) by (simp add: dec_nat.simps [of n])
    then have "n div 10 = 0" using False 1(1) by simp
    then show ?thesis using False by (simp add: div_eq_0_iff)
  qed
qed

lemma dec_nat_is_digit: "c \<in> set (dec_nat n) \<Longrightarrow> is_digit c"
  using dec_nat_digit [of c n] digit_val_char_of by (auto simp: is_digit_def)

lemma delimiter_not_digit [simp]:
  "\<not> is_digit (CHR '','')" "\<not> is_digit (CHR '']'')" "\<not> is_digit (CHR ''}'')"
  by (simp_all add: is_digit_def digit_val_def of_char_def)

lemma delimited_not_number:
  "delimited s \<Longrightarrow> json_fraction s = Some s" "delimited s \<Longrightarrow> dropWhile is_digit s = s"
  by (cases s; auto simp: delimited_def json_fraction_def json_exponent_def)+

lemma json_number_dec_nat:
  assumes "delimited s"
  shows "json_number (dec_nat n @ s) = Some s"
proof -
  obtain c t where c: "dec_nat n = c # t" by (cases "dec_nat n") auto
  have d: "is_digit c" "\<forall>x \<in> set t. is_digit x" using c dec_nat_is_digit [of _ n] by auto
  have m: "c \<noteq> CHR ''-''" using d(1) by (auto simp: is_digit_def digit_val_def of_char_def)
  show ?thesis
  proof (cases "c = CHR ''0''")
    case True
    then have "n = 0" using c dec_nat_hd_zero [of n] by simp
    then have "t = []" using c by (simp add: dec_nat.simps)
    then show ?thesis using True c assms m by (simp add: json_number_def delimited_not_number)
  next
    case False
    have "dropWhile is_digit (c # t @ s) = s"
      using d delimited_not_number(2) [OF assms] by (simp add: dropWhile_append2)
    then show ?thesis
      using False c assms m d(1) by (simp add: json_number_def json_digits_def delimited_not_number)
  qed
qed

section \<open>The output is accepted\<close>

lemma json_encode_Cons:
  "\<exists>c t. json_encode j = c # t \<and> \<not> json_space c \<and> c \<noteq> CHR '']'' \<and> c \<noteq> CHR ''}''"
proof (cases j)
  case (JNum n)
  obtain c t where c: "dec_nat n = c # t" by (cases "dec_nat n") auto
  then have "is_digit c" using dec_nat_is_digit [of c n] by simp
  then have "\<not> json_space c \<and> c \<noteq> CHR '']'' \<and> c \<noteq> CHR ''}''"
    by (auto simp: is_digit_def digit_val_def of_char_def json_space_def)
  then show ?thesis using JNum c by simp
qed (simp_all add: json_space_def encode_string_def)

lemma json_value_dec_nat:
  assumes "delimited s"
  shows "json_value (Suc n) (dec_nat k @ s) = Some s"
proof -
  obtain c t where c: "dec_nat k = c # t" by (cases "dec_nat k") auto
  then have "is_digit c" using dec_nat_is_digit [of c k] by simp
  then have "\<not> json_space c \<and> c \<notin> {CHR ''{'', CHR ''['', CHR 0x22, CHR ''t'', CHR ''f'', CHR ''n''}"
    by (auto simp: is_digit_def digit_val_def of_char_def json_space_def)
  then show ?thesis using json_number_dec_nat [OF assms, of k] c by (simp add: skip_space_def)
qed

lemma skip_space_encoded: "skip_space (json_encode j @ s) = json_encode j @ s"
  using json_encode_Cons [of j] by (auto simp: skip_space_def)

lemma encode_elements_Cons: "\<exists>c t. encode_elements (x # xs) = c # t \<and> \<not> json_space c \<and> c \<noteq> CHR '']''"
  using json_encode_Cons [of x] by (cases xs) auto

lemma encode_members_Cons: "\<exists>t. encode_members (m # ms) = CHR 0x22 # t"
  by (cases m; cases ms) (simp_all add: encode_string_def)

lemma delimited_simps [simp]:
  "delimited (CHR '','' # s)" "delimited (CHR '']'' # s)" "delimited (CHR ''}'' # s)" "delimited []"
  by (simp_all add: delimited_def)

lemma skip_delimiter [simp]:
  "skip_space (CHR '','' # s) = CHR '','' # s" "skip_space (CHR '']'' # s) = CHR '']'' # s"
  "skip_space (CHR ''}'' # s) = CHR ''}'' # s" "skip_space (CHR '':'' # s) = CHR '':'' # s"
  "skip_space (CHR 0x22 # s) = CHR 0x22 # s"
  by (simp_all add: skip_space_def json_space_def)

text \<open>
  Fuel: a value costs at most twice its length, a sequence one unit more. The steps for the heads of
  an array and of an object, then the induction along the encoder.
\<close>

lemma json_value_array:
  assumes "json_elements n (encode_elements (x # xs) @ CHR '']'' # s) = Some s"
  shows "json_value (Suc n) (CHR ''['' # encode_elements (x # xs) @ CHR '']'' # s) = Some s"
proof -
  obtain c t where "encode_elements (x # xs) = c # t" "\<not> json_space c" "c \<noteq> CHR '']''"
    using encode_elements_Cons [of x xs] by blast
  then show ?thesis using assms by (simp add: skip_space_def json_space_def)
qed

lemma json_value_object:
  assumes "json_members n (encode_members (m # ms) @ CHR ''}'' # s) = Some s"
  shows "json_value (Suc n) (CHR ''{'' # encode_members (m # ms) @ CHR ''}'' # s) = Some s"
proof -
  obtain t where "encode_members (m # ms) = CHR 0x22 # t" using encode_members_Cons [of m ms] by blast
  then show ?thesis using assms by (simp add: skip_space_def json_space_def)
qed

lemma json_members_head:
  assumes "json_value n (json_encode v @ d # s) = Some (d # s)" and "\<not> json_space d"
  shows "json_members (Suc n) (encode_string k @ CHR '':'' # json_encode v @ d # s) =
    (if d = CHR '','' then json_members n s else if d = CHR ''}'' then Some s else None)"
  using assms by (simp add: encode_string_def json_string_encoded skip_space_def json_space_def)

lemma length_json_encode_pos: "0 < length (json_encode j)"
  using json_encode_Cons [of j] by auto

lemma json_accepts:
  "delimited s \<Longrightarrow> 2 * length (json_encode j) \<le> n \<Longrightarrow> json_value n (json_encode j @ s) = Some s"
  "xs \<noteq> [] \<Longrightarrow> 2 * length (encode_elements xs) < n \<Longrightarrow>
     json_elements n (encode_elements xs @ CHR '']'' # s) = Some s"
  "fs \<noteq> [] \<Longrightarrow> 2 * length (encode_members fs) < n \<Longrightarrow>
     json_members n (encode_members fs @ CHR ''}'' # s) = Some s"
proof (induction j and xs and fs arbitrary: n s and n s and n s
    rule: json_encode_encode_elements_encode_members.induct)
  case 1
  then show ?case by (cases n) (simp_all add: skip_space_def json_space_def json_literal_def)
next
  case (2 k)
  then show ?case by (cases n) (simp_all add: json_value_dec_nat del: json_value.simps)
next
  case (3 k)
  then show ?case by (cases n) (simp_all add: encode_string_def json_string_encoded)
next
  case (4 xs)
  then obtain m where n: "n = Suc m" "2 * length (encode_elements xs) < m" by (cases n) auto
  then show ?case
    using 4 json_value_array [of m] by (cases xs) (auto simp: skip_space_def json_space_def)
next
  case (5 fs)
  then obtain m where n: "n = Suc m" "2 * length (encode_members fs) < m" by (cases n) auto
  then show ?case
    using 5 json_value_object [of m] by (cases fs) (auto simp: skip_space_def json_space_def)
next
  case (7 x)
  then obtain m where "n = Suc m" "2 * length (json_encode x) \<le> m" by (cases n) auto
  then show ?case using 7 by simp
next
  case (8 x y xs)
  then obtain m where n: "n = Suc m" "2 * length (json_encode x) \<le> m"
    "2 * length (encode_elements (y # xs)) < m" by (cases n) auto
  then have "json_value m (json_encode x @ CHR '','' # encode_elements (y # xs) @ CHR '']'' # s) =
      Some (CHR '','' # encode_elements (y # xs) @ CHR '']'' # s)" using 8 by simp
  then show ?case using n 8 by simp
next
  case (10 k v)
  then obtain m where n: "n = Suc m" "2 * length (json_encode v) \<le> m" by (cases n) auto
  then show ?case using 10 json_members_head [of m v "CHR ''}''" s k] by (simp add: json_space_def)
next
  case (11 k v f fs)
  then obtain m where n: "n = Suc m" "2 * length (json_encode v) \<le> m"
    "2 * length (encode_members (f # fs)) < m" by (cases n) auto
  then show ?case
    using 11 json_members_head [of m v "CHR '',''" "encode_members (f # fs) @ CHR ''}'' # s" k]
    by (simp add: json_space_def)
qed simp_all

lemma json_Unmarshal_Marshal: "json_Unmarshal (json_Marshal j) = Ret ()"
  using json_accepts(1) [of "[]" j "2 * length (json_encode j) + 2"]
  by (simp add: json_Unmarshal_def json_Marshal_def skip_space_def)

end
