(* ===== verification/Agent_Init.thy ===== *)
theory Agent_Init
  imports Event_Parsers Agent_Config Go_Json
begin

text \<open>
  \<^verbatim>\<open>tagent init\<close> of \<^verbatim>\<open>main.go\<close>: it writes the platform information and the event log that the
  service answers from, and hands the files over to the user of the service. The state is the
  agent's state of \<^theory_text>\<open>Request_Handler\<close> and the owner of each file. Collecting the host information
  (a library) and the file operations that may fail are fields of \<open>init_lib\<close>.
\<close>

section \<open>What the command is given\<close>

text \<open>
  \<open>open_failure\<close> and \<open>write_failure\<close> are the results of \<^verbatim>\<open>os.OpenFile\<close> and \<^verbatim>\<open>Write\<close> for a path, the
  latter with the number of bytes written before the error; \<open>walk\<close> lists the names
  \<^verbatim>\<open>filepath.Walk\<close> calls its function with; \<open>uefiEventLogFile\<close> and \<open>txtEventLogFile\<close> are set when
  the agent is built.
\<close>

record 'i init_lib =
  uefiEventLogFile :: string
  txtEventLogFile :: string
  init_mmap :: "byte list \<Rightarrow> int \<Rightarrow> int \<Rightarrow> byte list go"
  init_print :: "rune \<Rightarrow> bool"
  hostinfo_Parse :: 'i
  marshal_host_info :: "'i \<Rightarrow> byte list go"
  open_failure :: "string \<Rightarrow> go_error option"
  write_failure :: "string \<Rightarrow> (nat \<times> go_error) option"
  IsContainerEnv :: bool
  user_Lookup :: "string \<Rightarrow> (string \<times> string) go"
  walk :: "file_system \<Rightarrow> string \<Rightarrow> string list"
  chown_error :: "string \<Rightarrow> go_error option"

record 't init_state =
  in_agent :: "'t agent"
  in_owner :: "string \<Rightarrow> nat \<times> nat"

abbreviation agent_files :: "'t agent \<Rightarrow> file_system" where
  "agent_files ag \<equiv> host_files (ag_host ag)"

definition with_file :: "string \<Rightarrow> byte list \<Rightarrow> 't agent \<Rightarrow> 't agent" where
  "with_file path bs ag = ag\<lparr>ag_host := (ag_host ag)\<lparr>host_files := (agent_files ag)(path := Contents bs)\<rparr>\<rparr>"

text \<open>\<^verbatim>\<open>os.OpenFile\<close> with \<^verbatim>\<open>O_CREATE|O_TRUNC|O_WRONLY\<close>, then one \<^verbatim>\<open>Write\<close>.\<close>

definition truncate_and_write ::
  "'i init_lib \<Rightarrow> string \<Rightarrow> byte list \<Rightarrow> string \<Rightarrow> string \<Rightarrow> 't agent \<Rightarrow> unit go \<times> 't agent" where
  "truncate_and_write L path bs openMsg writeMsg ag =
     (case open_failure L path of
        Some e \<Rightarrow> (Fail (WrapErr e openMsg), ag)
      | None \<Rightarrow>
          (case write_failure L path of
             Some (n, e) \<Rightarrow> (Fail (WrapErr e writeMsg), with_file path (take n bs) ag)
           | None \<Rightarrow> (Ret (), with_file path bs ag)))"

section \<open>The platform information\<close>

definition getHostInfoJSON :: "'i init_lib \<Rightarrow> byte list go" where
  "getHostInfoJSON L = wrapping ''Error serializing hostinfo to JSON'' (marshal_host_info L (hostinfo_Parse L))"

definition updatePlatformInfo :: "'i init_lib \<Rightarrow> 't agent \<Rightarrow> unit go \<times> 't agent" where
  "updatePlatformInfo L ag =
     thenS (getHostInfoJSON L, ag) (\<lambda>hostInfoJSON ag.
     case os_Stat (agent_files ag) SystemInfoDir of
       Some e \<Rightarrow> (Fail (WrapErr e ''Error while checking the existence of system-info''), ag)
     | None \<Rightarrow>
         truncate_and_write L PlatformInfoFilePath hostInfoJSON ''Error while creating platform-info''
           ''Error while writing into File: platform-info'' ag)"

section \<open>The event log\<close>

text \<open>The JSON of the log's data types; a field with \<^verbatim>\<open>omitempty\<close> is left out when empty.\<close>

definition json_slice :: "('a \<Rightarrow> json) \<Rightarrow> 'a list \<Rightarrow> json" where
  "json_slice f xs = (if xs = [] then JNull else JArr (map f xs))"

definition event_json :: "TpmEvent \<Rightarrow> json" where
  "event_json e =
     JObj ([(''type_id'', JStr (TypeID e))]
           @ (if TypeName e = [] then [] else [(''type_name'', JStr (TypeName e))])
           @ (if Tags e = [] then [] else [(''tags'', json_slice JStr (Tags e))])
           @ [(''measurement'', JStr (Measurement e))])"

definition log_json :: "PcrEventLog \<Rightarrow> json" where
  "log_json l =
     JObj [(''pcr'', JObj [(''index'', JNum (unat (Index (Pcr l)))), (''bank'', JStr (Bank (Pcr l)))]),
           (''tpm_events'', json_slice event_json (TpmEvents l))]"

definition log_environment :: "'i init_lib \<Rightarrow> 't agent \<Rightarrow> log_env" where
  "log_environment L ag = \<lparr>files = agent_files ag, sys_mmap = init_mmap L, print_table = init_print L\<rparr>"

text \<open>The collected slice is nil exactly when no parser returned an entry.\<close>

definition collected_logs :: "'i init_lib \<Rightarrow> 't agent \<Rightarrow> PcrEventLog list go" where
  "collected_logs L ag =
     aggregateGetEventLogs (log_environment L ag) (NewEventLogParser (uefiEventLogFile L) (txtEventLogFile L))"

definition getEventLogJSON :: "'i init_lib \<Rightarrow> 't agent \<Rightarrow> byte list go" where
  "getEventLogJSON L ag =
     andThen (wrapping ''There was an error while collecting PCR Event Log Data'' (collected_logs L ag))
       (\<lambda>pcrEventLogs.
     if pcrEventLogs = [] then Fail (NewErr ''No event logs were collected'')
     else Ret (json_Marshal (json_slice log_json pcrEventLogs)))"

definition updateMeasureLog :: "'i init_lib \<Rightarrow> 't agent \<Rightarrow> unit go \<times> 't agent" where
  "updateMeasureLog L ag =
     thenS (getEventLogJSON L ag, ag) (\<lambda>jsonData ag.
     truncate_and_write L MeasureLogFilePath jsonData ''There was an error while opening measure-log.json''
       ''There was an error while writing in measure-log.json'' ag)"

section \<open>The command\<close>

definition RootUserName :: string where "RootUserName = ''root''"
definition TagentUserName :: string where "TagentUserName = ''tagent''"

text \<open>
  How a command ends: \<^verbatim>\<open>main\<close> returns, or calls \<^verbatim>\<open>os.Exit\<close>. A panic is recovered by \<^verbatim>\<open>main\<close> and
  logged, so that the process ends as if \<^verbatim>\<open>main\<close> had returned.
\<close>

datatype ending = MainReturns | Exit nat | Recovered panic

definition strconv_ParseUint32 :: "string \<Rightarrow> nat go" where
  "strconv_ParseUint32 s =
     (if s = [] then Fail (ParseError ''invalid syntax'')
      else case digits_val 0 s of
             None \<Rightarrow> Fail (ParseError ''invalid syntax'')
           | Some v \<Rightarrow> if 2 ^ 32 \<le> v then Fail (ParseError ''value out of range'') else Ret v)"

text \<open>The function given to \<^verbatim>\<open>filepath.Walk\<close>, applied to each name until it returns an error.\<close>

fun chown_all :: "'i init_lib \<Rightarrow> nat \<times> nat \<Rightarrow> string list \<Rightarrow> 't init_state \<Rightarrow> 't init_state" where
  "chown_all L owner [] s = s"
| "chown_all L owner (f # fs) s =
     (case chown_error L f of
        Some e \<Rightarrow> s
      | None \<Rightarrow> chown_all L owner fs (s\<lparr>in_owner := (in_owner s)(f := owner)\<rparr>))"

definition own_files :: "'i init_lib \<Rightarrow> 't init_state \<Rightarrow> ending \<times> 't init_state" where
  "own_files L s =
     (case user_Lookup L TagentUserName of
        Panic p \<Rightarrow> (Recovered p, s)
      | Fail e \<Rightarrow> (Exit 1, s)
      | Ret (uidText, gidText) \<Rightarrow>
          (case strconv_ParseUint32 uidText of
             Panic p \<Rightarrow> (Recovered p, s)
           | Fail e \<Rightarrow> (Exit 1, s)
           | Ret uid \<Rightarrow>
               (case strconv_ParseUint32 gidText of
                  Panic p \<Rightarrow> (Recovered p, s)
                | Fail e \<Rightarrow> (Exit 1, s)
                | Ret gid \<Rightarrow>
                    let s = chown_all L (uid, gid) (walk L (agent_files (in_agent s)) InstallationDir) s;
                        s = chown_all L (uid, gid) (walk L (agent_files (in_agent s)) LogDir) s
                    in (MainReturns, s))))"

text \<open>A call whose error is only logged.\<close>

fun logged :: "unit go \<times> 't agent \<Rightarrow> 't init_state \<Rightarrow> ('t init_state \<Rightarrow> ending \<times> 't init_state) \<Rightarrow>
    ending \<times> 't init_state" where
  "logged (Panic p, ag) s k = (Recovered p, s\<lparr>in_agent := ag\<rparr>)"
| "logged (_, ag) s k = k (s\<lparr>in_agent := ag\<rparr>)"

text \<open>\<^verbatim>\<open>cfg.LogConfiguration\<close> may create the two log files.\<close>

definition init_logs :: "config_lib \<Rightarrow> TrustAgentConfiguration \<Rightarrow> 't init_state \<Rightarrow> 't init_state" where
  "init_logs C cfg s =
     (let ag = in_agent s
      in s\<lparr>in_agent := ag\<lparr>ag_host := (ag_host ag)\<lparr>host_files :=
            snd (snd (LogConfiguration C (LogEnableStdout (cfg_service cfg)) (cfg, agent_files ag)))\<rparr>\<rparr>\<rparr>)"

definition init_command ::
  "'i init_lib \<Rightarrow> config_lib \<Rightarrow> TrustAgentConfiguration \<Rightarrow> string \<Rightarrow> 't init_state \<Rightarrow> ending \<times> 't init_state" where
  "init_command L C cfg username s =
     (if username \<noteq> RootUserName then (Exit 1, s)
      else
        let s = init_logs C cfg s
        in logged (updatePlatformInfo L (in_agent s)) s (\<lambda>s.
           logged (updateMeasureLog L (in_agent s)) s (\<lambda>s.
           if IsContainerEnv L then (MainReturns, s) else own_files L s)))"

lemmas init_defs = with_file_def truncate_and_write_def getHostInfoJSON_def updatePlatformInfo_def
  json_slice_def event_json_def log_json_def log_environment_def collected_logs_def getEventLogJSON_def
  updateMeasureLog_def RootUserName_def TagentUserName_def strconv_ParseUint32_def own_files_def
  init_logs_def init_command_def

declare init_defs [eval_simps]

section \<open>Lemmas\<close>

lemma agent_files_with_file [simp]: "agent_files (with_file path bs ag) = (agent_files ag)(path := Contents bs)"
  by (simp add: with_file_def)

lemma truncate_and_write_Ret:
  "truncate_and_write L path bs om wm ag = (Ret u, ag') \<longleftrightarrow>
     open_failure L path = None \<and> write_failure L path = None \<and> ag' = with_file path bs ag"
  by (auto simp: truncate_and_write_def split: option.splits)

lemma getEventLogJSON_Ret:
  "getEventLogJSON L ag = Ret bs \<longleftrightarrow>
     (\<exists>logs. collected_logs L ag = Ret logs \<and> logs \<noteq> [] \<and> bs = json_Marshal (json_slice log_json logs))"
  by (auto simp: getEventLogJSON_def andThen_eq_Ret)

lemma readEventLog_marshalled:
  "host_files h MeasureLogFilePath = Contents (json_Marshal j) \<Longrightarrow> readEventLog h = Ret (json_encode j)"
  by (simp add: readEventLog_def os_Stat_def ioutil_ReadFile_def os_Open_def json_Unmarshal_Marshal)
    (simp add: json_Marshal_def)

lemma quote_event_log:
  "CreateTpmQuoteResponse P tpm h key req = Ret r \<Longrightarrow> readEventLog h = Ret (EventLog r)"
  by (auto simp: CreateTpmQuoteResponse_def createTpmQuote_def andThen_eq_Ret Let_def split: if_splits)

lemma logged_eq: "\<not> is_Panic (fst r) \<Longrightarrow> logged r s k = k (s\<lparr>in_agent := snd r\<rparr>)"
  by (cases r; cases "fst r") auto

lemma chown_all_agent [simp]: "in_agent (chown_all L owner fs s) = in_agent s"
  by (induction fs arbitrary: s) (simp_all split: option.split)

lemma own_files_agent [simp]: "in_agent (snd (own_files L s)) = in_agent s"
  by (simp add: own_files_def Let_def split: go.split prod.split)

lemma updatePlatformInfo_Ret:
  "updatePlatformInfo L ag = (Ret u, ag') \<Longrightarrow>
     \<exists>bs. marshal_host_info L (hostinfo_Parse L) = Ret bs \<and> ag' = with_file PlatformInfoFilePath bs ag"
  by (auto simp: updatePlatformInfo_def getHostInfoJSON_def thenS_eq_Ret truncate_and_write_Ret
      split: option.splits)

lemma updateMeasureLog_Ret:
  "updateMeasureLog L ag = (Ret u, ag') \<Longrightarrow>
     \<exists>logs. collected_logs L ag = Ret logs \<and> logs \<noteq> [] \<and>
       ag' = with_file MeasureLogFilePath (json_Marshal (json_slice log_json logs)) ag"
  by (auto simp: updateMeasureLog_def thenS_eq_Ret truncate_and_write_Ret getEventLogJSON_Ret)

lemma ReadHostInfo_Contents:
  "agent_files ag PlatformInfoFilePath = Contents bs \<Longrightarrow> unmarshal_host_info env bs = Ret i \<Longrightarrow>
     GetHostInfo env ag = Ret i"
  by (simp add: GetHostInfo_def ReadHostInfo_def os_Stat_def ioutil_ReadFile_def os_Open_def)

lemma snd_truncate_and_write:
  "p \<noteq> path \<Longrightarrow> agent_files (snd (truncate_and_write L path bs om wm ag)) p = agent_files ag p"
  by (simp add: truncate_and_write_def split: option.split)

lemma updatePlatformInfo_frame:
  "p \<noteq> PlatformInfoFilePath \<Longrightarrow> agent_files (snd (updatePlatformInfo L ag)) p = agent_files ag p"
  by (cases "getHostInfoJSON L")
    (simp_all add: updatePlatformInfo_def snd_truncate_and_write split: option.split)

lemma paths_differ [simp]: "PlatformInfoFilePath \<noteq> MeasureLogFilePath" "MeasureLogFilePath \<noteq> PlatformInfoFilePath"
  by (simp_all add: constants_defs)

lemma init_logs_file:
  "p \<noteq> DefaultLogFilePath \<Longrightarrow> p \<noteq> SecurityLogFilePath \<Longrightarrow>
     agent_files (in_agent (init_logs C cfg s)) p = agent_files (in_agent s) p"
  by (simp add: init_logs_def LogConfiguration_files Let_def)

lemma init_logs_refused [simp]: "init_logs sample_config_lib cfg s = s"
  by (simp add: init_logs_def LogConfiguration_refused sample_config_lib_def)

section \<open>Properties\<close>

text \<open>
  C3: what init collects is what the service serves. When root's init wrote both files, the service
  reports the host information that was collected, and the event log of every quote is the JSON of
  the collected PCR logs, unchanged: the text always passes the quote's syntax check, whatever bytes
  the tags of the events contain, and no entry of it is without events. This needs only that the
  library decodes the host information it encoded.
\<close>

theorem init_is_served:
  assumes "updatePlatformInfo L (in_agent (init_logs C cfg s)) = (Ret (), ag1)"
    and "updateMeasureLog L ag1 = (Ret (), ag2)"
    and "\<forall>i bs. marshal_host_info L i = Ret bs \<longrightarrow> unmarshal_host_info env bs = Ret i"
  shows "\<exists>logs s'. snd (init_command L C cfg ''root'' s) = s' \<and> collected_logs L ag1 = Ret logs \<and> logs \<noteq> [] \<and>
    (\<forall>l \<in> set logs. TpmEvents l \<noteq> []) \<and>
    GetHostInfo env (in_agent s') = Ret (hostinfo_Parse L) \<and>
    readEventLog (ag_host (in_agent s')) = Ret (json_encode (json_slice log_json logs)) \<and>
    (\<forall>P tpm key req r. CreateTpmQuoteResponse P tpm (ag_host (in_agent s')) key req = Ret r \<longrightarrow>
       EventLog r = json_encode (json_slice log_json logs))"
proof -
  let ?s = "snd (init_command L C cfg ''root'' s)"
  obtain bs where bs: "marshal_host_info L (hostinfo_Parse L) = Ret bs"
    "ag1 = with_file PlatformInfoFilePath bs (in_agent (init_logs C cfg s))" using updatePlatformInfo_Ret [OF assms(1)] by blast
  obtain logs where logs: "collected_logs L ag1 = Ret logs" "logs \<noteq> []"
    "ag2 = with_file MeasureLogFilePath (json_Marshal (json_slice log_json logs)) ag1"
    using updateMeasureLog_Ret [OF assms(2)] by blast
  have ag: "in_agent ?s = ag2"
    using assms(1,2) by (simp add: init_command_def RootUserName_def Let_def)
  have "GetHostInfo env ag2 = Ret (hostinfo_Parse L)"
    using bs logs(3) assms(3) by (intro ReadHostInfo_Contents [of _ bs]) simp_all
  moreover have rd: "readEventLog (ag_host ag2) = Ret (json_encode (json_slice log_json logs))"
    using logs(3) by (intro readEventLog_marshalled) simp
  moreover have "\<forall>l \<in> set logs. TpmEvents l \<noteq> []"
    using aggregate_nonempty logs(1) by (auto simp: collected_logs_def)
  moreover have "\<forall>P tpm key req r. CreateTpmQuoteResponse P tpm (ag_host ag2) key req = Ret r \<longrightarrow>
      EventLog r = json_encode (json_slice log_json logs)"
    using quote_event_log rd by fastforce
  ultimately show ?thesis using logs ag by auto
qed

text \<open>A host with one event log in a file, for the examples.\<close>

definition sample_init :: "unit init_lib" where
  "sample_init =
     \<lparr>uefiEventLogFile = ''log'', txtEventLogFile = ''none'', init_mmap = sample_mmap, init_print = (\<lambda>r. False),
      hostinfo_Parse = (), marshal_host_info = (\<lambda>i. Ret [123, 125]), open_failure = (\<lambda>p. None),
      write_failure = (\<lambda>p. None), IsContainerEnv = True, user_Lookup = (\<lambda>u. Ret (''1000'', ''1000'')),
      walk = (\<lambda>fs d. []), chown_error = (\<lambda>f. None)\<rparr>"

definition sample_init_state :: "(string \<times> byte list) list \<Rightarrow> soft_tpm init_state" where
  "sample_init_state fs =
     \<lparr>in_agent = \<lparr>ag_tpm = sample_tpm,
        ag_host = \<lparr>host_files = (\<lambda>p. case map_of fs p of None \<Rightarrow> Absent | Some bs \<Rightarrow> Contents bs),
          host_dir = (\<lambda>d. Ret []), host_now = 0\<rparr>\<rparr>,
      in_owner = (\<lambda>p. (0, 0))\<rparr>"

theorem init_is_served_witness:
  "\<exists>ag1 logs. updatePlatformInfo sample_init
      (in_agent (sample_init_state [(SystemInfoDir, []), (''log'', sample_header @ enc_log [sample_separator])])) = (Ret (), ag1) \<and>
    collected_logs sample_init ag1 = Ret logs \<and> length logs = 1 \<and>
    readEventLog (ag_host (in_agent (snd (init_command sample_init sample_config_lib empty_config ''root''
      (sample_init_state [(SystemInfoDir, []), (''log'', sample_header @ enc_log [sample_separator])]))))) =
      Ret (json_encode (json_slice log_json logs))"
proof -
  let ?s = "sample_init_state [(SystemInfoDir, []), (''log'', sample_header @ enc_log [sample_separator])]"
  let ?ag1 = "with_file PlatformInfoFilePath [123, 125] (in_agent ?s)"
  have u1: "updatePlatformInfo sample_init (in_agent ?s) = (Ret (), ?ag1)"
    by (simp add: updatePlatformInfo_def getHostInfoJSON_def sample_init_def sample_init_state_def
        truncate_and_write_def os_Stat_def)
  have "GetEventLogs (log_environment sample_init ?ag1) (fileEventLogParser ''log'') =
      GetEventLogs (sample_env [(''log'', sample_header @ enc_log [sample_separator])]) (fileEventLogParser ''log'')"
    by (simp add: fileGetEventLogs_def ioutil_ReadFile_def os_Open_def log_environment_def sample_init_def
        sample_init_state_def sample_env_def constants_defs parse_log_def)
  moreover have "\<exists>l. GetEventLogs (sample_env [(''log'', sample_header @ enc_log [sample_separator])])
      (fileEventLogParser ''log'') = Ret [l]" by (simp add: eval_simps)
  moreover have "\<exists>e. GetEventLogs (log_environment sample_init ?ag1) (fileEventLogParser ''none'') = Fail e"
    "\<exists>e. GetEventLogs (log_environment sample_init ?ag1) (appEventLogParser AppEventFilePath) = Fail e"
    by (simp_all add: fileGetEventLogs_def appGetEventLogs_def ioutil_ReadFile_def os_Open_def log_environment_def
        stat_open_def os_Stat_def sample_init_def sample_init_state_def constants_defs)
  moreover have "NewEventLogParser (uefiEventLogFile sample_init) (txtEventLogFile sample_init) =
      [fileEventLogParser ''log'', fileEventLogParser ''none'', appEventLogParser AppEventFilePath]"
    by (simp add: NewEventLogParser_def sample_init_def)
  ultimately have logs: "\<exists>l. collected_logs sample_init ?ag1 = Ret [l]"
    by (auto simp: collected_logs_def aggregateGetEventLogs_def)
  then have "\<exists>ag2. updateMeasureLog sample_init ?ag1 = (Ret (), ag2)"
    by (auto simp: updateMeasureLog_def getEventLogJSON_def truncate_and_write_def sample_init_def)
  then obtain ag2 where u2: "updateMeasureLog sample_init ?ag1 = (Ret (), ag2)" ..
  have law: "\<forall>i bs. marshal_host_info sample_init i = Ret bs \<longrightarrow> unmarshal_host_info sample_agent_env bs = Ret i"
    by (simp add: sample_agent_env_def)
  from init_is_served [of _ sample_config_lib empty_config, unfolded init_logs_refused, OF u1 u2 law] u1 logs
  show ?thesis by auto
qed

text \<open>
  How taking ownership ends depends only on the lookup of the agent's user, not on the errors of
  \<^verbatim>\<open>os.Chown\<close>, which the code drops.
\<close>

lemma own_files_ending:
  "fst (own_files L s) =
     (case user_Lookup L ''tagent'' of
        Ret (uid, gid) \<Rightarrow> if is_Ret (strconv_ParseUint32 uid) \<and> is_Ret (strconv_ParseUint32 gid) then MainReturns else Exit 1
      | Fail e \<Rightarrow> Exit 1
      | Panic p \<Rightarrow> Recovered p)"
  by (simp add: own_files_def TagentUserName_def strconv_ParseUint32_def Let_def split: go.split prod.split option.split)

text \<open>
  C40: a boot on which no event log can be collected (without a panic) keeps the event log of the previous
  boot, and init does not fail for it. It ends as on every boot: in a container \<^verbatim>\<open>main\<close> returns; otherwise
  it returns when the user tagent is found with numeric ids and exits with status 1 when not; and in each
  case the quotes of the agent's state after init carry the old log.
\<close>

theorem init_keeps_stale_log:
  assumes "getEventLogJSON L (snd (updatePlatformInfo L (in_agent (init_logs C cfg s)))) = Fail e"
    and "\<not> is_Panic (fst (updatePlatformInfo L (in_agent (init_logs C cfg s))))"
  shows "fst (init_command L C cfg ''root'' s) =
      (if IsContainerEnv L then MainReturns
       else case user_Lookup L ''tagent'' of
              Ret (uid, gid) \<Rightarrow> if is_Ret (strconv_ParseUint32 uid) \<and> is_Ret (strconv_ParseUint32 gid) then MainReturns else Exit 1
            | Fail e \<Rightarrow> Exit 1
            | Panic p \<Rightarrow> Recovered p) \<and>
    agent_files (in_agent (snd (init_command L C cfg ''root'' s))) MeasureLogFilePath =
      agent_files (in_agent s) MeasureLogFilePath \<and>
    (\<forall>P tpm key req r. CreateTpmQuoteResponse P tpm (ag_host (in_agent (snd (init_command L C cfg ''root'' s)))) key req = Ret r \<longrightarrow>
       readEventLog (ag_host (in_agent s)) = Ret (EventLog r))"
proof -
  let ?ag1 = "snd (updatePlatformInfo L (in_agent (init_logs C cfg s)))"
  let ?s1 = "(init_logs C cfg s)\<lparr>in_agent := ?ag1\<rparr>"
  have m: "updateMeasureLog L ?ag1 = (Fail e, ?ag1)" using assms(1) by (simp add: updateMeasureLog_def)
  have i: "init_command L C cfg ''root'' s = (if IsContainerEnv L then (MainReturns, ?s1) else own_files L ?s1)"
    using m assms(2) by (simp add: init_command_def RootUserName_def logged_eq Let_def)
  then have ag: "in_agent (snd (init_command L C cfg ''root'' s)) = ?ag1" by simp
  have f: "agent_files ?ag1 MeasureLogFilePath = agent_files (in_agent s) MeasureLogFilePath"
    by (subst updatePlatformInfo_frame) (simp_all add: init_logs_file constants_defs setting_names)
  then have r: "readEventLog (ag_host ?ag1) = readEventLog (ag_host (in_agent s))"
    by (simp add: readEventLog_def os_Stat_def ioutil_ReadFile_def os_Open_def)
  have ending: "fst (init_command L C cfg ''root'' s) = (if IsContainerEnv L then MainReturns else fst (own_files L ?s1))"
    by (simp add: i)
  show ?thesis
    unfolding ag ending own_files_ending using f r quote_event_log [where h = "ag_host ?ag1"]
    by (intro conjI refl) auto
qed

text \<open>The example boots outside a container, as user 990 of group 991.\<close>

theorem init_keeps_stale_log_witness:
  "\<exists>s'. init_command (sample_init\<lparr>IsContainerEnv := False, user_Lookup := \<lambda>u. Ret (''990'', ''991'')\<rparr>) sample_config_lib
     empty_config ''root'' (sample_init_state [(MeasureLogFilePath, [91, 93])]) = (MainReturns, s') \<and>
   agent_files (in_agent s') MeasureLogFilePath = Contents [91, 93]"
proof -
  let ?L = "sample_init\<lparr>IsContainerEnv := False, user_Lookup := \<lambda>u. Ret (''990'', ''991'')\<rparr>"
  let ?s = "sample_init_state [(MeasureLogFilePath, [91, 93])]"
  have p: "\<exists>e. updatePlatformInfo ?L (in_agent ?s) = (Fail e, in_agent ?s)"
    by (simp add: updatePlatformInfo_def getHostInfoJSON_def sample_init_def sample_init_state_def os_Stat_def
        constants_defs)
  then have "\<not> is_Panic (fst (updatePlatformInfo ?L (in_agent ?s)))" by auto
  moreover have "getEventLogJSON ?L (snd (updatePlatformInfo ?L (in_agent ?s))) =
      Fail (NewErr ''No event logs were collected'')"
    using p by (auto simp: getEventLogJSON_def collected_logs_def aggregateGetEventLogs_def NewEventLogParser_def
        fileGetEventLogs_def appGetEventLogs_def ioutil_ReadFile_def os_Open_def log_environment_def
        stat_open_def os_Stat_def sample_init_def sample_init_state_def constants_defs)
  moreover have "is_Ret (strconv_ParseUint32 ''990'')" "is_Ret (strconv_ParseUint32 ''991'')"
    by (simp_all add: eval_simps)
  ultimately show ?thesis
    using init_keeps_stale_log [of ?L sample_config_lib empty_config ?s]
    by (cases "init_command ?L sample_config_lib empty_config ''root'' ?s") (auto simp: sample_init_state_def)
qed

end
