(* ===== verification/Report_Retry.thy ===== *)
theory Report_Retry
  imports Hvs_Tasks Agent_Init
begin

text \<open>
  The end of \<^verbatim>\<open>main.go\<close>: the request for a new trust report (\<^verbatim>\<open>sendAsyncReportRequest\<close>), the
  goroutine that repeats it (\<^verbatim>\<open>asyncReportCreateRetry\<close>) and the life of the process under
  \<^verbatim>\<open>startService\<close>. The goroutine and the process are step relations: a ticker with one buffered
  tick, a \<^verbatim>\<open>quit\<close> channel that can be closed once, a \<^verbatim>\<open>stop\<close> channel without buffer.
\<close>

section \<open>Requesting a report\<close>

text \<open>
  The client library: creating its factory and clients, searching hosts by hardware UUID (the number
  of hosts found) and requesting a report, which may change the service's state \<open>'w\<close> and answers with
  an error and, when there was a response, its status. \<open>error_text\<close> is \<^verbatim>\<open>err.Error()\<close>,
  \<open>hardware_uuid\<close> reads the field of the host information and \<open>uuid_Parse\<close> is the parser that
  \<^verbatim>\<open>uuid.MustParse\<close> panics for.
\<close>

record ('w, 'u, 'i) report_lib =
  NewVSClientFactory :: "string \<Rightarrow> string \<Rightarrow> string \<Rightarrow> go_error option"
  NewHostsClient :: "go_error option"
  NewReportsClient :: "go_error option"
  SearchHostsByUUID :: "'w \<Rightarrow> 'u \<Rightarrow> nat go"
  CreateReportAsync :: "'w \<Rightarrow> 'u \<Rightarrow> (go_error option \<times> nat option) \<times> 'w"
  error_text :: "go_error \<Rightarrow> string"
  hardware_uuid :: "'i \<Rightarrow> string"
  uuid_Parse :: "string \<Rightarrow> 'u option"

definition uuid_MustParse :: "('w, 'u, 'i) report_lib \<Rightarrow> string \<Rightarrow> 'u go" where
  "uuid_MustParse R s = (case uuid_Parse R s of None \<Rightarrow> Panic (LibraryPanic ''uuid'') | Some u \<Rightarrow> Ret u)"

text \<open>The last part, when HVS knows the host.\<close>

definition create_report :: "('w, 'u, 'i) report_lib \<Rightarrow> string \<Rightarrow> 'w \<Rightarrow> unit go \<times> 'w" where
  "create_report R hardwareUUID w =
     (case NewReportsClient R of
        Some e \<Rightarrow> (Ret (), w)
      | None \<Rightarrow>
          thenS (uuid_MustParse R hardwareUUID, w) (\<lambda>u w.
          case CreateReportAsync R w u of
            ((err, rsp), w') \<Rightarrow>
              (if rsp = Some StatusUnauthorized then Ret ()
               else case err of Some e \<Rightarrow> Fail e | None \<Rightarrow> Ret (), w')))"

text \<open>An error is returned only where trying again makes sense; the other errors are logged.\<close>

definition sendAsyncReportRequest ::
  "('w, 'u, 'i) report_lib \<Rightarrow> ('t, 'm, 'r, 'i) agent_env \<Rightarrow> 't agent \<Rightarrow> TrustAgentConfiguration \<Rightarrow> 'w
     \<Rightarrow> unit go \<times> 'w" where
  "sendAsyncReportRequest R env ag cfg w =
     (if NewVSClientFactory R (HVS_Url cfg) (ApiToken cfg) TrustedCaCertsDir \<noteq> None then (Ret (), w)
      else if NewHostsClient R \<noteq> None then (Ret (), w)
      else case ReadHostInfo env ag of
        Panic p \<Rightarrow> (Panic p, w)
      | Fail e \<Rightarrow> (Ret (), w)
      | Ret pInfo \<Rightarrow>
          thenS (uuid_MustParse R (hardware_uuid R pInfo), w) (\<lambda>u w.
          case SearchHostsByUUID R w u of
            Panic p \<Rightarrow> (Panic p, w)
          | Fail e \<Rightarrow> (if str_contains ''401'' (error_text R e) then Ret () else Fail e, w)
          | Ret hosts \<Rightarrow>
              if 0 < hosts then create_report R (hardware_uuid R pInfo) w else (Ret (), w)))"

declare uuid_MustParse_def [eval_simps] create_report_def [eval_simps] sendAsyncReportRequest_def [eval_simps]

section \<open>The retry goroutine\<close>

text \<open>
  The goroutine waits in its \<^verbatim>\<open>select\<close>, is sending a request, has returned, or has ended the process
  with a panic that nothing recovers. \<open>rt_tick\<close> is the tick buffered in \<^verbatim>\<open>ticker.C\<close>, \<open>rt_quit\<close>
  whether \<^verbatim>\<open>quit\<close> is closed, \<open>rt_world\<close> the state of HVS.
\<close>

datatype retry_phase = Selecting | Sending | Returned | Crashed panic

record 'w retry =
  rt_phase :: retry_phase
  rt_tick :: bool
  rt_quit :: bool
  rt_world :: 'w
  rt_sent :: "unit go list"

datatype retry_label = Tick | TakeTick | Answer | TakeQuit | WorldMoves

definition retry_start :: "'w \<Rightarrow> 'w retry" where
  "retry_start w = \<lparr>rt_phase = Selecting, rt_tick = False, rt_quit = False, rt_world = w, rt_sent = []\<rparr>"

text \<open>
  One case of the \<^verbatim>\<open>select\<close>: what the goroutine does once the request has returned. The panic of the
  request and the panic of a second \<^verbatim>\<open>close(quit)\<close> both end the process.
\<close>

fun after_request :: "unit go \<Rightarrow> 'w retry \<Rightarrow> 'w retry" where
  "after_request (Panic p) s = s\<lparr>rt_phase := Crashed p\<rparr>"
| "after_request (Fail e) s = s\<lparr>rt_phase := Selecting\<rparr>"
| "after_request (Ret _) s =
     (if rt_quit s then s\<lparr>rt_phase := Crashed CloseOfClosedChannel\<rparr>
      else s\<lparr>rt_phase := Selecting, rt_quit := True\<rparr>)"

definition answered :: "unit go \<times> 'w \<Rightarrow> 'w retry \<Rightarrow> 'w retry" where
  "answered a s = after_request (fst a) (s\<lparr>rt_world := snd a, rt_sent := rt_sent s @ [fst a]\<rparr>)"

text \<open>
  A tick is dropped when one is buffered already; with both channels ready, \<^verbatim>\<open>select\<close> takes either.
\<close>

inductive retry_step ::
  "('w \<Rightarrow> unit go \<times> 'w) \<Rightarrow> retry_label \<Rightarrow> 'w retry \<Rightarrow> 'w retry \<Rightarrow> bool"
  for send :: "'w \<Rightarrow> unit go \<times> 'w" where
  tick: "rt_phase s \<in> {Selecting, Sending} \<Longrightarrow> retry_step send Tick s (s\<lparr>rt_tick := True\<rparr>)"
| take_tick: "rt_phase s = Selecting \<Longrightarrow> rt_tick s \<Longrightarrow>
     retry_step send TakeTick s (s\<lparr>rt_phase := Sending, rt_tick := False\<rparr>)"
| answer: "rt_phase s = Sending \<Longrightarrow> retry_step send Answer s (answered (send (rt_world s)) s)"
| take_quit: "rt_phase s = Selecting \<Longrightarrow> rt_quit s \<Longrightarrow>
     retry_step send TakeQuit s (s\<lparr>rt_phase := Returned\<rparr>)"
| world_moves: "retry_step send WorldMoves s (s\<lparr>rt_world := w\<rparr>)"

inductive_cases retry_stepE: "retry_step send l s s'"

text \<open>A run whose steps come at the times \<open>timing\<close> allows, labelled by its steps.\<close>

inductive retry_run ::
  "(retry_label \<Rightarrow> 'w retry \<Rightarrow> bool) \<Rightarrow> ('w \<Rightarrow> unit go \<times> 'w) \<Rightarrow> 'w retry \<Rightarrow> retry_label list \<Rightarrow> 'w retry \<Rightarrow> bool"
  for timing :: "retry_label \<Rightarrow> 'w retry \<Rightarrow> bool" and send :: "'w \<Rightarrow> unit go \<times> 'w" and s0 :: "'w retry" where
  run_nil: "retry_run timing send s0 [] s0"
| run_step: "retry_run timing send s0 ls s \<Longrightarrow> timing l s \<Longrightarrow> retry_step send l s s' \<Longrightarrow>
     retry_run timing send s0 (ls @ [l]) s'"

definition any_time :: "retry_label \<Rightarrow> 'w retry \<Rightarrow> bool" where
  "any_time l s \<longleftrightarrow> True"

text \<open>Every request is answered, and a closed \<^verbatim>\<open>quit\<close> is noticed, before the next tick.\<close>

definition prompt :: "retry_label \<Rightarrow> 'w retry \<Rightarrow> bool" where
  "prompt l s \<longleftrightarrow> (l = Tick \<longrightarrow> rt_phase s = Selecting \<and> \<not> rt_quit s)"

text \<open>The goroutine of the agent.\<close>

definition asyncReportCreateRetry ::
  "(retry_label \<Rightarrow> 'w retry \<Rightarrow> bool) \<Rightarrow> ('w, 'u, 'i) report_lib \<Rightarrow> ('t, 'm, 'r, 'i) agent_env \<Rightarrow> 't agent
     \<Rightarrow> TrustAgentConfiguration \<Rightarrow> 'w \<Rightarrow> retry_label list \<Rightarrow> 'w retry \<Rightarrow> bool" where
  "asyncReportCreateRetry timing R env ag cfg w = retry_run timing (sendAsyncReportRequest R env ag cfg) (retry_start w)"

section \<open>Invariants\<close>

definition successes :: "'w retry \<Rightarrow> nat" where
  "successes s = length (filter is_Ret (rt_sent s))"

text \<open>
  How the phases, the channel and the answers agree. \<open>retry_inv\<close> holds in every reachable state.
\<close>

fun phase_ok :: "retry_phase \<Rightarrow> 'w retry \<Rightarrow> bool" where
  "phase_ok Selecting s \<longleftrightarrow> successes s = (if rt_quit s then 1 else 0)"
| "phase_ok Sending s \<longleftrightarrow> successes s = (if rt_quit s then 1 else 0)"
| "phase_ok Returned s \<longleftrightarrow> successes s = 1"
| "phase_ok (Crashed p) s \<longleftrightarrow>
     rt_sent s \<noteq> [] \<and> (last (rt_sent s) = Panic p \<or> p = CloseOfClosedChannel \<and> successes s = 2)"

definition retry_inv :: "'w retry \<Rightarrow> bool" where
  "retry_inv s \<longleftrightarrow> phase_ok (rt_phase s) s \<and> (rt_quit s \<longrightarrow> 1 \<le> successes s)"

lemma successes_update [simp]:
  "successes (s\<lparr>rt_phase := x\<rparr>) = successes s" "successes (s\<lparr>rt_tick := b\<rparr>) = successes s"
  "successes (s\<lparr>rt_quit := b\<rparr>) = successes s" "successes (s\<lparr>rt_world := w\<rparr>) = successes s"
  "successes (s\<lparr>rt_sent := rt_sent s @ [r]\<rparr>) = successes s + (if is_Ret r then 1 else 0)"
  by (simp_all add: successes_def)

lemma phase_ok_update [simp]:
  "phase_ok x (s\<lparr>rt_tick := b\<rparr>) = phase_ok x s" "phase_ok x (s\<lparr>rt_world := w\<rparr>) = phase_ok x s"
  "phase_ok x (s\<lparr>rt_phase := y\<rparr>) = phase_ok x s"
  by (cases x; simp)+

lemma retry_inv_start: "retry_inv (retry_start w)"
  by (simp add: retry_inv_def retry_start_def successes_def)

lemma answered_inv: "retry_inv s \<Longrightarrow> rt_phase s = Sending \<Longrightarrow> retry_inv (answered a s)"
  by (cases "fst a") (auto simp: answered_def retry_inv_def successes_def split: if_splits)

lemma retry_step_inv: "retry_step send l s s' \<Longrightarrow> retry_inv s \<Longrightarrow> retry_inv s'"
proof (induction rule: retry_step.induct)
  case (answer s)
  then show ?case by (simp add: answered_inv)
qed (auto simp: retry_inv_def split: if_splits)

lemma retry_run_inv: "retry_run timing send s0 ls s \<Longrightarrow> retry_inv s0 \<Longrightarrow> retry_inv s"
  by (induction rule: retry_run.induct) (auto intro: retry_step_inv)

text \<open>
  With prompt timing, a request is never under way while a tick is buffered or \<^verbatim>\<open>quit\<close> is closed, so
  that \<^verbatim>\<open>quit\<close> is not closed twice.
\<close>

definition prompt_inv :: "'w retry \<Rightarrow> bool" where
  "prompt_inv s \<longleftrightarrow> (rt_quit s \<longrightarrow> \<not> rt_tick s \<and> rt_phase s \<noteq> Sending) \<and> (rt_phase s = Sending \<longrightarrow> \<not> rt_tick s)"

lemma answered_prompt: "prompt_inv s \<Longrightarrow> rt_phase s = Sending \<Longrightarrow> prompt_inv (answered a s)"
  by (cases "fst a") (auto simp: prompt_inv_def answered_def)

lemma retry_step_prompt: "retry_step send l s s' \<Longrightarrow> prompt l s \<Longrightarrow> prompt_inv s \<Longrightarrow> prompt_inv s'"
proof (induction rule: retry_step.induct)
  case (answer s)
  then show ?case by (simp add: answered_prompt)
qed (auto simp: prompt_inv_def prompt_def)

lemma retry_run_prompt:
  "retry_run timing send s0 ls s \<Longrightarrow> (\<And>l s. timing l s \<Longrightarrow> prompt l s) \<Longrightarrow> prompt_inv s0 \<Longrightarrow> prompt_inv s"
  by (induction rule: retry_run.induct) (auto intro: retry_step_prompt)

lemma prompt_inv_start: "prompt_inv (retry_start w)"
  by (simp add: prompt_inv_def retry_start_def)

lemma no_double_close:
  "retry_step send l s s' \<Longrightarrow> prompt_inv s \<Longrightarrow> (l = Answer \<longrightarrow> fst (send (rt_world s)) \<noteq> Panic CloseOfClosedChannel) \<Longrightarrow>
     rt_phase s \<noteq> Crashed CloseOfClosedChannel \<Longrightarrow> rt_phase s' \<noteq> Crashed CloseOfClosedChannel"
proof (induction rule: retry_step.induct)
  case (answer s)
  then show ?case by (cases "fst (send (rt_world s))") (auto simp: answered_def prompt_inv_def)
qed auto

text \<open>One complete round: tick, request, success, return.\<close>

definition finished :: "'w retry \<Rightarrow> 'w \<Rightarrow> 'w retry" where
  "finished s w = s\<lparr>rt_tick := False, rt_world := w, rt_sent := rt_sent s @ [Ret ()], rt_quit := True, rt_phase := Returned\<rparr>"

lemma retry_round:
  assumes "retry_run prompt send s0 ls s" and "rt_phase s = Selecting" and "\<not> rt_quit s"
    and "send (rt_world s) = (Ret (), w)"
  shows "retry_run prompt send s0 (ls @ [Tick, TakeTick, Answer, TakeQuit]) (finished s w)"
proof -
  let ?s1 = "s\<lparr>rt_tick := True\<rparr>"
  let ?s2 = "?s1\<lparr>rt_phase := Sending, rt_tick := False\<rparr>"
  let ?s3 = "answered (send (rt_world ?s2)) ?s2"
  have r1: "retry_run prompt send s0 (ls @ [Tick]) ?s1"
    by (rule run_step [OF assms(1) _ retry_step.tick]) (simp_all add: assms prompt_def)
  have r2: "retry_run prompt send s0 ((ls @ [Tick]) @ [TakeTick]) ?s2"
    by (rule run_step [OF r1 _ retry_step.take_tick]) (simp_all add: assms prompt_def)
  have r3: "retry_run prompt send s0 (((ls @ [Tick]) @ [TakeTick]) @ [Answer]) ?s3"
    by (rule run_step [OF r2 _ retry_step.answer]) (simp_all add: prompt_def)
  have "retry_run prompt send s0 ((((ls @ [Tick]) @ [TakeTick]) @ [Answer]) @ [TakeQuit]) (?s3\<lparr>rt_phase := Returned\<rparr>)"
    by (rule run_step [OF r3 _ retry_step.take_quit]) (simp_all add: prompt_def answered_def assms)
  then show ?thesis by (simp add: answered_def assms finished_def)
qed

section \<open>Infinite executions of the goroutine\<close>

text \<open>
  An execution never ends: after the goroutine has, only the world moves. It is fair when the scheduler
  runs a goroutine that can take a step, and the ticker ticks again while the goroutine waits.
\<close>

definition retry_execution ::
  "(retry_label \<Rightarrow> 'w retry \<Rightarrow> bool) \<Rightarrow> ('w \<Rightarrow> unit go \<times> 'w) \<Rightarrow> (nat \<Rightarrow> 'w retry) \<Rightarrow> (nat \<Rightarrow> retry_label) \<Rightarrow> bool" where
  "retry_execution timing send st lab \<longleftrightarrow>
     (\<forall>i. timing (lab i) (st i) \<and> retry_step send (lab i) (st i) (st (Suc i)))"

text \<open>The steps of the goroutine itself, and when it can take one.\<close>

definition own_step :: "retry_label \<Rightarrow> bool" where
  "own_step l \<longleftrightarrow> l \<in> {TakeTick, Answer, TakeQuit}"

definition own_enabled :: "'w retry \<Rightarrow> bool" where
  "own_enabled s \<longleftrightarrow> rt_phase s = Sending \<or> rt_phase s = Selecting \<and> (rt_tick s \<or> rt_quit s)"

definition fair_execution :: "(nat \<Rightarrow> 'w retry) \<Rightarrow> (nat \<Rightarrow> retry_label) \<Rightarrow> bool" where
  "fair_execution st lab \<longleftrightarrow>
     (\<forall>i. \<exists>j \<ge> i. own_step (lab j) \<or> \<not> own_enabled (st j)) \<and>
     (\<forall>i. \<exists>j \<ge> i. lab j = Tick \<or> \<not> (rt_phase (st j) = Selecting \<and> \<not> rt_quit (st j)))"

lemma own_enabled_iff: "own_enabled s \<longleftrightarrow> (\<exists>l s'. own_step l \<and> retry_step send l s s')"
  by (auto simp: own_enabled_def own_step_def elim: retry_stepE intro: retry_step.intros)

text \<open>The number of own steps the goroutine can still take when HVS accepts its requests.\<close>

definition retry_rank :: "'w retry \<Rightarrow> nat" where
  "retry_rank s = (case rt_phase s of
     Selecting \<Rightarrow> if rt_quit s then 2 else 4 | Sending \<Rightarrow> if rt_quit s then 1 else 3 | _ \<Rightarrow> 0)"

definition accepted_step :: "('w \<Rightarrow> unit go \<times> 'w) \<Rightarrow> retry_label \<Rightarrow> 'w retry \<Rightarrow> bool" where
  "accepted_step send l s \<longleftrightarrow> (l = Answer \<longrightarrow> fst (send (rt_world s)) = Ret ())"

lemma own_step_rank:
  "retry_step send l s s' \<Longrightarrow> accepted_step send l s \<Longrightarrow> own_step l \<Longrightarrow> Suc (retry_rank s') \<le> retry_rank s"
  by (induction rule: retry_step.induct) (auto simp: own_step_def accepted_step_def retry_rank_def answered_def)

lemma other_step:
  "retry_step send l s s' \<Longrightarrow> \<not> own_step l \<Longrightarrow>
     rt_phase s' = rt_phase s \<and> rt_quit s' = rt_quit s \<and> rt_tick s' = (rt_tick s \<or> l = Tick) \<and>
     retry_rank s' = retry_rank s"
  by (induction rule: retry_step.induct) (auto simp: own_step_def retry_rank_def)

lemma accepted_phase:
  "retry_step send l s s' \<Longrightarrow> accepted_step send l s \<Longrightarrow>
     rt_phase s \<in> {Selecting, Sending, Returned, Crashed CloseOfClosedChannel} \<Longrightarrow>
     rt_phase s' \<in> {Selecting, Sending, Returned, Crashed CloseOfClosedChannel}"
  by (induction rule: retry_step.induct) (auto simp: accepted_step_def answered_def)

definition recovering ::
  "(retry_label \<Rightarrow> 'w retry \<Rightarrow> bool) \<Rightarrow> ('w \<Rightarrow> unit go \<times> 'w) \<Rightarrow> (nat \<Rightarrow> 'w retry) \<Rightarrow> (nat \<Rightarrow> retry_label) \<Rightarrow> bool" where
  "recovering timing send st lab \<longleftrightarrow> retry_execution timing send st lab \<and> fair_execution st lab \<and>
     (\<forall>i. accepted_step send (lab i) (st i))"

lemma recovering_step: "recovering timing send st lab \<Longrightarrow>
    timing (lab i) (st i) \<and> retry_step send (lab i) (st i) (st (Suc i)) \<and> accepted_step send (lab i) (st i)"
  by (simp add: recovering_def retry_execution_def)

lemma recovering_rank:
  assumes "recovering timing send st lab"
  shows "retry_rank (st (Suc i)) + (if own_step (lab i) then 1 else 0) \<le> retry_rank (st i)"
proof (cases "own_step (lab i)")
  case True
  then show ?thesis using recovering_step [OF assms, of i] own_step_rank [of send "lab i" "st i" "st (Suc i)"] by simp
next
  case False
  then show ?thesis using recovering_step [OF assms, of i] other_step [of send "lab i" "st i" "st (Suc i)"] by simp
qed

lemma rank_steps:
  assumes "recovering timing send st lab"
  shows "card {k. k < n \<and> own_step (lab k)} + retry_rank (st n) \<le> retry_rank (st 0)"
proof (induction n)
  case (Suc n)
  have "{k. k < Suc n \<and> own_step (lab k)} =
      (if own_step (lab n) then insert n {k. k < n \<and> own_step (lab k)} else {k. k < n \<and> own_step (lab k)})"
    by (auto simp: less_Suc_eq)
  then have "card {k. k < Suc n \<and> own_step (lab k)} =
      card {k. k < n \<and> own_step (lab k)} + (if own_step (lab n) then 1 else 0)"
    by (cases "own_step (lab n)") (simp_all only: if_True if_False, simp)
  then show ?case using Suc recovering_rank [OF assms, of n] by linarith
qed simp

lemma rank_mono: "i \<le> j \<Longrightarrow> recovering timing send st lab \<Longrightarrow> retry_rank (st j) \<le> retry_rank (st i)"
proof (induction rule: dec_induct)
  case (step n)
  then show ?case using recovering_rank [of timing send st lab n] by simp
qed simp

lemma stays_enabled:
  assumes "recovering timing send st lab" and "\<And>k. i \<le> k \<Longrightarrow> \<not> own_step (lab k)" and "i \<le> j"
  shows "rt_phase (st j) = rt_phase (st i) \<and> rt_quit (st j) = rt_quit (st i) \<and> (rt_tick (st i) \<longrightarrow> rt_tick (st j))"
  using assms(3)
proof (induction rule: dec_induct)
  case (step n)
  have "retry_step send (lab n) (st n) (st (Suc n))" using recovering_step [OF assms(1)] by blast
  from other_step [OF this assms(2)] show ?case using step by simp
qed simp

lemma enabled_acts:
  assumes "recovering timing send st lab" and "own_enabled (st i)"
  shows "\<exists>j \<ge> i. own_step (lab j)"
proof (rule ccontr)
  assume no: "\<not> (\<exists>j \<ge> i. own_step (lab j))"
  obtain j where "j \<ge> i" "own_step (lab j) \<or> \<not> own_enabled (st j)"
    using assms(1) unfolding recovering_def fair_execution_def by blast
  then show False using stays_enabled [OF assms(1), of i j] assms(2) no by (auto simp: own_enabled_def)
qed

lemma running_acts:
  assumes "recovering timing send st lab" and "rt_phase (st i) \<in> {Selecting, Sending}"
  shows "\<exists>j \<ge> i. own_step (lab j)"
proof (rule ccontr)
  assume no: "\<not> (\<exists>j \<ge> i. own_step (lab j))"
  then have idle: "\<not> own_enabled (st k)" if "k \<ge> i" for k using enabled_acts [OF assms(1), of k] that by force
  have waiting: "rt_phase (st k) = Selecting \<and> \<not> rt_quit (st k)" if "k \<ge> i" for k
    using stays_enabled [OF assms(1), of i k] no idle [of i] assms(2) that by (auto simp: own_enabled_def)
  obtain j where j: "j \<ge> i" "lab j = Tick"
    using assms(1) waiting unfolding recovering_def fair_execution_def by blast
  have "rt_tick (st (Suc j))"
    using recovering_step [OF assms(1), of j] other_step [of send Tick "st j"] j(2) by (simp add: own_step_def)
  then show False using idle [of "Suc j"] waiting [of "Suc j"] j by (simp add: own_enabled_def)
qed

lemma recovering_terminates: "recovering timing send st lab \<Longrightarrow> \<exists>n \<ge> i. rt_phase (st n) \<notin> {Selecting, Sending}"
proof (induction "retry_rank (st i)" arbitrary: i rule: less_induct)
  case less
  show ?case
  proof (cases "rt_phase (st i) \<in> {Selecting, Sending}")
    case True
    then obtain j where j: "j \<ge> i" "own_step (lab j)" using running_acts less(2) by blast
    have "retry_rank (st (Suc j)) < retry_rank (st i)"
      using recovering_rank [OF less(2), of j] rank_mono [OF j(1) less(2)] j(2) by simp
    from less(1) [OF this less(2)] show ?thesis using j(1) by (meson Suc_leD le_trans)
  qed auto
qed

lemma recovering_ends:
  assumes "recovering timing send st lab" and "rt_phase (st 0) \<in> {Selecting, Sending}"
  shows "\<exists>n. card {i. i < n \<and> own_step (lab i)} \<le> 4 \<and>
    (rt_phase (st n) = Returned \<or> rt_phase (st n) = Crashed CloseOfClosedChannel)"
proof -
  obtain n where n: "rt_phase (st n) \<notin> {Selecting, Sending}" using recovering_terminates [OF assms(1)] by blast
  have "rt_phase (st n) \<in> {Selecting, Sending, Returned, Crashed CloseOfClosedChannel}"
  proof (induction n)
    case (Suc n)
    then show ?case using recovering_step [OF assms(1), of n] accepted_phase by blast
  qed (use assms in auto)
  moreover have "retry_rank (st 0) \<le> 4" by (simp add: retry_rank_def split: retry_phase.split)
  then have "card {i. i < n \<and> own_step (lab i)} \<le> 4" using rank_steps [OF assms(1), of n] by linarith
  ultimately show ?thesis using n by auto
qed

lemma prompt_never_crashes:
  assumes "recovering timing send st lab" and "\<And>l s. timing l s \<Longrightarrow> prompt l s"
    and "prompt_inv (st 0)" and "rt_phase (st 0) \<in> {Selecting, Sending}"
  shows "rt_phase (st n) \<noteq> Crashed CloseOfClosedChannel"
proof -
  have "prompt_inv (st n) \<and> rt_phase (st n) \<noteq> Crashed CloseOfClosedChannel"
  proof (induction n)
    case (Suc n)
    have m: "retry_step send (lab n) (st n) (st (Suc n))" "prompt (lab n) (st n)" "accepted_step send (lab n) (st n)"
      using recovering_step [OF assms(1), of n] assms(2) by blast+
    show ?case
      using no_double_close [OF m(1)] retry_step_prompt [OF m(1,2)] m(3) Suc by (auto simp: accepted_step_def)
  qed (use assms in auto)
  then show ?thesis by simp
qed

lemma recovering_inv: "recovering timing send st lab \<Longrightarrow> retry_inv (st 0) \<Longrightarrow> retry_inv (st n)"
  by (induction n) (use recovering_step retry_step_inv in blast)+

section \<open>The life of the service process\<close>

text \<open>
  The case \<^verbatim>\<open>startService\<close> of \<^verbatim>\<open>main\<close> after the service has been created, for a service with
  operations \<open>start\<close> and \<open>stop\<close>. A signal reaches the \<^verbatim>\<open>stop\<close> channel only while \<^verbatim>\<open>main\<close> receives from
  it: the channel has no buffer and \<^verbatim>\<open>signal.Notify\<close> does not wait. \<^verbatim>\<open>stop <- syscall.SIGTERM\<close> after a
  failed start waits for a receiver. The retry goroutine runs beside \<^verbatim>\<open>main\<close>; its panic ends the process.
  The operating system can end the process at any time: \<^verbatim>\<open>SIGKILL\<close> cannot be caught, although \<^verbatim>\<open>main\<close> names it
  among the signals it registers for, and a signal \<^verbatim>\<open>main\<close> does not register for (\<^verbatim>\<open>SIGQUIT\<close>) kills as well.
\<close>

datatype life_phase = Starting | BlockedOnStop | Requesting | AwaitingStop | Stopping | Ended ending | Killed

record ('s, 'w) life =
  lf_phase :: life_phase
  lf_service :: 's
  lf_world :: 'w
  lf_retry :: "'w retry option"

definition life_start :: "'s \<Rightarrow> 'w \<Rightarrow> ('s, 'w) life" where
  "life_start svc w = \<lparr>lf_phase = Starting, lf_service = svc, lf_world = w, lf_retry = None\<rparr>"

fun after_start :: "unit go \<times> 's \<Rightarrow> ('s, 'w) life \<Rightarrow> ('s, 'w) life" where
  "after_start (Ret _, svc) s = s\<lparr>lf_phase := Requesting, lf_service := svc\<rparr>"
| "after_start (Fail e, svc) s = s\<lparr>lf_phase := BlockedOnStop, lf_service := svc\<rparr>"
| "after_start (Panic p, svc) s = s\<lparr>lf_phase := Ended (Recovered p), lf_service := svc\<rparr>"

fun after_first_request :: "unit go \<times> 'w \<Rightarrow> ('s, 'w) life \<Rightarrow> ('s, 'w) life" where
  "after_first_request (Ret _, w) s = s\<lparr>lf_phase := AwaitingStop, lf_world := w\<rparr>"
| "after_first_request (Fail e, w) s =
     s\<lparr>lf_phase := AwaitingStop, lf_world := w, lf_retry := Some (retry_start w)\<rparr>"
| "after_first_request (Panic p, w) s = s\<lparr>lf_phase := Ended (Recovered p), lf_world := w\<rparr>"

fun after_stop :: "unit go \<times> 's \<Rightarrow> ('s, 'w) life \<Rightarrow> ('s, 'w) life" where
  "after_stop (Ret _, svc) s = s\<lparr>lf_phase := Ended MainReturns, lf_service := svc\<rparr>"
| "after_stop (Fail e, svc) s = s\<lparr>lf_phase := Ended (Exit 1), lf_service := svc\<rparr>"
| "after_stop (Panic p, svc) s = s\<lparr>lf_phase := Ended (Recovered p), lf_service := svc\<rparr>"

fun is_Ended :: "life_phase \<Rightarrow> bool" where
  "is_Ended (Ended e) = True"
| "is_Ended Killed = True"
| "is_Ended _ = False"

definition after_retry :: "'w retry \<Rightarrow> ('s, 'w) life \<Rightarrow> ('s, 'w) life" where
  "after_retry r s =
     (case rt_phase r of
        Crashed p \<Rightarrow> s\<lparr>lf_phase := Ended (Exit 2), lf_retry := Some r\<rparr>
      | _ \<Rightarrow> s\<lparr>lf_retry := Some r\<rparr>)"

inductive life_step ::
  "('s \<Rightarrow> unit go \<times> 's) \<Rightarrow> ('s \<Rightarrow> unit go \<times> 's) \<Rightarrow> ('w \<Rightarrow> unit go \<times> 'w) \<Rightarrow> ('s, 'w) life \<Rightarrow> ('s, 'w) life \<Rightarrow> bool"
  for start stop :: "'s \<Rightarrow> unit go \<times> 's" and send :: "'w \<Rightarrow> unit go \<times> 'w" where
  starts: "lf_phase s = Starting \<Longrightarrow> life_step start stop send s (after_start (start (lf_service s)) s)"
| requests: "lf_phase s = Requesting \<Longrightarrow> life_step start stop send s (after_first_request (send (lf_world s)) s)"
| signal_taken: "lf_phase s = AwaitingStop \<Longrightarrow> life_step start stop send s (s\<lparr>lf_phase := Stopping\<rparr>)"
| signal_dropped: "lf_phase s \<noteq> AwaitingStop \<Longrightarrow> life_step start stop send s s"
| killed: "\<not> is_Ended (lf_phase s) \<Longrightarrow> life_step start stop send s (s\<lparr>lf_phase := Killed\<rparr>)"
| stops: "lf_phase s = Stopping \<Longrightarrow> life_step start stop send s (after_stop (stop (lf_service s)) s)"
| retry_moves: "\<not> is_Ended (lf_phase s) \<Longrightarrow> lf_retry s = Some r \<Longrightarrow> retry_step send l r r' \<Longrightarrow>
     life_step start stop send s (after_retry r' s)"

inductive life_run ::
  "('s \<Rightarrow> unit go \<times> 's) \<Rightarrow> ('s \<Rightarrow> unit go \<times> 's) \<Rightarrow> ('w \<Rightarrow> unit go \<times> 'w) \<Rightarrow> ('s, 'w) life \<Rightarrow> ('s, 'w) life \<Rightarrow> bool"
  for start stop :: "'s \<Rightarrow> unit go \<times> 's" and send :: "'w \<Rightarrow> unit go \<times> 'w" and s0 :: "('s, 'w) life" where
  life_nil: "life_run start stop send s0 s0"
| life_Suc: "life_run start stop send s0 s \<Longrightarrow> life_step start stop send s s' \<Longrightarrow> life_run start stop send s0 s'"

text \<open>What each phase says of the service, relative to the service that was created.\<close>

fun life_ok :: "('s \<Rightarrow> unit go \<times> 's) \<Rightarrow> ('s \<Rightarrow> unit go \<times> 's) \<Rightarrow> 's \<Rightarrow> life_phase \<Rightarrow> 's \<Rightarrow> bool" where
  "life_ok start stop svc0 Starting svc \<longleftrightarrow> svc = svc0"
| "life_ok start stop svc0 BlockedOnStop svc \<longleftrightarrow> (\<exists>e. start svc0 = (Fail e, svc))"
| "life_ok start stop svc0 (Ended MainReturns) svc \<longleftrightarrow>
     (\<exists>svc1. start svc0 = (Ret (), svc1) \<and> stop svc1 = (Ret (), svc))"
| "life_ok start stop svc0 (Ended (Exit n)) svc \<longleftrightarrow> n = 1 \<or> n = 2"
| "life_ok start stop svc0 (Ended (Recovered p)) svc \<longleftrightarrow> True"
| "life_ok start stop svc0 Killed svc \<longleftrightarrow> True"
| "life_ok start stop svc0 _ svc \<longleftrightarrow> start svc0 = (Ret (), svc)"

definition life_inv :: "('s \<Rightarrow> unit go \<times> 's) \<Rightarrow> ('s \<Rightarrow> unit go \<times> 's) \<Rightarrow> 's \<Rightarrow> ('s, 'w) life \<Rightarrow> bool" where
  "life_inv start stop svc0 s \<longleftrightarrow> life_ok start stop svc0 (lf_phase s) (lf_service s) \<and>
     (lf_retry s \<noteq> None \<longrightarrow> (\<exists>svc1. start svc0 = (Ret (), svc1)))"

lemma after_start_inv:
  "life_inv start stop svc0 s \<Longrightarrow> lf_phase s = Starting \<Longrightarrow> life_inv start stop svc0 (after_start (start (lf_service s)) s)"
  by (cases "start svc0"; cases "fst (start svc0)") (auto simp: life_inv_def)

lemma after_first_request_inv:
  "life_inv start stop svc0 s \<Longrightarrow> lf_phase s = Requesting \<Longrightarrow> life_inv start stop svc0 (after_first_request a s)"
  by (cases a; cases "fst a") (auto simp: life_inv_def)

lemma after_stop_inv:
  "life_inv start stop svc0 s \<Longrightarrow> lf_phase s = Stopping \<Longrightarrow> life_inv start stop svc0 (after_stop (stop (lf_service s)) s)"
  by (cases "stop (lf_service s)"; cases "fst (stop (lf_service s))") (auto simp: life_inv_def)

lemma after_retry_inv: "life_inv start stop svc0 s \<Longrightarrow> lf_retry s \<noteq> None \<Longrightarrow> life_inv start stop svc0 (after_retry r s)"
  by (auto simp: life_inv_def after_retry_def split: retry_phase.split)

lemma life_step_inv: "life_step start stop send s s' \<Longrightarrow> life_inv start stop svc0 s \<Longrightarrow> life_inv start stop svc0 s'"
  by (induction rule: life_step.induct)
    (auto simp: after_start_inv after_first_request_inv after_stop_inv after_retry_inv, auto simp: life_inv_def)

lemma life_run_inv: "life_run start stop send (life_start svc0 w) s \<Longrightarrow> life_inv start stop svc0 s"
proof (induction rule: life_run.induct)
  case life_nil
  show ?case by (simp add: life_start_def life_inv_def)
qed (rule life_step_inv)

text \<open>
  The interface \<^verbatim>\<open>TrustAgentService\<close> of \<^verbatim>\<open>service/service.go\<close>, as \<^verbatim>\<open>main\<close> uses it: a service that was started
  and stopped without error is stopped.
\<close>

locale managed_service =
  fixes start stop :: "'s \<Rightarrow> unit go \<times> 's" and stopped :: "'s \<Rightarrow> bool"
  assumes stop_stops: "start svc = (Ret (), svc1) \<Longrightarrow> stop svc1 = (Ret (), svc2) \<Longrightarrow> stopped svc2"
begin

lemma ends_stopped:
  assumes "life_run start stop send (life_start svc w) s" and "lf_phase s = Ended MainReturns"
  shows "stopped (lf_service s) \<and> (\<exists>svc1. start svc = (Ret (), svc1) \<and> stop svc1 = (Ret (), lf_service s))"
  using life_run_inv [OF assms(1)] assms(2) stop_stops by (auto simp: life_inv_def)

lemma failed_start_blocks:
  assumes "start svc = (Fail e, svc')" and "life_run start stop send (life_start svc w) s"
  shows "lf_phase s = Starting \<or> lf_phase s = Killed \<or>
    lf_phase s = BlockedOnStop \<and> (\<forall>s'. life_step start stop send s s' \<longrightarrow> s' = s \<or> lf_phase s' = Killed)"
proof -
  have "lf_retry s = None \<and>
      (lf_phase s = Starting \<and> lf_service s = svc \<or> lf_phase s = BlockedOnStop \<or> lf_phase s = Killed)"
    using assms(2)
  proof (induction rule: life_run.induct)
    case (life_Suc s s')
    from life_Suc(2,3) show ?case by (cases rule: life_step.cases) (auto simp: assms(1))
  qed (simp add: life_start_def)
  then show ?thesis by (auto elim: life_step.cases)
qed

end

text \<open>Both services keep the contract: no subscription is left, and the server is shut down.\<close>

fun service_stopped :: "ta_service \<Rightarrow> bool" where
  "service_stopped (OutboundService s) \<longleftrightarrow> subs s = []"
| "service_stopped (HttpService s) \<longleftrightarrow> (\<exists>srv. server s = Some srv \<and> http_shut_down srv)"

interpretation service_life: managed_service "service_Start lib W" "service_Stop W" service_stopped for lib W
proof unfold_locales
  fix svc svc1 svc2
  assume "service_Start lib W svc = (Ret (), svc1)" and "service_Stop W svc1 = (Ret (), svc2)"
  then show "service_stopped svc2"
    by (cases svc)
      (auto simp: outbound_Stop_def web_service_Start_def web_service_Stop_def Let_def map_prod_def
        split: if_splits prod.splits option.splits)
qed

section \<open>Properties\<close>

text \<open>
  The request for a report returns an error, and so is repeated, exactly when HVS could not be
  asked for the host (and the error's text does not contain 401) or answered the report request with
  an error other than 401; a missing client, unreadable host information or an unknown host end the
  attempts.
\<close>

lemma report_retried_iff:
  "(\<exists>e. fst (sendAsyncReportRequest R env ag cfg w) = Fail e) \<longleftrightarrow>
     NewVSClientFactory R (HVS_Url cfg) (ApiToken cfg) TrustedCaCertsDir = None \<and> NewHostsClient R = None \<and>
     (\<exists>pInfo u. ReadHostInfo env ag = Ret pInfo \<and> uuid_Parse R (hardware_uuid R pInfo) = Some u \<and>
        ((\<exists>e. SearchHostsByUUID R w u = Fail e \<and> \<not> sublist ''401'' (error_text R e)) \<or>
         (\<exists>n e rsp. SearchHostsByUUID R w u = Ret n \<and> 0 < n \<and> NewReportsClient R = None \<and>
            fst (CreateReportAsync R w u) = (Some e, rsp) \<and> rsp \<noteq> Some 401)))"
proof -
  have c: "(\<exists>e. fst (create_report R h w) = Fail e) \<longleftrightarrow>
      NewReportsClient R = None \<and> (\<exists>e rsp. fst (CreateReportAsync R w u) = (Some e, rsp) \<and> rsp \<noteq> Some 401)"
    if "uuid_Parse R h = Some u" for h u
    using that
    by (cases "CreateReportAsync R w u"; cases "fst (CreateReportAsync R w u)")
      (auto simp: create_report_def uuid_MustParse_def StatusUnauthorized_def split: option.split)
  show ?thesis
  proof (cases "ReadHostInfo env ag")
    case (Ret pInfo)
    show ?thesis
    proof (cases "uuid_Parse R (hardware_uuid R pInfo)")
      case (Some u)
      then show ?thesis
        using Ret c [OF Some]
        by (cases "SearchHostsByUUID R w u")
          (auto simp: sendAsyncReportRequest_def uuid_MustParse_def str_contains_iff)
    qed (use Ret in \<open>simp add: sendAsyncReportRequest_def uuid_MustParse_def\<close>)
  qed (simp_all add: sendAsyncReportRequest_def)
qed

text \<open>
  C16: in every reachable state of the retry goroutine, whatever the times of its ticks: while it runs
  at most one request has succeeded, and one has when \<^verbatim>\<open>quit\<close> is closed; when it has returned, exactly
  one has; when it crashed, its last request panicked or \<^verbatim>\<open>quit\<close> was closed for the second time, after
  two successful requests.
\<close>

theorem retry_reachable:
  assumes "asyncReportCreateRetry timing R env ag cfg w ls s"
  shows "case rt_phase s of
      Crashed p \<Rightarrow> rt_sent s \<noteq> [] \<and> (last (rt_sent s) = Panic p \<or> p = CloseOfClosedChannel \<and> successes s = 2)
    | Returned \<Rightarrow> successes s = 1
    | _ \<Rightarrow> successes s = (if rt_quit s then 1 else 0)"
  using retry_run_inv [OF assms [unfolded asyncReportCreateRetry_def] retry_inv_start]
  by (auto simp: retry_inv_def split: retry_phase.split)

text \<open>The library, host and configuration of the examples: HVS counts the requests it accepts.\<close>

definition sample_reports :: "(nat, unit, unit) report_lib" where
  "sample_reports =
     \<lparr>NewVSClientFactory = (\<lambda>u t d. None), NewHostsClient = None, NewReportsClient = None,
      SearchHostsByUUID = (\<lambda>w u. Ret 1), CreateReportAsync = (\<lambda>w u. ((None, Some 202), Suc w)),
      error_text = (\<lambda>e. []), hardware_uuid = (\<lambda>i. []), uuid_Parse = (\<lambda>s. Some ())\<rparr>"

definition sample_platform :: "soft_tpm agent" where
  "sample_platform = with_file PlatformInfoFilePath [] sample_agent"

lemma sample_report_sent:
  "sendAsyncReportRequest sample_reports sample_agent_env sample_platform empty_config w = (Ret (), Suc w)"
  by (simp add: sendAsyncReportRequest_def create_report_def uuid_MustParse_def sample_reports_def
      ReadHostInfo_def sample_platform_def os_Stat_def ioutil_ReadFile_def os_Open_def sample_agent_env_def
      StatusUnauthorized_def)

text \<open>
  C35: a request that takes longer than the retry interval can bring the agent down: when a tick
  arrives while a request is under way that then succeeds, and the next request succeeds too, \<^verbatim>\<open>quit\<close>
  is closed twice. The panic is in a goroutine that does not recover it.
\<close>

theorem retry_overlap_crashes:
  assumes "sendAsyncReportRequest R env ag cfg w = (Ret (), w1)"
    and "sendAsyncReportRequest R env ag cfg w1 = (Ret (), w2)"
  shows "\<exists>s. asyncReportCreateRetry any_time R env ag cfg w [Tick, TakeTick, Tick, Answer, TakeTick, Answer] s \<and>
    rt_phase s = Crashed CloseOfClosedChannel"
proof -
  let ?send = "sendAsyncReportRequest R env ag cfg"
  let ?run = "retry_run any_time ?send (retry_start w)"
  define s1 where "s1 = (retry_start w)\<lparr>rt_tick := True\<rparr>"
  define s2 where "s2 = s1\<lparr>rt_phase := Sending, rt_tick := False\<rparr>"
  define s3 where "s3 = s2\<lparr>rt_tick := True\<rparr>"
  define s4 where "s4 = answered (?send (rt_world s3)) s3"
  define s5 where "s5 = s4\<lparr>rt_phase := Sending, rt_tick := False\<rparr>"
  define s6 where "s6 = answered (?send (rt_world s5)) s5"
  have s4: "s4 = s3\<lparr>rt_world := w1, rt_sent := [Ret ()], rt_phase := Selecting, rt_quit := True\<rparr>"
    using assms(1) by (simp add: s4_def s3_def s2_def s1_def retry_start_def answered_def)
  have s6: "rt_phase s6 = Crashed CloseOfClosedChannel"
    using assms(2) by (simp add: s6_def s5_def s4 answered_def)
  have t: "any_time l s" for l and s :: "'a retry" by (simp add: any_time_def)
  have r0: "?run [] (retry_start w)" by (rule run_nil)
  have r1: "?run ([] @ [Tick]) s1"
    unfolding s1_def by (rule run_step [OF r0 t], rule retry_step.tick) (simp add: retry_start_def)
  have r2: "?run (([] @ [Tick]) @ [TakeTick]) s2"
    unfolding s2_def by (rule run_step [OF r1 t], rule retry_step.take_tick) (simp_all add: s1_def retry_start_def)
  have r3: "?run ((([] @ [Tick]) @ [TakeTick]) @ [Tick]) s3"
    unfolding s3_def by (rule run_step [OF r2 t], rule retry_step.tick) (simp add: s2_def)
  have r4: "?run (((([] @ [Tick]) @ [TakeTick]) @ [Tick]) @ [Answer]) s4"
    unfolding s4_def by (rule run_step [OF r3 t], rule retry_step.answer) (simp add: s3_def s2_def)
  have r5: "?run ((((([] @ [Tick]) @ [TakeTick]) @ [Tick]) @ [Answer]) @ [TakeTick]) s5"
    unfolding s5_def by (rule run_step [OF r4 t], rule retry_step.take_tick) (simp_all add: s4 s3_def)
  have "?run (((((([] @ [Tick]) @ [TakeTick]) @ [Tick]) @ [Answer]) @ [TakeTick]) @ [Answer]) s6"
    unfolding s6_def by (rule run_step [OF r5 t], rule retry_step.answer) (simp add: s5_def)
  then show ?thesis using s6 by (auto simp: asyncReportCreateRetry_def)
qed

theorem retry_overlap_crashes_witness:
  "\<exists>s. asyncReportCreateRetry any_time sample_reports sample_agent_env sample_platform empty_config 0
     [Tick, TakeTick, Tick, Answer, TakeTick, Answer] s \<and> rt_phase s = Crashed CloseOfClosedChannel"
  by (rule retry_overlap_crashes [OF sample_report_sent sample_report_sent])

theorem retry_reachable_witness:
  "\<exists>s. asyncReportCreateRetry prompt sample_reports sample_agent_env sample_platform empty_config 0
     [Tick, TakeTick, Answer, TakeQuit] s \<and> rt_phase s = Returned \<and> successes s = 1"
proof -
  have "retry_run prompt (sendAsyncReportRequest sample_reports sample_agent_env sample_platform empty_config)
      (retry_start 0) ([] @ [Tick, TakeTick, Answer, TakeQuit]) (finished (retry_start 0) 1)"
    by (rule retry_round [OF run_nil]) (simp_all add: retry_start_def sample_report_sent)
  then have r: "asyncReportCreateRetry prompt sample_reports sample_agent_env sample_platform empty_config 0
      [Tick, TakeTick, Answer, TakeQuit] (finished (retry_start 0) 1)" by (simp add: asyncReportCreateRetry_def)
  have "successes (finished (retry_start 0) (1 :: nat)) = 1" using retry_reachable [OF r] by (simp add: finished_def)
  then show ?thesis using r by (auto simp: finished_def)
qed

text \<open>
  When every request is answered, and a closed \<^verbatim>\<open>quit\<close> is noticed, before the next tick, the only step
  of the goroutine after a successful request is to return.
\<close>

lemma retry_prompt_safe:
  assumes "asyncReportCreateRetry prompt R env ag cfg w ls s" and "rt_quit s"
    and "retry_step (sendAsyncReportRequest R env ag cfg) l s s'" and "prompt l s"
  shows "l = WorldMoves \<or> l = TakeQuit \<and> rt_phase s' = Returned"
proof -
  have "prompt_inv s"
    using retry_run_prompt [OF assms(1) [unfolded asyncReportCreateRetry_def] _ prompt_inv_start] by simp
  then show ?thesis using assms(2-4) by (auto simp: prompt_inv_def prompt_def elim: retry_stepE)
qed

text \<open>
  C23: the retries end when HVS recovers: take any reachable state in which the goroutine has not ended,
  and any infinite execution from there in which every request that is answered succeeds. If the
  scheduler runs the goroutine whenever it can take a step and the ticker goes on ticking while it waits,
  then after at most four steps of its own the goroutine has returned, with exactly one successful
  request, or has crashed by closing \<^verbatim>\<open>quit\<close> twice; and it has returned whenever no tick comes while a
  request is under way or a closed \<^verbatim>\<open>quit\<close> is not yet noticed.
\<close>

theorem retry_recovers:
  assumes "asyncReportCreateRetry timing R env ag cfg w ls (st 0)" and "rt_phase (st 0) \<in> {Selecting, Sending}"
    and "retry_execution timing (sendAsyncReportRequest R env ag cfg) st lab" and "fair_execution st lab"
    and "\<forall>i. lab i = Answer \<longrightarrow> fst (sendAsyncReportRequest R env ag cfg (rt_world (st i))) = Ret ()"
  shows "\<exists>n. card {i. i < n \<and> own_step (lab i)} \<le> 4 \<and>
    (rt_phase (st n) = Returned \<and> successes (st n) = 1 \<or> rt_phase (st n) = Crashed CloseOfClosedChannel) \<and>
    ((\<forall>l s. timing l s \<longrightarrow> prompt l s) \<longrightarrow> rt_phase (st n) = Returned)"
proof -
  note run = assms(1) [unfolded asyncReportCreateRetry_def]
  have ex: "recovering timing (sendAsyncReportRequest R env ag cfg) st lab"
    using assms(3-5) by (simp add: recovering_def accepted_step_def)
  obtain n where n: "card {i. i < n \<and> own_step (lab i)} \<le> 4"
    "rt_phase (st n) = Returned \<or> rt_phase (st n) = Crashed CloseOfClosedChannel"
    using recovering_ends [OF ex assms(2)] by blast
  have "retry_inv (st n)" by (rule recovering_inv [OF ex retry_run_inv [OF run retry_inv_start]])
  moreover have "rt_phase (st n) \<noteq> Crashed CloseOfClosedChannel" if "\<forall>l s. timing l s \<longrightarrow> prompt l s"
    using that prompt_never_crashes [OF ex _ retry_run_prompt [OF run _ prompt_inv_start] assms(2)] by blast
  ultimately show ?thesis using n by (intro exI [of _ n]) (auto simp: retry_inv_def)
qed

text \<open>An execution of the example: a tick, a request that succeeds, and the return.\<close>

definition sample_states :: "nat \<Rightarrow> nat retry" where
  "sample_states n =
     (let s = retry_start 0 in
      if n = 0 then s else if n = 1 then s\<lparr>rt_tick := True\<rparr> else if n = 2 then s\<lparr>rt_phase := Sending\<rparr>
      else if n = 3 then s\<lparr>rt_world := 1, rt_sent := [Ret ()], rt_quit := True\<rparr>
      else s\<lparr>rt_world := 1, rt_sent := [Ret ()], rt_quit := True, rt_phase := Returned\<rparr>)"

definition sample_labels :: "nat \<Rightarrow> retry_label" where
  "sample_labels n = (if n = 0 then Tick else if n = 1 then TakeTick else if n = 2 then Answer
     else if n = 3 then TakeQuit else WorldMoves)"

lemma sample_execution:
  "retry_execution prompt (sendAsyncReportRequest sample_reports sample_agent_env sample_platform empty_config)
     sample_states sample_labels"
proof -
  let ?send = "sendAsyncReportRequest sample_reports sample_agent_env sample_platform empty_config"
  have "retry_step ?send (sample_labels i) (sample_states i) (sample_states (Suc i)) \<and>
      prompt (sample_labels i) (sample_states i)" for i
  proof -
    consider "i = 0" | "i = 1" | "i = 2" | "i = 3" | "4 \<le> i" by linarith
    then show ?thesis
    proof cases
      case 1
      then show ?thesis
        using tick [of "sample_states 0" ?send] by (simp add: sample_states_def sample_labels_def retry_start_def prompt_def)
    next
      case 2
      then show ?thesis
        using take_tick [of "sample_states 1" ?send] by (simp add: sample_states_def sample_labels_def retry_start_def prompt_def)
    next
      case 3
      then show ?thesis
        using answer [of "sample_states 2" ?send]
        by (simp add: sample_states_def sample_labels_def retry_start_def prompt_def answered_def sample_report_sent)
    next
      case 4
      then show ?thesis
        using take_quit [of "sample_states 3" ?send] by (simp add: sample_states_def sample_labels_def retry_start_def prompt_def)
    next
      case 5
      then show ?thesis
        using world_moves [of ?send "sample_states 4" 1] by (simp add: sample_states_def sample_labels_def retry_start_def prompt_def)
    qed
  qed
  then show ?thesis by (simp add: retry_execution_def)
qed

theorem retry_recovers_witness: "\<exists>n. rt_phase (sample_states n) = Returned \<and> successes (sample_states n) = 1"
proof -
  have ends: "rt_phase (sample_states j) = Returned" if "4 \<le> j" for j using that by (simp add: sample_states_def Let_def)
  have "fair_execution sample_states sample_labels"
    unfolding fair_execution_def
  proof (intro conjI allI)
    show "\<exists>j \<ge> i. own_step (sample_labels j) \<or> \<not> own_enabled (sample_states j)" for i
      using ends [of "max i 4"] by (intro exI [of _ "max i 4"]) (simp add: own_enabled_def)
    show "\<exists>j \<ge> i. sample_labels j = Tick \<or> \<not> (rt_phase (sample_states j) = Selecting \<and> \<not> rt_quit (sample_states j))" for i
      using ends [of "max i 4"] by (intro exI [of _ "max i 4"]) simp
  qed
  moreover have "asyncReportCreateRetry prompt sample_reports sample_agent_env sample_platform empty_config 0 [] (sample_states 0)"
    by (simp add: asyncReportCreateRetry_def run_nil sample_states_def)
  moreover have "rt_phase (sample_states 0) \<in> {Selecting, Sending}" by (simp add: sample_states_def retry_start_def)
  ultimately show ?thesis
    using retry_recovers [OF _ _ sample_execution] by (fastforce simp: sample_report_sent)
qed

text \<open>
  C36: an agent in outbound mode whose service fails to start, because \<^verbatim>\<open>nats.Connect\<close> returned an
  error (unreadable credentials, say), hangs: \<^verbatim>\<open>main\<close> sends to its own unbuffered \<^verbatim>\<open>stop\<close> channel and
  never gets to receive from it, so that the signals it can catch are lost, in every order of events;
  the process never gets on or returns, and only the operating system can end it (\<^verbatim>\<open>SIGKILL\<close>).
\<close>

theorem failed_start_hangs:
  assumes "nats_Connect lib (join_with CHR '','' (Servers (natsParameters svc)))
      (connect_options lib (natsParameters svc)) = Some e"
    and "life_run (service_Start lib W) (service_Stop W) send (life_start (OutboundService svc) w) s"
  shows "lf_phase s = Starting \<or> lf_phase s = Killed \<or>
    lf_phase s = BlockedOnStop \<and>
      (\<forall>s'. life_step (service_Start lib W) (service_Stop W) send s s' \<longrightarrow> s' = s \<or> lf_phase s' = Killed)"
  by (rule service_life.failed_start_blocks [OF _ assms(2)]) (simp add: outbound_Start_def assms(1))

text \<open>An outbound service and a web service on port 1443, for the examples.\<close>

definition sample_outbound :: outbound_service where
  "sample_outbound =
     \<lparr>natsParameters = \<lparr>Servers = [''nats''], HostID = ''h'', CredentialFile = NatsCredentials,
        nats_TrustedCaCertsDir = TrustedCaCertsDir\<rparr>, natsConnection = False, subs = []\<rparr>"

definition sample_web_lib :: web_lib where
  "sample_web_lib = \<lparr>open_http_log = None, Shutdown = (\<lambda>srv. None)\<rparr>"

theorem failed_start_hangs_witness:
  "\<exists>s. life_run (service_Start (sample_nats\<lparr>nats_Connect := \<lambda>u h. Some EOF\<rparr>) sample_web_lib) (service_Stop sample_web_lib)
       (\<lambda>w. (Ret (), w)) (life_start (OutboundService sample_outbound) ()) s \<and> lf_phase s = BlockedOnStop"
proof -
  let ?start = "service_Start (sample_nats\<lparr>nats_Connect := \<lambda>u h. Some EOF\<rparr>) sample_web_lib"
  let ?s0 = "life_start (OutboundService sample_outbound) ()"
  have run: "life_run ?start (service_Stop sample_web_lib) (\<lambda>w. (Ret (), w)) ?s0
      (after_start (?start (lf_service ?s0)) ?s0)"
    by (rule life_Suc [OF life_nil starts]) (simp add: life_start_def)
  have "lf_phase (after_start (?start (lf_service ?s0)) ?s0) \<notin> {Starting, Killed}"
    by (simp add: life_start_def outbound_Start_def)
  then show ?thesis using failed_start_hangs [OF _ run] run by fastforce
qed

text \<open>
  C24: the process ends normally only in order, whichever service it runs: when \<^verbatim>\<open>main\<close> has returned from
  \<^verbatim>\<open>startService\<close> without a panic, the service had started, was stopped afterwards without error, and is
  stopped: the outbound service holds no subscription, the server of the web service is shut down.
\<close>

theorem service_stops_in_order:
  assumes "life_run (service_Start lib W) (service_Stop W) send (life_start svc w) s"
    and "lf_phase s = Ended MainReturns"
  shows "(case lf_service s of
      OutboundService s' \<Rightarrow> natsConnection s' \<and> subs s' = []
    | HttpService s' \<Rightarrow> \<exists>srv. server s' = Some srv \<and> http_shut_down srv) \<and>
    (\<exists>svc1. service_Start lib W svc = (Ret (), svc1) \<and> service_Stop W svc1 = (Ret (), lf_service s))"
proof -
  obtain svc1 where "service_Start lib W svc = (Ret (), svc1)" and
    stop: "service_Stop W svc1 = (Ret (), lf_service s)" and stopped: "service_stopped (lf_service s)"
    using service_life.ends_stopped [OF assms] by blast
  moreover have "natsConnection s'" if "lf_service s = OutboundService s'" for s'
    using stop that by (cases svc1) (auto simp: outbound_Stop_def map_prod_def split: if_splits prod.splits)
  ultimately show ?thesis by (cases "lf_service s") auto
qed

text \<open>The steps of an orderly life: start, first request, signal, stop.\<close>

lemma orderly_life:
  assumes "start svc = (Ret (), svc1)" and "send w = (Ret (), w1)" and "stop svc1 = (Ret (), svc2)"
  shows "\<exists>s. life_run start stop send (life_start svc w) s \<and> lf_phase s = Ended MainReturns \<and> lf_service s = svc2"
proof -
  let ?run = "life_run start stop send (life_start svc w)"
  define s1 where "s1 = after_start (start (lf_service (life_start svc w))) (life_start svc w)"
  define s2 where "s2 = after_first_request (send (lf_world s1)) s1"
  define s3 where "s3 = s2\<lparr>lf_phase := Stopping\<rparr>"
  define s4 where "s4 = after_stop (stop (lf_service s3)) s3"
  have r1: "?run s1" unfolding s1_def by (rule life_Suc [OF life_nil starts]) (simp add: life_start_def)
  have r2: "?run s2" unfolding s2_def
    by (rule life_Suc [OF r1], rule life_step.requests) (simp add: s1_def life_start_def assms)
  have r3: "?run s3" unfolding s3_def
    by (rule life_Suc [OF r2 signal_taken]) (simp add: s2_def s1_def life_start_def assms)
  have "?run s4" unfolding s4_def by (rule life_Suc [OF r3 stops]) (simp add: s3_def)
  moreover have "lf_phase s4 = Ended MainReturns" "lf_service s4 = svc2"
    by (simp_all add: s4_def s3_def s2_def s1_def life_start_def assms)
  ultimately show ?thesis by blast
qed

theorem service_stops_in_order_witness:
  "\<exists>s. life_run (service_Start sample_nats sample_web_lib) (service_Stop sample_web_lib) (\<lambda>w. (Ret (), w))
       (life_start (OutboundService sample_outbound) ()) s \<and> lf_phase s = Ended MainReturns \<and>
     (\<exists>s'. lf_service s = OutboundService s' \<and> natsConnection s' \<and> subs s' = [])"
proof -
  let ?start = "service_Start sample_nats sample_web_lib" and ?stop = "service_Stop sample_web_lib"
  let ?svc1 = "snd (?start (OutboundService sample_outbound))"
  have "?start (OutboundService sample_outbound) = (Ret (), ?svc1)"
    by (simp add: outbound_Start_def sample_nats_def outbound_subscriptions_def Let_def)
  moreover have "\<exists>svc2. ?stop ?svc1 = (Ret (), OutboundService svc2)"
    by (simp add: outbound_Start_def outbound_Stop_def sample_nats_def outbound_subscriptions_def Let_def)
  then obtain svc2 where "?stop ?svc1 = (Ret (), OutboundService svc2)" ..
  ultimately obtain s where "life_run ?start ?stop (\<lambda>w. (Ret (), w)) (life_start (OutboundService sample_outbound) ()) s"
    and "lf_phase s = Ended MainReturns" and "lf_service s = OutboundService svc2"
    using orderly_life [of ?start "OutboundService sample_outbound" ?svc1 "\<lambda>w. (Ret (), w)" "()" "()" ?stop] by blast
  then show ?thesis using service_stops_in_order [of sample_nats sample_web_lib] by fastforce
qed

end
