(* ===== verification/Task_Runner.thy ===== *)
theory Task_Runner
  imports Hvs_Tasks Aik_Provisioning Manifest_Task
begin

text \<open>
  \<^verbatim>\<open>tasks/task_runner.go\<close>: the tasks of a setup command with what they are given, and the tasks together on
  the state they share (configuration, TPM, files, HVS), one after the other. The runner, the two download
  tasks of the setup library and the clients are parameters.
\<close>

section \<open>The tasks\<close>

text \<open>A factory of HVS clients for a URL, a token and a directory of certificates; nil is \<open>None\<close>.\<close>

record vs_factory =
  vs_Url :: string
  vs_BearerToken :: string
  vs_CaCertsDir :: string

text \<open>The tasks of the setup library that download the CA and the TLS certificate.\<close>

record ca_cert_task =
  ca_Flags :: "string list"
  ca_CmsBaseURL :: string
  CaCertDirPath :: string
  TrustedTlsCertDigest :: string

record tls_cert_task =
  tls_Flags :: "string list"
  tls_KeyFile :: string
  tls_CertFile :: string
  KeyAlgorithm :: string
  KeyAlgorithmLength :: nat
  tls_CmsBaseURL :: string
  CommonName :: string
  SanList :: string
  CertType :: string
  tls_CaCertsDir :: string
  tls_BearerToken :: string

datatype setup_task =
    TakeOwnershipTask bool string
  | DownloadRootCACert ca_cert_task
  | DownloadTLSCert tls_cert_task
  | ProvisionAik "vs_factory option" bool string
  | DownloadPrivacyCA "vs_factory option"
  | ProvisionPrimaryKeyTask bool string
  | DownloadCredential string string
  | CreateHostUniqueFlavor "vs_factory option" int
  | GetConfiguredManifestTask "vs_factory option"
  | CreateHost "vs_factory option" int
  | UpdateServiceConfigTask
  | DefineTagIndexTask bool string
  | DownloadApiToken string string

text \<open>The names of the setup commands.\<close>

definition DefaultSetupCommand :: string where "DefaultSetupCommand = ''all''"
definition DownloadRootCACertCommand :: string where "DownloadRootCACertCommand = ''download-ca-cert''"
definition DownloadCertCommand :: string where "DownloadCertCommand = ''download-cert''"
definition TakeOwnershipCommand :: string where "TakeOwnershipCommand = ''take-ownership''"
definition ProvisionAttestationIdentityKeyCommand :: string where "ProvisionAttestationIdentityKeyCommand = ''provision-aik''"
definition DownloadPrivacyCACommand :: string where "DownloadPrivacyCACommand = ''download-privacy-ca''"
definition ProvisionPrimaryKeyCommand :: string where "ProvisionPrimaryKeyCommand = ''provision-primary-key''"
definition CreateHostCommand :: string where "CreateHostCommand = ''create-host''"
definition CreateHostUniqueFlavorCommand :: string where "CreateHostUniqueFlavorCommand = ''create-host-unique-flavor''"
definition GetConfiguredManifestCommand :: string where "GetConfiguredManifestCommand = ''get-configured-manifest''"
definition ProvisionAttestationCommand :: string where "ProvisionAttestationCommand = ''provision-attestation''"
definition UpdateCertificatesCommand :: string where "UpdateCertificatesCommand = ''update-certificates''"
definition UpdateServiceConfigCommand :: string where "UpdateServiceConfigCommand = ''update-service-config''"
definition DefineTagIndexCommand :: string where "DefineTagIndexCommand = ''define-tag-index''"
definition DownloadCredentialCommand :: string where "DownloadCredentialCommand = ''download-credential''"
definition DownloadApiTokenCommand :: string where "DownloadApiTokenCommand = ''download-api-token''"

lemmas command_names = DefaultSetupCommand_def DownloadRootCACertCommand_def DownloadCertCommand_def
  TakeOwnershipCommand_def ProvisionAttestationIdentityKeyCommand_def DownloadPrivacyCACommand_def
  ProvisionPrimaryKeyCommand_def CreateHostCommand_def CreateHostUniqueFlavorCommand_def
  GetConfiguredManifestCommand_def ProvisionAttestationCommand_def UpdateCertificatesCommand_def
  UpdateServiceConfigCommand_def DefineTagIndexCommand_def DownloadCredentialCommand_def
  DownloadApiTokenCommand_def

declare command_names [simp]

text \<open>
  What \<^verbatim>\<open>CreateTaskRunner\<close> reads beside the configuration: the environment, the results of creating the two
  factories and the host's hardware UUID. TPM factories are Booleans (present or nil).
\<close>

record runner_env =
  LookupEnv :: "string \<Rightarrow> string option"
  hvs_factory_error :: "vs_factory \<Rightarrow> go_error option"
  tpm_factory_error :: "go_error option"
  HostHardwareUUID :: string

definition Getenv_of :: "('a) runner_env_scheme \<Rightarrow> string \<Rightarrow> string" where
  "Getenv_of E v = (case LookupEnv E v of None \<Rightarrow> [] | Some s \<Rightarrow> s)"

definition owner_secret :: "('a) runner_env_scheme \<Rightarrow> string" where
  "owner_secret E = (case LookupEnv E EnvTPMOwnerSecret of None \<Rightarrow> [] | Some s \<Rightarrow> s)"

definition hvs_commands :: "string list" where
  "hvs_commands = [DefaultSetupCommand, ProvisionAttestationIdentityKeyCommand, ProvisionAttestationCommand, DownloadPrivacyCACommand,
     CreateHostCommand, CreateHostUniqueFlavorCommand, GetConfiguredManifestCommand]"

definition tpm_commands :: "string list" where
  "tpm_commands = [TakeOwnershipCommand, ProvisionPrimaryKeyCommand, DefineTagIndexCommand]"

definition factory_commands :: "string list" where
  "factory_commands = [DefaultSetupCommand, ProvisionAttestationIdentityKeyCommand, ProvisionAttestationCommand, TakeOwnershipCommand,
     ProvisionPrimaryKeyCommand]"

definition hvs_factory :: "('a) runner_env_scheme \<Rightarrow> TrustAgentConfiguration \<Rightarrow> vs_factory" where
  "hvs_factory E cfg = \<lparr>vs_Url = HVS_Url cfg, vs_BearerToken = GetBearerToken (Getenv_of E), vs_CaCertsDir = TrustedCaCertsDir\<rparr>"

definition task_factories ::
  "('a) runner_env_scheme \<Rightarrow> string \<Rightarrow> TrustAgentConfiguration \<Rightarrow> (vs_factory option \<times> bool) go" where
  "task_factories E setupCmd cfg =
     andThen (if setupCmd \<in> set hvs_commands
              then wrapping ''Could not create the hvsclient factory''
                     (return_with (Some (hvs_factory E cfg)) (hvs_factory_error E (hvs_factory E cfg)))
              else Ret None) (\<lambda>vs.
     if setupCmd \<in> set hvs_commands \<or> setupCmd \<in> set tpm_commands then
       andThen (if setupCmd \<in> set factory_commands
                then wrapping ''Could not create tpm factory'' (return_with True (tpm_factory_error E))
                else Ret False) (\<lambda>tpm. Ret (vs, tpm))
     else Ret (vs, False))"

definition download_ca_task :: "TrustAgentConfiguration \<Rightarrow> setup_task" where
  "download_ca_task cfg = DownloadRootCACert
     \<lparr>ca_Flags = [''--force''], ca_CmsBaseURL = CMS_BaseURL cfg, CaCertDirPath = TrustedCaCertsDir,
      TrustedTlsCertDigest = TLSCertDigest cfg\<rparr>"

definition download_tls_task :: "TrustAgentConfiguration \<Rightarrow> setup_task" where
  "download_tls_task cfg = DownloadTLSCert
     \<lparr>tls_Flags = [''--force''], tls_KeyFile = TLSKeyFilePath, tls_CertFile = TLSCertFilePath,
      KeyAlgorithm = DefaultKeyAlgorithm, KeyAlgorithmLength = DefaultKeyAlgorithmLength,
      tls_CmsBaseURL = CMS_BaseURL cfg, CommonName = CertCN cfg, SanList = CertSAN cfg, CertType = ''TLS'',
      tls_CaCertsDir = TrustedCaCertsDir, tls_BearerToken = []\<rparr>"

definition select_tasks ::
  "('a) runner_env_scheme \<Rightarrow> string \<Rightarrow> TrustAgentConfiguration \<Rightarrow> vs_factory option \<Rightarrow> bool \<Rightarrow> setup_task list go" where
  "select_tasks E setupCmd cfg vs tpm =
     (let ownerSecret = owner_secret E;
          takeOwnershipTask = TakeOwnershipTask tpm ownerSecret;
          downloadRootCACertTask = download_ca_task cfg;
          downloadTLSCertTask = download_tls_task cfg;
          provisionAttestationIdentityKeyTask = ProvisionAik vs tpm ownerSecret;
          downloadPrivacyCATask = DownloadPrivacyCA vs;
          provisionPrimaryKeyTask = ProvisionPrimaryKeyTask tpm ownerSecret;
          downloadCredentialTask = DownloadCredential (AAS_BaseURL cfg) (HostID (Nats cfg));
          createHostUniqueFlavorTask = CreateHostUniqueFlavor vs (Port (cfg_service cfg));
          getConfiguredManifestTask = GetConfiguredManifestTask vs;
          createHostTask = CreateHost vs (Port (cfg_service cfg));
          updateServiceConfigTask = UpdateServiceConfigTask;
          defineTagIndexTask = DefineTagIndexTask tpm ownerSecret;
          downloadApiToken = DownloadApiToken (AAS_BaseURL cfg) (HostHardwareUUID E)
      in
      if setupCmd = ProvisionAttestationCommand then
        Ret [downloadPrivacyCATask, takeOwnershipTask, defineTagIndexTask, provisionAttestationIdentityKeyTask,
             provisionPrimaryKeyTask]
      else if setupCmd = UpdateCertificatesCommand then Ret [downloadRootCACertTask, downloadTLSCertTask]
      else if setupCmd = CreateHostCommand then Ret [createHostTask]
      else if setupCmd = CreateHostUniqueFlavorCommand then Ret [createHostUniqueFlavorTask]
      else if setupCmd = GetConfiguredManifestCommand then Ret [getConfiguredManifestTask]
      else if setupCmd = DefaultSetupCommand then
        Ret ([updateServiceConfigTask, downloadRootCACertTask, downloadPrivacyCATask, takeOwnershipTask,
              defineTagIndexTask, provisionAttestationIdentityKeyTask, provisionPrimaryKeyTask, downloadApiToken]
             @ (if Mode cfg = CommunicationModeOutbound then [downloadCredentialTask] else [downloadTLSCertTask]))
      else if setupCmd = DownloadRootCACertCommand then Ret [downloadRootCACertTask]
      else if setupCmd = DownloadCertCommand then Ret [downloadTLSCertTask]
      else if setupCmd = DownloadPrivacyCACommand then Ret [downloadPrivacyCATask]
      else if setupCmd = TakeOwnershipCommand then Ret [takeOwnershipTask]
      else if setupCmd = ProvisionAttestationIdentityKeyCommand then Ret [provisionAttestationIdentityKeyTask]
      else if setupCmd = ProvisionPrimaryKeyCommand then Ret [provisionPrimaryKeyTask]
      else if setupCmd = UpdateServiceConfigCommand then Ret [updateServiceConfigTask]
      else if setupCmd = DefineTagIndexCommand then Ret [defineTagIndexTask]
      else if setupCmd = DownloadApiTokenCommand then Ret [downloadApiToken]
      else if setupCmd = DownloadCredentialCommand then
        (if Mode cfg = CommunicationModeOutbound then Ret [downloadCredentialTask]
         else Fail (NewErr ''cannot run download-credential task when TA_SERVICE_MODE is not set to outbound''))
      else Fail (NewErr ''Invalid setup command''))"

definition CreateTaskRunner ::
  "('a) runner_env_scheme \<Rightarrow> string \<Rightarrow> TrustAgentConfiguration option \<Rightarrow> setup_task list go" where
  "CreateTaskRunner E setupCmd cfg =
     (case cfg of
        None \<Rightarrow> Fail (NewErr ''The cfg parameter was not provided'')
      | Some cfg \<Rightarrow>
          andThen (task_factories E setupCmd cfg) (\<lambda>(vs, tpm).
          select_tasks E setupCmd cfg vs tpm))"

section \<open>The tasks together\<close>

text \<open>
  What the tasks of one process share: the configuration they are given a pointer to, the TPM and the files,
  the privacy CA that \<^verbatim>\<open>util.GetPrivacyCA\<close> keeps, the state of HVS, and the list of saved manifests.
\<close>

record ('t, 'k, 'h) setup_state =
  ss_cfg :: TrustAgentConfiguration
  ss_agent :: "'t agent"
  ss_ca :: "'k option"
  ss_hvs :: 'h
  ss_saved :: "string list"

abbreviation ss_files :: "('t, 'k, 'h) setup_state \<Rightarrow> file_system" where
  "ss_files s \<equiv> host_files (ag_host (ss_agent s))"

abbreviation ss_tpm :: "('t, 'k, 'h) setup_state \<Rightarrow> 't" where
  "ss_tpm s \<equiv> ag_tpm (ss_agent s)"

definition set_files :: "file_system \<Rightarrow> ('t, 'k, 'h) setup_state \<Rightarrow> ('t, 'k, 'h) setup_state" where
  "set_files fs s = s\<lparr>ss_agent := (ss_agent s)\<lparr>ag_host := (ag_host (ss_agent s))\<lparr>host_files := fs\<rparr>\<rparr>\<rparr>"

definition put_tpm :: "'t \<Rightarrow> ('t, 'k, 'h) setup_state \<Rightarrow> ('t, 'k, 'h) setup_state" where
  "put_tpm tpm s = s\<lparr>ss_agent := (ss_agent s)\<lparr>ag_tpm := tpm\<rparr>\<rparr>"

text \<open>The clients a factory makes, the libraries and the environment.\<close>

record ('t, 'k, 'c, 'h, 'm, 'r, 'i) setup_world = runner_env +
  sw_config :: config_lib
  sw_tpm :: "'t aik_tpm"
  sw_hexRandom :: "string go"
  sw_aik :: "vs_factory option \<Rightarrow> ('k, 'c) aik_env"
  sw_hvs :: "vs_factory option \<Rightarrow> 'h hvs_client"
  sw_manifests :: "vs_factory option \<Rightarrow> manifest_client"
  sw_aas :: aas_client
  sw_agent :: "('t, 'm, 'r, 'i) agent_env"
  ca_cert_Run :: "ca_cert_task \<Rightarrow> file_system \<Rightarrow> unit go \<times> file_system"
  ca_cert_Validate :: "ca_cert_task \<Rightarrow> file_system \<Rightarrow> unit go"
  tls_cert_Run :: "tls_cert_task \<Rightarrow> file_system \<Rightarrow> unit go \<times> file_system"
  tls_cert_Validate :: "tls_cert_task \<Rightarrow> file_system \<Rightarrow> unit go"

text \<open>A task on the part of the state it uses.\<close>

definition on :: "('s \<Rightarrow> 'x) \<Rightarrow> ('x \<Rightarrow> 's \<Rightarrow> 's) \<Rightarrow> ('x \<Rightarrow> 'a go \<times> 'x) \<Rightarrow> 's \<Rightarrow> 'a go \<times> 's" where
  "on get put f s = (case f (get s) of (r, x) \<Rightarrow> (r, put x s))"

definition on_tpm :: "('t \<Rightarrow> 'a go \<times> 't) \<Rightarrow> ('t, 'k, 'h) setup_state \<Rightarrow> 'a go \<times> ('t, 'k, 'h) setup_state" where
  "on_tpm = on ss_tpm put_tpm"

definition on_files ::
  "(file_system \<Rightarrow> 'a go \<times> file_system) \<Rightarrow> ('t, 'k, 'h) setup_state \<Rightarrow> 'a go \<times> ('t, 'k, 'h) setup_state" where
  "on_files = on ss_files set_files"

definition on_hvs :: "('h \<Rightarrow> 'a go \<times> 'h) \<Rightarrow> ('t, 'k, 'h) setup_state \<Rightarrow> 'a go \<times> ('t, 'k, 'h) setup_state" where
  "on_hvs = on ss_hvs (\<lambda>h s. s\<lparr>ss_hvs := h\<rparr>)"

definition on_service ::
  "(service_config \<Rightarrow> 'a go \<times> service_config) \<Rightarrow> ('t, 'k, 'h) setup_state \<Rightarrow> 'a go \<times> ('t, 'k, 'h) setup_state" where
  "on_service = on (\<lambda>s. cfg_service (ss_cfg s)) (\<lambda>c s. s\<lparr>ss_cfg := (ss_cfg s)\<lparr>cfg_service := c\<rparr>\<rparr>)"

definition on_tag ::
  "('t tag_state \<Rightarrow> 'a go \<times> 't tag_state) \<Rightarrow> ('t, 'k, 'h) setup_state \<Rightarrow> 'a go \<times> ('t, 'k, 'h) setup_state" where
  "on_tag = on (\<lambda>s. \<lparr>tag_tpm = ss_tpm s, tagSecretKey = cfg_TagSecretKey (ss_cfg s)\<rparr>)
     (\<lambda>t s. put_tpm (tag_tpm t) (s\<lparr>ss_cfg := (ss_cfg s)\<lparr>cfg_TagSecretKey := tagSecretKey t\<rparr>\<rparr>))"

definition on_aik ::
  "(('t, 'k) aik_state \<Rightarrow> 'a go \<times> ('t, 'k) aik_state) \<Rightarrow> ('t, 'k, 'h) setup_state
     \<Rightarrow> 'a go \<times> ('t, 'k, 'h) setup_state" where
  "on_aik = on (\<lambda>s. \<lparr>aik_agent = ss_agent s, privacyCAInstance = ss_ca s\<rparr>)
     (\<lambda>a s. s\<lparr>ss_agent := aik_agent a, ss_ca := privacyCAInstance a\<rparr>)"

definition on_manifests ::
  "('t task_state \<Rightarrow> 'a go \<times> 't task_state) \<Rightarrow> ('t, 'k, 'h) setup_state \<Rightarrow> 'a go \<times> ('t, 'k, 'h) setup_state" where
  "on_manifests = on (\<lambda>s. (ss_saved s, ss_agent s)) (\<lambda>(saved, ag) s. s\<lparr>ss_saved := saved, ss_agent := ag\<rparr>)"

definition on_config ::
  "(TrustAgentConfiguration \<times> file_system \<Rightarrow> 'a go \<times> TrustAgentConfiguration \<times> file_system)
     \<Rightarrow> ('t, 'k, 'h) setup_state \<Rightarrow> 'a go \<times> ('t, 'k, 'h) setup_state" where
  "on_config = on (\<lambda>s. (ss_cfg s, ss_files s)) (\<lambda>(cfg, fs) s. set_files fs (s\<lparr>ss_cfg := cfg\<rparr>))"

text \<open>The \<^verbatim>\<open>Run\<close> and the \<^verbatim>\<open>Validate\<close> of each task; a nil factory panics.\<close>

fun task_Run ::
  "('t, 'k, 'c, 'h, 'm, 'r, 'i) setup_world \<Rightarrow> setup_task \<Rightarrow> ('t, 'k, 'h) setup_state
     \<Rightarrow> unit go \<times> ('t, 'k, 'h) setup_state" where
  "task_Run W (TakeOwnershipTask f secret) = on_tpm (TakeOwnership_Run (base (sw_tpm W)) f secret)"
| "task_Run W (DownloadRootCACert t) = on_files (ca_cert_Run W t)"
| "task_Run W (DownloadTLSCert t) = on_files (tls_cert_Run W t)"
| "task_Run W (ProvisionAik vs f secret) = on_aik (ProvisionAik_Run (sw_aik W vs) (sw_tpm W) (vs \<noteq> None) f secret)"
| "task_Run W (DownloadPrivacyCA vs) = on_aik (DownloadPrivacyCA_Run (sw_aik W vs) (vs \<noteq> None))"
| "task_Run W (ProvisionPrimaryKeyTask f secret) = on_tpm (ProvisionPrimaryKey_Run (base (sw_tpm W)) f secret)"
| "task_Run W (DownloadCredential aasUrl hostId) = on_files (DownloadCredential_Run (sw_aas W) aasUrl hostId)"
| "task_Run W (CreateHostUniqueFlavor vs port) = on_hvs (CreateHostUniqueFlavor_Run (sw_hvs W vs) (vs \<noteq> None) port)"
| "task_Run W (GetConfiguredManifestTask vs) =
     (if vs = None then \<lambda>s. (Panic NilDereference, s)
      else on_manifests (GetConfiguredManifest_Run (sw_agent W) (sw_manifests W vs)))"
| "task_Run W (CreateHost vs port) = on_hvs (CreateHost_Run (sw_hvs W vs) (vs \<noteq> None) port)"
| "task_Run W UpdateServiceConfigTask = on_service (UpdateServiceConfig_Run (ctx (sw_config W)))"
| "task_Run W (DefineTagIndexTask f secret) = on_tag (DefineTagIndex_Run (base (sw_tpm W)) f secret (sw_hexRandom W))"
| "task_Run W (DownloadApiToken aasUrl hw) = on_config (DownloadApiToken_Run (sw_config W) (sw_aas W) aasUrl hw)"

fun task_Validate ::
  "('t, 'k, 'c, 'h, 'm, 'r, 'i) setup_world \<Rightarrow> setup_task \<Rightarrow> ('t, 'k, 'h) setup_state
     \<Rightarrow> unit go \<times> ('t, 'k, 'h) setup_state" where
  "task_Validate W (TakeOwnershipTask f secret) = on_tpm (TakeOwnership_Validate (base (sw_tpm W)) f secret)"
| "task_Validate W (DownloadRootCACert t) = (\<lambda>s. (ca_cert_Validate W t (ss_files s), s))"
| "task_Validate W (DownloadTLSCert t) = (\<lambda>s. (tls_cert_Validate W t (ss_files s), s))"
| "task_Validate W (ProvisionAik vs f secret) =
     on_aik (\<lambda>a. (ProvisionAik_Validate a, a))"
| "task_Validate W (DownloadPrivacyCA vs) = on_aik (DownloadPrivacyCA_Validate (sw_aik W vs))"
| "task_Validate W (ProvisionPrimaryKeyTask f secret) = on_tpm (ProvisionPrimaryKey_Validate (base (sw_tpm W)) f)"
| "task_Validate W (DownloadCredential aasUrl hostId) = (\<lambda>s. (DownloadCredential_Validate (ss_files s), s))"
| "task_Validate W (CreateHostUniqueFlavor vs port) = (\<lambda>s. (CreateHostUniqueFlavor_Validate, s))"
| "task_Validate W (GetConfiguredManifestTask vs) = on_manifests (\<lambda>m. (GetConfiguredManifest_Validate m, m))"
| "task_Validate W (CreateHost vs port) = on_hvs (CreateHost_Validate (sw_hvs W vs) (vs \<noteq> None))"
| "task_Validate W UpdateServiceConfigTask = on_service (\<lambda>c. (UpdateServiceConfig_Validate c, c))"
| "task_Validate W (DefineTagIndexTask f secret) = on_tag (DefineTagIndex_Validate (base (sw_tpm W)) f)"
| "task_Validate W (DownloadApiToken aasUrl hw) = (\<lambda>s. (DownloadApiToken_Validate (ss_cfg s), s))"

text \<open>
  What is relied on of the library's runner: it runs and validates the tasks in order and stops at the
  first that does not succeed.
\<close>

fun runs ::
  "('t, 'k, 'c, 'h, 'm, 'r, 'i) setup_world \<Rightarrow> setup_task list \<Rightarrow> ('t, 'k, 'h) setup_state
     \<Rightarrow> unit go \<times> ('t, 'k, 'h) setup_state" where
  "runs W [] s = (Ret (), s)"
| "runs W (t # ts) s = thenS (task_Run W t s) (\<lambda>_ s. thenS (task_Validate W t s) (\<lambda>_ s. runs W ts s))"

lemmas runner_defs = Getenv_of_def owner_secret_def hvs_commands_def tpm_commands_def factory_commands_def
  hvs_factory_def task_factories_def download_ca_task_def download_tls_task_def select_tasks_def CreateTaskRunner_def
  set_files_def put_tpm_def on_def on_tpm_def on_files_def on_hvs_def on_service_def on_tag_def on_aik_def
  on_manifests_def on_config_def

declare runner_defs [eval_simps]

section \<open>Which factories the tasks get\<close>

text \<open>Which tasks of a runner would call a nil factory.\<close>

fun nil_factory :: "setup_task \<Rightarrow> bool" where
  "nil_factory (TakeOwnershipTask tpm secret) = (\<not> tpm)"
| "nil_factory (ProvisionAik vs tpm secret) = (vs = None \<or> \<not> tpm)"
| "nil_factory (DownloadPrivacyCA vs) = (vs = None)"
| "nil_factory (ProvisionPrimaryKeyTask tpm secret) = (\<not> tpm)"
| "nil_factory (CreateHostUniqueFlavor vs port) = (vs = None)"
| "nil_factory (GetConfiguredManifestTask vs) = (vs = None)"
| "nil_factory (CreateHost vs port) = (vs = None)"
| "nil_factory (DefineTagIndexTask tpm secret) = (\<not> tpm)"
| "nil_factory _ = False"

text \<open>
  The task runner gives every task of a setup command the factories it uses, with one
  exception: the command define-tag-index builds its task without a TPM factory, and running
  that task is a nil dereference.
\<close>

lemma task_factories_Ret:
  assumes "task_factories E cmd cfg = Ret (vs, tpm)"
  shows "vs = (if cmd \<in> set hvs_commands then Some (hvs_factory E cfg) else None) \<and> tpm = (cmd \<in> set factory_commands)"
proof -
  have "cmd \<in> set factory_commands \<Longrightarrow> cmd \<in> set hvs_commands \<or> cmd \<in> set tpm_commands"
    by (auto simp: factory_commands_def hvs_commands_def tpm_commands_def)
  moreover have "return_with x e = Ret y \<Longrightarrow> y = x" for x y :: 'x and e
    by (cases e) (auto simp: return_with_def)
  ultimately show ?thesis
    using assms unfolding task_factories_def
    by (cases "cmd \<in> set hvs_commands"; cases "cmd \<in> set factory_commands"; cases "cmd \<in> set tpm_commands")
      (auto simp: andThen_eq_Ret return_with_def split: option.splits)
qed

lemma download_tasks_factories [simp]: "\<not> nil_factory (download_ca_task cfg)" "\<not> nil_factory (download_tls_task cfg)"
  by (simp_all add: download_ca_task_def download_tls_task_def)

lemma task_runner_factories:
  assumes "CreateTaskRunner E cmd (Some cfg) = Ret tasks"
  shows "((\<exists>t \<in> set tasks. nil_factory t) \<longleftrightarrow> cmd = ''define-tag-index'') \<and>
    (cmd = ''define-tag-index'' \<longrightarrow> tasks = [DefineTagIndexTask False (owner_secret E)])"
proof -
  obtain vs tpm where f: "task_factories E cmd cfg = Ret (vs, tpm)" "select_tasks E cmd cfg vs tpm = Ret tasks"
    using assms by (auto simp: CreateTaskRunner_def andThen_eq_Ret)
  then show ?thesis
    using task_factories_Ret [OF f(1)]
    by (auto simp: select_tasks_def hvs_commands_def factory_commands_def Let_def split: if_splits)
qed

lemma nil_tag_task: "task_Run W (DefineTagIndexTask False secret) s = (Panic NilDereference, s)"
  by (simp add: DefineTagIndex_Run_def with_tpm_def on_tag_def on_def put_tpm_def)

section \<open>Lemmas\<close>

lemma on_eq_Ret: "on get put f s = (Ret x, s') \<longleftrightarrow> (\<exists>y. f (get s) = (Ret x, y) \<and> s' = put y s)"
  by (auto simp: on_def split: prod.splits)

lemmas on_Ret = on_tpm_def on_files_def on_hvs_def on_service_def on_tag_def on_aik_def on_manifests_def
  on_config_def on_eq_Ret

lemma runs_ConsE:
  assumes "runs W (t # ts) s = (Ret u, s')"
  obtains s1 s2 where "task_Run W t s = (Ret (), s1)" "task_Validate W t s1 = (Ret (), s2)" "runs W ts s2 = (Ret (), s')"
  using assms that by (auto simp: thenS_eq_Ret)

lemma put_simps [simp]:
  "ss_cfg (put_tpm t s) = ss_cfg s" "ss_tpm (put_tpm t s) = t" "ss_files (put_tpm t s) = ss_files s"
  "ss_cfg (set_files fs s) = ss_cfg s" "ss_tpm (set_files fs s) = ss_tpm s" "ss_files (set_files fs s) = fs"
  by (simp_all add: put_tpm_def set_files_def)

text \<open>What each task of a full setup leaves alone when it succeeds, and what it establishes.\<close>

lemma validated_unchanged:
  "TakeOwnership_Validate P f secret t = (Ret u, t') \<Longrightarrow> t' = t"
  "DefineTagIndex_Validate P f ts = (Ret u, ts') \<Longrightarrow> ts' = ts"
  "ProvisionPrimaryKey_Validate P f t = (Ret u, t') \<Longrightarrow> t' = t"
  by (auto simp: TakeOwnership_Validate_def DefineTagIndex_Validate_def ProvisionPrimaryKey_Validate_def
      with_tpm_eq_Ret thenS_eq_Ret Let_def return_with_def split: if_splits option.splits)

lemma aik_steps_unchanged:
  "populateIdentityRequest A f a = (Ret r, a') \<Longrightarrow> a' = a"
  "activateCredential env A f secret req a = (Ret bs, a') \<Longrightarrow> a' = a"
  by (auto simp: populateIdentityRequest_def activateCredential_def with_tpm_eq_Ret thenS_eq_Ret)

lemma GetPrivacyCA_agent:
  assumes "GetPrivacyCA env a = (Ret key, a')"
  shows "aik_agent a' = aik_agent a"
proof (cases "privacyCAInstance a")
  case None
  then obtain cert where "(case cert of RsaKey key \<Rightarrow> (Ret key, a\<lparr>privacyCAInstance := Some key\<rparr>)
      | OtherKey \<Rightarrow> (Panic (LibraryPanic ''interface conversion''), a)) = (Ret key, a')"
    using assms by (auto simp: GetPrivacyCA_def thenS_eq_Ret split: if_splits)
  then show ?thesis by (cases cert) auto
qed (use assms in \<open>simp add: GetPrivacyCA_def\<close>)

lemma create_and_write_agent:
  "create_and_write env om wm path bs a = (Ret u, a') \<Longrightarrow>
     aik_tpm_of a' = aik_tpm_of a \<and> aik_files a' = (aik_files a)(path := Contents (fst (write_result env path bs)))"
  by (auto simp: create_and_write_def set_file_def return_with_def split: option.splits prod.splits)

lemma createAik_files: "createAik A f secret a = (Ret u, a') \<Longrightarrow> aik_files a' = aik_files a"
  by (auto simp: createAik_def with_tpm_eq_Ret thenS_eq_Ret set_tpm_def return_with_def
      split: prod.splits if_splits option.splits)

lemma privacy_ca_task:
  assumes "DownloadPrivacyCA_Run env vs a = (Ret u, a1)" and "DownloadPrivacyCA_Validate env a1 = (Ret v, a2)"
  shows "aik_tpm_of a2 = aik_tpm_of a \<and> (\<forall>p. p \<noteq> PrivacyCAFile \<longrightarrow> aik_files a2 p = aik_files a p)"
  using assms
  by (auto simp: DownloadPrivacyCA_Run_def DownloadPrivacyCA_Validate_def thenS_eq_Ret
      dest!: create_and_write_agent GetPrivacyCA_agent split: if_splits)

text \<open>What is relied on of the TPM: creating keys leaves the tag's index alone.\<close>

definition same_tag :: "'t tpm_provider \<Rightarrow> 't \<Rightarrow> 't \<Rightarrow> bool" where
  "same_tag P t t' \<longleftrightarrow>
     (let idx = NV_IDX_ASSET_TAG P
      in NvIndexExists P t' idx = NvIndexExists P t idx \<and> (\<forall>k. NvRead P t' k idx idx = NvRead P t k idx idx))"

definition keys_keep_tag :: "'t aik_tpm \<Rightarrow> bool" where
  "keys_keep_tag A \<longleftrightarrow>
     (\<forall>t secret h. same_tag (base A) t (snd (CreateEk A t secret h)) \<and> same_tag (base A) t (snd (CreateAik A t secret)) \<and>
        same_tag (base A) t (snd (CreatePrimaryHandle (base A) t secret h)))"

lemma same_tag_read: "same_tag P t t' \<Longrightarrow> getAssetTags P t' k = getAssetTags P t k"
  by (simp add: same_tag_def getAssetTags_def Let_def cong: if_cong)

lemma keys_keep_tagD:
  assumes "keys_keep_tag A"
  shows "CreateEk A t secret h = (e, t') \<Longrightarrow> getAssetTags (base A) t' k = getAssetTags (base A) t k"
    and "CreateAik A t secret = (e, t') \<Longrightarrow> getAssetTags (base A) t' k = getAssetTags (base A) t k"
    and "CreatePrimaryHandle (base A) t secret h = (e, t') \<Longrightarrow> getAssetTags (base A) t' k = getAssetTags (base A) t k"
  using assms unfolding keys_keep_tag_def by (metis same_tag_read snd_conv)+

lemma provision_aik_task:
  assumes "ProvisionAik_Run env A vs f secret a = (Ret u, a')" and "keys_keep_tag A"
  shows "getAssetTags (base A) (aik_tpm_of a') k = getAssetTags (base A) (aik_tpm_of a) k \<and>
    (\<forall>p. p \<noteq> AikCert \<longrightarrow> aik_files a' p = aik_files a p) \<and>
    (\<exists>der cert. x509_ParseCertificate env der = Ret cert \<and>
       aik_files a' AikCert = Contents (fst (write_result env AikCert (pem_Encode ''CERTIFICATE'' der))))"
  using assms(1)
proof (cases rule: ProvisionAik_Run_Ret)
  case (1 s1 s2 s3 s4 s5 s6 ekCert req ca challenge proof1 nonce req2 response proof2 der cert)
  have "aik_agent s6 = aik_agent s1"
    using aik_steps_unchanged(1) [OF 1(3)] GetPrivacyCA_agent [OF 1(4)] aik_steps_unchanged(2) [OF 1(7)]
      aik_steps_unchanged(1) [OF 1(8)] aik_steps_unchanged(2) [OF 1(11)] by simp
  moreover have "getAssetTags (base A) (aik_tpm_of s1) k = getAssetTags (base A) (aik_tpm_of a) k"
    using createAik_Ret [OF 1(2)] keys_keep_tagD(1,2) [OF assms(2)] by metis
  ultimately show ?thesis
    using create_and_write_agent [OF 1(13)] createAik_files [OF 1(2)] 1(12) by auto
qed

lemma primary_key_task:
  assumes "ProvisionPrimaryKey_Run (base A) f secret t = (Ret u, t')" and "keys_keep_tag A"
  shows "getAssetTags (base A) t' k = getAssetTags (base A) t k"
proof -
  have "t' = t \<or> CreatePrimaryHandle (base A) t secret (TPM_HANDLE_PRIMARY (base A)) = (None, t')"
    using assms(1)
    by (cases "CreatePrimaryHandle (base A) t secret (TPM_HANDLE_PRIMARY (base A))")
      (auto simp: ProvisionPrimaryKey_Run_def with_tpm_eq_Ret thenS_eq_Ret return_with_def split: if_splits option.splits)
  then show ?thesis using keys_keep_tagD(3) [OF assms(2)] by blast
qed

text \<open>
  A full setup, task by task: the tasks of \<^verbatim>\<open>tagent setup\<close> when all succeed. What must not be undone by a later
  task: the settings, the tag with its secret, the identity key's certificate, the token.
\<close>

definition all_tasks :: "('a) runner_env_scheme \<Rightarrow> TrustAgentConfiguration \<Rightarrow> setup_task list" where
  "all_tasks E cfg =
     [UpdateServiceConfigTask, download_ca_task cfg, DownloadPrivacyCA (Some (hvs_factory E cfg)),
      TakeOwnershipTask True (owner_secret E), DefineTagIndexTask True (owner_secret E),
      ProvisionAik (Some (hvs_factory E cfg)) True (owner_secret E), ProvisionPrimaryKeyTask True (owner_secret E),
      DownloadApiToken (AAS_BaseURL cfg) (HostHardwareUUID E),
      if Mode cfg = CommunicationModeOutbound then DownloadCredential (AAS_BaseURL cfg) (HostID (Nats cfg))
      else download_tls_task cfg]"

lemma default_command_tasks:
  assumes "CreateTaskRunner E DefaultSetupCommand (Some cfg) = Ret tasks"
  shows "tasks = all_tasks E cfg"
proof -
  obtain vs tpm where f: "task_factories E DefaultSetupCommand cfg = Ret (vs, tpm)"
    "select_tasks E DefaultSetupCommand cfg vs tpm = Ret tasks"
    using assms by (auto simp: CreateTaskRunner_def andThen_eq_Ret)
  then show ?thesis
    using task_factories_Ret [OF f(1)]
    by (auto simp: select_tasks_def all_tasks_def hvs_commands_def factory_commands_def Let_def split: if_splits)
qed

text \<open>What is relied on of the two tasks of the library: they write only certificates and keys.\<close>

definition library_tasks_confined :: "('t, 'k, 'c, 'h, 'm, 'r, 'i) setup_world \<Rightarrow> bool" where
  "library_tasks_confined W \<longleftrightarrow>
     (\<forall>t fs p. p \<noteq> tls_KeyFile t \<and> p \<noteq> tls_CertFile t \<longrightarrow> snd (tls_cert_Run W t fs) p = fs p)"

definition tag_text :: "byte list \<Rightarrow> string" where
  "tag_text tag = (if allZeros tag then [] else base64_encode tag)"

lemma update_step:
  assumes "task_Run W UpdateServiceConfigTask s = (Ret u, s1)" and "task_Validate W UpdateServiceConfigTask s1 = (Ret v, s2)"
  shows "ss_cfg s2 = (ss_cfg s)\<lparr>cfg_service := snd (UpdateServiceConfig_Run (ctx (sw_config W)) (cfg_service (ss_cfg s)))\<rparr> \<and>
    ss_agent s2 = ss_agent s"
  using assms by (auto simp: on_Ret)

lemma download_ca_step:
  assumes "task_Run W (download_ca_task c) s = (Ret u, s1)" and "task_Validate W (download_ca_task c) s1 = (Ret v, s2)"
  shows "ss_cfg s2 = ss_cfg s \<and> ss_tpm s2 = ss_tpm s"
  using assms by (auto simp: on_Ret download_ca_task_def)

lemma privacy_ca_step:
  assumes "task_Run W (DownloadPrivacyCA vs) s = (Ret u, s1)" and "task_Validate W (DownloadPrivacyCA vs) s1 = (Ret v, s2)"
  shows "ss_cfg s2 = ss_cfg s \<and> ss_tpm s2 = ss_tpm s"
proof -
  have eta: "\<lparr>aik_agent = aik_agent a, privacyCAInstance = privacyCAInstance a\<rparr> = a" for a by simp
  show ?thesis using assms privacy_ca_task by (fastforce simp: on_Ret eta)
qed

lemma ownership_step:
  assumes "task_Run W (TakeOwnershipTask f secret) s = (Ret u, s1)" and "task_Validate W (TakeOwnershipTask f secret) s1 = (Ret v, s2)"
  shows "ss_cfg s2 = ss_cfg s \<and> TakeOwnership_Run (base (sw_tpm W)) f secret (ss_tpm s) = (Ret (), ss_tpm s2)"
  using assms by (auto simp: on_Ret dest!: validated_unchanged)

lemma tag_step:
  assumes "task_Run W (DefineTagIndexTask f secret) s = (Ret u, s1)" and "task_Validate W (DefineTagIndexTask f secret) s1 = (Ret v, s2)"
    and "nv_laws (base (sw_tpm W))"
  shows "\<exists>k. ss_cfg s2 = (ss_cfg s)\<lparr>cfg_TagSecretKey := k\<rparr> \<and>
    getAssetTags (base (sw_tpm W)) (ss_tpm s2) k = Ret (tag_text (previous_tag (base (sw_tpm W)) secret (ss_tpm s)))"
proof -
  let ?P = "base (sw_tpm W)" and ?t = "\<lparr>tag_tpm = ss_tpm s, tagSecretKey = cfg_TagSecretKey (ss_cfg s)\<rparr>"
  obtain t where t: "DefineTagIndex_Run ?P f secret (sw_hexRandom W) ?t = (Ret (), t)"
    "s1 = put_tpm (tag_tpm t) (s\<lparr>ss_cfg := (ss_cfg s)\<lparr>cfg_TagSecretKey := tagSecretKey t\<rparr>\<rparr>)"
    using assms(1) by (auto simp: on_Ret)
  then have s2: "ss_cfg s2 = (ss_cfg s)\<lparr>cfg_TagSecretKey := tagSecretKey t\<rparr>" "ss_tpm s2 = tag_tpm t"
    using assms(2) by (auto simp: on_Ret dest!: validated_unchanged)
  have len: "length (previous_tag ?P secret (ss_tpm s)) = TagIndexSize"
    by (simp add: previous_tag_def split: go.split option.split)
  obtain t0 where "NvWrite ?P t0 (tagSecretKey t) (NV_IDX_ASSET_TAG ?P) (NV_IDX_ASSET_TAG ?P)
      (previous_tag ?P secret (ss_tpm s)) = (None, tag_tpm t)"
    using DefineTagIndex_Run_Ret [OF t(1)] by auto
  from nv_write_read [OF assms(3) len this] show ?thesis using s2 by (auto simp: getAssetTags_def len tag_text_def)
qed

lemma aik_step:
  assumes "task_Run W (ProvisionAik vs f secret) s = (Ret u, s1)" and "task_Validate W (ProvisionAik vs f secret) s1 = (Ret v, s2)"
    and "keys_keep_tag (sw_tpm W)" and "\<And>bs. write_result (sw_aik W vs) AikCert bs = (bs, None)"
  shows "ss_cfg s2 = ss_cfg s \<and> getAssetTags (base (sw_tpm W)) (ss_tpm s2) k = getAssetTags (base (sw_tpm W)) (ss_tpm s) k \<and>
    (\<exists>der cert. x509_ParseCertificate (sw_aik W vs) der = Ret cert \<and>
       ss_files s2 AikCert = Contents (pem_Encode ''CERTIFICATE'' der))"
proof -
  let ?a = "\<lparr>aik_agent = ss_agent s, privacyCAInstance = ss_ca s\<rparr>"
  obtain a where a: "ProvisionAik_Run (sw_aik W vs) (sw_tpm W) (vs \<noteq> None) f secret ?a = (Ret (), a)"
    "s1 = s\<lparr>ss_agent := aik_agent a, ss_ca := privacyCAInstance a\<rparr>"
    using assms(1) by (auto simp: on_Ret)
  moreover have "s2 = s1" using assms(2) by (auto simp: on_Ret)
  ultimately show ?thesis using provision_aik_task [OF a(1) assms(3), of k] assms(4) by auto
qed

lemma primary_key_step:
  assumes "task_Run W (ProvisionPrimaryKeyTask f secret) s = (Ret u, s1)"
    and "task_Validate W (ProvisionPrimaryKeyTask f secret) s1 = (Ret v, s2)" and "keys_keep_tag (sw_tpm W)"
  shows "ss_cfg s2 = ss_cfg s \<and> ss_files s2 = ss_files s \<and>
    getAssetTags (base (sw_tpm W)) (ss_tpm s2) k = getAssetTags (base (sw_tpm W)) (ss_tpm s) k"
  using assms(1,2) by (auto simp: on_Ret dest!: validated_unchanged primary_key_task [OF _ assms(3)])

lemma config_Save_file: "p \<noteq> configFile cfg \<Longrightarrow> snd (config_Save L cfg fs) p = fs p"
  by (auto simp: config_Save_def intro!: snd_thenS_invariant [where I = "\<lambda>fs'. fs' p = fs p"] split: if_splits file_state.splits option.splits)

lemma token_step:
  assumes "task_Run W (DownloadApiToken aasUrl hw) s = (Ret u, s1)" and "task_Validate W (DownloadApiToken aasUrl hw) s1 = (Ret v, s2)"
  shows "\<exists>bearer token. GetCustomClaimsToken (sw_aas W) aasUrl bearer (api_token_claims hw) = Ret token \<and>
    ss_cfg s2 = (ss_cfg s)\<lparr>ApiToken := string_of_bytes token\<rparr> \<and> token \<noteq> [] \<and> ss_tpm s2 = ss_tpm s \<and>
    (\<forall>p. p \<noteq> configFile (ss_cfg s) \<longrightarrow> ss_files s2 p = ss_files s p)"
proof -
  obtain cfg fs where r: "DownloadApiToken_Run (sw_config W) (sw_aas W) aasUrl hw (ss_cfg s, ss_files s) = (Ret (), cfg, fs)"
    and s1: "s1 = set_files fs (s\<lparr>ss_cfg := cfg\<rparr>)"
    using assms(1) by (auto simp: on_Ret)
  have s2: "s2 = s1" "ApiToken cfg \<noteq> []" using assms(2) s1 by (auto simp: DownloadApiToken_Validate_def split: if_splits)
  obtain bearer token where t: "GetCustomClaimsToken (sw_aas W) aasUrl bearer (api_token_claims hw) = Ret token"
    "cfg = (ss_cfg s)\<lparr>ApiToken := string_of_bytes token\<rparr>" "config_Save (sw_config W) cfg (ss_files s) = (Ret (), fs)"
    using DownloadApiToken_Run_Ret [OF r] .
  have "fs p = ss_files s p" if "p \<noteq> configFile (ss_cfg s)" for p
    using config_Save_file [of p cfg "sw_config W" "ss_files s"] t that by simp
  moreover have "token \<noteq> []" using s2(2) t(2) by auto
  ultimately show ?thesis using s1 s2(1) t by (intro exI [of _ bearer] exI [of _ token]) auto
qed

lemma credential_step:
  assumes "task_Run W (DownloadCredential aasUrl host) s = (Ret u, s1)"
    and "task_Validate W (DownloadCredential aasUrl host) s1 = (Ret v, s2)"
  shows "ss_cfg s2 = ss_cfg s \<and> ss_tpm s2 = ss_tpm s \<and> host \<noteq> [] \<and>
    (\<forall>p. p \<noteq> NatsCredentials \<longrightarrow> ss_files s2 p = ss_files s p)"
  using assms
  by (auto simp: on_Ret DownloadCredential_Run_def thenS_eq_Ret aas_setup_def andThen_eq_Ret
      split: option.splits go.splits if_splits)

lemma tls_step:
  assumes "task_Run W (download_tls_task c) s = (Ret u, s1)" and "task_Validate W (download_tls_task c) s1 = (Ret v, s2)"
    and "library_tasks_confined W"
  shows "ss_cfg s2 = ss_cfg s \<and> ss_tpm s2 = ss_tpm s \<and>
    (\<forall>p. p \<noteq> TLSKeyFilePath \<and> p \<noteq> TLSCertFilePath \<longrightarrow> ss_files s2 p = ss_files s p)"
  using assms unfolding library_tasks_confined_def
  by (auto simp: on_Ret download_tls_task_def) (metis snd_conv tls_cert_task.select_convs(2,3))


lemma last_step:
  assumes "task_Run W (if Mode cfg = CommunicationModeOutbound then DownloadCredential aasUrl host else download_tls_task cfg) s = (Ret u, s1)"
    and "task_Validate W (if Mode cfg = CommunicationModeOutbound then DownloadCredential aasUrl host else download_tls_task cfg) s1 = (Ret v, s2)"
    and "library_tasks_confined W"
  shows "ss_cfg s2 = ss_cfg s \<and> ss_tpm s2 = ss_tpm s \<and> ss_files s2 AikCert = ss_files s AikCert \<and>
    (Mode cfg = ''outbound'' \<longrightarrow> host \<noteq> [])"
proof -
  have apart: "AikCert \<noteq> NatsCredentials" "AikCert \<noteq> TLSKeyFilePath" "AikCert \<noteq> TLSCertFilePath"
    by (simp_all add: constants_defs)
  show ?thesis
  proof (cases "Mode cfg = CommunicationModeOutbound")
    case True
    from credential_step [OF assms(1,2) [unfolded if_P [OF True]]] show ?thesis using apart by blast
  next
    case False
    from tls_step [OF assms(1,2) [unfolded if_not_P [OF False]] assms(3)] show ?thesis
      using apart False by (simp add: CommunicationModeOutbound_def)
  qed
qed

text \<open>The outcome of a full setup.\<close>

definition provisioned ::
  "('t, 'k, 'c, 'h, 'm, 'r, 'i) setup_world \<Rightarrow> TrustAgentConfiguration \<Rightarrow> 't \<Rightarrow> ('t, 'k, 'h) setup_state \<Rightarrow> bool" where
  "provisioned W cfg tpm s' \<longleftrightarrow>
     (\<exists>k token bearer owned der cert.
        ss_cfg s' = cfg\<lparr>cfg_service := snd (UpdateServiceConfig_Run (ctx (sw_config W)) (cfg_service cfg)),
          cfg_TagSecretKey := k, ApiToken := string_of_bytes token\<rparr> \<and>
        GetCustomClaimsToken (sw_aas W) (AAS_BaseURL cfg) bearer (api_token_claims (HostHardwareUUID W)) = Ret token \<and>
        token \<noteq> [] \<and>
        TakeOwnership_Run (base (sw_tpm W)) True (owner_secret W) tpm = (Ret (), owned) \<and>
        getAssetTags (base (sw_tpm W)) (ss_tpm s') k =
          Ret (tag_text (previous_tag (base (sw_tpm W)) (owner_secret W) owned)) \<and>
        x509_ParseCertificate (sw_aik W (Some (hvs_factory W cfg))) der = Ret cert \<and>
        ss_files s' AikCert = Contents (pem_Encode ''CERTIFICATE'' der)) \<and>
     (Mode cfg = ''outbound'' \<longrightarrow> HostID (Nats cfg) \<noteq> [])"

lemma full_setup:
  assumes "runs W (all_tasks W cfg) s = (Ret u, s')" and "ss_cfg s = cfg" and "configFile cfg \<noteq> AikCert"
    and "nv_laws (base (sw_tpm W))" and "keys_keep_tag (sw_tpm W)" and "library_tasks_confined W"
    and "\<And>vs bs. write_result (sw_aik W vs) AikCert bs = (bs, None)"
  shows "provisioned W cfg (ss_tpm s) s'"
proof -
  let ?P = "base (sw_tpm W)" and ?owner = "owner_secret W" and ?vs = "Some (hvs_factory W cfg)"
  let ?last = "if Mode cfg = CommunicationModeOutbound then DownloadCredential (AAS_BaseURL cfg) (HostID (Nats cfg))
      else download_tls_task cfg"
  show ?thesis
    using assms(1) unfolding all_tasks_def
  proof (elim runs_ConsE)
  fix a1 a2 b1 b2 c1 c2 d1 d2 e1 e2 f1 f2 g1 g2 h1 h2 i1 i2
  assume
    a: "task_Run W UpdateServiceConfigTask s = (Ret (), a1)" "task_Validate W UpdateServiceConfigTask a1 = (Ret (), a2)" and
    b: "task_Run W (download_ca_task cfg) a2 = (Ret (), b1)" "task_Validate W (download_ca_task cfg) b1 = (Ret (), b2)" and
    c: "task_Run W (DownloadPrivacyCA ?vs) b2 = (Ret (), c1)" "task_Validate W (DownloadPrivacyCA ?vs) c1 = (Ret (), c2)" and
    d: "task_Run W (TakeOwnershipTask True ?owner) c2 = (Ret (), d1)" "task_Validate W (TakeOwnershipTask True ?owner) d1 = (Ret (), d2)" and
    e: "task_Run W (DefineTagIndexTask True ?owner) d2 = (Ret (), e1)" "task_Validate W (DefineTagIndexTask True ?owner) e1 = (Ret (), e2)" and
    f: "task_Run W (ProvisionAik ?vs True ?owner) e2 = (Ret (), f1)" "task_Validate W (ProvisionAik ?vs True ?owner) f1 = (Ret (), f2)" and
    g: "task_Run W (ProvisionPrimaryKeyTask True ?owner) f2 = (Ret (), g1)" "task_Validate W (ProvisionPrimaryKeyTask True ?owner) g1 = (Ret (), g2)" and
    h: "task_Run W (DownloadApiToken (AAS_BaseURL cfg) (HostHardwareUUID W)) g2 = (Ret (), h1)"
       "task_Validate W (DownloadApiToken (AAS_BaseURL cfg) (HostHardwareUUID W)) h1 = (Ret (), h2)" and
    i: "task_Run W ?last h2 = (Ret (), i1)" "task_Validate W ?last i1 = (Ret (), i2)" "runs W [] i2 = (Ret (), s')"
  have i2: "i2 = s'" using i(3) by simp
  note early = update_step [OF a] download_ca_step [OF b] privacy_ca_step [OF c] ownership_step [OF d]
  obtain k where tag: "ss_cfg e2 = (ss_cfg d2)\<lparr>cfg_TagSecretKey := k\<rparr>"
    "getAssetTags ?P (ss_tpm e2) k = Ret (tag_text (previous_tag ?P ?owner (ss_tpm d2)))"
    using tag_step [OF e assms(4)] by blast
  obtain der cert where aik: "ss_cfg f2 = ss_cfg e2" "getAssetTags ?P (ss_tpm f2) k = getAssetTags ?P (ss_tpm e2) k"
    "x509_ParseCertificate (sw_aik W ?vs) der = Ret cert" "ss_files f2 AikCert = Contents (pem_Encode ''CERTIFICATE'' der)"
    using aik_step [OF f assms(5,7), of k] by blast
  note primary = primary_key_step [OF g assms(5), of k]
  obtain bearer token where token: "GetCustomClaimsToken (sw_aas W) (AAS_BaseURL cfg) bearer (api_token_claims (HostHardwareUUID W)) = Ret token"
    "ss_cfg h2 = (ss_cfg g2)\<lparr>ApiToken := string_of_bytes token\<rparr>" "token \<noteq> []" "ss_tpm h2 = ss_tpm g2"
    "\<And>p. p \<noteq> configFile (ss_cfg g2) \<Longrightarrow> ss_files h2 p = ss_files g2 p"
    using token_step [OF h] by blast
  note last = last_step [OF i(1,2) assms(6), unfolded i2]
  have cfg: "ss_cfg s' = cfg\<lparr>cfg_service := snd (UpdateServiceConfig_Run (ctx (sw_config W)) (cfg_service cfg)),
      cfg_TagSecretKey := k, ApiToken := string_of_bytes token\<rparr>"
    using early assms(2) tag(1) aik(1) primary token(2) last by simp
  have "configFile (ss_cfg g2) = configFile cfg" using early assms(2) tag(1) aik(1) primary by simp
  then have "ss_files s' AikCert = Contents (pem_Encode ''CERTIFICATE'' der)"
    using last token(5) [of AikCert] assms(3) primary aik(4) by simp
  moreover have "TakeOwnership_Run ?P True ?owner (ss_tpm s) = (Ret (), ss_tpm d2)" using early by simp
  moreover have "getAssetTags ?P (ss_tpm s') k = Ret (tag_text (previous_tag ?P ?owner (ss_tpm d2)))"
    using last token(4) primary aik(2) tag(2) by simp
  ultimately show ?thesis unfolding provisioned_def using cfg token(1,3) aik(3) last by blast
  qed
qed

lemma default_command_created:
  assumes "hvs_factory_error E (hvs_factory E cfg) = None" and "tpm_factory_error E = None"
  shows "CreateTaskRunner E DefaultSetupCommand (Some cfg) = Ret (all_tasks E cfg)"
proof -
  have "task_factories E DefaultSetupCommand cfg = Ret (Some (hvs_factory E cfg), True)"
    using assms by (simp add: task_factories_def hvs_commands_def factory_commands_def)
  then show ?thesis by (simp add: CreateTaskRunner_def select_tasks_def all_tasks_def Let_def)
qed

section \<open>A machine for the examples\<close>

definition sample_ca_env :: "(unit, byte list) aik_env" where
  "sample_ca_env = sample_aik_env\<lparr>x509_ParseCertificate :=
     \<lambda>bs. if bs = [3] \<or> bs = [48, 0] then Ret (RsaKey ()) else Fail EOF\<rparr>"

text \<open>A world whose library tasks write their certificates, on the small TPM and privacy CA.\<close>

definition sample_world ::
  "config_lib \<Rightarrow> (soft_tpm, unit, byte list, (string \<times> string) list, unit, unit, unit) setup_world" where
  "sample_world L =
     \<lparr>LookupEnv = (\<lambda>v. if v = EnvTPMOwnerSecret then Some ''o'' else None), hvs_factory_error = (\<lambda>f. None),
      tpm_factory_error = None, HostHardwareUUID = ''hw'', sw_config = L, sw_tpm = sample_aik_tpm,
      sw_hexRandom = Ret ''ab'', sw_aik = (\<lambda>f. sample_ca_env), sw_hvs = (\<lambda>f. sample_hvs),
      sw_manifests = (\<lambda>f. sample_client), sw_aas = sample_aas, sw_agent = sample_agent_env,
      ca_cert_Run = (\<lambda>t fs. (Ret (), fs)), ca_cert_Validate = (\<lambda>t fs. Ret ()),
      tls_cert_Run = (\<lambda>t fs. (Ret (), fs(tls_CertFile t := Contents [1]))), tls_cert_Validate = (\<lambda>t fs. Ret ())\<rparr>"

definition sample_setup :: "TrustAgentConfiguration \<Rightarrow> (soft_tpm, unit, (string \<times> string) list) setup_state" where
  "sample_setup cfg =
     \<lparr>ss_cfg = cfg,
      ss_agent = \<lparr>ag_tpm = sample_tpm\<lparr>st_nv := st_nv sample_tpm @ [(0x1c00002, ''e'', der_encode 0x30 [1, 2])]\<rparr>,
        ag_host = sample_host\<rparr>,
      ss_ca = None, ss_hvs = [], ss_saved = []\<rparr>"

lemma sample_world_fields [simp]:
  "sw_config (sample_world L) = L" "sw_tpm (sample_world L) = sample_aik_tpm" "sw_aas (sample_world L) = sample_aas"
  "sw_aik (sample_world L) f = sample_ca_env" "HostHardwareUUID (sample_world L) = ''hw''"
  "owner_secret (sample_world L) = ''o''" "hvs_factory_error (sample_world L) vs = None"
  "tpm_factory_error (sample_world L) = None" "sw_hexRandom (sample_world L) = Ret ''ab''"
  by (simp_all add: sample_world_def owner_secret_def)

text \<open>The full setup on that machine in http mode, one task after the other.\<close>

lemma runs_ConsI:
  "task_Run W t s = (Ret (), s1) \<Longrightarrow> task_Validate W t s1 = (Ret (), s2) \<Longrightarrow> runs W ts s2 = x \<Longrightarrow> runs W (t # ts) s = x"
  by simp

definition sample_tagged :: soft_tpm where
  "sample_tagged = sample_tpm\<lparr>st_nv := [(0x1c10110, ''hex:ab'', replicate 48 7), (0x1c10110, ''hex:ab'', replicate 48 0xff),
     (0x1c00002, ''e'', der_encode 0x30 [1, 2])]\<rparr>"

lemma sample_tag_run:
  "DefineTagIndex_Run soft_provider True ''o'' (Ret ''ab'')
     \<lparr>tag_tpm = sample_tpm\<lparr>st_nv := st_nv sample_tpm @ [(0x1c00002, ''e'', der_encode 0x30 [1, 2])]\<rparr>, tagSecretKey = []\<rparr> =
   (Ret (), \<lparr>tag_tpm = sample_tagged, tagSecretKey = ''hex:ab''\<rparr>)"
  by (simp add: DefineTagIndex_Run_def with_tpm_open ensure_tag_secret_def carry_tag_def sample_tagged_def
      soft_provider_def soft_read_def soft_write_def soft_define_def sample_tpm_def TagIndexSize_def tag_op_def)

lemma sample_ownership:
  "st_owner t = ''o'' \<Longrightarrow> TakeOwnership_Run soft_provider True ''o'' t = (Ret (), t)"
  "st_owner t = ''o'' \<Longrightarrow> TakeOwnership_Validate soft_provider True ''o'' t = (Ret (), t)"
  "DefineTagIndex_Validate soft_provider True \<lparr>tag_tpm = sample_tagged, tagSecretKey = k\<rparr> =
     (Ret (), \<lparr>tag_tpm = sample_tagged, tagSecretKey = k\<rparr>)"
  "ProvisionPrimaryKey_Run soft_provider True ''o'' sample_tagged = (Ret (), sample_tagged\<lparr>st_primary := True\<rparr>)"
  "ProvisionPrimaryKey_Validate soft_provider True t = (Ret (), t)"
  by (simp_all add: TakeOwnership_Run_def TakeOwnership_Validate_def DefineTagIndex_Validate_def
      ProvisionPrimaryKey_Run_def ProvisionPrimaryKey_Validate_def with_tpm_open soft_provider_def sample_tagged_def
      sample_tpm_def)

lemma sample_privacy_ca:
  fixes a :: "(soft_tpm, unit) aik_state"
  assumes "privacyCAInstance a = None"
  shows "DownloadPrivacyCA_Run sample_ca_env True a = (Ret (), set_file PrivacyCAFile [3] a)"
    and "DownloadPrivacyCA_Validate sample_ca_env (set_file PrivacyCAFile [3] a) =
      (Ret (), (set_file PrivacyCAFile [3] a)\<lparr>privacyCAInstance := Some ()\<rparr>)"
  using assms
  by (simp_all add: DownloadPrivacyCA_Run_def DownloadPrivacyCA_Validate_def GetPrivacyCA_def create_and_write_def
      sample_ca_env_def sample_aik_env_def set_file_def os_Stat_def ioutil_ReadFile_def os_Open_def)

lemma sample_aik_run:
  assumes "sample_ek (aik_tpm_of a)" and "privacyCAInstance a = Some ()"
  shows "ProvisionAik_Run sample_ca_env sample_aik_tpm True True ''o'' a =
    (Ret (), set_file AikCert (pem_Encode ''CERTIFICATE'' [48, 0]) a)"
  using assms unfolding sample_ca_env_def by (rule sample_provisioned) simp

lemma sample_token:
  assumes "config_Save L (cfg\<lparr>ApiToken := ''T''\<rparr>) fs = (Ret (), fs')" and "url \<noteq> []"
  shows "DownloadApiToken_Run L sample_aas url ''hw'' (cfg, fs) = (Ret (), cfg\<lparr>ApiToken := ''T''\<rparr>, fs')"
proof -
  have "char_of (84 :: nat) = CHR ''T''" using string_of_bytes_of_string [of "''T''"] by simp
  then show ?thesis using assms by (simp add: DownloadApiToken_Run_def aas_setup_def sample_aas_def Let_def)
qed

definition sample_at ::
  "TrustAgentConfiguration \<Rightarrow> soft_tpm \<Rightarrow> file_system \<Rightarrow> unit option \<Rightarrow> (soft_tpm, unit, (string \<times> string) list) setup_state" where
  "sample_at cfg tpm fs ca =
     \<lparr>ss_cfg = cfg, ss_agent = \<lparr>ag_tpm = tpm, ag_host = sample_host\<lparr>host_files := fs\<rparr>\<rparr>, ss_ca = ca, ss_hvs = [], ss_saved = []\<rparr>"

lemmas sample_at_defs = sample_at_def on_def on_tpm_def on_files_def on_service_def on_tag_def on_aik_def on_config_def
  put_tpm_def set_files_def

lemma sample_setup_at:
  "(sample_setup cfg)\<lparr>ss_cfg := cfg'\<rparr> =
     sample_at cfg' (sample_tpm\<lparr>st_nv := st_nv sample_tpm @ [(0x1c00002, ''e'', der_encode 0x30 [1, 2])]\<rparr>) (host_files sample_host) None"
  by (simp add: sample_setup_def sample_at_def)

lemma sample_update_step:
  assumes "UpdateServiceConfig_Run (ctx L) (cfg_service cfg) = (Ret (), c)" and "UpdateServiceConfig_Validate c = Ret ()"
  shows "task_Run (sample_world L) UpdateServiceConfigTask (sample_at cfg tpm fs ca) = (Ret (), sample_at (cfg\<lparr>cfg_service := c\<rparr>) tpm fs ca)"
    and "task_Validate (sample_world L) UpdateServiceConfigTask (sample_at (cfg\<lparr>cfg_service := c\<rparr>) tpm fs ca) =
      (Ret (), sample_at (cfg\<lparr>cfg_service := c\<rparr>) tpm fs ca)"
  using assms by (simp_all add: sample_at_defs)

lemma sample_ca_step:
  "task_Run (sample_world L) (download_ca_task cfg') (sample_at cfg tpm fs ca) = (Ret (), sample_at cfg tpm fs ca)"
  "task_Validate (sample_world L) (download_ca_task cfg') (sample_at cfg tpm fs ca) = (Ret (), sample_at cfg tpm fs ca)"
  by (simp_all add: sample_at_defs download_ca_task_def sample_world_def)

lemma sample_privacy_step:
  "task_Run (sample_world L) (DownloadPrivacyCA (Some f)) (sample_at cfg tpm fs None) =
     (Ret (), sample_at cfg tpm (fs(PrivacyCAFile := Contents [3])) None)"
  "task_Validate (sample_world L) (DownloadPrivacyCA (Some f)) (sample_at cfg tpm (fs(PrivacyCAFile := Contents [3])) None) =
     (Ret (), sample_at cfg tpm (fs(PrivacyCAFile := Contents [3])) (Some ()))"
  using sample_privacy_ca [of "\<lparr>aik_agent = \<lparr>ag_tpm = tpm, ag_host = sample_host\<lparr>host_files := fs\<rparr>\<rparr>, privacyCAInstance = None\<rparr>"]
  by (simp_all add: sample_at_defs set_file_def)

lemma sample_owner_step:
  assumes "st_owner tpm = ''o''"
  shows "task_Run (sample_world L) (TakeOwnershipTask True ''o'') (sample_at cfg tpm fs ca) = (Ret (), sample_at cfg tpm fs ca)"
    and "task_Validate (sample_world L) (TakeOwnershipTask True ''o'') (sample_at cfg tpm fs ca) = (Ret (), sample_at cfg tpm fs ca)"
  using assms by (simp_all add: sample_at_defs sample_ownership sample_aik_tpm_def)

lemma sample_tag_step:
  "cfg_TagSecretKey cfg = [] \<Longrightarrow> task_Run (sample_world L) (DefineTagIndexTask True ''o'')
      (sample_at cfg (sample_tpm\<lparr>st_nv := st_nv sample_tpm @ [(0x1c00002, ''e'', der_encode 0x30 [1, 2])]\<rparr>) fs ca) =
      (Ret (), sample_at (cfg\<lparr>cfg_TagSecretKey := ''hex:ab''\<rparr>) sample_tagged fs ca)"
  "task_Validate (sample_world L) (DefineTagIndexTask True ''o'') (sample_at cfg' sample_tagged fs ca) =
      (Ret (), sample_at cfg' sample_tagged fs ca)"
  using sample_tag_run sample_ownership(3) [of "cfg_TagSecretKey cfg'"]
  by (simp_all add: sample_at_defs sample_aik_tpm_def)

lemma sample_aik_step:
  "task_Run (sample_world L) (ProvisionAik (Some f) True ''o'') (sample_at cfg sample_tagged fs (Some ())) =
     (Ret (), sample_at cfg sample_tagged (fs(AikCert := Contents (pem_Encode ''CERTIFICATE'' [48, 0]))) (Some ()))"
  "task_Validate (sample_world L) (ProvisionAik (Some f) True ''o'')
     (sample_at cfg sample_tagged (fs(AikCert := Contents (pem_Encode ''CERTIFICATE'' [48, 0]))) (Some ())) =
     (Ret (), sample_at cfg sample_tagged (fs(AikCert := Contents (pem_Encode ''CERTIFICATE'' [48, 0]))) (Some ()))"
  using sample_aik_run [of "\<lparr>aik_agent = \<lparr>ag_tpm = sample_tagged, ag_host = sample_host\<lparr>host_files := fs\<rparr>\<rparr>, privacyCAInstance = Some ()\<rparr>"]
  by (simp_all add: sample_at_defs set_file_def sample_ek_def sample_tagged_def sample_tpm_def ProvisionAik_Validate_def os_Stat_def)

lemma sample_primary_step:
  "task_Run (sample_world L) (ProvisionPrimaryKeyTask True ''o'') (sample_at cfg sample_tagged fs ca) =
     (Ret (), sample_at cfg (sample_tagged\<lparr>st_primary := True\<rparr>) fs ca)"
  "task_Validate (sample_world L) (ProvisionPrimaryKeyTask True ''o'') (sample_at cfg tpm fs ca) = (Ret (), sample_at cfg tpm fs ca)"
  by (simp_all add: sample_at_defs sample_ownership sample_aik_tpm_def)

lemma sample_token_step:
  assumes "config_Save L (cfg\<lparr>ApiToken := ''T''\<rparr>) fs = (Ret (), fs')" and "url \<noteq> []"
  shows "task_Run (sample_world L) (DownloadApiToken url ''hw'') (sample_at cfg tpm fs ca) =
      (Ret (), sample_at (cfg\<lparr>ApiToken := ''T''\<rparr>) tpm fs' ca)"
    and "task_Validate (sample_world L) (DownloadApiToken url ''hw'') (sample_at (cfg\<lparr>ApiToken := ''T''\<rparr>) tpm fs' ca) =
      (Ret (), sample_at (cfg\<lparr>ApiToken := ''T''\<rparr>) tpm fs' ca)"
  using sample_token [OF assms] by (simp_all add: sample_at_defs DownloadApiToken_Validate_def)

lemma sample_tls_step:
  "task_Run (sample_world L) (download_tls_task cfg') (sample_at cfg tpm fs ca) =
     (Ret (), sample_at cfg tpm (fs(TLSCertFilePath := Contents [1])) ca)"
  "task_Validate (sample_world L) (download_tls_task cfg') (sample_at cfg tpm fs ca) = (Ret (), sample_at cfg tpm fs ca)"
  by (simp_all add: sample_at_defs download_tls_task_def sample_world_def)

lemma sample_runs:
  fixes cfg L c
  defines "final \<equiv> cfg\<lparr>cfg_service := c, cfg_TagSecretKey := ''hex:ab'', ApiToken := ''T''\<rparr>"
    and "saved \<equiv> (\<lambda>fs. fs(ConfigFilePath := Contents [1]) :: file_system)"
  assumes "UpdateServiceConfig_Run (ctx L) (cfg_service cfg) = (Ret (), c)" and "UpdateServiceConfig_Validate c = Ret ()"
    and "cfg_TagSecretKey cfg = []" and "Mode cfg = ''http''" and "AAS_BaseURL cfg \<noteq> []"
    and "\<And>fs. fs ConfigFilePath = Absent \<Longrightarrow> config_Save L final fs = (Ret (), saved fs)"
  shows "\<exists>tpm fs ca. runs (sample_world L) (all_tasks (sample_world L) cfg) ((sample_setup cfg0)\<lparr>ss_cfg := cfg\<rparr>) =
    (Ret (), sample_at final tpm fs ca) \<and> fs ConfigFilePath = Contents [1]"
proof -
  let ?fs = "(host_files sample_host)(PrivacyCAFile := Contents [3], AikCert := Contents (pem_Encode ''CERTIFICATE'' [48, 0]))"
  have abs: "?fs ConfigFilePath = Absent" by (simp add: sample_host_def constants_defs)
  have save: "config_Save L (cfg\<lparr>cfg_service := c, cfg_TagSecretKey := ''hex:ab'', ApiToken := ''T''\<rparr>) ?fs = (Ret (), saved ?fs)"
    using assms(8) [of ?fs, OF abs] unfolding final_def .
  have mode: "Mode cfg \<noteq> CommunicationModeOutbound" using assms(6) by (simp add: CommunicationModeOutbound_def)
  have secret: "cfg_TagSecretKey (cfg\<lparr>cfg_service := c\<rparr>) = []" using assms(5) by simp
  have owner: "st_owner (sample_tpm\<lparr>st_nv := st_nv sample_tpm @ [(0x1c00002, ''e'', der_encode 0x30 [1, 2])]\<rparr>) = ''o''"
    by (simp add: sample_tpm_def)
  have "runs (sample_world L) (all_tasks (sample_world L) cfg) ((sample_setup cfg0)\<lparr>ss_cfg := cfg\<rparr>) =
    (Ret (), sample_at final (sample_tagged\<lparr>st_primary := True\<rparr>) ((saved ?fs)(TLSCertFilePath := Contents [1])) (Some ()))"
    unfolding all_tasks_def if_not_P [OF mode] sample_setup_at sample_world_fields final_def
    by (intro runs_ConsI [OF sample_update_step [OF assms(3,4)]] runs_ConsI [OF sample_ca_step]
        runs_ConsI [OF sample_privacy_step] runs_ConsI [OF sample_owner_step [OF owner]]
        runs_ConsI [OF sample_tag_step(1) [OF secret] sample_tag_step(2)] runs_ConsI [OF sample_aik_step]
        runs_ConsI [OF sample_primary_step] runs_ConsI [OF sample_token_step [OF save assms(7)]]
        runs_ConsI [OF sample_tls_step] runs.simps(1))
  then show ?thesis unfolding saved_def by (intro exI conjI, assumption) (simp add: constants_defs)
qed

end
