(* ===== verification/Agent_Main.thy ===== *)
theory Agent_Main
  imports Report_Retry Task_Runner
begin

text \<open>
  The other commands of \<^verbatim>\<open>main.go\<close>: \<^verbatim>\<open>setup\<close>, \<^verbatim>\<open>uninstall\<close>, \<^verbatim>\<open>start\<close>, \<^verbatim>\<open>stop\<close> and \<^verbatim>\<open>status\<close>,
  \<^verbatim>\<open>fetch-ekcert-with-issuer\<close> and \<^verbatim>\<open>--version\<close>. The task runner of the
  setup library, the commands of the operating system and the certificate parser are parameters.
\<close>

section \<open>The command line\<close>

datatype command =
    VersionCommand
  | HostInfoCommand
  | EventLogCommand
  | InitCommand
  | StartServiceCommand
  | SystemctlCommand string
  | SetupCommand
  | FetchEkCertCommand
  | UninstallCommand
  | HelpCommand
  | InvalidCommand string

definition command_of :: "string \<Rightarrow> command" where
  "command_of cmd =
     (if cmd = ''--version'' then VersionCommand
      else if cmd = ''hostinfo'' then HostInfoCommand
      else if cmd = ''eventlog'' then EventLogCommand
      else if cmd = ''init'' then InitCommand
      else if cmd = ''startService'' then StartServiceCommand
      else if cmd = ''start'' \<or> cmd = ''status'' \<or> cmd = ''stop'' then SystemctlCommand cmd
      else if cmd = ''setup'' then SetupCommand
      else if cmd = ''fetch-ekcert-with-issuer'' then FetchEkCertCommand
      else if cmd = ''uninstall'' then UninstallCommand
      else if cmd = ''help'' \<or> cmd = ''-help'' \<or> cmd = ''-h'' then HelpCommand
      else InvalidCommand cmd)"

text \<open>
  \<^verbatim>\<open>hostinfo\<close> and \<^verbatim>\<open>eventlog\<close>: the JSON that is printed (for the event log, indented), for root only.
\<close>

definition report_command :: "string \<Rightarrow> byte list go \<Rightarrow> ending \<times> byte list option" where
  "report_command username json =
     (if username \<noteq> RootUserName then (Exit 1, None)
      else case json of
             Panic p \<Rightarrow> (Recovered p, None)
           | Fail e \<Rightarrow> (Exit 1, None)
           | Ret bs \<Rightarrow> (MainReturns, Some bs))"

text \<open>\<^verbatim>\<open>startService\<close> up to the creation of the service.\<close>

definition service_parameters :: "TrustAgentConfiguration \<Rightarrow> ServiceParameters" where
  "service_parameters cfg =
     \<lparr>sp_Mode = Mode cfg,
      sp_Web = service_config.extend (cfg_service cfg)
        (WebParameters.fields TLSCertFilePath TLSKeyFilePath TrustedJWTSigningCertsDir TrustedCaCertsDir),
      sp_Nats = NatsService.extend (Nats cfg) (NatsParameters.fields NatsCredentials TrustedCaCertsDir)\<rparr>"

definition configure_logs ::
  "config_lib \<Rightarrow> TrustAgentConfiguration \<times> file_system \<Rightarrow> TrustAgentConfiguration \<times> file_system" where
  "configure_logs L s = snd (LogConfiguration L (LogEnableStdout (cfg_service (fst s))) s)"

definition startService ::
  "bool \<Rightarrow> string \<Rightarrow> config_lib \<Rightarrow> TrustAgentConfiguration \<times> file_system
     \<Rightarrow> (ending + ta_service) \<times> TrustAgentConfiguration \<times> file_system" where
  "startService isContainerEnv username L s =
     (if \<not> isContainerEnv \<and> username \<noteq> TagentUserName then (Inl (Exit 1), s)
      else
        let s = configure_logs L s
        in (case NewTrustAgentService (service_parameters (fst s)) of
              Panic p \<Rightarrow> Inl (Recovered p)
            | Fail e \<Rightarrow> Inl (Exit 1)
            | Ret service \<Rightarrow> Inr service, s))"

section \<open>Setup\<close>

text \<open>
  The command and the answer file, or the end of the program. Both \<^verbatim>\<open>tagent setup -f\<close> and a single
  word after the command are taken as they are.
\<close>

definition setup_arguments :: "string list \<Rightarrow> ending + string \<times> string option" where
  "setup_arguments os_Args =
     (if length os_Args \<le> 2 then Inr (''all'', None)
      else if os_Args ! 2 = ''-f'' then
        (if 3 < length os_Args then Inr (''all'', Some (os_Args ! 3)) else Inl (Exit 1))
      else
        (let flags = drop 3 os_Args
         in if 1 < length flags then
              (if flags ! 0 = ''-f'' then Inr (os_Args ! 2, Some (flags ! 1)) else Inl (Exit 1))
            else Inr (os_Args ! 2, None)))"

text \<open>
  \<open>read_answers\<close> is \<^verbatim>\<open>setup.ReadAnswerFileToEnv\<close>, which changes the environment the configuration and the
  tasks read; \<open>run_tasks\<close> is the library's runner on the state the tasks share.
\<close>

record ('t, 'k, 'c, 'h, 'm, 'r, 'i) setup_lib =
  sl_world :: "('t, 'k, 'c, 'h, 'm, 'r, 'i) setup_world"
  read_answers :: "string \<Rightarrow> ('t, 'k, 'c, 'h, 'm, 'r, 'i) setup_world \<Rightarrow> ('t, 'k, 'c, 'h, 'm, 'r, 'i) setup_world"
  run_tasks :: "('t, 'k, 'c, 'h, 'm, 'r, 'i) setup_world \<Rightarrow> setup_task list \<Rightarrow> ('t, 'k, 'h) setup_state \<Rightarrow>
    unit go \<times> ('t, 'k, 'h) setup_state"

text \<open>Running the tasks and saving; the error of loading the environment is only printed.\<close>

definition run_setup ::
  "('t, 'k, 'c, 'h, 'm, 'r, 'i) setup_lib \<Rightarrow> ('t, 'k, 'c, 'h, 'm, 'r, 'i) setup_world \<Rightarrow> string \<Rightarrow>
     ('t, 'k, 'h) setup_state \<Rightarrow> ending \<times> ('t, 'k, 'h) setup_state" where
  "run_setup lib W setupCommand s =
     (case LoadEnvironmentVariables (sw_config W) (ss_cfg s) of
        (Panic p, cfg) \<Rightarrow> (Recovered p, s\<lparr>ss_cfg := cfg\<rparr>)
      | (_, cfg) \<Rightarrow>
          (let s = s\<lparr>ss_cfg := cfg\<rparr>
           in case CreateTaskRunner W setupCommand (Some cfg) of
                Panic p \<Rightarrow> (Recovered p, s)
              | Fail e \<Rightarrow> (Exit 1, s)
              | Ret tasks \<Rightarrow>
                  (case run_tasks lib W tasks s of
                     (Panic p, s) \<Rightarrow> (Recovered p, s)
                   | (Fail e, s) \<Rightarrow> (Exit 1, s)
                   | (Ret _, s) \<Rightarrow>
                       (case config_Save (sw_config W) (ss_cfg s) (ss_files s) of
                          (Panic p, fs) \<Rightarrow> (Recovered p, set_files fs s)
                        | (Fail e, fs) \<Rightarrow> (Exit 1, set_files fs s)
                        | (Ret _, fs) \<Rightarrow> (MainReturns, set_files fs s)))))"

definition setup_logs :: "config_lib \<Rightarrow> ('t, 'k, 'h) setup_state \<Rightarrow> ('t, 'k, 'h) setup_state" where
  "setup_logs L s = (case configure_logs L (ss_cfg s, ss_files s) of (cfg, fs) \<Rightarrow> set_files fs (s\<lparr>ss_cfg := cfg\<rparr>))"

definition setup_command ::
  "('t, 'k, 'c, 'h, 'm, 'r, 'i) setup_lib \<Rightarrow> string \<Rightarrow> string list \<Rightarrow> ('t, 'k, 'h) setup_state \<Rightarrow>
     ending \<times> ('t, 'k, 'h) setup_state" where
  "setup_command lib username os_Args s =
     (let W = sl_world lib; s = setup_logs (sw_config W) s
      in if username \<noteq> RootUserName then (Exit 1, s)
         else case setup_arguments os_Args of
                Inl e \<Rightarrow> (e, s)
              | Inr (setupCommand, answers) \<Rightarrow>
                  run_setup lib (case answers of None \<Rightarrow> W | Some f \<Rightarrow> read_answers lib f W) setupCommand s)"

section \<open>Systemctl\<close>

text \<open>\<open>out\<close> is the combined output and the error of the run; status is shown in either case.\<close>

definition run_systemctl :: "string go \<Rightarrow> (string \<Rightarrow> string \<times> go_error option) \<Rightarrow> string \<Rightarrow> ending + string go" where
  "run_systemctl lookPath run systemCtlCmd =
     (case lookPath of
        Panic p \<Rightarrow> Inl (Recovered p)
      | Fail e \<Rightarrow> Inl (Exit 1)
      | Ret systemctl \<Rightarrow>
          (case run (systemctl @ '' '' @ systemCtlCmd @ '' tagent'') of
             (out, Some e) \<Rightarrow> Inr (if systemCtlCmd \<noteq> ''status'' then Fail e else Ret out)
           | (out, None) \<Rightarrow> Inr (Ret out)))"

definition systemctl_command :: "string go \<Rightarrow> (string \<Rightarrow> string \<times> go_error option) \<Rightarrow> string \<Rightarrow> ending" where
  "systemctl_command lookPath run cmd =
     (case run_systemctl lookPath run cmd of
        Inl e \<Rightarrow> e
      | Inr (Ret out) \<Rightarrow> MainReturns
      | Inr (Fail e) \<Rightarrow> Exit 1
      | Inr (Panic p) \<Rightarrow> Recovered p)"

section \<open>Printing the version and the endorsement certificate\<close>

definition printVersion :: "string \<Rightarrow> string \<Rightarrow> string \<Rightarrow> string \<Rightarrow> string list \<Rightarrow> string" where
  "printVersion version gitHash buildDate branch os_Args =
     (let versionInfo = fst (GetVersionInfo version gitHash buildDate branch None)
      in if 2 < length os_Args \<and> os_Args ! 2 = ''short''
         then dec_int (Major versionInfo) @ ''.'' @ dec_int (Minor versionInfo) @ [CHR 0x0A]
         else GetVersion version gitHash buildDate)"

definition fetchEndorsementCert ::
  "(byte list \<Rightarrow> string) \<Rightarrow> ('k, 'c) aik_env \<Rightarrow> 't aik_tpm \<Rightarrow> 't \<Rightarrow> string \<Rightarrow> string go" where
  "fetchEndorsementCert issuer env A tpm assetTagSecret =
     (case GetEndorsementKeyCertificateBytes env A tpm assetTagSecret of
        Panic p \<Rightarrow> Panic p
      | Fail e \<Rightarrow> Fail (NewErr ''Error while getting endorsement certificate in bytes from tpm'')
      | Ret ekCertBytes \<Rightarrow>
          (case x509_ParseCertificate env ekCertBytes of
             Panic p \<Rightarrow> Panic p
           | Fail e \<Rightarrow> Fail (NewErr ''Error while parsing endorsement certificate in bytes into x509 certificate'')
           | Ret ekCert \<Rightarrow>
               Ret (''Issuer: '' @ issuer ekCertBytes @ [CHR 0x0A]
                    @ ''TPM Endorsment Certificate Base64 Encoded: ''
                    @ base64_encode (pem_Encode ''CERTIFICATE'' ekCertBytes) @ [CHR 0x0A])))"

section \<open>Uninstalling\<close>

definition ServiceName :: string where "ServiceName = ''tagent.service''"
definition ServiceStatusCommand :: string where "ServiceStatusCommand = ''systemctl status '' @ ServiceName"
definition ServiceStopCommand :: string where "ServiceStopCommand = ''systemctl stop '' @ ServiceName"
definition ServiceDisableCommand :: string where "ServiceDisableCommand = ''systemctl disable '' @ ServiceName"
definition ServiceDisableInitCommand :: string where
  "ServiceDisableInitCommand = ''systemctl disable tagent_init.service''"
definition UninstallTbootXmScript :: string where
  "UninstallTbootXmScript = ''/opt/tbootxm/bin/tboot-xm-uninstall.sh''"

datatype command_error = ExitStatus nat | OtherError string

text \<open>
  \<open>run_command\<close> is the outcome of a command and what it does to the files; \<open>remove_fails\<close> is the error
  of \<^verbatim>\<open>os.RemoveAll\<close> with the paths it had removed by then.
\<close>

record os_lib =
  run_command :: "string \<Rightarrow> file_system \<Rightarrow> command_error option \<times> file_system"
  remove_fails :: "string \<Rightarrow> (string \<Rightarrow> bool) option"

record machine =
  m_files :: file_system
  m_ran :: "string list"

definition run_on :: "os_lib \<Rightarrow> string \<Rightarrow> machine \<Rightarrow> command_error option \<times> machine" where
  "run_on S cmd m =
     (case run_command S cmd (m_files m) of (err, fs) \<Rightarrow> (err, \<lparr>m_files = fs, m_ran = m_ran m @ [cmd]\<rparr>))"

definition remove_all :: "os_lib \<Rightarrow> string \<Rightarrow> file_system \<Rightarrow> file_system" where
  "remove_all S dir fs =
     (case remove_fails S dir of
        None \<Rightarrow> (\<lambda>p. if prefix dir p then Absent else fs p)
      | Some gone \<Rightarrow> (\<lambda>p. if prefix dir p \<and> gone p then Absent else fs p))"

definition stop_service :: "os_lib \<Rightarrow> machine \<Rightarrow> unit go \<times> machine" where
  "stop_service S m =
     (case run_on S ServiceStatusCommand m of
        (None, m) \<Rightarrow> (Ret (), snd (run_on S ServiceDisableCommand (snd (run_on S ServiceStopCommand m))))
      | (Some (ExitStatus n), m) \<Rightarrow>
          (if n = 3 then (Ret (), snd (run_on S ServiceDisableCommand m))
           else if n = 4 then (Ret (), m)
           else (Fail (NewErr (''Service status returned unhandled error code '' @ dec_nat n)), m))
      | (Some (OtherError msg), m) \<Rightarrow>
          (Fail (NewErr (''An unhandled error occurred with the tagent service: '' @ msg)), m))"

definition remove_dir :: "os_lib \<Rightarrow> string \<Rightarrow> machine \<Rightarrow> machine" where
  "remove_dir S dir m =
     (if os_Stat (m_files m) dir = None then m\<lparr>m_files := remove_all S dir (m_files m)\<rparr> else m)"

definition uninstall :: "os_lib \<Rightarrow> machine \<Rightarrow> unit go \<times> machine" where
  "uninstall S m =
     thenS (stop_service S m) (\<lambda>_ m.
     let m = snd (run_on S ServiceDisableInitCommand m)
     in thenS (if os_Stat (m_files m) UninstallTbootXmScript = None then
                 (case run_on S UninstallTbootXmScript m of
                    (None, m) \<Rightarrow> (Ret (), m)
                  | (Some e, m) \<Rightarrow>
                      (Fail (NewErr ''An error occurred while uninstalling application agent''), m))
               else (Ret (), m)) (\<lambda>_ m.
        (Ret (), remove_dir S LogDir (remove_dir S InstallationDir m))))"

lemmas main_defs = command_of_def report_command_def service_parameters_def
  configure_logs_def startService_def setup_arguments_def run_setup_def setup_command_def
  run_systemctl_def systemctl_command_def printVersion_def fetchEndorsementCert_def ServiceName_def
  ServiceStatusCommand_def ServiceStopCommand_def ServiceDisableCommand_def ServiceDisableInitCommand_def
  UninstallTbootXmScript_def run_on_def remove_all_def stop_service_def remove_dir_def uninstall_def

declare main_defs [eval_simps]

section \<open>Lemmas\<close>

lemma run_on_ran [simp]: "m_ran (snd (run_on S cmd m)) = m_ran m @ [cmd]"
  by (simp add: run_on_def split: prod.split)

lemma run_on_files: "m_files (snd (run_on S cmd m)) = snd (run_command S cmd (m_files m))"
  by (simp add: run_on_def split: prod.split)

lemma run_on_fst: "fst (run_on S cmd m) = fst (run_command S cmd (m_files m))"
  by (simp add: run_on_def split: prod.split)

text \<open>Nothing is below a directory that does not exist.\<close>

definition dirs_ok :: "file_system \<Rightarrow> bool" where
  "dirs_ok fs \<longleftrightarrow> (\<forall>d \<in> {InstallationDir, LogDir}. fs d = Absent \<longrightarrow> (\<forall>p. prefix d p \<longrightarrow> fs p = Absent))"

lemma run_on_dirs_ok:
  "dirs_ok (m_files m) \<Longrightarrow> (\<And>cmd fs. dirs_ok fs \<Longrightarrow> dirs_ok (snd (run_command S cmd fs))) \<Longrightarrow>
     dirs_ok (m_files (snd (run_on S cmd m)))"
  by (simp add: run_on_files)

lemma os_Stat_None: "os_Stat fs p = None \<longleftrightarrow> fs p \<noteq> Absent"
  by (simp add: os_Stat_def split: file_state.split)

lemma remove_dir_ran [simp]: "m_ran (remove_dir S dir m) = m_ran m"
  by (simp add: remove_dir_def)

lemma remove_dir_removes:
  "remove_fails S dir = None \<Longrightarrow> (m_files m dir = Absent \<Longrightarrow> \<forall>p. prefix dir p \<longrightarrow> m_files m p = Absent) \<Longrightarrow>
     m_files (remove_dir S dir m) p = (if prefix dir p then Absent else m_files m p)"
  by (auto simp: remove_dir_def remove_all_def os_Stat_None)

lemma log_dir_apart: "\<not> prefix InstallationDir LogDir"
  by (simp add: constants_defs)

fun stop_sequence :: "command_error option \<Rightarrow> string list" where
  "stop_sequence None = [ServiceStopCommand, ServiceDisableCommand]"
| "stop_sequence (Some (ExitStatus n)) = (if n = 3 then [ServiceDisableCommand] else [])"
| "stop_sequence (Some (OtherError msg)) = []"

lemma stop_service_Ret:
  assumes "stop_service S m = (Ret u, m')"
  shows "m_ran m' = m_ran m @ ServiceStatusCommand # stop_sequence (fst (run_command S ServiceStatusCommand (m_files m)))"
    and "fst (run_command S ServiceStatusCommand (m_files m)) \<in> {None, Some (ExitStatus 3), Some (ExitStatus 4)}"
    and "dirs_ok (m_files m) \<Longrightarrow> (\<And>cmd fs. dirs_ok fs \<Longrightarrow> dirs_ok (snd (run_command S cmd fs))) \<Longrightarrow> dirs_ok (m_files m')"
proof -
  obtain err m1 where r: "run_on S ServiceStatusCommand m = (err, m1)" by fastforce
  have m1: "m_ran m1 = m_ran m @ [ServiceStatusCommand]"
    "err = fst (run_command S ServiceStatusCommand (m_files m))"
    using r run_on_ran [of S ServiceStatusCommand m] run_on_fst [of S ServiceStatusCommand m] by simp_all
  show "m_ran m' = m_ran m @ ServiceStatusCommand # stop_sequence (fst (run_command S ServiceStatusCommand (m_files m)))"
    using assms r m1 by (auto simp: stop_service_def split: option.splits command_error.splits if_splits)
  show "fst (run_command S ServiceStatusCommand (m_files m)) \<in> {None, Some (ExitStatus 3), Some (ExitStatus 4)}"
    using assms r m1 by (auto simp: stop_service_def split: option.splits command_error.splits if_splits)
  assume d: "dirs_ok (m_files m)" "\<And>cmd fs. dirs_ok fs \<Longrightarrow> dirs_ok (snd (run_command S cmd fs))"
  have "dirs_ok (m_files m1)" using run_on_dirs_ok [OF d, of ServiceStatusCommand] r by simp
  then show "dirs_ok (m_files m')"
    using assms r d(2)
    by (auto simp: stop_service_def run_on_files split: option.splits command_error.splits if_splits)
qed

lemma setup_command_Ret:
  assumes "setup_command lib username os_Args s = (MainReturns, s')"
  obtains setupCommand answers W tasks s1 fs where "username = ''root''"
    "setup_arguments os_Args = Inr (setupCommand, answers)"
    "W = (case answers of None \<Rightarrow> sl_world lib | Some f \<Rightarrow> read_answers lib f (sl_world lib))"
    "CreateTaskRunner W setupCommand
       (Some (snd (LoadEnvironmentVariables (sw_config W) (ss_cfg (setup_logs (sw_config (sl_world lib)) s))))) = Ret tasks"
    "run_tasks lib W tasks ((setup_logs (sw_config (sl_world lib)) s)\<lparr>ss_cfg :=
       snd (LoadEnvironmentVariables (sw_config W) (ss_cfg (setup_logs (sw_config (sl_world lib)) s)))\<rparr>) = (Ret (), s1)"
    "config_Save (sw_config W) (ss_cfg s1) (ss_files s1) = (Ret (), fs)" "s' = set_files fs s1"
proof -
  let ?s = "setup_logs (sw_config (sl_world lib)) s"
  obtain setupCommand answers where a: "setup_arguments os_Args = Inr (setupCommand, answers)" "username = ''root''"
    and r: "run_setup lib (case answers of None \<Rightarrow> sl_world lib | Some f \<Rightarrow> read_answers lib f (sl_world lib)) setupCommand ?s =
      (MainReturns, s')"
    using assms by (auto simp: setup_command_def RootUserName_def setup_arguments_def Let_def split: if_splits sum.splits)
  define W where "W = (case answers of None \<Rightarrow> sl_world lib | Some f \<Rightarrow> read_answers lib f (sl_world lib))"
  obtain x cfg where ld: "LoadEnvironmentVariables (sw_config W) (ss_cfg ?s) = (x, cfg)" by fastforce
  obtain tasks s1 fs where "CreateTaskRunner W setupCommand (Some cfg) = Ret tasks"
    "run_tasks lib W tasks (?s\<lparr>ss_cfg := cfg\<rparr>) = (Ret (), s1)"
    "config_Save (sw_config W) (ss_cfg s1) (ss_files s1) = (Ret (), fs)" "s' = set_files fs s1"
    using r ld unfolding W_def [symmetric] run_setup_def Let_def
    by (auto split: go.splits prod.splits)
  then show ?thesis using that [OF a(2,1) W_def] ld by simp
qed

lemma setup_saved:
  assumes "yaml_Encode L' = yaml_Encode L" and "yaml_Decode L' = yaml_Decode L"
    and "\<forall>c bs. yaml_Encode L c = Ret bs \<longrightarrow> yaml_Decode L bs = Ret (c\<lparr>configFile := []\<rparr>)"
    and "config_Save L' cfg fs = (Ret (), fs')"
  shows "NewConfigFromYaml L fs' (configFile cfg) = Ret cfg"
proof -
  have "NewConfigFromYaml L' fs' (configFile cfg) = Ret cfg"
    using assms by (intro saved_config_read [OF _ assms(4)]) simp
  moreover have "fs' (configFile cfg) \<noteq> Absent \<and> (\<forall>e. fs' (configFile cfg) \<noteq> Unreadable e)"
    using assms(4) by (auto simp: config_Save_def thenS_eq_Ret split: if_splits)
  ultimately show ?thesis
    using assms(1,2) by (simp add: NewConfigFromYaml_def os_Open_def split: file_state.splits)
qed

text \<open>What the web service gets of the configuration, and that an agent in http mode with a port creates it.\<close>

lemma web_parameters:
  "Port (sp_Web (service_parameters (log_level L cfg))) = Port (cfg_service cfg)"
  "ReadTimeout (sp_Web (service_parameters (log_level L cfg))) = ReadTimeout (cfg_service cfg)"
  "ReadHeaderTimeout (sp_Web (service_parameters (log_level L cfg))) = ReadHeaderTimeout (cfg_service cfg)"
  "WriteTimeout (sp_Web (service_parameters (log_level L cfg))) = WriteTimeout (cfg_service cfg)"
  "IdleTimeout (sp_Web (service_parameters (log_level L cfg))) = IdleTimeout (cfg_service cfg)"
  "MaxHeaderBytes (sp_Web (service_parameters (log_level L cfg))) = MaxHeaderBytes (cfg_service cfg)"
  "sp_Mode (service_parameters (log_level L cfg)) = Mode cfg"
  by (simp_all add: service_parameters_def log_level_def set_level_def service_config.defs Let_def)

lemma web_agent_starts:
  "Mode cfg = ''http'' \<Longrightarrow> Port (cfg_service cfg) \<noteq> 0 \<Longrightarrow>
     fst (startService False ''tagent'' L (cfg, fs)) =
       Inr (HttpService \<lparr>webParameters = sp_Web (service_parameters (log_level L cfg)), server = None\<rparr>)"
  by (simp add: startService_def configure_logs_def TagentUserName_def NewTrustAgentService_def newWebService_def web_parameters Let_def)

section \<open>Properties\<close>

text \<open>A library that can save one configuration, for the examples.\<close>

definition saving_lib :: "TrustAgentConfiguration \<Rightarrow> config_lib" where
  "saving_lib cfg = sample_config_lib\<lparr>yaml_Encode := \<lambda>c. if c = cfg then Ret [1] else Fail EOF,
     yaml_Decode := \<lambda>bs. Ret (cfg\<lparr>configFile := []\<rparr>)\<rparr>"

lemma saving_lib_laws:
  "\<forall>c bs. yaml_Encode (saving_lib cfg) c = Ret bs \<longrightarrow> yaml_Decode (saving_lib cfg) bs = Ret (c\<lparr>configFile := []\<rparr>)"
  "configFile cfg \<noteq> [] \<Longrightarrow> config_Save (saving_lib cfg) cfg (\<lambda>p. Absent) =
     (Ret (), (\<lambda>p. Absent)(configFile cfg := Contents [1]))"
  by (auto simp: saving_lib_def config_Save_def sample_config_lib_def return_with_def split: if_splits)

text \<open>
  C22: what setup changed is what the agent reads at its next start: a setup that ends successfully ran
  as root, with understood arguments; the library's runner was given every task of the chosen command and
  the configuration loaded from the environment and reported success; and the configuration it left is the
  one the file then yields. Needs
  that YAML decodes what it encoded and that an answer file changes only the environment.
\<close>

theorem setup_persists:
  assumes "setup_command lib username os_Args s = (MainReturns, s')"
    and "\<forall>c bs. yaml_Encode (sw_config (sl_world lib)) c = Ret bs \<longrightarrow>
           yaml_Decode (sw_config (sl_world lib)) bs = Ret (c\<lparr>configFile := []\<rparr>)"
    and "\<forall>f. yaml_Encode (sw_config (read_answers lib f (sl_world lib))) = yaml_Encode (sw_config (sl_world lib)) \<and>
           yaml_Decode (sw_config (read_answers lib f (sl_world lib))) = yaml_Decode (sw_config (sl_world lib))"
  shows "username = ''root'' \<and>
    NewConfigFromYaml (sw_config (sl_world lib)) (ss_files s') (configFile (ss_cfg s')) = Ret (ss_cfg s') \<and>
    (\<exists>setupCommand answers W cfg tasks s1 fs.
       setup_arguments os_Args = Inr (setupCommand, answers) \<and>
       W = (case answers of None \<Rightarrow> sl_world lib | Some f \<Rightarrow> read_answers lib f (sl_world lib)) \<and>
       cfg = snd (LoadEnvironmentVariables (sw_config W) (ss_cfg (setup_logs (sw_config (sl_world lib)) s))) \<and>
       CreateTaskRunner W setupCommand (Some cfg) = Ret tasks \<and>
       run_tasks lib W tasks ((setup_logs (sw_config (sl_world lib)) s)\<lparr>ss_cfg := cfg\<rparr>) = (Ret (), s1) \<and>
       s' = set_files fs s1)"
proof -
  obtain setupCommand answers W tasks s1 fs where r: "username = ''root''"
    "setup_arguments os_Args = Inr (setupCommand, answers)"
    "W = (case answers of None \<Rightarrow> sl_world lib | Some f \<Rightarrow> read_answers lib f (sl_world lib))"
    "CreateTaskRunner W setupCommand
       (Some (snd (LoadEnvironmentVariables (sw_config W) (ss_cfg (setup_logs (sw_config (sl_world lib)) s))))) = Ret tasks"
    "run_tasks lib W tasks ((setup_logs (sw_config (sl_world lib)) s)\<lparr>ss_cfg :=
       snd (LoadEnvironmentVariables (sw_config W) (ss_cfg (setup_logs (sw_config (sl_world lib)) s)))\<rparr>) = (Ret (), s1)"
    "config_Save (sw_config W) (ss_cfg s1) (ss_files s1) = (Ret (), fs)" "s' = set_files fs s1"
    using setup_command_Ret [OF assms(1)] .
  have y: "yaml_Encode (sw_config W) = yaml_Encode (sw_config (sl_world lib))"
    "yaml_Decode (sw_config W) = yaml_Decode (sw_config (sl_world lib))"
    using assms(3) by (simp_all add: r(3) split: option.split)
  have "NewConfigFromYaml (sw_config (sl_world lib)) (ss_files s') (configFile (ss_cfg s')) = Ret (ss_cfg s')"
    using setup_saved [OF y assms(2) r(6)] by (simp add: r(7))
  then show ?thesis using r(1) by (intro conjI exI) (assumption | rule r refl)+
qed

theorem setup_persists_witness:
  "\<exists>L cfg s'. setup_command \<lparr>sl_world = sample_world L, read_answers = \<lambda>f W. W, run_tasks = \<lambda>W ts s. (Ret (), s\<lparr>ss_cfg := cfg\<rparr>)\<rparr>
       ''root'' [''tagent'', ''setup'', ''update-service-config''] (sample_setup (empty_config\<lparr>configFile := ''c''\<rparr>)) =
       (MainReturns, s') \<and>
     ApiToken (ss_cfg s') = ''T'' \<and> NewConfigFromYaml L (ss_files s') ''c'' = Ret (ss_cfg s')"
proof -
  let ?c = "empty_config\<lparr>configFile := ''c'', ApiToken := ''T''\<rparr>"
  let ?L = "saving_lib ?c"
  let ?lib = "\<lparr>sl_world = sample_world ?L, read_answers = \<lambda>f W. W, run_tasks = \<lambda>W ts s. (Ret (), s\<lparr>ss_cfg := ?c\<rparr>)\<rparr>"
  let ?s = "sample_setup (empty_config\<lparr>configFile := ''c''\<rparr>)" and ?args = "[''tagent'', ''setup'', ''update-service-config'']"
  have ld: "fst (LoadEnvironmentVariables ?L c) = Ret ()" for c
    by (simp add: LoadEnvironmentVariables_def load_digest_def env_value_def saving_lib_def sample_config_lib_def
        sample_context_def Let_def)
  have log: "ss_files (setup_logs ?L ?s) = ss_files ?s"
    by (simp add: setup_logs_def configure_logs_def LogConfiguration_refused saving_lib_def sample_config_lib_def
        case_prod_unfold)
  have tasks: "CreateTaskRunner W ''update-service-config'' (Some cfg) = Ret [UpdateServiceConfigTask]" for W and cfg
    by (simp add: CreateTaskRunner_def task_factories_def hvs_commands_def tpm_commands_def select_tasks_def Let_def)
  have "ss_files ?s ''c'' = Absent"
    by (simp add: sample_setup_def sample_host_def constants_defs)
  then have "\<exists>fs. config_Save ?L ?c (ss_files ?s) = (Ret (), fs)"
    by (simp add: config_Save_def saving_lib_def sample_config_lib_def)
  then obtain fs where sv: "config_Save ?L ?c (ss_files ?s) = (Ret (), fs)" by blast
  obtain cfg1 where ld1: "LoadEnvironmentVariables ?L (ss_cfg (setup_logs ?L ?s)) = (Ret (), cfg1)"
    using ld [of "ss_cfg (setup_logs ?L ?s)"] by (cases "LoadEnvironmentVariables ?L (ss_cfg (setup_logs ?L ?s))") simp
  have "\<exists>s'. setup_command ?lib ''root'' ?args ?s = (MainReturns, s') \<and> ss_cfg s' = ?c"
    using ld1 sv log
    by (simp add: setup_command_def RootUserName_def setup_arguments_def run_setup_def tasks Let_def)
  then obtain s' where run: "setup_command ?lib ''root'' ?args ?s = (MainReturns, s')" "ss_cfg s' = ?c" by blast
  have "NewConfigFromYaml ?L (ss_files s') (configFile (ss_cfg s')) = Ret (ss_cfg s')"
    using setup_persists [OF run(1)] saving_lib_laws(1) [of ?c] by simp
  then have "NewConfigFromYaml ?L (ss_files s') ''c'' = Ret (ss_cfg s')" using run(2) by simp
  moreover have "ApiToken (ss_cfg s') = ''T''" using run(2) by simp
  ultimately show ?thesis using run(1) by blast
qed

text \<open>
  C11: the settings reach the server: when update-service-config has run and the configuration is saved, the
  agent that starts in http mode on that file serves on the port of the environment (1443 when it names
  none) with the timeouts and the header limit of the environment or their defaults, and accepts nothing
  below TLS 1.2 and only the four ECDHE suites with AES-GCM.
\<close>

theorem settings_reach_server:
  assumes "config_Save L (cfg\<lparr>cfg_service := snd (UpdateServiceConfig_Run c (cfg_service cfg))\<rparr>) fs = (Ret (), fs')"
    and "\<forall>c bs. yaml_Encode L c = Ret bs \<longrightarrow> yaml_Decode L bs = Ret (c\<lparr>configFile := []\<rparr>)"
    and "Mode cfg = ''http''"
  shows "\<exists>cfg' s srv. NewConfigFromYaml L fs' (configFile cfg) = Ret cfg' \<and>
    fst (startService False ''tagent'' L (cfg', fs')) = Inr (HttpService s) \<and>
    web_service_Start W s = (Ret (), s\<lparr>server := Some srv\<rparr>) \<and>
    Addr srv = CHR '':'' # dec_int (if fst (GetenvInt c ''TRUSTAGENT_PORT'') = 0 then 1443
                                  else fst (GetenvInt c ''TRUSTAGENT_PORT'')) \<and>
    http_ReadTimeout srv = timeout_of (GetenvInt c ''TA_SERVER_READ_TIMEOUT'') (30 * second) \<and>
    http_ReadHeaderTimeout srv = timeout_of (GetenvInt c ''TA_SERVER_READ_HEADER_TIMEOUT'') (10 * second) \<and>
    http_WriteTimeout srv = timeout_of (GetenvInt c ''TA_SERVER_WRITE_TIMEOUT'') (10 * second) \<and>
    http_IdleTimeout srv = timeout_of (GetenvInt c ''TA_SERVER_IDLE_TIMEOUT'') (10 * second) \<and>
    http_MaxHeaderBytes srv = (case GetenvInt c ''TA_SERVER_MAX_HEADER_BYTES'' of (n, None) \<Rightarrow> n | _ \<Rightarrow> 2 ^ 20) \<and>
    MinVersion srv = 0x0303 \<and> set (CipherSuites srv) = {0xc02b, 0xc02c, 0xc02f, 0xc030}"
proof -
  let ?cfg = "cfg\<lparr>cfg_service := snd (UpdateServiceConfig_Run c (cfg_service cfg))\<rparr>"
  let ?s = "\<lparr>webParameters = sp_Web (service_parameters (log_level L ?cfg)), server = None\<rparr>"
  let ?srv = "(make_server (http_log_writer W) (webParameters ?s))\<lparr>ErrorLog := close_writer (http_log_writer W)\<rparr>"
  have read: "NewConfigFromYaml L fs' (configFile cfg) = Ret ?cfg"
    using saved_config_read [OF _ assms(1)] assms(2) by simp
  have start: "fst (startService False ''tagent'' L (?cfg, fs')) = Inr (HttpService ?s)"
    using assms(3) by (intro web_agent_starts) (simp_all add: update_settings)
  show ?thesis
    by (intro exI [of _ ?cfg] exI [of _ ?s] exI [of _ ?srv] conjI, rule read, rule start)
      (auto simp: web_service_Start_def make_server_def web_parameters update_settings tls_VersionTLS12_def tls_suites_def
        Let_def split: prod.split option.split)
qed

text \<open>An agent in http mode whose environment has no numbers.\<close>

definition sample_settings :: setup_context where
  "sample_settings = sample_context\<lparr>GetenvInt := \<lambda>v. (0, Some EOF)\<rparr>"

definition sample_saved :: TrustAgentConfiguration where
  "sample_saved = empty_config\<lparr>configFile := ''c'', Mode := ''http''\<rparr>"

theorem settings_reach_server_witness:
  "\<exists>L fs' cfg' s srv.
     config_Save L (sample_saved\<lparr>cfg_service := snd (UpdateServiceConfig_Run sample_settings (cfg_service sample_saved))\<rparr>)
       (\<lambda>p. Absent) = (Ret (), fs') \<and>
     NewConfigFromYaml L fs' (configFile sample_saved) = Ret cfg' \<and>
     fst (startService False ''tagent'' L (cfg', fs')) = Inr (HttpService s) \<and>
     web_service_Start sample_web_lib s = (Ret (), s\<lparr>server := Some srv\<rparr>) \<and> Addr srv = '':1443''"
proof -
  let ?saved = "sample_saved\<lparr>cfg_service := snd (UpdateServiceConfig_Run sample_settings (cfg_service sample_saved))\<rparr>"
  have cf: "configFile ?saved \<noteq> []" and mode: "Mode sample_saved = ''http''" by (simp_all add: sample_saved_def)
  have port: "fst (GetenvInt sample_settings v) = 0" for v by (simp add: sample_settings_def)
  have dec: "dec_int 1443 = ''1443''" by (simp add: dec_int_def dec_nat.simps char_of_def eval_simps)
  show ?thesis
    using settings_reach_server [OF saving_lib_laws(2) [OF cf] saving_lib_laws(1) mode, of sample_web_lib]
      saving_lib_laws(2) [OF cf]
    unfolding port dec simp_thms if_True by blast
qed

text \<open>
  C31: uninstall leaves nothing behind: when it succeeds and the directories can be removed, no file is
  left under the installation or the log directory; the service was stopped and disabled as far as its
  status asked for it, in that order, and the init service was disabled. Any other status is refused.
\<close>

theorem uninstall_removes:
  assumes "uninstall S m = (Ret u, m')"
    and "remove_fails S InstallationDir = None" and "remove_fails S LogDir = None"
    and "dirs_ok (m_files m)" and "\<forall>cmd fs. dirs_ok fs \<longrightarrow> dirs_ok (snd (run_command S cmd fs))"
  shows "(\<forall>p. prefix InstallationDir p \<or> prefix LogDir p \<longrightarrow> m_files m' p = Absent) \<and>
    fst (run_command S ServiceStatusCommand (m_files m)) \<in> {None, Some (ExitStatus 3), Some (ExitStatus 4)} \<and>
    (\<exists>script. m_ran m' = m_ran m @ ServiceStatusCommand #
        stop_sequence (fst (run_command S ServiceStatusCommand (m_files m))) @ ServiceDisableInitCommand # script \<and>
      (script = [] \<or> script = [UninstallTbootXmScript]))"
proof -
  obtain m1 where m1: "stop_service S m = (Ret (), m1)"
    using assms(1) by (auto simp: uninstall_def thenS_eq_Ret)
  define m2 where "m2 = snd (run_on S ServiceDisableInitCommand m1)"
  obtain m3 where m3: "m3 = m2 \<or> m3 = snd (run_on S UninstallTbootXmScript m2)"
    "m' = remove_dir S LogDir (remove_dir S InstallationDir m3)"
    using assms(1) m1
    by (auto simp: uninstall_def thenS_eq_Ret Let_def m2_def [symmetric] split: if_splits option.splits prod.splits)
  have law: "\<And>cmd fs. dirs_ok fs \<Longrightarrow> dirs_ok (snd (run_command S cmd fs))" using assms(5) by blast
  have "dirs_ok (m_files m2)"
    unfolding m2_def by (intro run_on_dirs_ok stop_service_Ret(3) [OF m1] assms(4) law)
  then have d: "dirs_ok (m_files m3)" using m3(1) law by (auto intro: run_on_dirs_ok)
  let ?m4 = "remove_dir S InstallationDir m3"
  have f4: "m_files ?m4 p = (if prefix InstallationDir p then Absent else m_files m3 p)" for p
    using d by (intro remove_dir_removes assms(2)) (auto simp: dirs_ok_def)
  have "m_files m' p = (if prefix LogDir p then Absent else m_files ?m4 p)" for p
    unfolding m3(2)
  proof (intro remove_dir_removes assms(3))
    assume "m_files ?m4 LogDir = Absent"
    then have "m_files m3 LogDir = Absent" by (simp add: f4 log_dir_apart)
    then have "\<forall>p. prefix LogDir p \<longrightarrow> m_files m3 p = Absent" using d by (simp add: dirs_ok_def)
    then show "\<forall>p. prefix LogDir p \<longrightarrow> m_files ?m4 p = Absent" by (simp add: f4)
  qed
  then have "\<forall>p. prefix InstallationDir p \<or> prefix LogDir p \<longrightarrow> m_files m' p = Absent" using f4 by simp
  moreover have "fst (run_command S ServiceStatusCommand (m_files m)) \<in> {None, Some (ExitStatus 3), Some (ExitStatus 4)}"
    by (rule stop_service_Ret(2) [OF m1])
  moreover have "\<exists>script. m_ran m' = m_ran m2 @ script \<and> (script = [] \<or> script = [UninstallTbootXmScript])"
  proof -
    have "m_ran m' = m_ran m3" by (simp add: m3(2))
    moreover have "m_ran m3 = m_ran m2 \<or> m_ran m3 = m_ran m2 @ [UninstallTbootXmScript]"
      using m3(1) run_on_ran [of S UninstallTbootXmScript m2] by metis
    ultimately show ?thesis by auto
  qed
  moreover have "m_ran m2 = m_ran m @ ServiceStatusCommand #
      stop_sequence (fst (run_command S ServiceStatusCommand (m_files m))) @ [ServiceDisableInitCommand]"
    by (simp add: m2_def stop_service_Ret(1) [OF m1])
  ultimately show ?thesis by auto
qed

definition sample_os :: os_lib where
  "sample_os = \<lparr>run_command = \<lambda>cmd fs. (if cmd = ServiceStatusCommand then Some (ExitStatus 3) else None, fs),
     remove_fails = \<lambda>d. None\<rparr>"

theorem uninstall_removes_witness:
  "\<exists>m'. uninstall sample_os \<lparr>m_files = (\<lambda>p. if prefix ''/opt'' p then Contents [] else Absent), m_ran = []\<rparr> = (Ret (), m') \<and>
     m_files m' ConfigFilePath = Absent"
proof -
  let ?m = "\<lparr>m_files = (\<lambda>p. if prefix ''/opt'' p then Contents [] else Absent), m_ran = []\<rparr>"
  have "\<exists>m'. uninstall sample_os ?m = (Ret (), m')"
    by (simp add: uninstall_def stop_service_def run_on_def sample_os_def Let_def ServiceStatusCommand_def
        UninstallTbootXmScript_def)
  then obtain m' where m': "uninstall sample_os ?m = (Ret (), m')" ..
  have ok: "remove_fails sample_os InstallationDir = None" "remove_fails sample_os LogDir = None" "dirs_ok (m_files ?m)"
    by (auto simp: sample_os_def dirs_ok_def constants_defs prefix_def)
  have law: "\<forall>cmd fs. dirs_ok fs \<longrightarrow> dirs_ok (snd (run_command sample_os cmd fs))" by (simp add: sample_os_def)
  have "prefix InstallationDir ConfigFilePath" by (simp add: constants_defs)
  then show ?thesis using uninstall_removes [OF m' ok law] m' by blast
qed

end
