(* ===== verification/Web_Lifecycle.thy ===== *)
theory Web_Lifecycle
  imports Hvs_Tasks Agent_Init
begin

text \<open>
  The rest of \<^verbatim>\<open>service/webservice.go\<close>: \<^verbatim>\<open>Start\<close> and \<^verbatim>\<open>Stop\<close> of the web service, and \<^verbatim>\<open>fnGetJwtCerts\<close>, which
  fetches the certificates that sign tokens. The listening goroutine runs beside \<^verbatim>\<open>main\<close>: stopping the
  service is a step relation over connections, the listener and \<^verbatim>\<open>main\<close>. Sockets and TLS are not
  modelled: a connection is counted, not served.
\<close>

section \<open>Fetching the certificates of the token issuer\<close>

text \<open>
  \<open>valid_url\<close> says whether \<^verbatim>\<open>http.NewRequest\<close> accepts the URL (its error is ignored and the request is nil
  then); the answer is a status and the body or the error of reading it; \<open>save_pem\<close> is
  \<^verbatim>\<open>crypt.SavePemCertWithShortSha1FileName\<close>.
\<close>

record jwt_lib =
  valid_url :: "string \<Rightarrow> bool"
  jwt_GetCertsFromDir :: "string \<Rightarrow> go_error option"
  jwt_HTTPClientWithCA :: "go_error option"
  http_Get :: "string \<Rightarrow> (nat \<times> byte list go) go"
  save_pem :: "byte list \<Rightarrow> string \<Rightarrow> file_system \<Rightarrow> go_error option \<times> file_system"

definition fnGetJwtCerts :: "config_lib \<Rightarrow> jwt_lib \<Rightarrow> file_system \<Rightarrow> unit go \<times> file_system" where
  "fnGetJwtCerts L J fs =
     (case NewConfigFromYaml L fs ConfigFilePath of
        Panic p \<Rightarrow> (Panic p, fs)
      | Fail e \<Rightarrow> (Ret (), fs)
      | Ret cfg \<Rightarrow>
          (let url = AAS_BaseURL cfg @ ''jwt-certificates''
           in if \<not> valid_url J url then (Panic NilDereference, fs)
              else
                thenS (wrapping ''Error while getting certs'' (return_with () (jwt_GetCertsFromDir J TrustedCaCertsDir)), fs) (\<lambda>_ fs.
                thenS (wrapping ''Error setting up HTTP client'' (return_with () (jwt_HTTPClientWithCA J)), fs) (\<lambda>_ fs.
                thenS (wrapping ''Could not retrieve jwt certificate'' (http_Get J url), fs) (\<lambda>res fs.
                thenS (wrapping ''Error while reading response body'' (snd res), fs) (\<lambda>body fs.
                wrapS ''Error while saving certificate'' (errS (save_pem J body TrustedJWTSigningCertsDir fs))))))))"

declare fnGetJwtCerts_def [eval_simps]

text \<open>The status of the answer plays no part: an error page is taken for the certificates.\<close>

lemma jwt_status_ignored:
  "fnGetJwtCerts L (J\<lparr>http_Get := \<lambda>url. map_go (\<lambda>res. (200, snd res)) (http_Get J url)\<rparr>) fs = fnGetJwtCerts L J fs"
proof (cases "NewConfigFromYaml L fs ConfigFilePath")
  case (Ret cfg)
  then show ?thesis
    by (cases "http_Get J (AAS_BaseURL cfg @ ''jwt-certificates'')") (simp_all add: fnGetJwtCerts_def Let_def)
qed (simp_all add: fnGetJwtCerts_def)

section \<open>Starting and stopping\<close>

text \<open>
  The process around the web service: \<open>ws_service\<close> is the service as \<^verbatim>\<open>main\<close> has it, \<open>ws_listening\<close> says that
  the goroutine is in \<^verbatim>\<open>ListenAndServeTLS\<close>, \<open>ws_active\<close> counts the connections with a request under way.
\<close>

datatype web_phase = WebCreated | WebRunning | WebStopping | WebEnded ending

record web_process =
  ws_phase :: web_phase
  ws_service :: web_service
  ws_listening :: bool
  ws_active :: nat

definition web_created :: "web_service \<Rightarrow> web_process" where
  "web_created svc = \<lparr>ws_phase = WebCreated, ws_service = svc, ws_listening = False, ws_active = 0\<rparr>"

text \<open>
  \<^verbatim>\<open>Start\<close> makes the server, with its log, and starts the goroutine. The goroutine calls \<^verbatim>\<open>Fatalf\<close>, which exits
  with status 1, for every error \<^verbatim>\<open>ListenAndServeTLS\<close> returns. \<^verbatim>\<open>main\<close> calls \<^verbatim>\<open>Stop\<close>, and exits with status 1 when
  it returns an error.
\<close>

definition web_Start :: "web_lib \<Rightarrow> web_process \<Rightarrow> web_process" where
  "web_Start W s =
     s\<lparr>ws_phase := WebRunning, ws_service := snd (web_service_Start W (ws_service s)), ws_listening := True\<rparr>"

definition after_listen :: "go_error option \<Rightarrow> web_process \<Rightarrow> web_process" where
  "after_listen err s =
     (case err of
        Some e \<Rightarrow> s\<lparr>ws_phase := WebEnded (Exit 1), ws_listening := False\<rparr>
      | None \<Rightarrow> s\<lparr>ws_listening := False\<rparr>)"

definition after_Shutdown :: "web_lib \<Rightarrow> go_error option \<Rightarrow> web_process \<Rightarrow> web_process" where
  "after_Shutdown W err s =
     (case web_service_Stop (W\<lparr>Shutdown := \<lambda>srv. err\<rparr>) (ws_service s) of
        (Ret _, svc) \<Rightarrow> s\<lparr>ws_phase := WebEnded MainReturns, ws_service := svc\<rparr>
      | (Fail e, svc) \<Rightarrow> s\<lparr>ws_phase := WebEnded (Exit 1), ws_service := svc\<rparr>
      | (Panic p, svc) \<Rightarrow> s\<lparr>ws_phase := WebEnded (Recovered p), ws_service := svc\<rparr>)"

text \<open>
  What \<^verbatim>\<open>net/http\<close> documents: \<^verbatim>\<open>ListenAndServeTLS\<close> always returns an error, and \<^verbatim>\<open>ErrServerClosed\<close> as soon as
  \<^verbatim>\<open>Shutdown\<close> was called; \<^verbatim>\<open>Shutdown\<close> returns without error only when no connection is active.
\<close>

definition listen_result :: "bool \<Rightarrow> go_error option \<Rightarrow> bool" where
  "listen_result closing err \<longleftrightarrow> err \<noteq> None \<and> (closing \<longrightarrow> err = Some (LibError ''http: Server closed''))"

definition shutdown_result :: "nat \<Rightarrow> go_error option \<Rightarrow> bool" where
  "shutdown_result active err \<longleftrightarrow> (err = None \<longrightarrow> active = 0)"

inductive web_step :: "web_lib \<Rightarrow> web_process \<Rightarrow> web_process \<Rightarrow> bool" for W :: web_lib where
  web_starts: "ws_phase s = WebCreated \<Longrightarrow> web_step W s (web_Start W s)"
| accept: "ws_phase s = WebRunning \<Longrightarrow> ws_listening s \<Longrightarrow> web_step W s (s\<lparr>ws_active := Suc (ws_active s)\<rparr>)"
| finish: "ws_phase s \<in> {WebRunning, WebStopping} \<Longrightarrow> ws_active s = Suc n \<Longrightarrow> web_step W s (s\<lparr>ws_active := n\<rparr>)"
| stop_called: "ws_phase s = WebRunning \<Longrightarrow> web_step W s (s\<lparr>ws_phase := WebStopping\<rparr>)"
| listen_returns: "ws_phase s \<in> {WebRunning, WebStopping} \<Longrightarrow> ws_listening s \<Longrightarrow>
     listen_result (ws_phase s = WebStopping) err \<Longrightarrow> web_step W s (after_listen err s)"
| shutdown_returns: "ws_phase s = WebStopping \<Longrightarrow> shutdown_result (ws_active s) err \<Longrightarrow>
     web_step W s (after_Shutdown W err s)"

inductive web_reachable :: "web_lib \<Rightarrow> web_service \<Rightarrow> web_process \<Rightarrow> bool" for W :: web_lib and svc :: web_service where
  web_initial: "web_reachable W svc (web_created svc)"
| web_next: "web_reachable W svc s \<Longrightarrow> web_step W s s' \<Longrightarrow> web_reachable W svc s'"

definition web_inv :: "web_process \<Rightarrow> bool" where
  "web_inv s \<longleftrightarrow> (ws_phase s \<in> {WebRunning, WebStopping} \<longrightarrow> ws_listening s \<and> server (ws_service s) \<noteq> None) \<and>
     (ws_phase s = WebCreated \<or> ws_phase s = WebEnded MainReturns \<longrightarrow> ws_active s = 0)"

lemma after_Shutdown_inv:
  "shutdown_result (ws_active s) err \<Longrightarrow> server (ws_service s) \<noteq> None \<Longrightarrow> web_inv (after_Shutdown W err s)"
  by (cases err) (auto simp: web_inv_def after_Shutdown_def web_service_Stop_def shutdown_result_def)

lemma web_step_inv: "web_step W s s' \<Longrightarrow> web_inv s \<Longrightarrow> web_inv s'"
proof (induction rule: web_step.induct)
  case (shutdown_returns s err)
  then show ?case by (intro after_Shutdown_inv) (simp_all add: web_inv_def)
qed (auto simp: web_inv_def web_Start_def web_service_Start_def after_listen_def listen_result_def Let_def)

lemma web_reachable_inv: "web_reachable W svc s \<Longrightarrow> web_inv s"
proof (induction rule: web_reachable.induct)
  case web_initial
  show ?case by (simp add: web_inv_def web_created_def)
qed (rule web_step_inv)

text \<open>
  Stopping the web service is not graceful: whenever \<^verbatim>\<open>main\<close> is in \<^verbatim>\<open>Shutdown\<close>, the error \<^verbatim>\<open>ErrServerClosed\<close>
  that \<^verbatim>\<open>ListenAndServeTLS\<close> now returns makes the listening goroutine exit the process with status 1,
  however many requests are under way. Only a stop that \<^verbatim>\<open>main\<close> itself completes leaves none unanswered.
\<close>

lemma web_stop_may_abort:
  assumes "web_reachable W svc s"
  shows "(ws_phase s = WebStopping \<longrightarrow>
      (\<exists>s'. web_step W s s' \<and> ws_phase s' = WebEnded (Exit 1) \<and> ws_active s' = ws_active s)) \<and>
    (ws_phase s = WebEnded MainReturns \<longrightarrow> ws_active s = 0)"
proof -
  have inv: "web_inv s" by (rule web_reachable_inv [OF assms])
  have "web_step W s (after_listen (Some (LibError ''http: Server closed'')) s)" if "ws_phase s = WebStopping"
    using that inv by (intro listen_returns) (simp_all add: web_inv_def listen_result_def)
  then show ?thesis using inv by (auto simp: web_inv_def after_listen_def)
qed

end
