(* ===== verification/Go_Procs.thy ===== *)
theory Go_Procs
  imports Tpm_Provider
begin

text \<open>
  Goroutines that share a state. A process is a tree of atomic steps: each reads the shared state,
  changes it, and chooses what comes next by what it read. \<^verbatim>\<open>net/http\<close> runs every request on a
  goroutine of its own, so requests are served by processes whose steps interleave in any order. The
  theory says what a process does when it runs alone, what it does under interference, and gives in
  the locale \<open>interference\<close> the rely and guarantee argument for a server of such processes.
\<close>

section \<open>Processes\<close>

datatype ('s, 'a) proc =
    Done "'a go"
  | Step "'s \<Rightarrow> 's" "'s \<Rightarrow> ('s, 'a) proc"

primrec run_alone :: "('s, 'a) proc \<Rightarrow> 's \<Rightarrow> 'a go \<times> 's" where
  "run_alone (Done r) s = (r, s)"
| "run_alone (Step upd nxt) s = run_alone (nxt s) (upd s)"

text \<open>Sequencing: an error or a panic ends the process. \<open>finalP\<close> changes the outcome (wrapping).\<close>

primrec thenP :: "('s, 'a) proc \<Rightarrow> ('a \<Rightarrow> ('s, 'b) proc) \<Rightarrow> ('s, 'b) proc" where
  "thenP (Done r) f = (case r of Ret x \<Rightarrow> f x | Fail e \<Rightarrow> Done (Fail e) | Panic p \<Rightarrow> Done (Panic p))"
| "thenP (Step upd nxt) f = Step upd (\<lambda>s. thenP (nxt s) f)"

lemma thenP_Done [simp]:
  "thenP (Done (Ret x)) f = f x" "thenP (Done (Fail e)) f = Done (Fail e)" "thenP (Done (Panic q)) f = Done (Panic q)"
  by simp_all

declare thenP.simps(1) [simp del]

primrec finalP :: "('a go \<Rightarrow> 'b go) \<Rightarrow> ('s, 'a) proc \<Rightarrow> ('s, 'b) proc" where
  "finalP g (Done r) = Done (g r)"
| "finalP g (Step upd nxt) = Step upd (\<lambda>s. finalP g (nxt s))"

text \<open>One atomic call, and one that only reads.\<close>

definition atomicP :: "('s \<Rightarrow> 'a go \<times> 's) \<Rightarrow> ('s, 'a) proc" where
  "atomicP f = Step (\<lambda>s. snd (f s)) (\<lambda>s. Done (fst (f s)))"

definition readP :: "('s \<Rightarrow> 'a go) \<Rightarrow> ('s, 'a) proc" where
  "readP f = atomicP (\<lambda>s. (f s, s))"

lemma run_alone_thenP [simp]:
  "run_alone (thenP p f) s = thenS (run_alone p s) (\<lambda>x s. run_alone (f x) s)"
proof (induction p arbitrary: s)
  case (Done r)
  then show ?case by (cases r) simp_all
qed simp

lemma run_alone_finalP [simp]: "run_alone (finalP g p) s = map_prod g id (run_alone p s)"
  by (induction p arbitrary: s) simp_all

lemma run_alone_atomicP [simp]: "run_alone (atomicP f) s = f s"
  by (simp add: atomicP_def)

lemma run_alone_readP [simp]: "run_alone (readP f) s = (f s, s)"
  by (simp add: readP_def)

section \<open>The states a process has seen\<close>

text \<open>What is left of a process after its next step in a given state.\<close>

fun advance :: "'s \<Rightarrow> ('s, 'a) proc \<Rightarrow> ('s, 'a) proc" where
  "advance s (Done r) = Done r"
| "advance s (Step upd nxt) = nxt s"

text \<open>\<open>yields p ss x\<close>: \<open>p\<close> has returned \<open>x\<close> after steps in the states \<open>ss\<close>.\<close>

inductive yields :: "('s, 'a) proc \<Rightarrow> 's list \<Rightarrow> 'a \<Rightarrow> bool" where
  yields_Done: "yields (Done (Ret x)) [] x"
| yields_Step: "yields (nxt s) ss x \<Longrightarrow> yields (Step upd nxt) (s # ss) x"

inductive_simps yields_Done_iff [simp]: "yields (Done r) ss x"
inductive_simps yields_Step_iff: "yields (Step upd nxt) ss x"

lemma yields_thenP:
  "yields (thenP p f) ss y \<Longrightarrow> \<exists>ss1 ss2 x. ss = ss1 @ ss2 \<and> yields p ss1 x \<and> yields (f x) ss2 y"
proof (induction p arbitrary: ss)
  case (Done r)
  then show ?case by (cases r) auto
next
  case (Step upd nxt)
  then obtain s ss' where ss: "ss = s # ss'" and y: "yields (thenP (nxt s) f) ss' y"
    by (auto simp: yields_Step_iff)
  then obtain ss1 ss2 x where "ss' = ss1 @ ss2" "yields (nxt s) ss1 x" "yields (f x) ss2 y"
    using Step.IH [OF rangeI y] by blast
  then have "ss = (s # ss1) @ ss2 \<and> yields (Step upd nxt) (s # ss1) x \<and> yields (f x) ss2 y"
    by (simp add: ss yields_Step)
  then show ?case by blast
qed

lemma yields_thenE:
  assumes "yields (thenP p f) ss y"
  obtains ss1 ss2 x where "ss = ss1 @ ss2" and "yields p ss1 x" and "yields (f x) ss2 y"
  using yields_thenP [OF assms] by blast

lemma yields_finalP: "yields (finalP g p) ss y \<Longrightarrow> \<exists>r. g r = Ret y \<and> (\<forall>x. r = Ret x \<longrightarrow> yields p ss x)"
proof (induction p arbitrary: ss)
  case (Step upd nxt)
  then obtain s ss' where ss: "ss = s # ss'" and y: "yields (finalP g (nxt s)) ss' y"
    by (auto simp: yields_Step_iff)
  then obtain r where "g r = Ret y" "\<forall>x. r = Ret x \<longrightarrow> yields (nxt s) ss' x"
    using Step.IH [OF rangeI y] by blast
  then show ?case using ss by (auto simp: yields_Step)
qed auto

lemma yields_atomicP: "yields (atomicP f) ss x \<longleftrightarrow> (\<exists>s. ss = [s] \<and> fst (f s) = Ret x)"
  by (auto simp: atomicP_def yields_Step_iff)

lemma yields_readP: "yields (readP f) ss x \<longleftrightarrow> (\<exists>s. ss = [s] \<and> f s = Ret x)"
  by (simp add: readP_def yields_atomicP)

lemma yields_advance: "fold advance ss p = Done (Ret x) \<Longrightarrow> \<exists>n. yields p (take n ss) x"
proof (induction ss arbitrary: p)
  case (Cons s ss)
  show ?case
  proof (cases p)
    case (Done r)
    then have "fold advance ss (Done r) = Done (Ret x)" using Cons.prems by simp
    moreover have "fold advance ss (Done r) = Done r" by (induction ss) simp_all
    ultimately have "yields p (take 0 (s # ss)) x" using Done by simp
    then show ?thesis by blast
  next
    case (Step upd nxt)
    then obtain n where "yields (nxt s) (take n ss) x" using Cons by auto
    then have "yields p (take (Suc n) (s # ss)) x" by (simp add: Step yields_Step)
    then show ?thesis by blast
  qed
qed (auto intro: exI [of _ 0])

section \<open>A server of processes\<close>

text \<open>Requests arrive at any time and any of them may take its next step.\<close>

record ('q, 's, 'a) server =
  shared :: 's
  clients :: "('q \<times> ('s, 'a) proc) list"

datatype 'q event = Arrive 'q | Advance nat

fun step_client :: "nat \<Rightarrow> ('q, 's, 'a) server \<Rightarrow> ('q, 's, 'a) server" where
  "step_client i S =
     (if i < length (clients S) then
        (case clients S ! i of
           (q, Done r) \<Rightarrow> S
         | (q, Step upd nxt) \<Rightarrow>
             S\<lparr>shared := upd (shared S), clients := (clients S)[i := (q, nxt (shared S))]\<rparr>)
      else S)"

fun server_step :: "('q \<Rightarrow> ('s, 'a) proc) \<Rightarrow> 'q event \<Rightarrow> ('q, 's, 'a) server \<Rightarrow> ('q, 's, 'a) server" where
  "server_step spawn (Arrive q) S = S\<lparr>clients := clients S @ [(q, spawn q)]\<rparr>"
| "server_step spawn (Advance i) S = step_client i S"

definition server_run ::
  "('q \<Rightarrow> ('s, 'a) proc) \<Rightarrow> 'q event list \<Rightarrow> ('q, 's, 'a) server \<Rightarrow> ('q, 's, 'a) server" where
  "server_run spawn es S = fold (server_step spawn) es S"

declare step_client.simps [simp del, eval_simps] server_run_def [eval_simps]

lemma server_run_simps [simp]:
  "server_run spawn [] S = S"
  "server_run spawn (e # es) S = server_run spawn es (server_step spawn e S)"
  "server_run spawn (es @ es') S = server_run spawn es' (server_run spawn es S)"
  by (simp_all add: server_run_def)

text \<open>How one step changes a client, and the number of clients.\<close>

lemma step_client_length [simp]: "length (clients (step_client i S)) = length (clients S)"
  by (simp add: step_client.simps split: prod.split proc.split)

lemma server_step_length: "length (clients S) \<le> length (clients (server_step spawn e S))"
  by (cases e) simp_all

lemma server_run_length: "length (clients S) \<le> length (clients (server_run spawn es S))"
proof (induction es arbitrary: S)
  case (Cons e es)
  then show ?case using server_step_length [of S spawn e] le_trans by fastforce
qed simp

lemma step_client_other: "i \<noteq> j \<Longrightarrow> clients (step_client i S) ! j = clients S ! j"
  by (simp add: step_client.simps split: prod.split proc.split)

lemma step_client_self:
  "i < length (clients S) \<Longrightarrow> clients (step_client i S) ! i =
     (fst (clients S ! i), advance (shared S) (snd (clients S ! i)))"
  by (cases "clients S ! i"; cases "snd (clients S ! i)") (simp_all add: step_client.simps)

lemma step_client_shared:
  "i < length (clients S) \<Longrightarrow> shared (step_client i S) =
     (case snd (clients S ! i) of Done r \<Rightarrow> shared S | Step upd nxt \<Rightarrow> upd (shared S))"
  by (cases "clients S ! i"; cases "snd (clients S ! i)") (simp_all add: step_client.simps)

lemma server_step_client:
  "j < length (clients S) \<Longrightarrow> clients (server_step spawn e S) ! j =
     (if e = Advance j then (fst (clients S ! j), advance (shared S) (snd (clients S ! j))) else clients S ! j)"
  by (cases e) (auto simp: nth_append step_client_self step_client_other)

text \<open>A client that is left alone ends, as its process does alone.\<close>

lemma server_alone:
  "i < length (clients S) \<Longrightarrow> clients S ! i = (q, p) \<Longrightarrow> \<exists>n. server_run spawn (replicate n (Advance i)) S =
     S\<lparr>shared := snd (run_alone p (shared S)), clients := (clients S)[i := (q, Done (fst (run_alone p (shared S))))]\<rparr>"
proof (induction p arbitrary: S)
  case (Done r)
  have "(clients S)[i := (q, Done r)] = clients S" using Done by (metis list_update_id)
  then have "server_run spawn (replicate 0 (Advance i)) S =
      S\<lparr>shared := snd (run_alone (Done r) (shared S)), clients := (clients S)[i := (q, Done (fst (run_alone (Done r) (shared S))))]\<rparr>"
    by simp
  then show ?case by blast
next
  case (Step upd nxt)
  let ?S = "S\<lparr>shared := upd (shared S), clients := (clients S)[i := (q, nxt (shared S))]\<rparr>"
  have step: "step_client i S = ?S" using Step.prems by (simp add: step_client.simps)
  obtain n where "server_run spawn (replicate n (Advance i)) ?S =
      ?S\<lparr>shared := snd (run_alone (nxt (shared S)) (shared ?S)),
         clients := (clients ?S)[i := (q, Done (fst (run_alone (nxt (shared S)) (shared ?S))))]\<rparr>"
    using Step.IH [of "nxt (shared S)" ?S] Step.prems by auto
  then have "server_run spawn (replicate (Suc n) (Advance i)) S =
      S\<lparr>shared := snd (run_alone (Step upd nxt) (shared S)),
         clients := (clients S)[i := (q, Done (fst (run_alone (Step upd nxt) (shared S))))]\<rparr>"
    by (simp add: step)
  then show ?case by blast
qed

text \<open>
  A client has taken its steps in states the server was in, in their order: \<open>ns\<close> are the moments of
  its steps.
\<close>

lemma client_history:
  assumes "j < length (clients S)"
  shows "\<exists>ns. sorted_wrt (<) ns \<and> (\<forall>n \<in> set ns. n < length es) \<and>
    clients (server_run spawn es S) ! j =
      (fst (clients S ! j), fold advance (map (\<lambda>n. shared (server_run spawn (take n es) S)) ns) (snd (clients S ! j)))"
proof (induction es rule: rev_induct)
  case Nil
  show ?case by (rule exI [of _ "[]"]) simp
next
  case (snoc e es)
  then obtain ns where ns: "sorted_wrt (<) ns" "\<forall>n \<in> set ns. n < length es"
    "clients (server_run spawn es S) ! j =
      (fst (clients S ! j), fold advance (map (\<lambda>n. shared (server_run spawn (take n es) S)) ns) (snd (clients S ! j)))"
    by blast
  let ?st = "\<lambda>n. shared (server_run spawn (take n (es @ [e])) S)"
  have old: "map ?st ns = map (\<lambda>n. shared (server_run spawn (take n es) S)) ns"
    using ns(2) by auto
  have j: "j < length (clients (server_run spawn es S))"
    using assms server_run_length [of S spawn es] by simp
  have last: "?st (length es) = shared (server_run spawn es S)" by simp
  show ?case
  proof (cases "e = Advance j")
    case True
    have "clients (server_run spawn (es @ [e]) S) ! j =
        (fst (clients S ! j), fold advance (map ?st (ns @ [length es])) (snd (clients S ! j)))"
      unfolding map_append fold_append old using ns(3) j last by (simp add: True step_client_self)
    then show ?thesis
      using ns(1,2) by (intro exI [of _ "ns @ [length es]"]) (auto simp: sorted_wrt_append)
  next
    case False
    have "clients (server_run spawn (es @ [e]) S) ! j =
        (fst (clients S ! j), fold advance (map ?st ns) (snd (clients S ! j)))"
      unfolding old using ns(3) server_step_client [OF j, of spawn e] False by simp
    then show ?thesis using ns(1,2) by (intro exI [of _ ns]) auto
  qed
qed

lemma client_arrival:
  assumes "length (clients S) \<le> j" and "j < length (clients (server_run spawn es S))"
  shows "\<exists>es1 q es2. es = es1 @ Arrive q # es2 \<and> length (clients (server_run spawn es1 S)) = j"
  using assms(2)
proof (induction es rule: rev_induct)
  case (snoc e es)
  show ?case
  proof (cases "j < length (clients (server_run spawn es S))")
    case True
    then obtain es1 q es2 where "es = es1 @ Arrive q # es2" "length (clients (server_run spawn es1 S)) = j"
      using snoc.IH by blast
    then show ?thesis by (intro exI [of _ es1] exI [of _ q] exI [of _ "es2 @ [e]"]) simp
  next
    case False
    then obtain q where "e = Arrive q" using snoc.prems by (cases e) auto
    then show ?thesis
      using False snoc.prems by (intro exI [of _ es] exI [of _ q] exI [of _ "[]"]) simp
  qed
qed (use assms(1) in simp)

lemma arrived_client:
  "clients (server_step spawn (Arrive q) S) ! length (clients S) = (q, spawn q)"
  by simp

lemma client_seen:
  assumes "length (clients S) \<le> j" and "j < length (clients (server_run spawn es S))"
  shows "\<exists>n0 q ns. n0 < length es \<and> es ! n0 = Arrive q \<and> sorted_wrt (<) ns \<and>
    (\<forall>n \<in> set ns. n0 < n \<and> n < length es) \<and>
    clients (server_run spawn es S) ! j =
      (q, fold advance (map (\<lambda>n. shared (server_run spawn (take n es) S)) ns) (spawn q))"
proof -
  obtain es1 q es2 where es: "es = es1 @ Arrive q # es2" "length (clients (server_run spawn es1 S)) = j"
    using client_arrival [OF assms] by blast
  let ?S = "server_step spawn (Arrive q) (server_run spawn es1 S)"
  have "j < length (clients ?S)" "clients ?S ! j = (q, spawn q)" using es(2) by auto
  then obtain ns where ns: "sorted_wrt (<) ns" "\<forall>n \<in> set ns. n < length es2"
    "clients (server_run spawn es2 ?S) ! j =
       (q, fold advance (map (\<lambda>n. shared (server_run spawn (take n es2) ?S)) ns) (spawn q))"
    using client_history [of j ?S es2 spawn] by auto
  let ?k = "\<lambda>n. Suc (length es1 + n)"
  have seen: "map (\<lambda>n. shared (server_run spawn (take n es) S)) (map ?k ns) =
      map (\<lambda>n. shared (server_run spawn (take n es2) ?S)) ns"
    by (simp add: es(1))
  have "clients (server_run spawn es S) ! j =
      (q, fold advance (map (\<lambda>n. shared (server_run spawn (take n es) S)) (map ?k ns)) (spawn q))"
    unfolding seen using ns(3) by (simp only: es(1) server_run_simps)
  with es(1) ns(1,2) show ?thesis
    by (intro exI [of _ "length es1"] exI [of _ q] exI [of _ "map ?k ns"]) (auto simp: sorted_wrt_map)
qed

section \<open>Interference\<close>

text \<open>
  \<open>guarantees R p\<close>: every step of \<open>p\<close> changes the state as \<open>R\<close> allows. \<open>ends R Q p s\<close>: when the others
  change the state only as \<open>R\<close> allows, \<open>p\<close> ends, started in \<open>s\<close>, with an outcome and a state that
  satisfy \<open>Q\<close>, and \<open>Q\<close> stays true.
\<close>

primrec guarantees :: "('s \<Rightarrow> 's \<Rightarrow> bool) \<Rightarrow> ('s, 'a) proc \<Rightarrow> bool" where
  "guarantees R (Done r) \<longleftrightarrow> True"
| "guarantees R (Step upd nxt) \<longleftrightarrow> (\<forall>s. R s (upd s) \<and> guarantees R (nxt s))"

primrec ends :: "('s \<Rightarrow> 's \<Rightarrow> bool) \<Rightarrow> ('a go \<Rightarrow> 's \<Rightarrow> bool) \<Rightarrow> ('s, 'a) proc \<Rightarrow> 's \<Rightarrow> bool" where
  "ends R Q (Done r) s \<longleftrightarrow> (\<forall>s'. R s s' \<longrightarrow> Q r s')"
| "ends R Q (Step upd nxt) s \<longleftrightarrow> (\<forall>s'. R s s' \<longrightarrow> ends R Q (nxt s') (upd s'))"

lemma guarantees_thenP: "guarantees R p \<Longrightarrow> (\<And>x. guarantees R (f x)) \<Longrightarrow> guarantees R (thenP p f)"
proof (induction p)
  case (Done r)
  then show ?case by (cases r) auto
qed auto

lemma guarantees_finalP [simp]: "guarantees R (finalP g p) = guarantees R p"
  by (induction p) auto

lemma guarantees_atomicP [simp]: "guarantees R (atomicP f) \<longleftrightarrow> (\<forall>s. R s (snd (f s)))"
  by (simp add: atomicP_def)

lemma guarantees_readP [simp]: "guarantees R (readP f) \<longleftrightarrow> (\<forall>s. R s s)"
  by (simp add: readP_def)

lemma ends_mono: "ends R Q p s \<Longrightarrow> (\<And>r s. Q r s \<Longrightarrow> Q' r s) \<Longrightarrow> ends R Q' p s"
  by (induction p arbitrary: s) auto

lemma ends_finalP: "ends R (\<lambda>r. Q (g r)) p s \<Longrightarrow> ends R Q (finalP g p) s"
  by (induction p arbitrary: s) auto

lemma ends_trivial: "(\<And>r s. Q r s) \<Longrightarrow> ends R Q p s"
  by (induction p arbitrary: s) auto

lemma ends_then_any:
  assumes "\<And>x s. ends R Q (f x) s" and "\<And>e s. Q (Fail e) s" and "\<And>q s. Q (Panic q) s"
  shows "ends R Q (thenP p f) s"
proof (induction p arbitrary: s)
  case (Done r)
  then show ?case using assms by (cases r) auto
qed simp

lemma ends_atomicP:
  "ends R Q (atomicP f) s \<longleftrightarrow> (\<forall>s'. R s s' \<longrightarrow> (\<forall>s''. R (snd (f s')) s'' \<longrightarrow> Q (fst (f s')) s''))"
  by (simp add: atomicP_def)

lemma ends_thenP:
  assumes refl: "\<And>s. R s s"
  shows "ends R (\<lambda>r s. case r of Ret x \<Rightarrow> ends R Q (f x) s | Fail e \<Rightarrow> Q (Fail e) s | Panic p \<Rightarrow> Q (Panic p) s) p s
     \<Longrightarrow> ends R Q (thenP p f) s"
proof (induction p arbitrary: s)
  case (Done r)
  then show ?case using refl [of s] by (cases r) auto
qed auto

text \<open>
  The contract of requests that respect \<open>R\<close>, and what it gives: while only such requests are in
  flight, the state changes as \<open>R\<close> allows, and a client that ends under \<open>R\<close> has the outcome it
  has under that interference.
\<close>

locale interference =
  fixes spawn :: "'q \<Rightarrow> ('s, 'a) proc" and allowed :: "'q \<Rightarrow> bool" and R :: "'s \<Rightarrow> 's \<Rightarrow> bool"
  assumes rely_refl: "R s s"
    and rely_trans: "R s s' \<Longrightarrow> R s' s'' \<Longrightarrow> R s s''"
    and respects: "allowed q \<Longrightarrow> guarantees R (spawn q)"
begin

lemma advance_guarantees: "guarantees R p \<Longrightarrow> guarantees R (advance s p)"
  by (cases p) auto

lemma ends_stable: "ends R Q p s \<Longrightarrow> R s s' \<Longrightarrow> ends R Q p s'"
  by (cases p) (auto intro: rely_trans)

text \<open>All clients but possibly \<open>j\<close> are respectful, and stay so.\<close>

lemma others_step:
  assumes "\<And>i. i < length (clients S) \<Longrightarrow> i \<noteq> j \<Longrightarrow> guarantees R (snd (clients S ! i))"
    and "\<And>q. e = Arrive q \<Longrightarrow> allowed q" and "i < length (clients (server_step spawn e S))" and "i \<noteq> j"
  shows "guarantees R (snd (clients (server_step spawn e S) ! i))"
proof (cases "i < length (clients S)")
  case True
  then show ?thesis
    using assms(1) [of i] assms(4) by (simp add: server_step_client advance_guarantees)
next
  case False
  then show ?thesis using assms(2,3) by (cases e) (auto simp: nth_append respects less_Suc_eq)
qed

lemma shared_step:
  assumes "\<And>i. i < length (clients S) \<Longrightarrow> i \<noteq> j \<Longrightarrow> guarantees R (snd (clients S ! i))" and "e \<noteq> Advance j"
  shows "R (shared S) (shared (server_step spawn e S))"
proof (cases e)
  case (Advance i)
  show ?thesis
  proof (cases "i < length (clients S)")
    case True
    then have "guarantees R (snd (clients S ! i))" using assms Advance by auto
    then show ?thesis
      using True by (cases "snd (clients S ! i)") (simp_all add: Advance step_client_shared rely_refl)
  qed (simp add: Advance step_client.simps rely_refl)
qed (simp add: rely_refl)

lemma client_ends:
  assumes "j < length (clients S)" and "ends R Q (snd (clients S ! j)) (shared S)"
    and "\<And>i. i < length (clients S) \<Longrightarrow> i \<noteq> j \<Longrightarrow> guarantees R (snd (clients S ! i))"
    and "\<And>q. Arrive q \<in> set es \<Longrightarrow> allowed q"
  shows "ends R Q (snd (clients (server_run spawn es S) ! j)) (shared (server_run spawn es S))"
  using assms
proof (induction es arbitrary: S)
  case (Cons e es)
  let ?S = "server_step spawn e S"
  have "ends R Q (snd (clients ?S ! j)) (shared ?S)"
  proof (cases "e = Advance j")
    case True
    then show ?thesis
      using Cons.prems(1,2) rely_refl
      by (cases "snd (clients S ! j)") (auto simp: step_client_self step_client_shared)
  next
    case False
    then show ?thesis
      using ends_stable [OF Cons.prems(2) shared_step [OF Cons.prems(3) False]] Cons.prems(1)
      by (simp add: server_step_client)
  qed
  moreover have "j < length (clients ?S)" using Cons.prems(1) server_step_length [of S spawn e] by simp
  moreover have "guarantees R (snd (clients ?S ! i))" if "i < length (clients ?S)" "i \<noteq> j" for i
    by (rule others_step [OF Cons.prems(3) Cons.prems(4) that]) simp_all
  ultimately show ?case using Cons.IH [of ?S] Cons.prems(4) by simp
qed simp

lemma client_outcome:
  assumes "j < length (clients S)" and "ends R Q (snd (clients S ! j)) (shared S)"
    and "\<And>i. i < length (clients S) \<Longrightarrow> i \<noteq> j \<Longrightarrow> guarantees R (snd (clients S ! i))"
    and "\<And>q. Arrive q \<in> set es \<Longrightarrow> allowed q"
    and "snd (clients (server_run spawn es S) ! j) = Done r"
  shows "Q r (shared (server_run spawn es S))"
proof -
  have "ends R Q (snd (clients (server_run spawn es S) ! j)) (shared (server_run spawn es S))"
    by (rule client_ends [OF assms(1-3)]) (use assms(4) in simp_all)
  then show ?thesis using assms(5) rely_refl by simp
qed

lemma others_kept:
  assumes "\<And>i. i < length (clients S) \<Longrightarrow> i \<noteq> j \<Longrightarrow> guarantees R (snd (clients S ! i))"
    and "\<And>q. Arrive q \<in> set es \<Longrightarrow> allowed q"
    and "i < length (clients (server_run spawn es S))" and "i \<noteq> j"
  shows "guarantees R (snd (clients (server_run spawn es S) ! i))"
  using assms
proof (induction es arbitrary: S)
  case (Cons e es)
  have "guarantees R (snd (clients (server_step spawn e S) ! i))"
    if "i < length (clients (server_step spawn e S))" "i \<noteq> j" for i
    by (rule others_step [OF Cons.prems(1) Cons.prems(2) that]) simp_all
  then show ?case using Cons.IH [of "server_step spawn e S"] Cons.prems by simp
qed simp

lemma state_kept:
  assumes "\<And>i. i < length (clients S) \<Longrightarrow> guarantees R (snd (clients S ! i))"
    and "\<And>q. Arrive q \<in> set es \<Longrightarrow> allowed q"
  shows "R (shared S) (shared (server_run spawn es S))"
  using assms
proof (induction es arbitrary: S)
  case (Cons e es)
  let ?S = "server_step spawn e S"
  have "\<exists>j. e \<noteq> Advance j" by (metis event.inject(2) n_not_Suc_n)
  then obtain j where j: "e \<noteq> Advance j" by blast
  have "R (shared S) (shared ?S)" by (rule shared_step [OF Cons.prems(1) j]) simp_all
  moreover have "guarantees R (snd (clients ?S ! i))" if "i < length (clients ?S)" for i
    by (rule others_step [where j = "Suc i"]) (use that Cons.prems in auto)
  then have "R (shared ?S) (shared (server_run spawn es ?S))" using Cons.IH [of ?S] Cons.prems(2) by simp
  ultimately show ?case using rely_trans by simp
qed (simp add: rely_refl)

lemma spawned_respect:
  assumes "clients S = []" and "i < length (clients (server_run spawn es S))"
    and "allowed (fst (clients (server_run spawn es S) ! i))"
  shows "guarantees R (snd (clients (server_run spawn es S) ! i))"
proof -
  obtain q ns where c: "clients (server_run spawn es S) ! i =
      (q, fold advance (map (\<lambda>n. shared (server_run spawn (take n es) S)) ns) (spawn q))"
    using client_seen [of S i spawn es] assms(1,2) by auto
  have "guarantees R (fold advance ss p)" if "guarantees R p" for ss and p :: "('s, 'a) proc"
    using that by (induction ss arbitrary: p) (simp_all add: advance_guarantees)
  then show ?thesis using assms(3) by (simp add: c respects)
qed

end

end
