(* ===== verification/Handler_Procs.thy ===== *)
theory Handler_Procs
  imports Outbound_Service Go_Procs
begin

text \<open>
  The request handlers of \<^verbatim>\<open>common/\<close> as processes: \<^verbatim>\<open>net/http\<close> runs each request on a goroutine of its
  own, and NATS each subscription, with no lock around the handler. Every call of the TPM library and every system call
  is one atomic step on the shared agent; \<^verbatim>\<open>ioutil.WriteFile\<close> is two, the truncating open and the
  write from offset zero. Run alone, a process is the handler of \<^verbatim>\<open>Request_Handler\<close>.
\<close>

section \<open>Atomic calls\<close>

definition tpm_read :: "('t \<Rightarrow> 'a go) \<Rightarrow> ('t agent, 'a) proc" where
  "tpm_read f = readP (\<lambda>ag. f (ag_tpm ag))"

definition host_read :: "(host \<Rightarrow> 'a go) \<Rightarrow> ('t agent, 'a) proc" where
  "host_read f = readP (\<lambda>ag. f (ag_host ag))"

definition stat_missing :: "string \<Rightarrow> ('t agent, bool) proc" where
  "stat_missing path = host_read (\<lambda>h. Ret (os_IsNotExist (os_Stat (host_files h) path)))"

definition read_file :: "string \<Rightarrow> ('t agent, byte list) proc" where
  "read_file path = host_read (\<lambda>h. ioutil_ReadFile (host_files h) path)"

definition set_contents :: "string \<Rightarrow> file_state \<Rightarrow> 't agent \<Rightarrow> 't agent" where
  "set_contents path c ag = ag\<lparr>ag_host := (ag_host ag)\<lparr>host_files := (host_files (ag_host ag))(path := c)\<rparr>\<rparr>"

text \<open>Bytes written from the start of an open file replace as many bytes of it, and no more.\<close>

fun write_at_start :: "byte list \<Rightarrow> file_state \<Rightarrow> file_state" where
  "write_at_start bs (Contents old) = Contents (bs @ drop (length bs) old)"
| "write_at_start bs c = c"

definition open_truncate :: "('t, 'm, 'r, 'i) agent_env \<Rightarrow> string \<Rightarrow> 't agent \<Rightarrow> unit go \<times> 't agent" where
  "open_truncate env path ag =
     (case write_error env path of Some e \<Rightarrow> (Fail e, ag) | None \<Rightarrow> (Ret (), set_contents path (Contents []) ag))"

definition write_file_proc :: "('t, 'm, 'r, 'i) agent_env \<Rightarrow> string \<Rightarrow> byte list \<Rightarrow> ('t agent, unit) proc" where
  "write_file_proc env path bs =
     thenP (atomicP (open_truncate env path)) (\<lambda>_.
     atomicP (\<lambda>ag. (Ret (), set_contents path (write_at_start bs (host_files (ag_host ag) path)) ag)))"

text \<open>\<^verbatim>\<open>os.OpenFile(p, os.O_RDONLY|os.O_CREATE, 0600)\<close> creates the file only when it is not there.\<close>

definition open_create :: "('t, 'm, 'r, 'i) agent_env \<Rightarrow> string \<Rightarrow> 't agent \<Rightarrow> unit go \<times> 't agent" where
  "open_create env path ag =
     (case write_error env path of
        Some e \<Rightarrow> (Fail e, ag)
      | None \<Rightarrow>
          (Ret (), if host_files (ag_host ag) path = Absent then set_contents path (Contents []) ag else ag))"

lemmas call_defs = tpm_read_def host_read_def stat_missing_def read_file_def set_contents_def
  open_truncate_def write_file_proc_def open_create_def

declare call_defs [eval_simps]

lemma set_contents_simps [simp]:
  "ag_tpm (set_contents path c ag) = ag_tpm ag"
  "host_dir (ag_host (set_contents path c ag)) = host_dir (ag_host ag)"
  "host_now (ag_host (set_contents path c ag)) = host_now (ag_host ag)"
  "host_files (ag_host (set_contents path c ag)) = (host_files (ag_host ag))(path := c)"
  by (simp_all add: set_contents_def)

lemma run_reads [simp]:
  "run_alone (tpm_read f) ag = (f (ag_tpm ag), ag)"
  "run_alone (host_read g) ag = (g (ag_host ag), ag)"
  "run_alone (stat_missing path) ag = (Ret (os_IsNotExist (os_Stat (host_files (ag_host ag)) path)), ag)"
  "run_alone (read_file path) ag = (ioutil_ReadFile (host_files (ag_host ag)) path, ag)"
  by (simp_all add: tpm_read_def host_read_def stat_missing_def read_file_def)

lemma run_write_file [simp]: "run_alone (write_file_proc env path bs) ag = write_file env ag path bs"
  by (simp add: write_file_proc_def open_truncate_def write_file_def set_contents_def split: option.split)

section \<open>The quote\<close>

function strip_proc ::
  "'t tpm_provider \<Rightarrow> nat \<Rightarrow> nat \<Rightarrow> string list \<Rightarrow> nat \<Rightarrow> ('t agent, string list \<times> nat) proc" where
  "strip_proc P n i arr len =
     (if i < n then
        thenP (tpm_read (\<lambda>tpm. Ret (fst (IsPcrBankActive P tpm (arr ! i))))) (\<lambda>isActive.
          if isActive then strip_proc P n (i + 1) arr len
          else if len < i + 1 then Done (Panic SliceBounds)
          else strip_proc P n (i + 1) (take i arr @ drop (i + 1) (take len arr) @ drop (len - 1) arr) (len - 1))
      else Done (Ret (arr, len)))"
  by pat_completeness auto
termination
  by (relation "measure (\<lambda>(_, n, i, _, _). n - i)") auto

declare strip_proc.simps [simp del, eval_simps]

text \<open>The value of the tag index as the response carries it.\<close>

definition tag_of_index :: "byte list option \<Rightarrow> string go" where
  "tag_of_index indexBytes =
     (case indexBytes of
        None \<Rightarrow> Fail (NewErr ''The tag data was nil'')
      | Some bytes \<Rightarrow>
          if length bytes \<noteq> TagIndexSize then Fail (NewErr ''Invalid tag index length'')
          else if allZeros bytes then Ret []
          else Ret (base64_encode bytes))"

definition getAssetTags_proc :: "('t, 'm, 'r, 'i) agent_env \<Rightarrow> ('t agent, string) proc" where
  "getAssetTags_proc env =
     (let P = tpm_lib env
      in thenP (finalP (wrapping ''Error while checking existence of Nv Index'')
                  (tpm_read (\<lambda>tpm. NvIndexExists P tpm (NV_IDX_ASSET_TAG P)))) (\<lambda>tagExists.
         if \<not> tagExists then Done (Ret [])
         else
         thenP (finalP (wrapping ''Error while performing tpm nv read operation'')
                  (tpm_read (\<lambda>tpm. NvRead P tpm (TagSecretKey env) (NV_IDX_ASSET_TAG P) (NV_IDX_ASSET_TAG P))))
           (\<lambda>indexBytes. Done (tag_of_index indexBytes))))"

definition readAik_proc :: "('t agent, string) proc" where
  "readAik_proc =
     thenP (stat_missing AikCert) (\<lambda>missing.
     if missing then Done (Fail NotExist)
     else thenP (finalP (wrapping ''Error reading file'') (read_file AikCert))
            (\<lambda>aikBytes. Done (Ret (base64_encode aikBytes))))"

definition readEventLog_proc :: "('t agent, string) proc" where
  "readEventLog_proc =
     thenP (stat_missing MeasureLogFilePath) (\<lambda>missing.
     if missing then Done (Ret [])
     else
     thenP (finalP (wrapping ''Error reading file'') (read_file MeasureLogFilePath)) (\<lambda>eventLogBytes.
     Done (andThen (wrapping ''Error while unmarshalling event log'' (json_Unmarshal eventLogBytes))
             (\<lambda>_. Ret (string_of_bytes eventLogBytes)))))"

fun tcb_proc :: "string list \<Rightarrow> string list \<Rightarrow> ('t agent, string list) proc" where
  "tcb_proc measurements [] = Done (Ret measurements)"
| "tcb_proc measurements (name # rest) =
     (if filepath_Ext name = ''.xml'' then
        thenP (finalP (wrapping ''Error reading manifest file'') (read_file (RamfsDir @ name)))
          (\<lambda>xml. tcb_proc (measurements @ [string_of_bytes xml]) rest)
      else tcb_proc measurements rest)"

definition getTcb_proc :: "('t agent, string list) proc" where
  "getTcb_proc = thenP (host_read (\<lambda>h. host_dir h RamfsDir)) (tcb_proc [])"

definition createTpmQuote_proc ::
  "('t, 'm, 'r, 'i) agent_env \<Rightarrow> TpmQuoteRequest \<Rightarrow> ('t agent, TpmQuoteResponse) proc" where
  "createTpmQuote_proc env req =
     thenP (host_read (\<lambda>h. Ret (host_now h))) (\<lambda>timeStamp.
     thenP (finalP (wrapping ''Error while retrieving asset tags'') (getAssetTags_proc env)) (\<lambda>assetTag.
     thenP (Done (wrapping ''Error while generating nonce'' (getNonce req assetTag))) (\<lambda>nonce.
     thenP (finalP (wrapping ''Error while retrieving tpm quote request'')
              (tpm_read (\<lambda>tpm. getQuote (tpm_lib env) tpm req nonce))) (\<lambda>quote.
     thenP (finalP (wrapping ''Error while reading Aik as Base64'') readAik_proc) (\<lambda>aik.
     thenP (finalP (wrapping ''Error while reading event log'') readEventLog_proc) (\<lambda>eventLog.
     thenP (finalP (wrapping ''Error while retrieving TCB measurements'') getTcb_proc) (\<lambda>tcb.
     Done (Ret \<lparr>TimeStamp = timeStamp, ErrorCode = 0, ErrorMessage = ''OK'', Aik = aik, Quote = quote,
                EventLog = eventLog, TcbMeasurements = tcb, SelectedPcrBanks = PcrBanks req,
                IsTagProvisioned = (assetTag \<noteq> []), AssetTag = assetTag\<rparr>))))))))"

definition quote_proc ::
  "('t, 'm, 'r, 'i) agent_env \<Rightarrow> TpmQuoteRequest \<Rightarrow> ('t agent, TpmQuoteResponse) proc" where
  "quote_proc env req =
     thenP (Done (return_with () (NewTpmFactory (tpm_lib env)))) (\<lambda>_.
     thenP (finalP (wrapping ''Error creating tpm provider'') (tpm_read (open_tpm (tpm_lib env)))) (\<lambda>_.
     if length (Nonce req) = 0 then Done (Fail (NewErr ''The TpmQuoteRequest does not contain a nonce''))
     else
     let banks = (if length (PcrBanks req) = 0 then default_banks else PcrBanks req)
     in thenP (strip_proc (tpm_lib env) (length banks) 0 banks (length banks)) (\<lambda>(arr, len).
        finalP (wrapping ''Error while creating the tpm quote'')
          (createTpmQuote_proc env (req\<lparr>PcrBanks := take len arr\<rparr>)))))"

section \<open>The other requests\<close>

definition deploy_tag_proc :: "('t, 'm, 'r, 'i) agent_env \<Rightarrow> TagWriteRequest \<Rightarrow> ('t agent, unit) proc" where
  "deploy_tag_proc env req =
     (let P = tpm_lib env
      in thenP (Done (endpoint_error ''Invalid hardware_uuid'' StatusBadRequest
                        (return_with () (ValidateHardwareUUID env (HardwareUUID req))))) (\<lambda>_.
         thenP (Done (return_with () (NewTpmFactory P))) (\<lambda>_.
         thenP (finalP processing_error (tpm_read (open_tpm P))) (\<lambda>_.
         thenP (finalP processing_error (tpm_read (\<lambda>tpm. NvIndexExists P tpm (NV_IDX_ASSET_TAG P)))) (\<lambda>nvExists.
         if \<not> nvExists
         then Done (Fail (EndpointErr ''The asset tag index does not exist'' StatusInternalServerError))
         else
           finalP processing_error (atomicP (\<lambda>ag.
             case NvWrite P (ag_tpm ag) (TagSecretKey env) (NV_IDX_ASSET_TAG P) (NV_IDX_ASSET_TAG P) (Tag req) of
               (err, tpm') \<Rightarrow> (return_with () err, ag\<lparr>ag_tpm := tpm'\<rparr>))))))))"

definition aik_proc :: "('t, 'm, 'r, 'i) agent_env \<Rightarrow> ('t agent, byte list) proc" where
  "aik_proc env =
     thenP (stat_missing AikCert) (\<lambda>missing.
     if missing then Done (Fail (WrapErr NotExist ''AIK does not exist''))
     else
     thenP (finalP (wrapping ''Error reading aik'') (read_file AikCert)) (\<lambda>aikBytes.
     case pem_Decode env aikBytes of
       None \<Rightarrow> Done (Fail (NewErr ''There was an error parsing the aik's der bytes''))
     | Some der \<Rightarrow> Done (Ret der)))"

definition binding_key_proc :: "('t agent, byte list) proc" where
  "binding_key_proc =
     thenP (stat_missing BindingKeyCertificatePath) (\<lambda>missing.
     if missing then Done (Fail (EndpointErr ''Error processing request'' StatusInternalServerError))
     else finalP processing_error (read_file BindingKeyCertificatePath))"

definition host_info_proc :: "('t, 'm, 'r, 'i) agent_env \<Rightarrow> ('t agent, 'i) proc" where
  "host_info_proc env =
     finalP (wrapping ''Error reading host-info file'')
       (thenP (stat_missing PlatformInfoFilePath) (\<lambda>missing.
        if missing then Done (Fail (WrapErr NotExist ''platform-info does not exist''))
        else
        thenP (finalP (wrapping ''There was an error reading platform-info'') (read_file PlatformInfoFilePath))
          (\<lambda>jsonData. Done (wrapping ''There was an error unmarshalling the hostInfo'' (unmarshal_host_info env jsonData)))))"

definition deploy_manifest_proc :: "('t, 'm, 'r, 'i) agent_env \<Rightarrow> 'm Manifest \<Rightarrow> ('t agent, unit) proc" where
  "deploy_manifest_proc env manifest =
     thenP (Done (endpoint_error ''Error: Failed to marshal manifest'' StatusBadRequest (marshal_manifest env manifest)))
       (\<lambda>manifestXml.
     thenP (Done (endpoint_error ''Error: Invalid uuid'' StatusBadRequest
                    (return_with () (ValidateUUIDv4 env (Uuid manifest))))) (\<lambda>_.
     if length (Label manifest) = 0
     then Done (Fail (EndpointErr ''Error: The manifest did not contain a label'' StatusBadRequest))
     else
     thenP (Done (endpoint_error ''Error: Invalid manifest labels'' StatusBadRequest
                    (return_with () (ValidateStrings env [Label manifest])))) (\<lambda>_.
     if str_contains (DefaultSoftwareFlavorPrefix env) (Label manifest) \<or>
        str_contains (DefaultWorkloadFlavorPrefix env) (Label manifest)
     then Done (Fail (EndpointErr '' Default flavor's manifest (%s) is part of installation'' StatusBadRequest))
     else finalP processing_error (write_file_proc env (manifestFile manifest) manifestXml))))"

definition wml_log_proc :: "('t, 'm, 'r, 'i) agent_env \<Rightarrow> ('t agent, unit) proc" where
  "wml_log_proc env =
     thenP (stat_missing WML_LOG_FILE)
       (\<lambda>missing. if missing then atomicP (open_create env WML_LOG_FILE) else Done (Ret ()))"

definition measurement_proc :: "('t, 'm, 'r, 'i) agent_env \<Rightarrow> 'm Manifest \<Rightarrow> ('t agent, 'r) proc" where
  "measurement_proc env manifest =
     thenP (Done (endpoint_error ''Error: Failed to marshal manifest'' StatusBadRequest (marshal_manifest env manifest)))
       (\<lambda>manifestXml.
     thenP (finalP (endpoint_error ''Error: Unable to open log file'' StatusInternalServerError) (wml_log_proc env)) (\<lambda>_.
     thenP (finalP (endpoint_error ''Error: Unable to stat tboot path'' StatusInternalServerError)
              (readP (\<lambda>_. Lstat_is_symlink env TBootXmMeasurePath))) (\<lambda>symlink.
     if symlink then Done (Fail (EndpointErr ''Error: Invalid 'measure' file'' StatusInternalServerError))
     else
     thenP (readP (\<lambda>_. Ret (run_measure env (string_of_bytes manifestXml)))) (\<lambda>run.
     thenP (Done (processing_error (return_with () (pipe_error run)))) (\<lambda>_.
     thenP (Done (processing_error (return_with () (start_error run)))) (\<lambda>_.
     thenP (Done (processing_error (return_with () (wait_error run)))) (\<lambda>_.
     Done (processing_error (unmarshal_measurement env (run_output run))))))))))"

fun request_proc ::
  "build \<Rightarrow> ('t, 'm, 'r, 'i) agent_env \<Rightarrow> VersionInfo option \<Rightarrow> 'm ta_request \<Rightarrow> ('t agent, ('r, 'i) payload) proc" where
  "request_proc b env cache (QuoteRequest q) = finalP (map_go QuotePayload) (quote_proc env q)"
| "request_proc b env cache HostInfoRequest = finalP (map_go HostInfoPayload) (host_info_proc env)"
| "request_proc b env cache AikRequest = finalP (map_go BytesPayload) (aik_proc env)"
| "request_proc b env cache (DeployAssetTagRequest t) = finalP (map_go (\<lambda>_. EmptyPayload)) (deploy_tag_proc env t)"
| "request_proc b env cache BkRequest = finalP (map_go BytesPayload) binding_key_proc"
| "request_proc b env cache (DeployManifestRequest m) = finalP (map_go (\<lambda>_. EmptyPayload)) (deploy_manifest_proc env m)"
| "request_proc b env cache (ApplicationMeasurementRequest m) = finalP (map_go MeasurementPayload) (measurement_proc env m)"
| "request_proc b env cache VersionRequest =
     Done (Ret (VersionPayload (fst (GetVersionInfo (bd_Version b) (bd_GitHash b) (bd_BuildDate b) (bd_Branch b) cache))))"

lemmas proc_defs = getAssetTags_proc_def readAik_proc_def readEventLog_proc_def getTcb_proc_def createTpmQuote_proc_def
  quote_proc_def deploy_tag_proc_def aik_proc_def binding_key_proc_def host_info_proc_def
  deploy_manifest_proc_def wml_log_proc_def measurement_proc_def

declare proc_defs [eval_simps] tag_of_index_def [eval_simps]

section \<open>Alone, a process is its handler\<close>

lemma run_strip [simp]:
  "run_alone (strip_proc P n i arr len) ag =
     (strip_loop (\<lambda>b. fst (IsPcrBankActive P (ag_tpm ag) b)) n i arr len, ag)"
proof (induction "\<lambda>b. fst (IsPcrBankActive P (ag_tpm ag) b)" n i arr len rule: strip_loop.induct)
  case (1 n i arr len)
  then show ?case by (subst strip_proc.simps, subst strip_loop.simps) simp
qed

lemma thenS_read: "(\<And>x. m = Ret x \<Longrightarrow> F x s = (f x, s)) \<Longrightarrow> thenS (m, s) F = (andThen m f, s)"
  by (cases m) simp_all

lemma prod_if: "(if c then (x, s) else (y, s)) = (if c then x else y, s)"
  by simp

lemma run_tcb [simp]: "run_alone (tcb_proc ms names) ag = (tcb_loop (ag_host ag) ms names, ag)"
proof (induction names arbitrary: ms)
  case (Cons name rest)
  then show ?case
    by (cases "ioutil_ReadFile (host_files (ag_host ag)) (RamfsDir @ name)") simp_all
qed simp

lemma run_asset_tags [simp]:
  "run_alone (getAssetTags_proc env) ag = (getAssetTags (tpm_lib env) (ag_tpm ag) (TagSecretKey env), ag)"
  unfolding getAssetTags_proc_def getAssetTags_def tag_of_index_def Let_def
  by (simp, intro thenS_read) (auto intro!: thenS_read split: option.split)

lemma run_readAik [simp]: "run_alone readAik_proc ag = (readAikAsBase64 (ag_host ag), ag)"
  unfolding readAik_proc_def readAikAsBase64_def by (auto intro!: thenS_read)

lemma run_readEventLog [simp]: "run_alone readEventLog_proc ag = (readEventLog (ag_host ag), ag)"
  unfolding readEventLog_proc_def readEventLog_def by (auto intro!: thenS_read)

lemma run_getTcb [simp]: "run_alone getTcb_proc ag = (getTcbMeasurements (ag_host ag), ag)"
  unfolding getTcb_proc_def getTcbMeasurements_def by (simp, intro thenS_read) simp

lemma run_createTpmQuote [simp]:
  "run_alone (createTpmQuote_proc env req) ag =
     (createTpmQuote (tpm_lib env) (ag_tpm ag) (ag_host ag) (TagSecretKey env) req, ag)"
  unfolding createTpmQuote_proc_def createTpmQuote_def by simp (intro thenS_read, simp?)+

lemma run_quote [simp]: "run_alone (quote_proc env req) ag = (handlerGetTpmQuote env ag (Some req), ag)"
proof -
  let ?P = "tpm_lib env"
  let ?banks = "if length (PcrBanks req) = 0 then default_banks else PcrBanks req"
  have "thenS (strip_loop (\<lambda>b. fst (IsPcrBankActive ?P (ag_tpm ag) b)) (length banks) 0 banks (length banks), ag)
      (\<lambda>x s. run_alone (case x of (arr, len) \<Rightarrow> finalP (wrapping ''Error while creating the tpm quote'')
          (createTpmQuote_proc env (req\<lparr>PcrBanks := take len arr\<rparr>))) s) =
    (andThen (strip_banks (\<lambda>b. fst (IsPcrBankActive ?P (ag_tpm ag) b)) banks) (\<lambda>banks.
       wrapping ''Error while creating the tpm quote''
         (createTpmQuote ?P (ag_tpm ag) (ag_host ag) (TagSecretKey env) (req\<lparr>PcrBanks := banks\<rparr>))), ag)" for banks
    by (cases "strip_loop (\<lambda>b. fst (IsPcrBankActive ?P (ag_tpm ag) b)) (length banks) 0 banks (length banks)")
      (auto simp: strip_banks_def)
  then show ?thesis
    unfolding quote_proc_def handlerGetTpmQuote_def handleGetTpmQuote_def CreateTpmQuoteResponse_def Let_def
    by (cases "NewTpmFactory ?P"; cases "open_tpm ?P (ag_tpm ag)") (simp_all add: return_with_def)
qed

lemma run_deploy_tag [simp]: "run_alone (deploy_tag_proc env req) ag = DeployAssetTag env ag req"
proof -
  obtain err tpm' where w: "NvWrite (tpm_lib env) (ag_tpm ag) (TagSecretKey env) (NV_IDX_ASSET_TAG (tpm_lib env))
      (NV_IDX_ASSET_TAG (tpm_lib env)) (Tag req) = (err, tpm')" by fastforce
  show ?thesis
    unfolding deploy_tag_proc_def DeployAssetTag_def Let_def
    by (cases "ValidateHardwareUUID env (HardwareUUID req)"; cases "NewTpmFactory (tpm_lib env)";
        cases "open_tpm (tpm_lib env) (ag_tpm ag)";
        cases "NvIndexExists (tpm_lib env) (ag_tpm ag) (NV_IDX_ASSET_TAG (tpm_lib env))")
      (simp_all add: return_with_def w)
qed

lemma run_aik [simp]: "run_alone (aik_proc env) ag = (GetAikDerBytes env ag, ag)"
  unfolding aik_proc_def GetAikDerBytes_def getAikPem_def
  by (auto intro!: thenS_read split: option.split)

lemma run_binding_key [simp]: "run_alone binding_key_proc ag = (GetBindingCertificateDerBytes ag, ag)"
  unfolding binding_key_proc_def GetBindingCertificateDerBytes_def by simp

lemma run_host_info [simp]: "run_alone (host_info_proc env) ag = (GetHostInfo env ag, ag)"
  unfolding host_info_proc_def GetHostInfo_def ReadHostInfo_def
  by (cases "ioutil_ReadFile (host_files (ag_host ag)) PlatformInfoFilePath") auto

lemma run_deploy_manifest [simp]: "run_alone (deploy_manifest_proc env m) ag = DeploySoftwareManifest env ag m"
  unfolding deploy_manifest_proc_def DeploySoftwareManifest_def
  by (cases "marshal_manifest env m"; cases "ValidateUUIDv4 env (Uuid m)"; cases "ValidateStrings env [Label m]")
    (simp_all add: return_with_def map_prod_def)

lemma run_wml_log [simp]: "run_alone (wml_log_proc env) ag = ensure_wml_log env ag"
  by (auto simp: wml_log_proc_def ensure_wml_log_def open_create_def write_file_def set_contents_def
      os_Stat_def split: option.split file_state.splits)

lemma run_measurement [simp]: "run_alone (measurement_proc env m) ag = GetApplicationMeasurement env ag m"
proof -
  obtain r ag1 where e: "ensure_wml_log env ag = (r, ag1)" by fastforce
  let ?run = "\<lambda>xml. run_measure env (string_of_bytes xml)"
  show ?thesis
    unfolding measurement_proc_def GetApplicationMeasurement_def Let_def
    by (cases "marshal_manifest env m"; cases r; cases "Lstat_is_symlink env TBootXmMeasurePath")
      (simp_all add: e)
qed

lemma run_request:
  "run_alone (request_proc b env cache m) ag = (handler_answer b env cache m ag, handler_effect env m ag)"
  by (cases m) (simp_all add: prod_eq_iff)

end
