(* ===== verification/Concurrent_Requests.thy ===== *)
theory Concurrent_Requests
  imports Handler_Procs
begin

text \<open>
  What requests promise that are served at the same time, in any interleaving of their atomic steps: a
  quote is signed over the tag it reports, a deployed tag or manifest is in place once its request was
  answered, answers are well typed; and what goes wrong when two requests write the same file.
\<close>

section \<open>What a quote has read\<close>

text \<open>The tag a response carries, seen from the TPM's state when the index was looked at.\<close>

definition tag_seen :: "('t, 'm, 'r, 'i) agent_env \<Rightarrow> 't \<Rightarrow> string \<Rightarrow> bool" where
  "tag_seen env tpm tag \<longleftrightarrow>
     (let P = tpm_lib env; idx = NV_IDX_ASSET_TAG P
      in NvIndexExists P tpm idx = Ret False \<and> tag = [] \<or>
         (case NvRead P tpm (TagSecretKey env) idx idx of Ret bytes \<Rightarrow> tag_of_index bytes = Ret tag | _ \<Rightarrow> False))"

definition quote_signed ::
  "('t, 'm, 'r, 'i) agent_env \<Rightarrow> 't \<Rightarrow> TpmQuoteRequest \<Rightarrow> TpmQuoteResponse \<Rightarrow> bool" where
  "quote_signed env tpm q r \<longleftrightarrow>
     (case getNonce q (AssetTag r) of
        Ret nonce \<Rightarrow> getQuote (tpm_lib env) tpm (q\<lparr>PcrBanks := SelectedPcrBanks r\<rparr>) nonce = Ret (Quote r)
      | _ \<Rightarrow> False)"

declare tag_seen_def [eval_simps] quote_signed_def [eval_simps]

lemma yields_tpm_read: "yields (tpm_read f) ss x \<longleftrightarrow> (\<exists>s. ss = [s] \<and> f (ag_tpm s) = Ret x)"
  by (simp add: tpm_read_def yields_readP)

lemma yields_wrapping: "yields (finalP (wrapping msg) p) ss x \<Longrightarrow> yields p ss x"
  by (drule yields_finalP) auto

lemma yields_assetTags:
  assumes "yields (getAssetTags_proc env) ss tag"
  shows "\<exists>a s. ss = a @ [s] \<and> tag_seen env (ag_tpm s) tag"
  using assms unfolding getAssetTags_proc_def Let_def tag_seen_def
  by (fastforce dest!: yields_thenP yields_wrapping simp: yields_tpm_read split: if_splits)

lemma yields_createTpmQuote:
  assumes "yields (createTpmQuote_proc env req) ss r"
  shows "\<exists>a s1 b s2 c. ss = a @ s1 # b @ s2 # c \<and> tag_seen env (ag_tpm s1) (AssetTag r) \<and>
    (\<exists>nonce. getNonce req (AssetTag r) = Ret nonce \<and> getQuote (tpm_lib env) (ag_tpm s2) req nonce = Ret (Quote r)) \<and>
    SelectedPcrBanks r = PcrBanks req"
proof -
  obtain ss0 ss1 ss2 ss3 tag nonce quote where ss: "ss = ss0 @ ss1 @ ss2 @ ss3"
    and tag: "yields (getAssetTags_proc env) ss1 tag" and nonce: "getNonce req tag = Ret nonce"
    and quote: "yields (tpm_read (\<lambda>tpm. getQuote (tpm_lib env) tpm req nonce)) ss2 quote"
    and r: "AssetTag r = tag" "Quote r = quote" "SelectedPcrBanks r = PcrBanks req"
    using assms unfolding createTpmQuote_proc_def
    apply (elim yields_thenE)
    subgoal for a0 b0 t a1 b1 tag a2 b2 nonce a3 b3 quote a4 b4 aik a5 b5 log a6 b6 tcb
      by (rule that [of a0 a1 a3 b3 tag nonce quote]) (auto dest: yields_wrapping)
    done
  obtain a s1 where a: "ss1 = a @ [s1]" "tag_seen env (ag_tpm s1) tag" using yields_assetTags [OF tag] by blast
  obtain s2 where s2: "ss2 = [s2]" "getQuote (tpm_lib env) (ag_tpm s2) req nonce = Ret quote"
    using quote by (auto simp: yields_tpm_read)
  have "ss = (ss0 @ a) @ s1 # [] @ s2 # ss3" by (simp add: ss a s2)
  then show ?thesis using a(2) s2(2) nonce r by blast
qed

lemma yields_quote:
  assumes "yields (quote_proc env q) ss r"
  shows "\<exists>a s1 b s2 c. ss = a @ s1 # b @ s2 # c \<and> tag_seen env (ag_tpm s1) (AssetTag r) \<and>
    quote_signed env (ag_tpm s2) q r"
proof -
  obtain ss1 ss2 banks where ss: "ss = ss1 @ ss2"
    and y: "yields (createTpmQuote_proc env (q\<lparr>PcrBanks := banks\<rparr>)) ss2 r"
    using assms unfolding quote_proc_def Let_def
    by (elim yields_thenE)
      (auto elim!: yields_thenE dest!: yields_wrapping split: if_splits prod.splits, metis append.assoc, metis append.assoc)
  obtain a s1 b s2 c nonce where p: "ss2 = a @ s1 # b @ s2 # c" "tag_seen env (ag_tpm s1) (AssetTag r)"
    "getNonce (q\<lparr>PcrBanks := banks\<rparr>) (AssetTag r) = Ret nonce"
    "getQuote (tpm_lib env) (ag_tpm s2) (q\<lparr>PcrBanks := banks\<rparr>) nonce = Ret (Quote r)" "SelectedPcrBanks r = banks"
    using yields_createTpmQuote [OF y] by auto
  have "ss = (ss1 @ a) @ s1 # b @ s2 # c" by (simp add: ss p(1))
  moreover have "quote_signed env (ag_tpm s2) q r"
    using p(3-5) by (simp add: quote_signed_def getNonce_def)
  ultimately show ?thesis using p(2) by blast
qed

section \<open>The type of an answer\<close>

text \<open>
  The shape of an answer: the fields of a quote decode, the tag is that of a full index, the event log is
  JSON, and the banks are among those asked for.
\<close>

definition response_ok :: "TpmQuoteRequest \<Rightarrow> TpmQuoteResponse \<Rightarrow> bool" where
  "response_ok q r \<longleftrightarrow>
     ErrorCode r = 0 \<and> ErrorMessage r = ''OK'' \<and>
     (case base64_decode (AssetTag r) of
        Ret tag \<Rightarrow> if IsTagProvisioned r then length tag = TagIndexSize \<and> \<not> allZeros tag else AssetTag r = []
      | _ \<Rightarrow> False) \<and>
     is_Ret (base64_decode (Quote r)) \<and> is_Ret (base64_decode (Aik r)) \<and>
     (EventLog r = [] \<or> is_Ret (json_Unmarshal (bytes_of_string (EventLog r)))) \<and>
     set (SelectedPcrBanks r) \<subseteq> set (if length (PcrBanks q) = 0 then default_banks else PcrBanks q)"

fun answer_ok :: "'m ta_request \<Rightarrow> ('r, 'i) payload \<Rightarrow> bool" where
  "answer_ok (QuoteRequest q) (QuotePayload r) = response_ok q r"
| "answer_ok HostInfoRequest (HostInfoPayload h) = True"
| "answer_ok AikRequest (BytesPayload der) = True"
| "answer_ok (DeployAssetTagRequest t) EmptyPayload = True"
| "answer_ok BkRequest (BytesPayload bk) = True"
| "answer_ok (DeployManifestRequest m) EmptyPayload = True"
| "answer_ok (ApplicationMeasurementRequest m) (MeasurementPayload x) = True"
| "answer_ok VersionRequest (VersionPayload v) = True"
| "answer_ok _ _ = False"

declare response_ok_def [eval_simps]

lemma yields_tag_ok:
  assumes "yields (getAssetTags_proc env) ss tag"
  shows "tag = [] \<or> (\<exists>bs. tag = base64_encode bs \<and> length bs = TagIndexSize \<and> \<not> allZeros bs)"
  using assms unfolding getAssetTags_proc_def Let_def tag_of_index_def
  by (auto elim!: yields_thenE split: if_splits option.splits)

lemma yields_aik_ok: "yields readAik_proc ss aik \<Longrightarrow> is_Ret (base64_decode aik)"
  unfolding readAik_proc_def by (auto elim!: yields_thenE split: if_splits)

lemma yields_log_ok:
  "yields readEventLog_proc ss log \<Longrightarrow> log = [] \<or> is_Ret (json_Unmarshal (bytes_of_string log))"
  unfolding readEventLog_proc_def by (auto elim!: yields_thenE simp: andThen_eq_Ret split: if_splits)

lemma yields_strip:
  "yields (strip_proc P n i arr len) ss (arr', len') \<Longrightarrow> set arr' \<subseteq> set arr"
proof (induction "n - i" arbitrary: i arr len ss)
  case 0
  then show ?case by (subst (asm) strip_proc.simps) simp
next
  case (Suc m)
  let ?arr = "take i arr @ drop (i + 1) (take len arr) @ drop (len - 1) arr"
  have sub: "set ?arr \<subseteq> set arr" by (auto dest: in_set_takeD in_set_dropD)
  have m: "m = n - (i + 1)" "i < n" using Suc.hyps(2) by simp_all
  have eq: "strip_proc P n i arr len =
      thenP (tpm_read (\<lambda>tpm. Ret (fst (IsPcrBankActive P tpm (arr ! i))))) (\<lambda>isActive.
        if isActive then strip_proc P n (i + 1) arr len
        else if len < i + 1 then Done (Panic SliceBounds) else strip_proc P n (i + 1) ?arr (len - 1))"
    by (subst strip_proc.simps) (simp only: m(2) if_True)
  obtain x ss' where "yields (if x then strip_proc P n (i + 1) arr len
      else if len < i + 1 then Done (Panic SliceBounds) else strip_proc P n (i + 1) ?arr (len - 1)) ss' (arr', len')"
    using Suc.prems unfolding eq by (elim yields_thenE)
  then have "yields (strip_proc P n (i + 1) arr len) ss' (arr', len') \<or> yields (strip_proc P n (i + 1) ?arr (len - 1)) ss' (arr', len')"
    by (auto split: if_splits)
  then show ?case using Suc.hyps(1) [OF m(1)] sub by blast
qed

lemma yields_response_ok:
  fixes env :: "('t, 'm, 'r, 'i) agent_env"
  assumes "yields (createTpmQuote_proc env (q\<lparr>PcrBanks := banks\<rparr>)) ss r"
    and "set banks \<subseteq> set (if length (PcrBanks q) = 0 then default_banks else PcrBanks q)"
  shows "response_ok q r"
proof -
  obtain ss1 ss2 ss3 ss4 tag aik log nonce quote where
    tag: "yields (getAssetTags_proc env) ss1 tag"
    and aik: "yields (readAik_proc :: ('t agent, string) proc) ss2 aik"
    and log: "yields (readEventLog_proc :: ('t agent, string) proc) ss3 log"
    and quote: "yields (tpm_read (\<lambda>tpm. getQuote (tpm_lib env) tpm (q\<lparr>PcrBanks := banks\<rparr>) nonce)) ss4 quote"
    and r: "AssetTag r = tag" "IsTagProvisioned r = (tag \<noteq> [])" "Aik r = aik" "EventLog r = log" "Quote r = quote"
      "SelectedPcrBanks r = banks" "ErrorCode r = 0" "ErrorMessage r = ''OK''"
    using assms(1) unfolding createTpmQuote_proc_def
    apply (elim yields_thenE)
    subgoal for a0 b0 t a1 b1 tag a2 b2 nonce a3 b3 quote a4 b4 aik a5 b5 log a6 b6 tcb
      by (rule that [of a1 tag a4 aik a5 log nonce a3 quote]) (auto dest: yields_wrapping)
    done
  have "is_Ret (base64_decode quote)"
    using quote by (auto simp: yields_tpm_read getQuote_def andThen_eq_Ret)
  then show ?thesis
    using yields_tag_ok [OF tag] yields_aik_ok [OF aik] yields_log_ok [OF log] assms(2) base64_roundtrip [of "[]"]
    by (auto simp: response_ok_def r)
qed

lemma yields_map: "yields (finalP (map_go f) p) ss y \<Longrightarrow> \<exists>x. y = f x \<and> yields p ss x"
proof -
  assume "yields (finalP (map_go f) p) ss y"
  from yields_finalP [OF this] obtain r where "map_go f r = Ret y" "\<forall>x. r = Ret x \<longrightarrow> yields p ss x" by blast
  then show ?thesis by (cases r) auto
qed

lemma yields_quote_ok: "yields (quote_proc env q) ss r \<Longrightarrow> response_ok q r"
  unfolding quote_proc_def Let_def
  by (elim yields_thenE) (auto elim!: yields_thenE dest!: yields_wrapping yields_strip dest: in_set_takeD subsetD
      intro!: yields_response_ok split: if_splits prod.splits)

lemma yields_answer_ok: "yields (request_proc b env cache m) ss p \<Longrightarrow> answer_ok m p"
  by (cases m) (auto dest!: yields_map dest: yields_quote_ok)

section \<open>Moments of a run\<close>

lemma map_split: "map f ns = xs @ x # ys \<Longrightarrow> \<exists>as j bs. ns = as @ j # bs \<and> x = f j \<and> map f bs = ys"
proof (induction xs arbitrary: ns)
  case Nil
  then obtain j bs where "ns = [] @ j # bs \<and> x = f j \<and> map f bs = ys" by (cases ns) auto
  then show ?case by blast
next
  case (Cons a xs)
  then obtain n ms where ns: "ns = n # ms" "map f ms = xs @ x # ys" by (cases ns) auto
  obtain as j bs where "ms = as @ j # bs \<and> x = f j \<and> map f bs = ys" using Cons.IH [OF ns(2)] by blast
  then have "ns = (n # as) @ j # bs \<and> x = f j \<and> map f bs = ys" by (simp add: ns)
  then show ?case by blast
qed

lemma yields_payload:
  assumes "yields (finalP (map_go f) p) ss (f r)" and "inj f"
  shows "yields p ss r"
proof -
  obtain res where "map_go f res = Ret (f r)" "\<forall>x. res = Ret x \<longrightarrow> yields p ss x"
    using yields_finalP [OF assms(1)] by blast
  then show ?thesis using assms(2) by (cases res) (auto dest: injD)
qed

lemma sorted_parts:
  assumes "map f ns = xs @ x # ys @ y # zs" and "sorted_wrt (<) ns"
  shows "\<exists>j k. j \<in> set ns \<and> k \<in> set ns \<and> j < k \<and> x = f j \<and> y = f k"
proof -
  obtain as j bs where 1: "ns = as @ j # bs" "x = f j" "map f bs = ys @ y # zs"
    using map_split [OF assms(1)] by blast
  moreover obtain cs k ds where "bs = cs @ k # ds" "y = f k" using map_split [OF 1(3)] by blast
  ultimately show ?thesis
    using assms(2) by (intro exI [of _ j] exI [of _ k]) (auto simp: sorted_wrt_append)
qed

section \<open>Requests that leave the TPM, or a file, as it is\<close>

lemma guarantees_reads [simp]:
  assumes "\<And>s. R s s"
  shows "guarantees R (tpm_read f)" "guarantees R (host_read g)" "guarantees R (stat_missing path)"
    "guarantees R (read_file path)"
  using assms by (simp_all add: tpm_read_def host_read_def stat_missing_def read_file_def)

text \<open>Processes that read only.\<close>

lemma guarantees_strip: "(\<And>s. R s s) \<Longrightarrow> guarantees R (strip_proc P n i arr len)"
proof (induction "n - i" arbitrary: i arr len)
  case 0
  then show ?case by (subst strip_proc.simps) simp
next
  case (Suc m)
  then show ?case by (subst strip_proc.simps) (auto intro!: guarantees_thenP)
qed

lemma guarantees_tcb: "(\<And>s. R s s) \<Longrightarrow> guarantees R (tcb_proc ms names)"
  by (induction names arbitrary: ms) (auto intro!: guarantees_thenP)

lemma guarantees_quote:
  assumes "\<And>s. R s s"
  shows "guarantees R (quote_proc env q)"
  using assms unfolding quote_proc_def createTpmQuote_proc_def getAssetTags_proc_def readAik_proc_def
    readEventLog_proc_def getTcb_proc_def Let_def
  by (auto intro!: guarantees_thenP guarantees_strip guarantees_tcb split: prod.split)

lemma guarantees_readers:
  assumes "\<And>s. R s s"
  shows "guarantees R (aik_proc env)" "guarantees R binding_key_proc" "guarantees R (host_info_proc env)"
  using assms unfolding aik_proc_def binding_key_proc_def host_info_proc_def
  by (auto intro!: guarantees_thenP split: option.split)

lemma guarantees_Done_then: "(\<And>x. m = Ret x \<Longrightarrow> guarantees R (f x)) \<Longrightarrow> guarantees R (thenP (Done m) f)"
  by (cases m) auto

lemma guarantees_manifest:
  assumes "\<And>ag c. R ag (set_contents (manifestFile m) c ag)" and "\<And>s. R s s"
  shows "guarantees R (deploy_manifest_proc env m)"
  using assms unfolding deploy_manifest_proc_def write_file_proc_def
  by (auto intro!: guarantees_Done_then guarantees_thenP simp: open_truncate_def split: option.split)

lemma guarantees_measurement:
  assumes "\<And>ag. host_files (ag_host ag) WML_LOG_FILE = Absent \<Longrightarrow> R ag (set_contents WML_LOG_FILE (Contents []) ag)"
    and "\<And>s. R s s"
  shows "guarantees R (measurement_proc env m)"
  using assms unfolding measurement_proc_def wml_log_proc_def
  by (auto intro!: guarantees_Done_then guarantees_thenP simp: open_create_def split: option.split)

lemma guarantees_deploy_tag:
  assumes "\<And>ag tpm. R ag (ag\<lparr>ag_tpm := tpm\<rparr>)" and "\<And>s. R s s"
  shows "guarantees R (deploy_tag_proc env t)"
  using assms unfolding deploy_tag_proc_def Let_def
  by (auto intro!: guarantees_Done_then guarantees_thenP simp: case_prod_unfold)

text \<open>Which requests write: the tag index, and the file.\<close>

fun is_tag_request :: "'m ta_request \<Rightarrow> bool" where
  "is_tag_request (DeployAssetTagRequest t) = True"
| "is_tag_request _ = False"

fun written_file :: "'m ta_request \<Rightarrow> string option" where
  "written_file (DeployManifestRequest m) = Some (manifestFile m)"
| "written_file (ApplicationMeasurementRequest m) = Some WML_LOG_FILE"
| "written_file _ = None"

fun has_ended :: "('s, 'a) proc \<Rightarrow> bool" where
  "has_ended (Done r) = True"
| "has_ended _ = False"

lemma ended_guarantees: "has_ended p \<Longrightarrow> guarantees R p"
  by (cases p) simp_all

definition same_tpm :: "'t agent \<Rightarrow> 't agent \<Rightarrow> bool" where
  "same_tpm ag ag' \<longleftrightarrow> ag_tpm ag' = ag_tpm ag"

definition same_file :: "string \<Rightarrow> 't agent \<Rightarrow> 't agent \<Rightarrow> bool" where
  "same_file path ag ag' \<longleftrightarrow> host_files (ag_host ag') path = host_files (ag_host ag) path"

lemma request_keeps_tpm: "\<not> is_tag_request m \<Longrightarrow> guarantees same_tpm (request_proc b env cache m)"
  by (cases m) (simp_all add: guarantees_quote guarantees_readers guarantees_manifest guarantees_measurement same_tpm_def)

lemma request_keeps_file:
  "written_file m \<noteq> Some path \<Longrightarrow> guarantees (same_file path) (request_proc b env cache m)"
  by (cases m)
    (simp_all add: guarantees_quote guarantees_readers guarantees_manifest guarantees_measurement
      guarantees_deploy_tag same_file_def)

interpretation tpm_keepers: interference "request_proc b env cache" "\<lambda>m. \<not> is_tag_request m" same_tpm
  for b env cache
  by unfold_locales (simp_all add: request_keeps_tpm, simp_all add: same_tpm_def)

interpretation file_keepers: interference "request_proc b env cache" "\<lambda>m. written_file m \<noteq> Some path" "same_file path"
  for b env cache path
  by unfold_locales (simp_all add: request_keeps_file, simp_all add: same_file_def)

section \<open>What a deployment leaves, under interference\<close>

definition tag_stored :: "('t, 'm, 'r, 'i) agent_env \<Rightarrow> byte list \<Rightarrow> 't agent \<Rightarrow> bool" where
  "tag_stored env tag ag \<longleftrightarrow>
     (let P = tpm_lib env; idx = NV_IDX_ASSET_TAG P
      in NvIndexExists P (ag_tpm ag) idx = Ret True \<and>
         NvRead P (ag_tpm ag) (TagSecretKey env) idx idx = Ret (Some tag))"

lemma tag_stored_seen:
  assumes "tag_stored env bytes ag" and "tag_seen env (ag_tpm ag) tag" and "length bytes = TagIndexSize"
    and "\<exists>b \<in> set bytes. b \<noteq> 0"
  shows "tag = base64_encode bytes"
  using assms by (auto simp: tag_stored_def tag_seen_def tag_of_index_def Let_def allZeros_iff split: if_splits)

lemma ends_Done_then:
  "(\<And>x. m = Ret x \<Longrightarrow> ends R Q (f x) s) \<Longrightarrow> (\<And>e s. Q (Fail e) s) \<Longrightarrow> (\<And>q s. Q (Panic q) s) \<Longrightarrow>
     ends R Q (thenP (Done m) f) s"
  by (cases m) auto

lemma empty_answer: "map_go (\<lambda>_. EmptyPayload) r = Ret EmptyPayload \<longleftrightarrow> r = Ret ()"
  by (cases r) auto

lemma deploy_tag_ends:
  assumes "nv_laws (tpm_lib env)" and "length (Tag t) = TagIndexSize"
  shows "ends same_tpm (\<lambda>r ag. r = Ret EmptyPayload \<longrightarrow> tag_stored env (Tag t) ag)
    (request_proc b env cache (DeployAssetTagRequest t)) ag"
proof -
  let ?Q = "\<lambda>(r :: unit go) ag. r = Ret () \<longrightarrow> tag_stored env (Tag t) ag"
  have last: "ends same_tpm (\<lambda>r. ?Q (processing_error r)) (atomicP (\<lambda>ag.
      case NvWrite (tpm_lib env) (ag_tpm ag) (TagSecretKey env) (NV_IDX_ASSET_TAG (tpm_lib env))
        (NV_IDX_ASSET_TAG (tpm_lib env)) (Tag t) of (err, tpm') \<Rightarrow> (return_with () err, ag\<lparr>ag_tpm := tpm'\<rparr>))) s" for s
    using nv_write_read [OF assms]
    by (auto simp: ends_atomicP same_tpm_def tag_stored_def return_with_def Let_def split: prod.splits option.splits)
  have "ends same_tpm ?Q (deploy_tag_proc env t) ag"
    unfolding deploy_tag_proc_def Let_def
    by (intro ends_then_any) (auto intro!: ends_finalP last ends_then_any simp: same_tpm_def)
  then show ?thesis
    by (auto intro!: ends_finalP elim!: ends_mono simp: empty_answer)
qed

lemma deploy_manifest_ends:
  "ends (same_file (manifestFile m))
    (\<lambda>r ag. r = Ret EmptyPayload \<longrightarrow>
       (\<exists>xml. marshal_manifest env m = Ret xml \<and> host_files (ag_host ag) (manifestFile m) = Contents xml))
    (request_proc b env cache (DeployManifestRequest m)) ag"
proof -
  let ?Q = "\<lambda>(r :: unit go) ag. r = Ret () \<longrightarrow>
    (\<exists>xml. marshal_manifest env m = Ret xml \<and> host_files (ag_host ag) (manifestFile m) = Contents xml)"
  have last: "ends (same_file (manifestFile m)) (\<lambda>r ag. r = Ret () \<longrightarrow> host_files (ag_host ag) (manifestFile m) = Contents xml)
      (write_file_proc env (manifestFile m) xml) s" for xml s
    unfolding write_file_proc_def
    by (auto simp: atomicP_def open_truncate_def same_file_def split: option.split)
  have "ends (same_file (manifestFile m)) ?Q (deploy_manifest_proc env m) ag"
    unfolding deploy_manifest_proc_def
    by (rule ends_Done_then) (auto intro!: ends_finalP last ends_then_any)
  then show ?thesis
    by (auto intro!: ends_finalP elim!: ends_mono simp: empty_answer)
qed

text \<open>When every other client that writes the same thing has ended, the rest keeps it.\<close>

lemma others_keep_tpm:
  assumes "i < length (clients (server_run (request_proc b env cache) es S))" and "clients S = []"
    and "list_all (\<lambda>c. is_tag_request (fst c) \<longrightarrow> has_ended (snd c)) (clients (server_run (request_proc b env cache) es S))"
  shows "guarantees same_tpm (snd (clients (server_run (request_proc b env cache) es S) ! i))"
  using assms tpm_keepers.spawned_respect [OF assms(2,1)] ended_guarantees
  by (auto simp: list_all_length)

lemma others_keep_file:
  assumes "i < length (clients (server_run (request_proc b env cache) es S))" and "clients S = []"
    and "list_all (\<lambda>c. written_file (fst c) = Some path \<longrightarrow> has_ended (snd c)) (clients (server_run (request_proc b env cache) es S))"
  shows "guarantees (same_file path) (snd (clients (server_run (request_proc b env cache) es S) ! i))"
  using assms file_keepers.spawned_respect [OF assms(2,1), of path] ended_guarantees
  by (auto simp: list_all_length)

text \<open>A manifest that passes the checks of its deployment.\<close>

definition manifest_accepted :: "('t, 'm, 'r, 'i) agent_env \<Rightarrow> 'm Manifest \<Rightarrow> bool" where
  "manifest_accepted env m \<longleftrightarrow>
     is_Ret (marshal_manifest env m) \<and> ValidateUUIDv4 env (Uuid m) = None \<and> Label m \<noteq> [] \<and>
     ValidateStrings env [Label m] = None \<and> \<not> str_contains (DefaultSoftwareFlavorPrefix env) (Label m) \<and>
     \<not> str_contains (DefaultWorkloadFlavorPrefix env) (Label m) \<and> write_error env (manifestFile m) = None"

lemma deploy_accepted:
  "manifest_accepted env m \<Longrightarrow> marshal_manifest env m = Ret xml \<Longrightarrow>
     deploy_manifest_proc env m = finalP processing_error (write_file_proc env (manifestFile m) xml)"
  by (simp add: manifest_accepted_def deploy_manifest_proc_def return_with_def)

declare manifest_accepted_def [eval_simps]

section \<open>Properties\<close>

text \<open>The server of the agent's requests, without clients at first.\<close>

definition idle :: "'t agent \<Rightarrow> ('m ta_request, 't agent, ('r, 'i) payload) server" where
  "idle ag = \<lparr>shared = ag, clients = []\<rparr>"

lemma idle_simps [simp]: "shared (idle ag) = ag" "clients (idle ag) = []"
  by (simp_all add: idle_def)

declare idle_def [eval_simps]

text \<open>The model on the examples' environment.\<close>

lemma sample_env_simps:
  "tpm_lib sample_agent_env = soft_provider" "TagSecretKey sample_agent_env = ''k''"
  "ValidateHardwareUUID sample_agent_env sample_uuid = None"
  "ValidateUUIDv4 sample_agent_env sample_uuid = None"
  "ValidateUUIDv4 sample_agent_env ''11111111-1111-4111-8111-111111111111'' = None"
  "marshal_manifest sample_agent_env m = Ret (bytes_of_string (''<Manifest Uuid='' @ Uuid m @ ''/>''))"
  "ValidateStrings sample_agent_env ss = None" "write_error sample_agent_env p = None"
  by (simp_all add: sample_agent_env_def sample_uuid_def)

lemma soft_provider_simps:
  "NewTpmFactory soft_provider = None" "NewTpmProvider soft_provider s = None"
  "IsPcrBankActive soft_provider s b = (b \<in> set (st_banks s), None)"
  "NvIndexExists soft_provider s idx = Ret (map_of (st_nv s) idx \<noteq> None)"
  "NvRead soft_provider = soft_read" "NvWrite soft_provider = soft_write"
  "GetTpmQuote soft_provider s nonce banks pcrs = Ret (nonce @ concat (map bytes_of_string banks))"
  "NV_IDX_ASSET_TAG soft_provider = 0x1c10110"
  by (simp_all add: soft_provider_def)

lemma sample_state_simps:
  "ag_tpm sample_agent = sample_tpm" "ag_host sample_agent = sample_host"
  "st_nv sample_tpm = [(0x1c10110, ''k'', replicate 48 7)]" "st_banks sample_tpm = [''SHA256'', ''SHA1'']"
  "host_files sample_host = (\<lambda>p. if p = AikCert then Contents [1, 2, 3] else Absent)"
  "host_dir sample_host d = Ret []" "host_now sample_host = 1600000000"
  by (simp_all add: sample_agent_def sample_tpm_def sample_host_def)

lemma sample_zeros: "\<not> allZeros (replicate 48 7)" "\<not> allZeros (replicate 48 9)"
  by (simp_all add: replicate_numeral)

lemma sample_labels:
  "\<not> str_contains (DefaultSoftwareFlavorPrefix sample_agent_env) ''app''"
  "\<not> str_contains (DefaultWorkloadFlavorPrefix sample_agent_env) ''app''"
  "\<not> str_contains (DefaultSoftwareFlavorPrefix sample_agent_env) ''ap''"
  "\<not> str_contains (DefaultWorkloadFlavorPrefix sample_agent_env) ''ap''"
  by (simp_all add: sample_agent_env_def)

lemma sample_paths: "MeasureLogFilePath \<noteq> AikCert" by (simp add: constants_defs)

lemmas sample_simps = sample_env_simps sample_labels soft_provider_simps sample_state_simps sample_zeros sample_paths soft_read_def
  soft_write_def os_Stat_def os_Open_def ioutil_ReadFile_def TagIndexSize_def open_tpm_def

text \<open>A schedule in which a deployment falls between the two TPM calls of a quote.\<close>

definition split_schedule :: "unit ta_request event list" where
  "split_schedule =
     [Arrive (QuoteRequest \<lparr>Nonce = [5], Pcrs = [0], PcrBanks = [''SHA256'']\<rparr>),
      Arrive (DeployAssetTagRequest \<lparr>Tag = replicate 48 9, HardwareUUID = sample_uuid\<rparr>)]
     @ map Advance [0, 0, 0, 0, 0, 1, 1, 1, 0, 0, 0, 0, 0]"

lemmas sample_run_simps = strip_proc.simps proc_defs call_defs readP_def atomicP_def step_client.simps
  tag_of_index_def getNonce_def getQuote_def Let_def

lemma lazy_congs: "Step upd nxt = Step upd nxt" "p = p' \<Longrightarrow> thenP p f = thenP p' f"
  by simp_all

lemma split_run:
  "\<exists>r. clients (server_run (request_proc sample_build sample_agent_env None) split_schedule (idle sample_agent)) ! 0 =
     (QuoteRequest \<lparr>Nonce = [5], Pcrs = [0], PcrBanks = [''SHA256'']\<rparr>, Done (Ret (QuotePayload r)))"
  by (simp add: split_schedule_def sample_run_simps sample_simps cong: lazy_congs)

lemma split_clients:
  "0 < length (clients (server_run (request_proc sample_build sample_agent_env None) split_schedule (idle sample_agent)))"
  using server_run_length [of "server_run (request_proc sample_build sample_agent_env None) (take 1 split_schedule) (idle sample_agent)"
      "request_proc sample_build sample_agent_env None" "drop 1 split_schedule"]
  by (simp add: split_schedule_def)

text \<open>
  The two translations of the handlers agree: a request that no other request interleaves with takes
  finitely many steps, and its answer and its effect are those of the sequential request handler,
  whatever the other clients are waiting for.
\<close>

lemma request_alone:
  "\<exists>n. server_run (request_proc b env cache) (Arrive m # replicate n (Advance (length (clients S)))) S =
     S\<lparr>shared := handler_effect env m (shared S),
       clients := clients S @ [(m, Done (handler_answer b env cache m (shared S)))]\<rparr>"
proof -
  let ?S = "server_step (request_proc b env cache) (Arrive m) S"
  have "length (clients S) < length (clients ?S)" "clients ?S ! length (clients S) = (m, request_proc b env cache m)"
    by simp_all
  from server_alone [OF this, of "request_proc b env cache"]
  show ?thesis by (simp add: run_request)
qed

text \<open>
  C7: under every interleaving of any requests a quote that succeeds reports the tag the TPM held at
  one moment of the request, and carries a signature the TPM made at a later moment of the request
  over exactly that tag and the request's nonce: a deployment in between cannot make the two differ.
\<close>

theorem concurrent_quote_binds_tag:
  assumes "i < length (clients (server_run (request_proc b env cache) es (idle ag)))"
    and "clients (server_run (request_proc b env cache) es (idle ag)) ! i = (QuoteRequest q, Done (Ret (QuotePayload r)))"
  shows "\<exists>n j k. n < j \<and> j < k \<and> k < length es \<and> es ! n = Arrive (QuoteRequest q) \<and>
    tag_seen env (ag_tpm (shared (server_run (request_proc b env cache) (take j es) (idle ag)))) (AssetTag r) \<and>
    quote_signed env (ag_tpm (shared (server_run (request_proc b env cache) (take k es) (idle ag)))) q r"
proof -
  let ?st = "\<lambda>n. shared (server_run (request_proc b env cache) (take n es) (idle ag))"
  obtain n m ns where ns: "n < length es" "es ! n = Arrive m" "sorted_wrt (<) ns"
    "\<forall>k \<in> set ns. n < k \<and> k < length es"
    "clients (server_run (request_proc b env cache) es (idle ag)) ! i = (m, fold advance (map ?st ns) (request_proc b env cache m))"
    using client_seen [of "idle ag" i "request_proc b env cache" es] assms(1) by auto
  have m: "m = QuoteRequest q" using ns(5) assms(2) by simp
  have "fold advance (map ?st ns) (request_proc b env cache (QuoteRequest q)) = Done (Ret (QuotePayload r))"
    using ns(5) assms(2) unfolding m by simp
  from yields_advance [OF this]
  obtain l where "yields (quote_proc env q) (take l (map ?st ns)) r"
    by (auto dest!: yields_payload intro: injI)
  then obtain a s1 bs s2 c where parts: "map ?st (take l ns) = a @ s1 # bs @ s2 # c"
    "tag_seen env (ag_tpm s1) (AssetTag r)" "quote_signed env (ag_tpm s2) q r"
    using yields_quote [of env q "map ?st (take l ns)" r] by (auto simp: take_map)
  obtain j k where "j \<in> set ns" "k \<in> set ns" "j < k" "s1 = ?st j" "s2 = ?st k"
    using sorted_parts [OF parts(1)] ns(3) sorted_wrt_take [of "(<)" ns l] set_take_subset [of l ns] by blast
  then show ?thesis using ns parts(2,3) m by blast
qed

theorem concurrent_quote_binds_tag_witness:
  "\<exists>r j k. clients (server_run (request_proc sample_build sample_agent_env None) split_schedule (idle sample_agent)) ! 0 =
       (QuoteRequest \<lparr>Nonce = [5], Pcrs = [0], PcrBanks = [''SHA256'']\<rparr>, Done (Ret (QuotePayload r))) \<and> j < k \<and>
     tag_seen sample_agent_env (ag_tpm (shared (server_run (request_proc sample_build sample_agent_env None)
       (take j split_schedule) (idle sample_agent)))) (AssetTag r) \<and>
     quote_signed sample_agent_env (ag_tpm (shared (server_run (request_proc sample_build sample_agent_env None)
       (take k split_schedule) (idle sample_agent)))) \<lparr>Nonce = [5], Pcrs = [0], PcrBanks = [''SHA256'']\<rparr> r"
proof -
  let ?S = "server_run (request_proc sample_build sample_agent_env None) split_schedule (idle sample_agent)"
  have "0 < length (clients ?S)" by (rule split_clients)
  moreover obtain r where r: "clients ?S ! 0 = (QuoteRequest \<lparr>Nonce = [5], Pcrs = [0], PcrBanks = [''SHA256'']\<rparr>, Done (Ret (QuotePayload r)))"
    using split_run by blast
  ultimately show ?thesis using concurrent_quote_binds_tag [of 0 sample_build sample_agent_env None split_schedule sample_agent] r
    by blast
qed

text \<open>
  C9: answers are well typed under every interleaving: a request that succeeds is answered with the
  payload of its kind, and a quote's fields decode, name a full tag or none, carry JSON or nothing as
  event log and only banks that were asked for.
\<close>

theorem concurrent_answers_typed:
  assumes "i < length (clients (server_run (request_proc b env cache) es (idle ag)))"
    and "clients (server_run (request_proc b env cache) es (idle ag)) ! i = (m, Done (Ret p))"
  shows "answer_ok m p"
proof -
  obtain ns where ns: "clients (server_run (request_proc b env cache) es (idle ag)) ! i =
      (m, fold advance (map (\<lambda>n. shared (server_run (request_proc b env cache) (take n es) (idle ag))) ns)
         (request_proc b env cache m))"
    using client_seen [of "idle ag" i "request_proc b env cache" es] assms by auto
  then have "fold advance (map (\<lambda>n. shared (server_run (request_proc b env cache) (take n es) (idle ag))) ns)
      (request_proc b env cache m) = Done (Ret p)"
    using assms(2) by (metis Pair_inject)
  from yields_advance [OF this] show ?thesis by (auto dest: yields_answer_ok)
qed

theorem concurrent_answers_typed_witness:
  "\<exists>r. clients (server_run (request_proc sample_build sample_agent_env None) split_schedule (idle sample_agent)) ! 0 =
      (QuoteRequest \<lparr>Nonce = [5], Pcrs = [0], PcrBanks = [''SHA256'']\<rparr>, Done (Ret (QuotePayload r))) \<and>
     response_ok \<lparr>Nonce = [5], Pcrs = [0], PcrBanks = [''SHA256'']\<rparr> r"
proof -
  have "0 < length (clients (server_run (request_proc sample_build sample_agent_env None) split_schedule (idle sample_agent)))"
    by (rule split_clients)
  then show ?thesis using split_run concurrent_answers_typed [of 0 sample_build sample_agent_env None split_schedule sample_agent]
    by fastforce
qed

text \<open>
  C4: a tag whose deployment was answered with success is what later quotes report, under every
  interleaving with requests that do not deploy a tag themselves: a quote that arrives after the
  answer names the tag and is signed over it. (Deployments before it have been answered.)
\<close>

theorem concurrent_tag_reported:
  assumes "nv_laws (tpm_lib env)" and "length (Tag t) = TagIndexSize" and "\<exists>b \<in> set (Tag t). b \<noteq> 0"
    and "S0 = server_run (request_proc b env cache) es0 (idle ag)"
    and "list_all (\<lambda>c. is_tag_request (fst c) \<longrightarrow> has_ended (snd c)) (clients S0)"
    and "S1 = server_run (request_proc b env cache) (Arrive (DeployAssetTagRequest t) # es1) S0"
    and "snd (clients S1 ! length (clients S0)) = Done (Ret EmptyPayload)"
    and "S2 = server_run (request_proc b env cache) (Arrive (QuoteRequest q) # es2) S1"
    and "snd (clients S2 ! length (clients S1)) = Done (Ret (QuotePayload r))"
    and "\<forall>t'. Arrive (DeployAssetTagRequest t') \<notin> set (es1 @ es2)"
  shows "AssetTag r = base64_encode (Tag t) \<and> quote_signed env (ag_tpm (shared S1)) q r"
proof -
  let ?spawn = "request_proc b env cache" and ?d = "length (clients S0)"
  let ?S0 = "server_step ?spawn (Arrive (DeployAssetTagRequest t)) S0"
  let ?S1 = "server_step ?spawn (Arrive (QuoteRequest q)) S1"
  have allowed: "\<not> is_tag_request m" if "Arrive m \<in> set (es1 @ es2)" for m
    using assms(10) that by (cases m) auto
  have others0: "guarantees same_tpm (snd (clients ?S0 ! i))" if "i < length (clients ?S0)" "i \<noteq> ?d" for i
    using that others_keep_tpm [of i b env cache es0 "idle ag"] assms(4,5) by (auto simp: nth_append)
  have S1: "S1 = server_run ?spawn es1 ?S0" using assms(6) by simp
  have ends: "ends same_tpm (\<lambda>r ag. r = Ret EmptyPayload \<longrightarrow> tag_stored env (Tag t) ag) (snd (clients ?S0 ! ?d)) (shared ?S0)"
    using deploy_tag_ends [OF assms(1,2)] by simp
  have stored: "tag_stored env (Tag t) (shared S1)"
    using tpm_keepers.client_outcome [where r = "Ret EmptyPayload" and es = es1, OF _ ends others0] allowed assms(7)
    by (simp add: S1)
  have others1: "guarantees same_tpm (snd (clients S1 ! i))" if "i < length (clients S1)" for i
  proof (cases "i = ?d")
    case True
    then show ?thesis using assms(7) by simp
  next
    case False
    show ?thesis unfolding S1
      by (rule tpm_keepers.others_kept [where j = ?d]) (use others0 allowed that False in \<open>simp_all add: S1\<close>)
  qed
  then have others: "guarantees same_tpm (snd (clients ?S1 ! i))" if "i < length (clients ?S1)" for i
    using that request_keeps_tpm [of "QuoteRequest q"] by (cases "i < length (clients S1)") (auto simp: nth_append less_Suc_eq)
  have kept: "ag_tpm (shared (server_run ?spawn (take n es2) ?S1)) = ag_tpm (shared S1)" for n
    using tpm_keepers.state_kept [OF others, of "take n es2" b env cache] allowed
    by (auto simp: same_tpm_def dest: in_set_takeD)
  let ?st = "\<lambda>n. shared (server_run ?spawn (take n es2) ?S1)"
  obtain ns where ns: "sorted_wrt (<) ns" "clients S2 ! length (clients S1) =
      (QuoteRequest q, fold advance (map ?st ns) (?spawn (QuoteRequest q)))"
    using client_history [of "length (clients S1)" ?S1 es2 ?spawn] assms(8) by auto
  have "fold advance (map ?st ns) (?spawn (QuoteRequest q)) = Done (Ret (QuotePayload r))"
    using ns(2) assms(9) by simp
  from yields_advance [OF this]
  obtain l where "yields (quote_proc env q) (map ?st (take l ns)) r"
    unfolding take_map by (auto dest!: yields_payload intro: injI)
  from yields_quote [OF this]
  obtain a s1 bs s2 c where parts: "map ?st (take l ns) = a @ s1 # bs @ s2 # c"
    "tag_seen env (ag_tpm s1) (AssetTag r)" "quote_signed env (ag_tpm s2) q r" by blast
  have "ag_tpm s1 = ag_tpm (shared S1)" "ag_tpm s2 = ag_tpm (shared S1)"
    using sorted_parts [OF parts(1) sorted_wrt_take [OF ns(1)]] kept by auto
  then show ?thesis using parts(2,3) tag_stored_seen [OF stored _ assms(2,3)] by simp
qed

theorem concurrent_tag_reported_witness:
  "\<exists>r. snd (clients (server_run (request_proc sample_build sample_agent_env None)
        (Arrive (DeployAssetTagRequest \<lparr>Tag = replicate 48 9, HardwareUUID = sample_uuid\<rparr>) # map Advance [0, 0, 0] @
         Arrive (QuoteRequest \<lparr>Nonce = [5], Pcrs = [0], PcrBanks = [''SHA256'']\<rparr>) #
         Arrive AikRequest # map Advance [1, 2, 1, 1, 1, 1, 2, 1, 1, 1, 1, 1]) (idle sample_agent)) ! 1) =
      Done (Ret (QuotePayload r)) \<and> AssetTag r = base64_encode (replicate 48 9)"
proof -
  let ?spawn = "request_proc sample_build sample_agent_env None"
  let ?t = "\<lparr>Tag = replicate 48 9, HardwareUUID = sample_uuid\<rparr>"
  let ?q = "\<lparr>Nonce = [5], Pcrs = [0], PcrBanks = [''SHA256'']\<rparr>"
  let ?es1 = "map Advance [0, 0, 0]" and ?es2 = "Arrive AikRequest # map Advance [1, 2, 1, 1, 1, 1, 2, 1, 1, 1, 1, 1]"
  let ?S1 = "server_run ?spawn (Arrive (DeployAssetTagRequest ?t) # ?es1) (idle sample_agent)"
  let ?S2 = "server_run ?spawn (Arrive (QuoteRequest ?q) # ?es2) ?S1"
  have one: "length (clients ?S1) = 1"
    by (simp add: sample_run_simps sample_simps cong: lazy_congs)
  have deployed: "snd (clients ?S1 ! 0) = Done (Ret EmptyPayload)"
    by (simp add: sample_run_simps sample_simps cong: lazy_congs)
  have "\<exists>r. snd (clients ?S2 ! 1) = Done (Ret (QuotePayload r))"
    by (simp add: sample_run_simps sample_simps cong: lazy_congs)
  then obtain r where r: "snd (clients ?S2 ! 1) = Done (Ret (QuotePayload r))" by blast
  have "AssetTag r = base64_encode (Tag ?t) \<and> quote_signed sample_agent_env (ag_tpm (shared ?S1)) ?q r"
    by (rule concurrent_tag_reported [of sample_agent_env ?t "idle sample_agent" sample_build None "[]" sample_agent
          ?S1 ?es1 ?S2 ?q ?es2])
      (use soft_nv_laws deployed r one in \<open>simp_all add: sample_env_simps TagIndexSize_def\<close>)
  then show ?thesis using r by simp
qed

text \<open>
  C30: a manifest whose deployment was answered with success is in its file, complete, under every
  interleaving with requests that deploy other manifests, tags, or measure applications.
\<close>

theorem concurrent_manifest_complete:
  assumes "S0 = server_run (request_proc b env cache) es0 (idle ag)"
    and "list_all (\<lambda>c. written_file (fst c) = Some (manifestFile m) \<longrightarrow> has_ended (snd c)) (clients S0)"
    and "S1 = server_run (request_proc b env cache) (Arrive (DeployManifestRequest m) # es1) S0"
    and "snd (clients S1 ! length (clients S0)) = Done (Ret EmptyPayload)"
    and "\<forall>m'. Arrive (DeployManifestRequest m') \<in> set es1 \<longrightarrow> Uuid m' \<noteq> Uuid m"
  shows "\<exists>xml. marshal_manifest env m = Ret xml \<and> host_files (ag_host (shared S1)) (manifestFile m) = Contents xml"
proof -
  let ?spawn = "request_proc b env cache" and ?d = "length (clients S0)"
  let ?S0 = "server_step ?spawn (Arrive (DeployManifestRequest m)) S0"
  let ?Q = "\<lambda>r ag. r = Ret EmptyPayload \<longrightarrow>
    (\<exists>xml. marshal_manifest env m = Ret xml \<and> host_files (ag_host ag) (manifestFile m) = Contents xml)"
  have allowed: "written_file m' \<noteq> Some (manifestFile m)" if "Arrive m' \<in> set es1" for m'
    using assms(5) that by (cases m') (auto simp: manifestFile_def constants_defs)
  have others: "guarantees (same_file (manifestFile m)) (snd (clients ?S0 ! i))" if "i < length (clients ?S0)" "i \<noteq> ?d" for i
    using that others_keep_file [of i b env cache es0 "idle ag"] assms(1,2) by (auto simp: nth_append)
  have S1: "S1 = server_run ?spawn es1 ?S0" using assms(3) by simp
  have "ends (same_file (manifestFile m)) ?Q (snd (clients ?S0 ! ?d)) (shared ?S0)"
    using deploy_manifest_ends by simp
  from file_keepers.client_outcome [where r = "Ret EmptyPayload" and es = es1, OF _ this others]
  show ?thesis using allowed assms(4) by (simp add: S1)
qed

theorem concurrent_manifest_complete_witness:
  "host_files (ag_host (shared (server_run (request_proc sample_build sample_agent_env None)
       (Arrive (DeployManifestRequest \<lparr>Uuid = sample_uuid, Label = ''app'', manifest_content = ()\<rparr>) #
        Arrive (DeployManifestRequest \<lparr>Uuid = ''11111111-1111-4111-8111-111111111111'', Label = ''app'', manifest_content = ()\<rparr>) # map Advance [0, 1, 1, 0])
       (idle sample_agent)))) (manifestFile \<lparr>Uuid = sample_uuid, Label = ''app'', manifest_content = ()\<rparr>) =
     Contents (bytes_of_string (''<Manifest Uuid='' @ sample_uuid @ ''/>''))"
proof -
  let ?spawn = "request_proc sample_build sample_agent_env None"
  let ?m = "\<lparr>Uuid = sample_uuid, Label = ''app'', manifest_content = ()\<rparr>"
  let ?es1 = "Arrive (DeployManifestRequest \<lparr>Uuid = ''11111111-1111-4111-8111-111111111111'', Label = ''app'', manifest_content = ()\<rparr>) # map Advance [0, 1, 1, 0]"
  let ?S1 = "server_run ?spawn (Arrive (DeployManifestRequest ?m) # ?es1) (idle sample_agent)"
  let ?m' = "\<lparr>Uuid = ''11111111-1111-4111-8111-111111111111'', Label = ''app'', manifest_content = ()\<rparr>"
  have acc: "manifest_accepted sample_agent_env ?m" "manifest_accepted sample_agent_env ?m'"
    using sample_labels sample_env_simps by (simp_all add: manifest_accepted_def)
  have "snd (clients ?S1 ! 0) = Done (Ret EmptyPayload)"
    by (simp add: deploy_accepted [OF acc(1) sample_env_simps(6)] deploy_accepted [OF acc(2) sample_env_simps(6)]
        write_file_proc_def atomicP_def open_truncate_def step_client.simps sample_env_simps(8) del: bytes_of_string_simps)
  moreover have "Uuid m' \<noteq> sample_uuid" if "Arrive (DeployManifestRequest m') \<in> set ?es1" for m' :: "unit Manifest"
    using that by (auto simp: sample_uuid_def)
  ultimately have "\<exists>xml. marshal_manifest sample_agent_env ?m = Ret xml \<and> host_files (ag_host (shared ?S1)) (manifestFile ?m) = Contents xml"
    by (intro concurrent_manifest_complete [of "idle sample_agent" sample_build sample_agent_env None "[]" sample_agent ?m ?S1 ?es1])
      simp_all
  then show ?thesis by (simp add: sample_env_simps)
qed

text \<open>
  C39: two deployments of manifests with the same UUID that interleave are both answered with success
  and leave, when the first to be written is the longer one, a file that is neither manifest: the
  shorter XML followed by the tail of the longer one.
\<close>

theorem concurrent_manifests_mixed:
  assumes "manifest_accepted env m1" and "manifest_accepted env m2" and "Uuid m1 = Uuid m2"
    and "marshal_manifest env m1 = Ret xml1" and "marshal_manifest env m2 = Ret xml2"
    and "length xml2 < length xml1" and "take (length xml2) xml1 \<noteq> xml2"
    and "S = server_run (request_proc b env cache)
      [Arrive (DeployManifestRequest m1), Arrive (DeployManifestRequest m2), Advance 0, Advance 1, Advance 0, Advance 1]
      (idle ag)"
  shows "map snd (clients S) = [Done (Ret EmptyPayload), Done (Ret EmptyPayload)] \<and>
    (\<exists>mixed. host_files (ag_host (shared S)) (manifestFile m1) = Contents mixed \<and>
       mixed = xml2 @ drop (length xml2) xml1 \<and> mixed \<noteq> xml2 \<and> mixed \<noteq> xml1)"
proof -
  have path: "manifestFile m2 = manifestFile m1" using assms(3) by (simp add: manifestFile_def)
  have "write_error env (manifestFile m1) = None" using assms(1) by (simp add: manifest_accepted_def)
  then have "map snd (clients S) = [Done (Ret EmptyPayload), Done (Ret EmptyPayload)] \<and>
      host_files (ag_host (shared S)) (manifestFile m1) = Contents (xml2 @ drop (length xml2) xml1)"
    using path
    by (simp add: assms(8) deploy_accepted [OF assms(1,4)] deploy_accepted [OF assms(2,5)] write_file_proc_def atomicP_def
        open_truncate_def step_client.simps)
  moreover have "xml2 @ drop (length xml2) xml1 \<noteq> xml1"
    using assms(7) by (metis append_eq_conv_conj)
  moreover have "xml2 @ drop (length xml2) xml1 \<noteq> xml2" using assms(6) by simp
  ultimately show ?thesis by blast
qed

theorem concurrent_manifests_mixed_witness:
  "\<exists>mixed. host_files (ag_host (shared (server_run (request_proc sample_build
       (sample_agent_env\<lparr>marshal_manifest := \<lambda>m. Ret (bytes_of_string (''<Manifest Label='' @ Label m @ ''/>''))\<rparr>) None)
       [Arrive (DeployManifestRequest \<lparr>Uuid = sample_uuid, Label = ''app'', manifest_content = ()\<rparr>),
        Arrive (DeployManifestRequest \<lparr>Uuid = sample_uuid, Label = ''ap'', manifest_content = ()\<rparr>),
        Advance 0, Advance 1, Advance 0, Advance 1] (idle sample_agent))))
       (manifestFile \<lparr>Uuid = sample_uuid, Label = ''app'', manifest_content = ()\<rparr>) = Contents mixed \<and>
     mixed \<notin> {bytes_of_string ''<Manifest Label=app/>'', bytes_of_string ''<Manifest Label=ap/>''}"
proof -
  let ?env = "sample_agent_env\<lparr>marshal_manifest := \<lambda>m. Ret (bytes_of_string (''<Manifest Label='' @ Label m @ ''/>''))\<rparr>"
  let ?m1 = "\<lparr>Uuid = sample_uuid, Label = ''app'', manifest_content = ()\<rparr>"
  let ?m2 = "\<lparr>Uuid = sample_uuid, Label = ''ap'', manifest_content = ()\<rparr>"
  let ?S = "server_run (request_proc sample_build ?env None)
    [Arrive (DeployManifestRequest ?m1), Arrive (DeployManifestRequest ?m2), Advance 0, Advance 1, Advance 0, Advance 1]
    (idle sample_agent)"
  let ?xml1 = "bytes_of_string ''<Manifest Label=app/>''" and ?xml2 = "bytes_of_string ''<Manifest Label=ap/>''"
  have acc: "manifest_accepted ?env ?m1" "manifest_accepted ?env ?m2"
    using sample_labels sample_env_simps by (simp_all add: manifest_accepted_def)
  show ?thesis
    using concurrent_manifests_mixed [OF acc, of ?xml1 ?xml2 _ sample_build None sample_agent, OF _ _ _ _ _ refl]
    by (auto simp: bytes_of_string_def)
qed

end
