(* ===== verification/Command_Line.thy ===== *)
theory Command_Line
  imports Agent_Main
begin

text \<open>
  \<^verbatim>\<open>main\<close> of \<^verbatim>\<open>main.go\<close> as a whole: the checks before the \<^verbatim>\<open>switch\<close>, the choice of the command, the commands
  on one state, what they print and the exit status. Progress messages are left out of what is printed.
\<close>

section \<open>The help text\<close>

definition usage :: "string list" where
  "usage =
     ['''',
      ''Usage:'',
      '''',
      ''  tagent <command> [arguments]'',
      '''',
      ''Available Commands:'',
      '''',
      ''  help|-h|-help                    Show this help message.'',
      ''  setup [all] [task]               Run setup task.'',
      ''  uninstall                        Uninstall trust agent.'',
      ''  --version                        Print build version info.'',
      ''  start                            Start the trust agent service.'',
      ''  stop                             Stop the trust agent service.'',
      ''  status                           Get the status of the trust agent service.'',
      ''  fetch-ekcert-with-issuer         Print Tpm Endorsement Certificate in Base64 encoded string along with issuer'',
      '''',
      ''Setup command usage:  tagent setup [cmd] [-f <env-file>]'',
      '''',
      ''Available Tasks for 'setup', all commands support env file flag'',
      '''',
      ''   all                                      - Runs all setup tasks to provision the trust agent. This command can be omitted with running only tagent setup'',
      ''                                                Required environment variables [in env/trustagent.env]:'',
      ''                                                  - AAS_API_URL=<url>                                 : AAS API URL'',
      ''                                                  - CMS_BASE_URL=<url>                                : CMS API URL'',
      ''                                                  - CMS_TLS_CERT_SHA384=<CMS TLS cert sha384 hash>    : to ensure that TA is communicating with the right CMS instance'',
      ''                                                  - BEARER_TOKEN=<token>                              : for authenticating with CMS and VS'',
      ''                                                  - HVS_URL=<url>                            : VS API URL'',
      ''                                                Optional Environment variables:'',
      ''                                                  - TA_ENABLE_CONSOLE_LOG=<true/false>                : When 'true', logs are redirected to stdout. Defaults to false.'',
      ''                                                  - TA_SERVER_IDLE_TIMEOUT=<t seconds>                : Sets the trust agent service's idle timeout. Defaults to 10 seconds.'',
      ''                                                  - TA_SERVER_MAX_HEADER_BYTES=<n bytes>              : Sets trust agent service's maximum header bytes.  Defaults to 1MB.'',
      ''                                                  - TA_SERVER_READ_TIMEOUT=<t seconds>                : Sets trust agent service's read timeout.  Defaults to 30 seconds.'',
      ''                                                  - TA_SERVER_READ_HEADER_TIMEOUT=<t seconds>         : Sets trust agent service's read header timeout.  Defaults to 30 seconds.'',
      ''                                                  - TA_SERVER_WRITE_TIMEOUT=<t seconds>               : Sets trust agent service's write timeout.  Defaults to 10 seconds.'',
      ''                                                  - SAN_LIST=<host1,host2.acme.com,...>               : CSV list that sets the value for SAN list in the TA TLS certificate.'',
      ''                                                                                                        Defaults to \"127.0.0.1,localhost\".'',
      ''                                                  - TA_TLS_CERT_CN=<Common Name>                      : Sets the value for Common Name in the TA TLS certificate.  Defaults to \"Trust Agent TLS Certificate\".'',
      ''                                                  - TPM_OWNER_SECRET=<40 byte hex>                    : When provided, setup uses the 40 character hex string for the TPM'',
      ''                                                                                                        owner password. Auto-generated when not provided.'',
      ''                                                  - TRUSTAGENT_LOG_LEVEL=<trace|debug|info|error>     : Sets the verbosity level of logging. Defaults to 'info'.'',
      ''                                                  - TRUSTAGENT_PORT=<portnum>                         : The port on which the trust agent service will listen.'',
      ''                                                                                                        Defaults to 1443'',
      '''',
      ''  download-ca-cert                          - Fetches the latest CMS Root CA Certificates, overwriting existing files.'',
      ''                                                    Required environment variables:'',
      ''                                                       - CMS_BASE_URL=<url>                                : CMS API URL'',
      ''                                                       - CMS_TLS_CERT_SHA384=<CMS TLS cert sha384 hash>    : to ensure that TA is communicating with the right CMS instance'',
      ''        '',
      ''  download-cert                             - Fetches a signed TLS Certificate from CMS, overwriting existing files.'',
      ''                                                    Required environment variables:'',
      ''                                                       - CMS_BASE_URL=<url>                                : CMS API URL'',
      ''                                                       - BEARER_TOKEN=<token>                              : for authenticating with CMS and VS'',
      ''                                                    Optional Environment variables:'',
      ''                                                       - SAN_LIST=<host1,host2.acme.com,...>               : CSV list that sets the value for SAN list in the TA TLS certificate.'',
      ''                                                                                                             Defaults to \"127.0.0.1,localhost\".'',
      ''                                                       - TA_TLS_CERT_CN=<Common Name>                      : Sets the value for Common Name in the TA TLS certificate.'',
      ''                                                                                                             Defaults to \"Trust Agent TLS Certificate\".'',
      ''  download-credential                       - Fetches Credential from AAS'',
      ''                                                    Required environment variables:'',
      ''                                                       - BEARER_TOKEN=<token>                              : for authenticating with AAS'',
      ''                                                       - AAS_API_URL=<url>                                 : AAS API URL'',
      ''                                                       - TA_HOST_ID=<ta-host-id>                           : FQDN of host'',
      ''  download-api-token                        - Fetches Custom Claims Token from AAS'',
      ''                                                    Required environment variables:'',
      ''                                                       - BEARER_TOKEN=<token>                              : for authenticating with AAS'',
      ''                                                       - AAS_API_URL=<url>                                 : AAS API URL'',
      ''  update-certificates                       - Runs 'download-ca-cert' and 'download-cert'' @ [CHR 0x27],
      ''                                                    Required environment variables:'',
      ''                                                       - CMS_BASE_URL=<url>                                : CMS API URL'',
      ''                                                       - CMS_TLS_CERT_SHA384=<CMS TLS cert sha384 hash>    : to ensure that TA is communicating with the right CMS instance'',
      ''                                                       - BEARER_TOKEN=<token>                              : for authenticating with CMS'',
      ''                                                    Optional Environment variables:'',
      ''                                                       - SAN_LIST=<host1,host2.acme.com,...>               : CSV list that sets the value for SAN list in the TA TLS certificate.'',
      ''                                                                                                              Defaults to \"127.0.0.1,localhost\".'',
      ''                                                       - TA_TLS_CERT_CN=<Common Name>                      : Sets the value for Common Name in the TA TLS certificate.  Defaults to \"Trust Agent TLS Certificate\".'',
      '''',
      ''  provision-attestation                     - Runs setup tasks associated with HVS/TPM provisioning.'',
      ''                                                    Required environment variables:'',
      ''                                                        - HVS_URL=<url>                            : VS API URL'',
      ''                                                        - BEARER_TOKEN=<token>                              : for authenticating with VS'',
      ''                                                    Optional environment variables:'',
      ''                                                        - TPM_OWNER_SECRET=<40 byte hex>                    : When provided, setup uses the 40 character hex string for the TPM'',
      ''                                                                                                              owner password. Auto-generated when not provided.'',
      '''',
      ''  create-host                                 - Registers the trust agent with the verification service.'',
      ''                                                    Required environment variables:'',
      ''                                                        - HVS_URL=<url>                            : VS API URL'',
      ''                                                        - BEARER_TOKEN=<token>                              : for authenticating with VS'',
      ''                                                        - CURRENT_IP=<ip address of host>                   : IP or hostname of host with which the host will be registered with HVS'',
      ''                                                    Optional environment variables:'',
      ''                                                        - TPM_OWNER_SECRET=<40 byte hex>                    : When provided, setup uses the 40 character hex string for the TPM'',
      ''                                                                                                              owner password. Auto-generated when not provided.'',
      '''',
      ''  create-host-unique-flavor                 - Populates the verification service with the host unique flavor'',
      ''                                                    Required environment variables:'',
      ''                                                        - HVS_URL=<url>                            : VS API URL'',
      ''                                                        - BEARER_TOKEN=<token>                              : for authenticating with VS'',
      ''                                                        - CURRENT_IP=<ip address of host>                   : Used to associate the flavor with the host'',
      '''',
      ''  get-configured-manifest                   - Uses environment variables to pull application-integrity '',
      ''                                              manifests from the verification service.'',
      ''                                                     Required environment variables:'',
      ''                                                        - HVS_URL=<url>                            : VS API URL'',
      ''                                                        - BEARER_TOKEN=<token>                              : for authenticating with VS'',
      ''                                                        - FLAVOR_UUIDS=<uuid1,uuid2,[...]>                  : CSV list of flavor UUIDs'',
      ''                                                        - FLAVOR_LABELS=<flavorlabel1,flavorlabel2,[...]>   : CSV list of flavor labels                                                   '',
      ''  update-service-config                     - Updates service configuration  '',
      ''                                                     Required environment variables:'',
      ''                                                        - TRUSTAGENT_PORT=<port>                            : Trust Agent Listener Port'',
      ''                                                        - TA_SERVER_READ_TIMEOUT                            : Trustagent Server Read Timeout'',
      ''                                                        - TA_SERVER_READ_HEADER_TIMEOUT                     : Trustagent Read Header Timeout'',
      ''                                                        - TA_SERVER_WRITE_TIMEOUT                           : Tustagent Write Timeout                                                   '',
      ''                                                        - TA_SERVER_IDLE_TIMEOUT                            : Trustagent Idle Timeout                                                    '',
      ''                                                        - TA_SERVER_MAX_HEADER_BYTES                        : Trustagent Max Header Bytes Timeout                                                    '',
      ''                                                        - TRUSTAGENT_LOG_LEVEL                              : Logging Level                                                    '',
      ''                                                        - TA_ENABLE_CONSOLE_LOG                             : Trustagent Enable standard output                                                    '',
      ''                                                        - LOG_ENTRY_MAXLENGTH                               : Maximum length of each entry in a log'',
      ''  define-tag-index                          - Allocates nvram in the TPM for use by asset tags.'']"

definition print_line :: "string \<Rightarrow> string \<Rightarrow> string" where
  "print_line l out = out @ l @ [LF]"

definition printUsage :: "string \<Rightarrow> string" where
  "printUsage out = print_line (join_with LF usage) out"

section \<open>Indenting JSON\<close>

text \<open>
  \<^verbatim>\<open>json.Indent\<close> with two spaces on a text that is JSON: \<open>need\<close> is its \<^verbatim>\<open>needIndent\<close>, which delays the line
  after an opening bracket, so that empty arrays and objects stay on one line.
\<close>

datatype scan_state = Outside | InString | Escaped

definition new_line :: "nat \<Rightarrow> byte list" where
  "new_line depth = 0x0A # concat (replicate depth [0x20, 0x20])"

fun indent_loop :: "scan_state \<Rightarrow> bool \<Rightarrow> nat \<Rightarrow> byte list \<Rightarrow> byte list" where
  "indent_loop st need depth [] = []"
| "indent_loop InString need depth (c # cs) =
     c # indent_loop (if c = 0x22 then Outside else if c = 0x5C then Escaped else InString) need depth cs"
| "indent_loop Escaped need depth (c # cs) = c # indent_loop InString need depth cs"
| "indent_loop Outside need depth (c # cs) =
     (if c \<in> set [0x20, 0x09, 0x0A, 0x0D] then indent_loop Outside need depth cs
      else if c = 0x7D \<or> c = 0x5D then
        (if need then c # indent_loop Outside False depth cs
         else new_line (depth - 1) @ c # indent_loop Outside False (depth - 1) cs)
      else
        (let depth = (if need then depth + 1 else depth)
         in (if need then new_line depth else []) @
            (if c = 0x7B \<or> c = 0x5B then c # indent_loop Outside True depth cs
             else if c = 0x2C then c # new_line depth @ indent_loop Outside False depth cs
             else if c = 0x3A then c # 0x20 # indent_loop Outside False depth cs
             else c # indent_loop (if c = 0x22 then InString else Outside) False depth cs)))"

definition json_Indent :: "byte list \<Rightarrow> byte list" where
  "json_Indent src = indent_loop Outside False 0 src"

text \<open>Indenting changes only the white space outside of strings.\<close>

fun strip_space :: "scan_state \<Rightarrow> byte list \<Rightarrow> byte list" where
  "strip_space st [] = []"
| "strip_space InString (c # cs) =
     c # strip_space (if c = 0x22 then Outside else if c = 0x5C then Escaped else InString) cs"
| "strip_space Escaped (c # cs) = c # strip_space InString cs"
| "strip_space Outside (c # cs) =
     (if c \<in> set [0x20, 0x09, 0x0A, 0x0D] then strip_space Outside cs
      else c # strip_space (if c = 0x22 then InString else Outside) cs)"

lemma strip_new_line [simp]: "strip_space Outside (new_line n @ cs) = strip_space Outside cs"
proof -
  have "strip_space Outside (concat (replicate n [0x20, 0x20]) @ cs) = strip_space Outside cs"
    by (induction n) simp_all
  then show ?thesis by (simp add: new_line_def)
qed

lemma strip_indent_loop: "strip_space st (indent_loop st need depth cs) = strip_space st cs"
  by (induction st need depth cs rule: indent_loop.induct) (auto simp: Let_def)

lemma json_Indent_same: "strip_space Outside (json_Indent src) = strip_space Outside src"
  by (simp add: json_Indent_def strip_indent_loop)

section \<open>The program\<close>

text \<open>
  The machine: the agent's TPM and files with their owners, HVS, the commands given to the system, and the
  results printed to standard output (reports, version, help text; the lines that only tell of progress
  or of an error are left out). A service process that \<^verbatim>\<open>systemctl\<close> starts is another process.
\<close>

record ('t, 'h) tagent =
  tg_init :: "'t init_state"
  tg_hvs :: 'h
  tg_ran :: "string list"
  tg_out :: string

abbreviation tg_files :: "('t, 'h) tagent \<Rightarrow> file_system" where
  "tg_files s \<equiv> agent_files (in_agent (tg_init s))"

definition with_files :: "file_system \<Rightarrow> ('t, 'h) tagent \<Rightarrow> ('t, 'h) tagent" where
  "with_files fs s =
     (let i = tg_init s; ag = in_agent i
      in s\<lparr>tg_init := i\<lparr>in_agent := ag\<lparr>ag_host := (ag_host ag)\<lparr>host_files := fs\<rparr>\<rparr>\<rparr>\<rparr>)"

text \<open>What the program is run with: the user, the libraries and the devices.\<close>

record ('t, 'k, 'c, 'h, 'm, 'r, 'i) main_env =
  me_user :: string
  me_validate :: "string list \<Rightarrow> go_error option"
  me_build :: build
  me_init :: "'i init_lib"
  me_setup :: "('t, 'k, 'c, 'h, 'm, 'r, 'i) setup_lib"
  me_os :: os_lib
  me_lookPath :: "string go"
  me_systemctl :: "string \<Rightarrow> string \<times> go_error option"
  me_issuer :: "byte list \<Rightarrow> string"
  me_ek :: "('k, 'c) aik_env"
  me_nats :: "('r, 'i) nats_lib"
  me_web :: web_lib

abbreviation me_config :: "('t, 'k, 'c, 'h, 'm, 'r, 'i) main_env \<Rightarrow> config_lib" where
  "me_config E \<equiv> sw_config (sl_world (me_setup E))"

abbreviation me_tpm :: "('t, 'k, 'c, 'h, 'm, 'r, 'i) main_env \<Rightarrow> 't aik_tpm" where
  "me_tpm E \<equiv> sw_tpm (sl_world (me_setup E))"

text \<open>
  A command ends, or goes on as a service: the service as \<^verbatim>\<open>Start\<close> left it, the configuration and what \<^verbatim>\<open>Start\<close>
  returned. What follows, also after an error or a panic of \<^verbatim>\<open>Start\<close>, is the life of \<^theory_text>\<open>Report_Retry\<close>; what the
  service does for a request is \<open>serve\<close> or \<open>on_message\<close>.
\<close>

datatype outcome = Finished ending | Serving ta_service TrustAgentConfiguration "unit go"

text \<open>The status the process exits with; a recovered panic lets \<^verbatim>\<open>main\<close> return.\<close>

fun exit_status :: "ending \<Rightarrow> nat" where
  "exit_status MainReturns = 0"
| "exit_status (Exit n) = n"
| "exit_status (Recovered p) = 0"

definition printing :: "string option \<Rightarrow> ('t, 'h) tagent \<Rightarrow> ('t, 'h) tagent" where
  "printing text s = (case text of None \<Rightarrow> s | Some t \<Rightarrow> s\<lparr>tg_out := tg_out s @ t\<rparr>)"

definition usage_printed :: "('t, 'h) tagent \<Rightarrow> ('t, 'h) tagent" where
  "usage_printed s = s\<lparr>tg_out := printUsage (tg_out s)\<rparr>"

definition report_to :: "ending \<times> byte list option \<Rightarrow> ('t, 'h) tagent \<Rightarrow> outcome \<times> ('t, 'h) tagent" where
  "report_to r s = (Finished (fst r), printing (map_option (\<lambda>bs. string_of_bytes bs @ [LF]) (snd r)) s)"

text \<open>\<^verbatim>\<open>start\<close>, \<^verbatim>\<open>stop\<close> and \<^verbatim>\<open>status\<close>; only the last prints the command's output.\<close>

definition main_systemctl ::
  "('t, 'k, 'c, 'h, 'm, 'r, 'i) main_env \<Rightarrow> string \<Rightarrow> TrustAgentConfiguration \<Rightarrow> ('t, 'h) tagent \<Rightarrow> outcome \<times> ('t, 'h) tagent" where
  "main_systemctl E cmd cfg s =
     (let s = with_files (snd (configure_logs (me_config E) (cfg, tg_files s))) s;
          s = (case me_lookPath E of
                 Ret systemctl \<Rightarrow> s\<lparr>tg_ran := tg_ran s @ [systemctl @ '' '' @ cmd @ '' tagent'']\<rparr>
               | _ \<Rightarrow> s);
          s = (if cmd = ''status'' then
                 (case run_systemctl (me_lookPath E) (me_systemctl E) cmd of
                    Inr (Ret out) \<Rightarrow> printing (Some (out @ [LF])) s
                  | _ \<Rightarrow> s)
               else s)
      in (Finished (systemctl_command (me_lookPath E) (me_systemctl E) cmd), s))"

text \<open>\<^verbatim>\<open>setup\<close> prints the help text when the words after the command are neither one nor start with \<^verbatim>\<open>-f\<close>.\<close>

definition setup_misused :: "string list \<Rightarrow> bool" where
  "setup_misused os_Args \<longleftrightarrow> 4 < length os_Args \<and> os_Args ! 2 \<noteq> ''-f'' \<and> os_Args ! 3 \<noteq> ''-f''"

definition main_setup ::
  "('t, 'k, 'c, 'h, 'm, 'r, 'i) main_env \<Rightarrow> string list \<Rightarrow> TrustAgentConfiguration \<Rightarrow> ('t, 'h) tagent \<Rightarrow> outcome \<times> ('t, 'h) tagent" where
  "main_setup E os_Args cfg s =
     (case setup_command (me_setup E) (me_user E) os_Args
             \<lparr>ss_cfg = cfg, ss_agent = in_agent (tg_init s), ss_ca = None, ss_hvs = tg_hvs s, ss_saved = []\<rparr> of
        (e, st) \<Rightarrow>
          (Finished e,
           (if me_user E = RootUserName \<and> setup_misused os_Args then usage_printed else id)
             (s\<lparr>tg_init := (tg_init s)\<lparr>in_agent := ss_agent st\<rparr>, tg_hvs := ss_hvs st\<rparr>)))"

definition main_uninstall :: "('t, 'k, 'c, 'h, 'm, 'r, 'i) main_env \<Rightarrow> ('t, 'h) tagent \<Rightarrow> outcome \<times> ('t, 'h) tagent" where
  "main_uninstall E s =
     (case uninstall (me_os E) \<lparr>m_files = tg_files s, m_ran = tg_ran s\<rparr> of
        (r, m) \<Rightarrow>
          (Finished (case r of Ret _ \<Rightarrow> MainReturns | Fail e \<Rightarrow> Exit 1 | Panic p \<Rightarrow> Recovered p),
           with_files (m_files m) (s\<lparr>tg_ran := m_ran m\<rparr>)))"

definition main_fetch :: "('t, 'k, 'c, 'h, 'm, 'r, 'i) main_env \<Rightarrow> TrustAgentConfiguration \<Rightarrow> ('t, 'h) tagent \<Rightarrow> outcome \<times> ('t, 'h) tagent" where
  "main_fetch E cfg s =
     (case fetchEndorsementCert (me_issuer E) (me_ek E) (me_tpm E) (ag_tpm (in_agent (tg_init s))) (cfg_TagSecretKey cfg) of
        Panic p \<Rightarrow> (Finished (Recovered p), s)
      | Fail e \<Rightarrow> (Finished (Exit 1), s)
      | Ret out \<Rightarrow> (Finished MainReturns, printing (Some out) s))"

definition main_service :: "('t, 'k, 'c, 'h, 'm, 'r, 'i) main_env \<Rightarrow> TrustAgentConfiguration \<Rightarrow> ('t, 'h) tagent \<Rightarrow> outcome \<times> ('t, 'h) tagent" where
  "main_service E cfg s =
     (case startService (IsContainerEnv (me_init E)) (me_user E) (me_config E) (cfg, tg_files s) of
        (Inl e, _, fs) \<Rightarrow> (Finished e, with_files fs s)
      | (Inr service, cfg, fs) \<Rightarrow>
          (case service_Start (me_nats E) (me_web E) service of
             (started, service') \<Rightarrow>
               (Serving service' cfg started, with_files (start_files (me_web E) service fs) s)))"

definition main_switch ::
  "('t, 'k, 'c, 'h, 'm, 'r, 'i) main_env \<Rightarrow> string list \<Rightarrow> TrustAgentConfiguration \<Rightarrow> ('t, 'h) tagent \<Rightarrow> outcome \<times> ('t, 'h) tagent" where
  "main_switch E os_Args cfg s =
     (case command_of (os_Args ! 1) of
        VersionCommand \<Rightarrow>
          (let b = me_build E
           in (Finished MainReturns,
               printing (Some (printVersion (bd_Version b) (bd_GitHash b) (bd_BuildDate b) (bd_Branch b) os_Args)) s))
      | HostInfoCommand \<Rightarrow> report_to (report_command (me_user E) (getHostInfoJSON (me_init E))) s
      | EventLogCommand \<Rightarrow>
          report_to (report_command (me_user E)
            (map_go json_Indent (getEventLogJSON (me_init E) (in_agent (tg_init s))))) s
      | InitCommand \<Rightarrow>
          (case init_command (me_init E) (me_config E) cfg (me_user E) (tg_init s) of
             (e, i) \<Rightarrow> (Finished e, s\<lparr>tg_init := i\<rparr>))
      | StartServiceCommand \<Rightarrow> main_service E cfg s
      | SystemctlCommand cmd \<Rightarrow> main_systemctl E cmd cfg s
      | SetupCommand \<Rightarrow> main_setup E os_Args cfg s
      | FetchEkCertCommand \<Rightarrow> main_fetch E cfg s
      | UninstallCommand \<Rightarrow> main_uninstall E s
      | HelpCommand \<Rightarrow> (Finished MainReturns, usage_printed s)
      | InvalidCommand cmd \<Rightarrow> (Finished MainReturns, usage_printed s))"

text \<open>\<open>os_Args\<close> starts with the program's name.\<close>

definition tagent_main :: "('t, 'k, 'c, 'h, 'm, 'r, 'i) main_env \<Rightarrow> string list \<Rightarrow> ('t, 'h) tagent \<Rightarrow> outcome \<times> ('t, 'h) tagent" where
  "tagent_main E os_Args s =
     (if length os_Args \<le> 1 then (Finished (Exit 1), usage_printed s)
      else if me_validate E os_Args \<noteq> None then (Finished (Exit 1), usage_printed s)
      else case NewConfigFromYaml (me_config E) (tg_files s) ConfigFilePath of
             Panic p \<Rightarrow> (Finished (Recovered p), s)
           | Fail e \<Rightarrow> (Finished (Exit 1), s)
           | Ret cfg \<Rightarrow> main_switch E os_Args cfg s)"

lemmas command_defs = printing_def usage_printed_def report_to_def main_systemctl_def setup_misused_def main_setup_def
  main_uninstall_def main_fetch_def main_service_def main_switch_def tagent_main_def

declare command_defs [eval_simps] with_files_def [eval_simps]

section \<open>Lemmas\<close>

lemma with_files_simps [simp]:
  "tg_files (with_files fs s) = fs" "tg_ran (with_files fs s) = tg_ran s" "tg_out (with_files fs s) = tg_out s"
  "ag_tpm (in_agent (tg_init (with_files fs s))) = ag_tpm (in_agent (tg_init s))"
  "in_owner (tg_init (with_files fs s)) = in_owner (tg_init s)"
  by (simp_all add: with_files_def Let_def)

lemma printing_init [simp]: "tg_init (printing t s) = tg_init s" "tg_ran (printing t s) = tg_ran s"
  by (simp_all add: printing_def split: option.split)

lemma usage_printed_init [simp]: "tg_init (usage_printed s) = tg_init s" "tg_ran (usage_printed s) = tg_ran s"
  by (simp_all add: usage_printed_def)

text \<open>Two states with the same TPM, owners and files but for the two logs.\<close>

definition untouched :: "('t, 'h) tagent \<Rightarrow> ('t, 'h) tagent \<Rightarrow> bool" where
  "untouched s s' \<longleftrightarrow> ag_tpm (in_agent (tg_init s')) = ag_tpm (in_agent (tg_init s)) \<and>
     in_owner (tg_init s') = in_owner (tg_init s) \<and>
     (\<forall>p. p \<noteq> DefaultLogFilePath \<and> p \<noteq> SecurityLogFilePath \<longrightarrow> tg_files s' p = tg_files s p)"

lemma untouched_simps [simp]:
  "untouched s s" "untouched s (printing t s') = untouched s s'" "untouched s (usage_printed s') = untouched s s'"
  "untouched s (s'\<lparr>tg_ran := r\<rparr>) = untouched s s'"
  by (simp_all add: untouched_def)

lemma configure_logs_file:
  "p \<noteq> DefaultLogFilePath \<Longrightarrow> p \<noteq> SecurityLogFilePath \<Longrightarrow> snd (configure_logs L (cfg, fs)) p = fs p"
  by (simp add: configure_logs_def LogConfiguration_files)

lemma untouched_logs [simp]: "untouched s (with_files (snd (configure_logs L (cfg, tg_files s))) s)"
  by (simp add: untouched_def configure_logs_file)

lemma untouched_systemctl: "untouched s (snd (main_systemctl E cmd cfg s))"
  by (simp add: main_systemctl_def Let_def split: go.split sum.split)

lemma startService_file:
  "p \<noteq> DefaultLogFilePath \<Longrightarrow> p \<noteq> SecurityLogFilePath \<Longrightarrow> snd (snd (startService c u L (cfg, fs))) p = fs p"
  by (simp add: startService_def configure_logs_file Let_def)

text \<open>The service touches the two logs, and the log of the web server when it is started.\<close>

lemma service_state:
  "ag_tpm (in_agent (tg_init (snd (main_service E cfg s)))) = ag_tpm (in_agent (tg_init s))"
  "in_owner (tg_init (snd (main_service E cfg s))) = in_owner (tg_init s)"
  "p \<noteq> DefaultLogFilePath \<Longrightarrow> p \<noteq> SecurityLogFilePath \<Longrightarrow> p \<noteq> HttpLogFile \<Longrightarrow>
     tg_files (snd (main_service E cfg s)) p = tg_files s p"
  using startService_file [of p "IsContainerEnv (me_init E)" "me_user E" "me_config E" cfg "tg_files s"]
  by (auto simp: main_service_def start_files_other split: sum.split prod.split)

lemma service_refused:
  "me_user E \<noteq> ''tagent'' \<Longrightarrow> \<not> IsContainerEnv (me_init E) \<Longrightarrow> main_service E cfg s = (Finished (Exit 1), with_files (tg_files s) s)"
  by (simp add: main_service_def startService_def TagentUserName_def)

lemma with_files_same [simp]: "with_files (tg_files s) s = s"
  by (simp add: with_files_def Let_def)

text \<open>The state the tasks of a setup start from, and what they find after the loggers are opened.\<close>

definition setup_start :: "('t, 'h) tagent \<Rightarrow> TrustAgentConfiguration \<Rightarrow> ('t, 'k, 'h) setup_state" where
  "setup_start s cfg = \<lparr>ss_cfg = cfg, ss_agent = in_agent (tg_init s), ss_ca = None, ss_hvs = tg_hvs s, ss_saved = []\<rparr>"

definition after_tasks :: "('t, 'k, 'h) setup_state \<Rightarrow> ('t, 'h) tagent \<Rightarrow> ('t, 'h) tagent" where
  "after_tasks st s = s\<lparr>tg_init := (tg_init s)\<lparr>in_agent := ss_agent st\<rparr>, tg_hvs := ss_hvs st\<rparr>"

lemma setup_logs_simps [simp]:
  "ss_tpm (setup_logs L st) = ss_tpm st" "ss_hvs (setup_logs L st) = ss_hvs st"
  "p \<noteq> DefaultLogFilePath \<Longrightarrow> p \<noteq> SecurityLogFilePath \<Longrightarrow> ss_files (setup_logs L st) p = ss_files st p"
  using configure_logs_file [of p L "ss_cfg st" "ss_files st"]
  by (auto simp: setup_logs_def set_files_def split: prod.splits)

lemma setup_start_simps [simp]:
  "ss_cfg (setup_start s cfg) = cfg" "ss_agent (setup_start s cfg) = in_agent (tg_init s)"
  by (simp_all add: setup_start_def)

lemma after_tasks_simps [simp]:
  "in_agent (tg_init (after_tasks st s)) = ss_agent st" "in_owner (tg_init (after_tasks st s)) = in_owner (tg_init s)"
  "tg_ran (after_tasks st s) = tg_ran s" "tg_out (after_tasks st s) = tg_out s"
  by (simp_all add: after_tasks_def)

lemma main_setup_eq:
  "main_setup E os_Args cfg s =
     (case setup_command (me_setup E) (me_user E) os_Args (setup_start s cfg) of
        (e, st) \<Rightarrow> (Finished e,
          (if me_user E = RootUserName \<and> setup_misused os_Args then usage_printed else id) (after_tasks st s)))"
  by (simp add: main_setup_def setup_start_def after_tasks_def)

lemma untouched_setup_logs [simp]: "untouched s (after_tasks (setup_logs L (setup_start s cfg)) s)"
  by (simp add: untouched_def)

lemma unprivileged_setup:
  fixes E :: "('t, 'k, 'c, 'h, 'm, 'r, 'i) main_env"
  assumes "me_user E \<noteq> ''root''"
  shows "main_setup E os_Args cfg s =
    (Finished (Exit 1), after_tasks (setup_logs (me_config E) (setup_start s cfg :: ('t, 'k, 'h) setup_state)) s)"
  using assms by (simp add: main_setup_eq setup_command_def RootUserName_def Let_def)

lemma main_service_ran [simp]: "tg_ran (snd (main_service E cfg s)) = tg_ran s"
  by (simp add: main_service_def split: sum.split prod.split)

lemma main_fetch_state [simp]: "tg_init (snd (main_fetch E cfg s)) = tg_init s" "tg_ran (snd (main_fetch E cfg s)) = tg_ran s"
  by (simp_all add: main_fetch_def split: go.split)

lemma untouched_same: "tg_init s' = tg_init s \<Longrightarrow> untouched s s'"
  by (simp add: untouched_def)

text \<open>What a command of a user other than root leaves alone, and when it goes on as a service.\<close>

definition unprivileged_ok :: "('t, 'k, 'c, 'h, 'm, 'r, 'i) main_env \<Rightarrow> string \<Rightarrow> ('t, 'h) tagent \<Rightarrow> outcome \<Rightarrow> ('t, 'h) tagent \<Rightarrow> bool" where
  "unprivileged_ok E cmd s r s' \<longleftrightarrow>
     (cmd \<noteq> ''uninstall'' \<longrightarrow>
        ag_tpm (in_agent (tg_init s')) = ag_tpm (in_agent (tg_init s)) \<and> in_owner (tg_init s') = in_owner (tg_init s) \<and>
        (\<forall>p. p \<noteq> DefaultLogFilePath \<and> p \<noteq> SecurityLogFilePath \<and> (p = HttpLogFile \<longrightarrow> cmd \<noteq> ''startService'') \<longrightarrow>
           tg_files s' p = tg_files s p)) \<and>
     ((\<forall>e. r \<noteq> Finished e) \<longrightarrow> cmd = ''startService'' \<and> (me_user E = ''tagent'' \<or> IsContainerEnv (me_init E))) \<and>
     (cmd = ''startService'' \<and> me_user E \<noteq> ''tagent'' \<and> \<not> IsContainerEnv (me_init E) \<longrightarrow>
        tg_init s' = tg_init s \<and> (\<exists>e. r = Finished e \<and> e \<noteq> MainReturns)) \<and>
     (tg_ran s' \<noteq> tg_ran s \<longrightarrow> cmd \<in> {''start'', ''stop'', ''status'', ''uninstall''}) \<and>
     (cmd \<in> {''hostinfo'', ''eventlog'', ''init'', ''setup''} \<longrightarrow> (\<exists>e. r = Finished e \<and> e \<noteq> MainReturns))"

lemma commands_finish:
  assumes "os_Args ! 1 \<noteq> ''startService''"
  shows "\<exists>e. fst (main_switch E os_Args cfg s) = Finished e"
proof (cases "command_of (os_Args ! 1)")
  case StartServiceCommand
  then show ?thesis using assms by (simp add: command_of_def split: if_splits)
qed (simp_all add: main_switch_def report_to_def main_systemctl_def main_setup_def main_fetch_def main_uninstall_def Let_def
    split: prod.split go.split)

lemma unprivileged_service: "unprivileged_ok E ''startService'' s (fst (main_service E cfg s)) (snd (main_service E cfg s))"
proof (cases "me_user E = ''tagent'' \<or> IsContainerEnv (me_init E)")
  case True
  then show ?thesis using service_state [where E = E and cfg = cfg and s = s] by (auto simp: unprivileged_ok_def)
next
  case False
  then show ?thesis using service_refused [of E cfg s] by (auto simp: unprivileged_ok_def)
qed

lemma unprivileged_other:
  assumes "cmd \<noteq> ''startService''" and "cmd \<noteq> ''uninstall'' \<longrightarrow> untouched s s'"
    and "tg_ran s' \<noteq> tg_ran s \<longrightarrow> cmd \<in> {''start'', ''stop'', ''status'', ''uninstall''}"
    and "cmd \<in> {''hostinfo'', ''eventlog'', ''init'', ''setup''} \<longrightarrow> e \<noteq> MainReturns"
  shows "unprivileged_ok E cmd s (Finished e) s'"
  using assms by (simp add: unprivileged_ok_def untouched_def)

lemma unprivileged_same:
  "e \<noteq> MainReturns \<Longrightarrow> tg_init s' = tg_init s \<Longrightarrow> tg_ran s' = tg_ran s \<Longrightarrow> unprivileged_ok E cmd s (Finished e) s'"
  by (simp add: unprivileged_ok_def)

lemma unprivileged_switch:
  assumes "me_user E \<noteq> ''root''"
  shows "unprivileged_ok E (os_Args ! 1) s (fst (main_switch E os_Args cfg s)) (snd (main_switch E os_Args cfg s))"
proof (cases "os_Args ! 1 = ''startService''")
  case True
  then have "main_switch E os_Args cfg s = main_service E cfg s" by (simp add: main_switch_def command_of_def)
  then show ?thesis using True unprivileged_service by simp
next
  case False
  obtain e where e: "fst (main_switch E os_Args cfg s) = Finished e" using commands_finish [OF False] by blast
  have "os_Args ! 1 \<noteq> ''uninstall'' \<longrightarrow> untouched s (snd (main_switch E os_Args cfg s))"
    using assms False
    by (auto simp: main_switch_def command_of_def report_to_def report_command_def init_command_def RootUserName_def
        unprivileged_setup Let_def untouched_systemctl intro!: untouched_same)
  moreover have "tg_ran (snd (main_switch E os_Args cfg s)) \<noteq> tg_ran s \<longrightarrow> os_Args ! 1 \<in> {''start'', ''stop'', ''status'', ''uninstall''}"
    "os_Args ! 1 \<in> {''hostinfo'', ''eventlog'', ''init'', ''setup''} \<longrightarrow> fst (main_switch E os_Args cfg s) = Finished (Exit 1)"
    using assms
    by (auto simp: main_switch_def command_of_def report_to_def report_command_def init_command_def RootUserName_def
        unprivileged_setup Let_def)
  ultimately show ?thesis unfolding e by (intro unprivileged_other [OF False]) auto
qed

lemma unprivileged_output:
  assumes "me_user E \<noteq> ''root''" and "os_Args ! 1 \<in> {''hostinfo'', ''eventlog'', ''init'', ''setup''}"
  shows "tg_out (snd (main_switch E os_Args cfg s)) = tg_out s"
  using assms
  by (auto simp: main_switch_def command_of_def report_to_def report_command_def init_command_def RootUserName_def
      unprivileged_setup printing_def)

section \<open>After a full setup\<close>

lemma load_environment:
  assumes "fst (LoadEnvironmentVariables L cfg) = Ret ()"
  shows "configFile (snd (LoadEnvironmentVariables L cfg)) = configFile cfg"
    and "Mode (snd (LoadEnvironmentVariables L cfg)) = ''http'' \<or> Mode (snd (LoadEnvironmentVariables L cfg)) = ''outbound''"
  using assms
  by (auto simp: LoadEnvironmentVariables_def load_mode_cases set_level_def Let_def split: go.splits)

lemma configured_file:
  "NewConfigFromYaml L fs path = Ret cfg \<Longrightarrow> configFile cfg = path"
  by (auto simp: NewConfigFromYaml_def thenS_eq_Ret andThen_eq_Ret split: file_state.splits go.splits if_splits)

lemma setup_logs_cfg [simp]: "configFile (ss_cfg (setup_logs L st)) = configFile (ss_cfg st)"
  by (simp add: setup_logs_def configure_logs_def LogConfiguration_def log_level_def set_level_def Let_def case_prod_unfold)

text \<open>An agent in http mode with a port, or in outbound mode with a host id, is served.\<close>

lemma agent_serves:
  assumes "Mode cfg = ''http'' \<and> Port (cfg_service cfg) \<noteq> 0 \<or> Mode cfg = ''outbound'' \<and> HostID (Nats cfg) \<noteq> []"
  shows "\<exists>service. fst (startService c ''tagent'' L (cfg, fs)) = Inr service \<and>
    (Mode cfg = ''http'' \<longrightarrow> (\<exists>svc. service = HttpService svc))"
proof -
  have "fst (configure_logs L (cfg, fs)) = log_level L cfg"
    by (simp add: configure_logs_def LogConfiguration_def Let_def case_prod_unfold)
  moreover have "HostID (sp_Nats (service_parameters (log_level L cfg))) = HostID (Nats cfg)"
    by (simp add: service_parameters_def log_level_def set_level_def NatsService.defs Let_def)
  moreover have "lower_equals ''outbound'' ''outbound''" "\<not> lower_equals ''http'' ''outbound''" "lower_equals ''http'' ''http''"
    by (simp_all add: eval_simps)
  ultimately show ?thesis
    using assms
    by (auto simp: startService_def NewTrustAgentService_def newWebService_def newOutboundService_def web_parameters
        TagentUserName_def Let_def)
qed

text \<open>A web service that was created is started.\<close>

lemma main_service_starts:
  assumes "startService (IsContainerEnv (me_init E)) (me_user E) (me_config E) (cfg, tg_files s) = (Inr service, c, fs)"
  shows "\<exists>service' started s''. main_service E cfg s = (Serving service' c started, s'') \<and>
    ((\<exists>svc. service = HttpService svc) \<longrightarrow> started = Ret ())"
  using assms by (cases service) (auto simp: main_service_def web_service_Start_def Let_def split: prod.split)

section \<open>Properties\<close>

text \<open>
  C12: what a user other than root can do with the program, whatever its arguments. Only \<^verbatim>\<open>uninstall\<close> can
  change the TPM, the owners of the files or a file other than logs, and only \<^verbatim>\<open>startService\<close> opens the log of
  the web server. Only \<^verbatim>\<open>startService\<close> goes on as a service (what requests to it then change is the subject of
  C8), and only for the user tagent or in a container: for others it changes nothing and does not
  succeed. Only \<^verbatim>\<open>uninstall\<close> and the three service commands give commands to the system; and \<^verbatim>\<open>hostinfo\<close>,
  \<^verbatim>\<open>eventlog\<close>, \<^verbatim>\<open>init\<close> and \<^verbatim>\<open>setup\<close> never succeed and print no result, at most the help text for arguments
  that are refused.
\<close>

theorem unprivileged_user:
  assumes "me_user E \<noteq> ''root''" and "1 < length os_Args" and "tagent_main E os_Args s = (r, s')"
  shows "(os_Args ! 1 \<noteq> ''uninstall'' \<longrightarrow>
       ag_tpm (in_agent (tg_init s')) = ag_tpm (in_agent (tg_init s)) \<and> in_owner (tg_init s') = in_owner (tg_init s) \<and>
       (\<forall>p. p \<noteq> DefaultLogFilePath \<and> p \<noteq> SecurityLogFilePath \<and> (p = HttpLogFile \<longrightarrow> os_Args ! 1 \<noteq> ''startService'') \<longrightarrow>
          tg_files s' p = tg_files s p)) \<and>
    ((\<forall>e. r \<noteq> Finished e) \<longrightarrow>
       os_Args ! 1 = ''startService'' \<and> (me_user E = ''tagent'' \<or> IsContainerEnv (me_init E))) \<and>
    (os_Args ! 1 = ''startService'' \<and> me_user E \<noteq> ''tagent'' \<and> \<not> IsContainerEnv (me_init E) \<longrightarrow>
       tg_init s' = tg_init s \<and> (\<exists>e. r = Finished e \<and> e \<noteq> MainReturns)) \<and>
    (tg_ran s' \<noteq> tg_ran s \<longrightarrow> os_Args ! 1 \<in> {''start'', ''stop'', ''status'', ''uninstall''}) \<and>
    (os_Args ! 1 \<in> {''hostinfo'', ''eventlog'', ''init'', ''setup''} \<longrightarrow>
       (\<exists>e. r = Finished e \<and> e \<noteq> MainReturns) \<and> (tg_out s' = tg_out s \<or> me_validate E os_Args \<noteq> None))"
proof -
  have "tagent_main E os_Args s = (Finished (Exit 1), usage_printed s) \<and> me_validate E os_Args \<noteq> None \<or>
      (\<exists>e. tagent_main E os_Args s = (Finished e, s) \<and> e \<noteq> MainReturns) \<or>
      (\<exists>cfg. tagent_main E os_Args s = main_switch E os_Args cfg s)"
    using assms(2) by (cases "NewConfigFromYaml (me_config E) (tg_files s) ConfigFilePath") (auto simp: tagent_main_def)
  then consider "tagent_main E os_Args s = (Finished (Exit 1), usage_printed s)" "me_validate E os_Args \<noteq> None"
    | e where "tagent_main E os_Args s = (Finished e, s)" "e \<noteq> MainReturns"
    | cfg where "tagent_main E os_Args s = main_switch E os_Args cfg s"
    by blast
  then have "unprivileged_ok E (os_Args ! 1) s r s' \<and>
    (os_Args ! 1 \<in> {''hostinfo'', ''eventlog'', ''init'', ''setup''} \<longrightarrow> tg_out s' = tg_out s \<or> me_validate E os_Args \<noteq> None)"
  proof cases
    case 1
    then show ?thesis using assms(3) unprivileged_same [of "Exit 1" "usage_printed s" s] by auto
  next
    case 2
    then show ?thesis using assms(3) unprivileged_same [of _ s s] by auto
  next
    case 3
    then show ?thesis
      using assms(3) unprivileged_switch [OF assms(1), of os_Args s] unprivileged_output [OF assms(1), of os_Args cfg s]
      by (metis fst_conv snd_conv)
  qed
  then show ?thesis unfolding unprivileged_ok_def by argo
qed

text \<open>
  C37: a panic looks like success: \<^verbatim>\<open>tagent setup define-tag-index\<close>, run by root on a readable configuration,
  always panics, because the task has no TPM factory; \<^verbatim>\<open>main\<close> recovers, the process exits with status 0,
  and neither the TPM nor any file but the logs has changed. Needs of the library's runner that it
  panics when the \<^verbatim>\<open>Run\<close> of its only task panics.
\<close>

theorem define_tag_index_exits_zero:
  fixes E :: "('t, 'k, 'c, 'h, 'm, 'r, 'i) main_env"
  assumes "me_user E = ''root''" and "os_Args = [''tagent'', ''setup'', ''define-tag-index'']"
    and "me_validate E os_Args = None"
    and "NewConfigFromYaml (me_config E) (tg_files s) ConfigFilePath = Ret cfg"
    and "\<forall>W t st p. task_Run W t st = (Panic p, st) \<longrightarrow> run_tasks (me_setup E) W [t] st = (Panic p, st)"
  shows "\<exists>s'. tagent_main E os_Args s = (Finished (Recovered NilDereference), s') \<and>
    exit_status (Recovered NilDereference) = 0 \<and>
    ag_tpm (in_agent (tg_init s')) = ag_tpm (in_agent (tg_init s)) \<and>
    (\<forall>p. p \<noteq> DefaultLogFilePath \<and> p \<noteq> SecurityLogFilePath \<longrightarrow> tg_files s' p = tg_files s p)"
proof -
  let ?W = "sl_world (me_setup E)" and ?st = "setup_logs (me_config E) (setup_start s cfg :: ('t, 'k, 'h) setup_state)"
  have "\<not> is_Panic (fst (LoadEnvironmentVariables (me_config E) (ss_cfg ?st)))"
    by (auto simp: LoadEnvironmentVariables_def load_digest_def Let_def split: go.split)
  then obtain r cfg1 where ld: "LoadEnvironmentVariables (me_config E) (ss_cfg ?st) = (r, cfg1)" "\<not> is_Panic r"
    by (metis fst_conv prod.exhaust)
  have task: "CreateTaskRunner W ''define-tag-index'' (Some c) = Ret [DefineTagIndexTask False (owner_secret W)]"
    for W :: "('t, 'k, 'c, 'h, 'm, 'r, 'i) setup_world" and c
    by (simp add: CreateTaskRunner_def task_factories_def hvs_commands_def tpm_commands_def factory_commands_def
        select_tasks_def)
  have "run_tasks (me_setup E) ?W [DefineTagIndexTask False secret] st = (Panic NilDereference, st)" for secret st
    using assms(5) nil_tag_task by blast
  then have "run_setup (me_setup E) ?W ''define-tag-index'' ?st = (Recovered NilDereference, ?st\<lparr>ss_cfg := cfg1\<rparr>)"
    using ld by (cases r) (simp_all add: run_setup_def task)
  then have "tagent_main E os_Args s = (Finished (Recovered NilDereference), after_tasks (?st\<lparr>ss_cfg := cfg1\<rparr>) s)"
    using assms(1,2) assms(3,4)
    by (simp add: tagent_main_def main_switch_def command_of_def main_setup_eq setup_command_def RootUserName_def
        setup_arguments_def setup_misused_def Let_def)
  then show ?thesis by simp
qed

text \<open>A full setup that succeeded provisioned the agent and saved its configuration.\<close>

lemma setup_provisions:
  fixes E :: "('t, 'k, 'c, 'h, 'm, 'r, 'i) main_env"
  defines "W \<equiv> sl_world (me_setup E)" and "L \<equiv> me_config E"
  assumes "tagent_main E [''tagent'', ''setup''] s = (Finished MainReturns, s')"
    and "\<And>ts st st'. run_tasks (me_setup E) W ts st = (Ret (), st') \<Longrightarrow> runs W ts st = (Ret (), st')"
    and "\<And>c. fst (LoadEnvironmentVariables L c) = Ret ()"
    and "nv_laws (base (me_tpm E))" and "keys_keep_tag (me_tpm E)" and "library_tasks_confined W"
    and "\<And>vs bs. write_result (sw_aik W vs) AikCert bs = (bs, None)"
  obtains cfg and st :: "('t, 'k, 'h) setup_state" and fs where
    "configFile cfg = ConfigFilePath" "Mode cfg = ''http'' \<or> Mode cfg = ''outbound''"
    "provisioned W cfg (ag_tpm (in_agent (tg_init s))) st" "config_Save L (ss_cfg st) (ss_files st) = (Ret (), fs)"
    "s' = after_tasks (set_files fs st) s"
proof -
  obtain cfg0 where cfg0: "NewConfigFromYaml L (tg_files s) ConfigFilePath = Ret cfg0"
    and run: "main_setup E [''tagent'', ''setup''] cfg0 s = (Finished MainReturns, s')"
    using assms(3) by (auto simp: tagent_main_def main_switch_def command_of_def L_def split: if_splits go.splits)
  let ?st = "setup_logs L (setup_start s cfg0 :: ('t, 'k, 'h) setup_state)"
  obtain st where st: "setup_command (me_setup E) (me_user E) [''tagent'', ''setup''] (setup_start s cfg0) = (MainReturns, st)"
    "s' = after_tasks st s"
    using run by (auto simp: main_setup_eq setup_misused_def split: prod.splits)
  let ?cfg = "snd (LoadEnvironmentVariables L (ss_cfg ?st))"
  obtain cmd answers W' tasks st1 fs where r: "setup_arguments [''tagent'', ''setup''] = Inr (cmd, answers)"
    "W' = (case answers of None \<Rightarrow> W | Some f \<Rightarrow> read_answers (me_setup E) f W)"
    "CreateTaskRunner W' cmd (Some (snd (LoadEnvironmentVariables (sw_config W') (ss_cfg ?st)))) = Ret tasks"
    "run_tasks (me_setup E) W' tasks (?st\<lparr>ss_cfg := snd (LoadEnvironmentVariables (sw_config W') (ss_cfg ?st))\<rparr>) = (Ret (), st1)"
    "config_Save (sw_config W') (ss_cfg st1) (ss_files st1) = (Ret (), fs)" "st = set_files fs st1"
    using setup_command_Ret [OF st(1), folded L_def, folded W_def] .
  have cmd: "cmd = DefaultSetupCommand" "answers = None" using r(1) by (auto simp: setup_arguments_def)
  have W': "W' = W" "sw_config W = L" using r(2) cmd(2) by (simp_all add: W_def L_def)
  note r = r [unfolded cmd(1) W']
  have path: "configFile ?cfg = ConfigFilePath" using load_environment(1) [OF assms(5)] configured_file [OF cfg0] by simp
  have "runs W (all_tasks W ?cfg) (?st\<lparr>ss_cfg := ?cfg\<rparr>) = (Ret (), st1)"
    by (rule assms(4) [OF r(4) [unfolded default_command_tasks [OF r(3)]]])
  then have "provisioned W ?cfg (ss_tpm (?st\<lparr>ss_cfg := ?cfg\<rparr>)) st1"
    using assms(6-9) path by (intro full_setup) (simp_all add: W_def constants_defs)
  then show ?thesis using that [OF path load_environment(2) [OF assms(5)] _ r(5)] st(2) r(6) by simp
qed

text \<open>
  C10: a full setup makes the agent ready. After \<^verbatim>\<open>tagent setup\<close> ended successfully, the configuration file
  holds the settings update-service-config took from the environment and the API token that AAS issued for
  the host's UUID; the service that reads the saved tag secret finds the tag the TPM had when it was
  taken into ownership, or none; the AIK endpoint serves a valid certificate; and \<^verbatim>\<open>tagent startService\<close>, run by
  the agent's user, creates a service, which in http mode is started. Needs that the environment's settings
  are accepted (\<^verbatim>\<open>LoadEnvironmentVariables\<close> returns no error) and of the libraries: the runner succeeds only
  when all tasks did, YAML is read back, NV memory keeps what is written, creating keys leaves the tag's
  index alone, downloading the TLS certificate writes only it and its key, the AIK certificate is written in
  full, and PEM decodes the certificate it encoded.
\<close>

theorem setup_makes_ready:
  fixes E :: "('t, 'k, 'c, 'h, 'm, 'r, 'i) main_env"
  defines "W \<equiv> sl_world (me_setup E)" and "L \<equiv> me_config E" and "P \<equiv> base (me_tpm E)"
  assumes "tagent_main E [''tagent'', ''setup''] s = (Finished MainReturns, s')"
    and "\<And>ts st st'. run_tasks (me_setup E) W ts st = (Ret (), st') \<Longrightarrow> runs W ts st = (Ret (), st')"
    and "\<forall>c bs. yaml_Encode L c = Ret bs \<longrightarrow> yaml_Decode L bs = Ret (c\<lparr>configFile := []\<rparr>)"
    and "\<And>c. fst (LoadEnvironmentVariables L c) = Ret ()"
    and "nv_laws P" and "keys_keep_tag (me_tpm E)" and "library_tasks_confined W"
    and "\<And>vs bs. write_result (sw_aik W vs) AikCert bs = (bs, None)"
    and "\<And>vs der. is_Ret (x509_ParseCertificate (sw_aik W vs) der) \<Longrightarrow>
           pem_Decode env (pem_Encode ''CERTIFICATE'' der) = Some der"
  shows "\<exists>cfg cfg' bearer token owned vs der cert.
    NewConfigFromYaml L (tg_files s') ConfigFilePath = Ret cfg' \<and>
    cfg_service cfg' = snd (UpdateServiceConfig_Run (ctx L) cfg) \<and>
    GetCustomClaimsToken (sw_aas W) (AAS_BaseURL cfg') bearer (api_token_claims (HostHardwareUUID W)) = Ret token \<and>
    ApiToken cfg' = string_of_bytes token \<and> token \<noteq> [] \<and>
    TakeOwnership_Run P True (owner_secret W) (ag_tpm (in_agent (tg_init s))) = (Ret (), owned) \<and>
    getAssetTags P (ag_tpm (in_agent (tg_init s'))) (cfg_TagSecretKey cfg') =
      Ret (if allZeros (previous_tag P (owner_secret W) owned) then []
           else base64_encode (previous_tag P (owner_secret W) owned)) \<and>
    GetAikDerBytes env (in_agent (tg_init s')) = Ret der \<and> x509_ParseCertificate (sw_aik W vs) der = Ret cert \<and>
    (me_validate E [''tagent'', ''startService''] = None \<longrightarrow>
      (\<exists>service c started s''.
         tagent_main (E\<lparr>me_user := ''tagent''\<rparr>) [''tagent'', ''startService''] s' = (Serving service c started, s'') \<and>
         (Mode cfg' = ''http'' \<longrightarrow> started = Ret ())))"
proof -
  note needs = assms(5-11) [unfolded W_def L_def P_def]
  obtain cfg st fs where st: "configFile cfg = ConfigFilePath" "Mode cfg = ''http'' \<or> Mode cfg = ''outbound''"
    "provisioned W cfg (ag_tpm (in_agent (tg_init s))) st" "config_Save L (ss_cfg st) (ss_files st) = (Ret (), fs)"
    "s' = after_tasks (set_files fs st) s"
    using setup_provisions [OF assms(4) needs(1,3-7), folded L_def, folded W_def] .
  obtain k token bearer owned der cert where p:
    "ss_cfg st = cfg\<lparr>cfg_service := snd (UpdateServiceConfig_Run (ctx L) (cfg_service cfg)),
       cfg_TagSecretKey := k, ApiToken := string_of_bytes token\<rparr>"
    "GetCustomClaimsToken (sw_aas W) (AAS_BaseURL cfg) bearer (api_token_claims (HostHardwareUUID W)) = Ret token"
    "token \<noteq> []" "TakeOwnership_Run P True (owner_secret W) (ag_tpm (in_agent (tg_init s))) = (Ret (), owned)"
    "getAssetTags P (ss_tpm st) k = Ret (tag_text (previous_tag P (owner_secret W) owned))"
    "x509_ParseCertificate (sw_aik W (Some (hvs_factory W cfg))) der = Ret cert"
    "ss_files st AikCert = Contents (pem_Encode ''CERTIFICATE'' der)"
    "Mode cfg = ''outbound'' \<longrightarrow> HostID (Nats cfg) \<noteq> []"
    using st(3) unfolding provisioned_def P_def W_def L_def by auto
  have cf: "configFile (ss_cfg st) = ConfigFilePath" using p(1) st(1) by simp
  have read: "NewConfigFromYaml L (tg_files s') ConfigFilePath = Ret (ss_cfg st)"
    using setup_saved [OF refl refl assms(6) st(4)] cf st(5) by simp
  have "fs AikCert = ss_files st AikCert"
    using config_Save_file [of AikCert "ss_cfg st" L "ss_files st"] cf st(4) by (simp add: constants_defs)
  then have aik: "GetAikDerBytes env (in_agent (tg_init s')) = Ret der"
    using p(6,7) assms(12) [of "Some (hvs_factory W cfg)" der] st(5)
    by (simp add: GetAikDerBytes_def getAikPem_def os_Stat_def ioutil_ReadFile_def os_Open_def)
  have "Mode (ss_cfg st) = ''http'' \<and> Port (cfg_service (ss_cfg st)) \<noteq> 0 \<or>
      Mode (ss_cfg st) = ''outbound'' \<and> HostID (Nats (ss_cfg st)) \<noteq> []"
    using st(2) p(1,8) by (auto simp: update_settings DefaultPort_def)
  then obtain service c fs2 where service:
    "startService (IsContainerEnv (me_init E)) ''tagent'' L (ss_cfg st, tg_files s') = (Inr service, c, fs2)"
    "Mode (ss_cfg st) = ''http'' \<longrightarrow> (\<exists>svc. service = HttpService svc)"
    using agent_serves [of "ss_cfg st"] by (metis prod.collapse)
  then have "\<exists>service c started s''. main_service (E\<lparr>me_user := ''tagent''\<rparr>) (ss_cfg st) s' = (Serving service c started, s'') \<and>
      (Mode (ss_cfg st) = ''http'' \<longrightarrow> started = Ret ())"
    using main_service_starts [of "E\<lparr>me_user := ''tagent''\<rparr>" "ss_cfg st" s' service c fs2] by (auto simp: L_def)
  then have "me_validate E [''tagent'', ''startService''] = None \<longrightarrow>
      (\<exists>service c started s''.
         tagent_main (E\<lparr>me_user := ''tagent''\<rparr>) [''tagent'', ''startService''] s' = (Serving service c started, s'') \<and>
         (Mode (ss_cfg st) = ''http'' \<longrightarrow> started = Ret ()))"
    using read by (simp add: tagent_main_def main_switch_def command_of_def L_def)
  moreover have "getAssetTags P (ag_tpm (in_agent (tg_init s'))) (cfg_TagSecretKey (ss_cfg st)) =
      Ret (tag_text (previous_tag P (owner_secret W) owned))"
    using p(1,5) st(5) by simp
  moreover have "cfg_service (ss_cfg st) = snd (UpdateServiceConfig_Run (ctx L) (cfg_service cfg))"
    "AAS_BaseURL (ss_cfg st) = AAS_BaseURL cfg" "ApiToken (ss_cfg st) = string_of_bytes token"
    using p(1) by simp_all
  ultimately show ?thesis using read p(2-4,6) aik unfolding tag_text_def by metis
qed

text \<open>A machine and its libraries, for the examples.\<close>

definition sample_main :: "config_lib \<Rightarrow> (soft_tpm, unit, byte list, (string \<times> string) list, unit, unit, unit) main_env" where
  "sample_main L =
     \<lparr>me_user = ''root'', me_validate = (\<lambda>args. None), me_build = sample_build, me_init = sample_init,
      me_setup = \<lparr>sl_world = sample_world L, read_answers = \<lambda>f W. W, run_tasks = runs\<rparr>,
      me_os = sample_os, me_lookPath = Ret ''/bin/systemctl'', me_systemctl = (\<lambda>cmd. ([], None)),
      me_issuer = (\<lambda>der. []), me_ek = sample_aik_env, me_nats = sample_nats, me_web = sample_web_lib\<rparr>"

definition sample_machine :: "(soft_tpm, (string \<times> string) list) tagent" where
  "sample_machine =
     \<lparr>tg_init = \<lparr>in_agent = ss_agent (sample_setup empty_config :: (soft_tpm, unit, (string \<times> string) list) setup_state),
        in_owner = (\<lambda>p. (0, 0))\<rparr>,
      tg_hvs = [], tg_ran = [], tg_out = []\<rparr>"

lemma sample_main_fields [simp]:
  "me_user (sample_main L) = ''root''" "me_validate (sample_main L) a = None" "me_config (sample_main L) = L"
  "run_tasks (me_setup (sample_main L)) = runs" "sl_world (me_setup (sample_main L)) = sample_world L"
  by (simp_all add: sample_main_def)

lemma sample_machine_config:
  "NewConfigFromYaml L (tg_files sample_machine) ConfigFilePath =
     Ret ((set_level (InfoLevel (ctx L)) empty_config)\<lparr>configFile := ConfigFilePath\<rparr>)"
  by (simp add: sample_machine_def sample_setup_def sample_host_def NewConfigFromYaml_def os_Open_def constants_defs)

theorem unprivileged_user_witness:
  "\<exists>r s'. tagent_main ((sample_main sample_config_lib)\<lparr>me_user := ''guest'', me_init := sample_init\<lparr>IsContainerEnv := False\<rparr>\<rparr>)
       [''tagent'', ''startService''] sample_machine = (r, s') \<and>
     (\<exists>e. r = Finished e \<and> e \<noteq> MainReturns) \<and> tg_init s' = tg_init sample_machine"
proof -
  let ?E = "(sample_main sample_config_lib)\<lparr>me_user := ''guest'', me_init := sample_init\<lparr>IsContainerEnv := False\<rparr>\<rparr>"
  let ?args = "[''tagent'', ''startService'']"
  obtain r s' where run: "tagent_main ?E ?args sample_machine = (r, s')" by fastforce
  have "me_user ?E \<noteq> ''root''" "1 < length ?args" by simp_all
  from unprivileged_user [OF this run] show ?thesis using run by simp
qed

theorem define_tag_index_exits_zero_witness:
  "\<exists>s'. tagent_main (sample_main sample_config_lib) [''tagent'', ''setup'', ''define-tag-index''] sample_machine =
       (Finished (Recovered NilDereference), s') \<and> exit_status (Recovered NilDereference) = 0"
proof -
  let ?E = "sample_main sample_config_lib"
  have user: "me_user ?E = ''root''" and args: "me_validate ?E a = None" for a by simp_all
  have cfg: "NewConfigFromYaml (me_config ?E) (tg_files sample_machine) ConfigFilePath =
      Ret ((set_level (InfoLevel (ctx sample_config_lib)) empty_config)\<lparr>configFile := ConfigFilePath\<rparr>)"
    unfolding sample_main_fields sample_world_fields by (rule sample_machine_config)
  have law: "\<forall>W t st p. task_Run W t st = (Panic p, st) \<longrightarrow> run_tasks (me_setup ?E) W [t] st = (Panic p, st)"
    by simp
  from define_tag_index_exits_zero [OF user refl args cfg law] show ?thesis by blast
qed

text \<open>A machine on which a full setup succeeds: the environment names only AAS; one configuration can be saved.\<close>

definition ready_lib :: "TrustAgentConfiguration \<Rightarrow> config_lib" where
  "ready_lib cfg = (saving_lib cfg)\<lparr>ctx := sample_context\<lparr>GetenvInt := \<lambda>v. (0, Some EOF),
     GetenvString := \<lambda>v. if v = ''AAS_API_URL'' then Ret ''https://aas/'' else Fail (LibError ''unset'')\<rparr>\<rparr>"

definition ready_start :: "TrustAgentConfiguration \<Rightarrow> TrustAgentConfiguration" where
  "ready_start cfg = snd (LoadEnvironmentVariables (ready_lib cfg)
     (log_level (ready_lib cfg) ((set_level (InfoLevel (ctx (ready_lib cfg))) empty_config)\<lparr>configFile := ConfigFilePath\<rparr>)))"

definition ready_service :: service_config where
  "ready_service = snd (UpdateServiceConfig_Run (ctx (ready_lib empty_config)) (cfg_service (ready_start empty_config)))"

definition ready_config :: TrustAgentConfiguration where
  "ready_config = (ready_start empty_config)\<lparr>cfg_service := ready_service, cfg_TagSecretKey := ''hex:ab'', ApiToken := ''T''\<rparr>"

lemma ready_load: "fst (LoadEnvironmentVariables (ready_lib cfg) c) = Ret ()"
  by (simp add: LoadEnvironmentVariables_def load_digest_def env_value_def ready_lib_def Let_def setting_names)

lemma ready_lib_fields: "ctx (ready_lib cfg) = ctx (ready_lib empty_config)"
  "ValidateHexString (ready_lib cfg) = ValidateHexString (ready_lib empty_config)"
  by (simp_all add: ready_lib_def saving_lib_def)

lemma same_environment:
  assumes "ctx L = ctx L'" and "ValidateHexString L = ValidateHexString L'"
  shows "LoadEnvironmentVariables L c = LoadEnvironmentVariables L' c" and "log_level L c = log_level L' c"
  unfolding LoadEnvironmentVariables_def load_url_def load_aas_def load_log_level_def load_digest_def load_or_default_def
    load_nats_def load_mode_def env_value_def log_level_def assms
  by (rule refl)+

lemma ready_start_eq: "ready_start cfg = ready_start empty_config"
  unfolding ready_start_def
  by (subst ready_lib_fields(1), subst same_environment [OF ready_lib_fields],
      subst same_environment(2) [OF ready_lib_fields]) (rule refl)

lemma ready_start_fields:
  "cfg_TagSecretKey (ready_start cfg) = []" "Mode (ready_start cfg) = ''http''" "AAS_BaseURL (ready_start cfg) \<noteq> []"
  "configFile (ready_start cfg) = ConfigFilePath"
  by (simp_all add: ready_start_def LoadEnvironmentVariables_def load_digest_def load_mode_cases load_aas_def env_value_def
      ready_lib_def log_level_def set_level_def empty_config_def Let_def setting_names)

lemma ready_saves:
  assumes "fs ConfigFilePath = Absent \<or> (\<exists>bs. fs ConfigFilePath = Contents bs)"
  shows "config_Save (ready_lib ready_config) ready_config fs = (Ret (), fs(ConfigFilePath := Contents [1]))"
proof -
  have "configFile ready_config = ConfigFilePath" by (simp add: ready_config_def ready_start_fields)
  moreover have "yaml_Encode (ready_lib c) c = Ret [1]" "create_error (ready_lib c) p = None" "chmod_error (ready_lib c) p = None" for c p
    by (simp_all add: ready_lib_def saving_lib_def sample_config_lib_def)
  moreover have "ConfigFilePath \<noteq> []" by (simp add: constants_defs)
  ultimately show ?thesis using assms by (auto simp: config_Save_def return_with_def)
qed

lemma ready_logs:
  "setup_logs (ready_lib c) (sample_setup cfg) = (sample_setup cfg)\<lparr>ss_cfg := log_level (ready_lib c) cfg\<rparr>"
  by (simp add: setup_logs_def configure_logs_def LogConfiguration_refused ready_lib_def saving_lib_def
      sample_config_lib_def set_files_def sample_setup_def LogConfiguration_def Let_def open_log_def)

lemma ready_service_run:
  "UpdateServiceConfig_Run (ctx (ready_lib c)) (cfg_service (ready_start empty_config)) = (Ret (), ready_service)"
  "UpdateServiceConfig_Validate ready_service = Ret ()"
proof -
  show "UpdateServiceConfig_Run (ctx (ready_lib c)) (cfg_service (ready_start empty_config)) = (Ret (), ready_service)"
    unfolding ready_service_def ready_lib_fields(1) [of c] by (simp add: UpdateServiceConfig_Run_def)
  have "Port ready_service = 1443"
    by (simp add: ready_service_def update_settings ready_lib_def DefaultPort_def)
  then show "UpdateServiceConfig_Validate ready_service = Ret ()" by (simp add: UpdateServiceConfig_Validate_def)
qed

lemma ready_setup:
  "\<exists>s'. tagent_main (sample_main (ready_lib ready_config)) [''tagent'', ''setup''] sample_machine = (Finished MainReturns, s')"
proof -
  let ?L = "ready_lib ready_config"
  let ?W = "sample_world ?L" and ?cfg = "ready_start empty_config"
  let ?old = "(set_level (InfoLevel (ctx ?L)) empty_config)\<lparr>configFile := ConfigFilePath\<rparr>"
  obtain tpm fs ca where run: "runs ?W (all_tasks ?W ?cfg) ((sample_setup ?old)\<lparr>ss_cfg := ?cfg\<rparr>) =
      (Ret (), sample_at ready_config tpm fs ca)" "fs ConfigFilePath = Contents [1]"
    using sample_runs [OF ready_service_run(1) [of ready_config] ready_service_run(2) ready_start_fields(1-3), folded ready_config_def]
      ready_saves by blast
  have load: "LoadEnvironmentVariables ?L (log_level ?L ?old) = (Ret (), ?cfg)"
    using ready_load [of ready_config "log_level ?L ?old"] ready_start_eq [of ready_config]
    by (simp add: ready_start_def prod_eq_iff)
  have start: "setup_start sample_machine ?old = sample_setup ?old"
    by (simp add: setup_start_def sample_machine_def sample_setup_def)
  have "setup_command (me_setup (sample_main ?L)) ''root'' [''tagent'', ''setup''] (sample_setup ?old) =
      (MainReturns, set_files (fs(ConfigFilePath := Contents [1])) (sample_at ready_config tpm fs ca))"
    using load run ready_saves [of fs] default_command_created [of ?W ?cfg]
    by (simp add: setup_command_def RootUserName_def setup_arguments_def run_setup_def ready_logs sample_at_def Let_def)
  then show ?thesis
    using sample_machine_config [of ?L] start
    by (simp add: tagent_main_def main_switch_def command_of_def main_setup_eq setup_misused_def)
qed

lemma sample_keys_keep_tag: "keys_keep_tag sample_aik_tpm"
  by (auto simp: keys_keep_tag_def same_tag_def sample_aik_tpm_def soft_provider_def soft_read_def split: option.splits)

theorem setup_makes_ready_witness:
  "\<exists>s' service c started s''.
     tagent_main (sample_main (ready_lib ready_config)) [''tagent'', ''setup''] sample_machine = (Finished MainReturns, s') \<and>
     tagent_main ((sample_main (ready_lib ready_config))\<lparr>me_user := ''tagent''\<rparr>) [''tagent'', ''startService''] s' =
       (Serving service c started, s'')"
proof -
  let ?L = "ready_lib ready_config"
  let ?E = "sample_main ?L"
  let ?env = "sample_agent_env\<lparr>pem_Decode := \<lambda>bs. Some (if bs = pem_Encode ''CERTIFICATE'' [3] then [3] else [48, 0])\<rparr>"
  obtain s' where s': "tagent_main ?E [''tagent'', ''setup''] sample_machine = (Finished MainReturns, s')"
    using ready_setup by blast
  have yaml: "\<forall>c bs. yaml_Encode ?L c = Ret bs \<longrightarrow> yaml_Decode ?L bs = Ret (c\<lparr>configFile := []\<rparr>)"
    using saving_lib_laws(1) [of ready_config] by (simp add: ready_lib_def)
  have nv: "nv_laws (base sample_aik_tpm)" using soft_nv_laws by (simp add: sample_aik_tpm_def)
  have confined: "library_tasks_confined (sample_world ?L)" by (simp add: library_tasks_confined_def sample_world_def)
  have pem: "pem_Decode ?env (pem_Encode ''CERTIFICATE'' der) = Some der"
    if "is_Ret (x509_ParseCertificate (sw_aik (sample_world ?L) vs) der)" for vs der
    using that by (auto simp: sample_ca_env_def eval_simps split: if_splits)
  have written: "write_result (sw_aik (sample_world ?L) vs) AikCert bs = (bs, None)" for vs bs
    by (simp add: sample_ca_env_def sample_aik_env_def)
  have "\<exists>service c started s''. tagent_main (?E\<lparr>me_user := ''tagent''\<rparr>) [''tagent'', ''startService''] s' = (Serving service c started, s'')"
    using setup_makes_ready [OF s', of ?env] yaml nv confined pem written ready_load sample_keys_keep_tag by auto
  then show ?thesis using s' by blast
qed

end
