(* ===== verification/Spec2Isabelle.thy ===== *)
theory Spec2Isabelle
  imports Event_Parsers Web_Service Outbound_Service Setup_Tasks Version_Info Manifest_Task Service_Config
    Agent_Config Hvs_Tasks Aik_Provisioning Agent_Init Report_Retry Agent_Main Web_Lifecycle
    Concurrent_Requests Command_Line
begin

text \<open>
  Trust Agent (\<^verbatim>\<open>intel-secl/go-trustagent\<close>): a model of the agent and the properties that make it correct.

  \<^bold>\<open>The program.\<close> The agent runs on a host with a TPM. At boot \<^verbatim>\<open>tagent init\<close> (\<^verbatim>\<open>main.go\<close>) collects the
  measurements of the boot (\<^verbatim>\<open>eventlog/\<close>) and the host's data into files. The service
  (\<^verbatim>\<open>tagent startService\<close>) then answers a verification service, over HTTP (\<^verbatim>\<open>service/webservice.go\<close>) or over
  NATS (\<^verbatim>\<open>service/outbound_service.go\<close>), through one request handler (\<^verbatim>\<open>common/\<close>): quotes signed by the
  TPM, the deployment of an asset tag and of manifests, measurements of applications. Setup tasks
  (\<^verbatim>\<open>tasks/\<close>) provision the TPM, its identity key and the configuration (\<^verbatim>\<open>config/\<close>).

  \<^bold>\<open>Conventions.\<close> A Go call returns \<open>'a go\<close>: a value, an error or a panic (\<open>Ret\<close>, \<open>Fail\<close>, \<open>Panic\<close>);
  calls with state return it beside the outcome and are sequenced by \<open>thenS\<close>. Unsigned integers are
  words; sizes that the code converts to \<^verbatim>\<open>int\<close> are integers. The standard library the sources use is
  modelled; third-party packages (TPM provider, HVS and AAS clients, NATS, YAML, X.509, AES, logging)
  are fields of records the definitions take as arguments, and what a theorem needs of them is one of
  its hypotheses (for example \<open>nv_laws\<close>: what is written to an NV index is read back).

  \<^bold>\<open>Theories.\<close>
  \<^item> \<^verbatim>\<open>TA_Prelude\<close>: outcomes, errors, buffers, \<^verbatim>\<open>encoding/binary\<close>; locale \<open>fixed_codec\<close>, interpreted
    for each width of integer.
  \<^item> \<^verbatim>\<open>Go_Strings\<close>, \<^verbatim>\<open>Go_Utf8\<close>, \<^verbatim>\<open>Go_Codecs\<close>, \<^verbatim>\<open>Go_Json\<close>, \<^verbatim>\<open>Go_Crypto\<close>: the used parts of \<^verbatim>\<open>strings\<close>,
    \<^verbatim>\<open>strconv\<close>, \<^verbatim>\<open>unicode/utf8\<close>, Base64, SHA-1, \<^verbatim>\<open>encoding/json\<close>, CBC mode, ASN.1 and PEM.
  \<^item> \<^verbatim>\<open>TA_Constants\<close>, \<^verbatim>\<open>Os_Files\<close>: \<^verbatim>\<open>constants/constants.go\<close> and files; the file system is a function from
    paths, physical memory and ACPI tables included.
  \<^item> \<^verbatim>\<open>Pcr_Log\<close>, \<^verbatim>\<open>Event_Tag\<close>, \<^verbatim>\<open>Measure_Log\<close>, \<^verbatim>\<open>Event_Parsers\<close>: \<^verbatim>\<open>eventlog/\<close>. \<open>createMeasureLog\<close> is the
    whole parsing loop; its specification is an encoder of TCG events and the grouping of their digests
    by PCR and bank. Locale \<open>pcr_log_store\<close> is the contract of filing an event, met by both copies of
    that code; \<open>event_log_parser\<close> and \<open>binary_log_parser\<close> are the contracts of the parsers.
  \<^item> \<^verbatim>\<open>Tpm_Provider\<close>: the TPM library's interface, and \<open>soft_provider\<close>, an instance that meets its laws.
  \<^item> \<^verbatim>\<open>Quote\<close>, \<^verbatim>\<open>Request_Handler\<close>: \<^verbatim>\<open>common/\<close>, on a state of TPM and files (\<open>agent\<close>).
  \<^item> \<^verbatim>\<open>Go_Procs\<close>, \<^verbatim>\<open>Handler_Procs\<close>, \<^verbatim>\<open>Concurrent_Requests\<close>: the same operations as processes of atomic
    steps (a call of the TPM or of the operating system each), and any number of them interleaved in any
    way (\<open>server_run\<close>). Locale \<open>interference\<close> is what one request may rely on of the others.
  \<^item> \<^verbatim>\<open>Web_Service\<close>: routing, permissions, endpoints and error handler of \<^verbatim>\<open>service/\<close>; locale \<open>endpoint\<close> is what
    the error handler relies on, interpreted for every endpoint. \<^verbatim>\<open>Web_Lifecycle\<close>: starting and stopping
    that service beside its listening goroutine (\<open>web_step\<close>), with what \<^verbatim>\<open>net/http\<close> documents of \<^verbatim>\<open>Shutdown\<close> and
    \<^verbatim>\<open>ListenAndServeTLS\<close> as named conditions, and \<^verbatim>\<open>fnGetJwtCerts\<close>.
  \<^item> \<^verbatim>\<open>Outbound_Service\<close>: the NATS subscriptions, the records of both services with their start and
    stop, the settings of the \<^verbatim>\<open>http.Server\<close>, and the choice of the service; locale \<open>frontend\<close> is what
    both services promise about the agent's state, interpreted for both.
  \<^item> \<^verbatim>\<open>Setup_Tasks\<close>, \<^verbatim>\<open>Manifest_Task\<close>, \<^verbatim>\<open>Service_Config\<close>, \<^verbatim>\<open>Aik_Provisioning\<close>, \<^verbatim>\<open>Hvs_Tasks\<close>: \<^verbatim>\<open>tasks/\<close> with the
    helpers of \<^verbatim>\<open>util/\<close>, each task on the part of the state it uses; \<^verbatim>\<open>Task_Runner\<close>: the tasks of a command
    with what they are given, and all of them on the state they share (\<open>setup_state\<close>); \<^verbatim>\<open>Version_Info\<close>: \<^verbatim>\<open>util/version.go\<close>; \<^verbatim>\<open>Agent_Config\<close>: \<^verbatim>\<open>config/config.go\<close>.
  \<^item> \<^verbatim>\<open>Agent_Init\<close>, \<^verbatim>\<open>Report_Retry\<close>, \<^verbatim>\<open>Agent_Main\<close>, \<^verbatim>\<open>Command_Line\<close>: \<^verbatim>\<open>main.go\<close>. The retry goroutine and
    the life of the service process are step relations (\<open>retry_step\<close>, \<open>life_step\<close>) over ticks, answers
    and signals, with a step by which the operating system kills the process; locale \<open>managed_service\<close> is what
    \<^verbatim>\<open>main\<close> relies on of a service, interpreted for the choice of both. \<open>tagent_main\<close> is \<^verbatim>\<open>main\<close> from the
    arguments to the state of the machine, the output and the exit status, for \<^verbatim>\<open>startService\<close> up to the return
    of \<^verbatim>\<open>Start\<close>; from there on it is \<open>life_step\<close> for the process and \<open>serve\<close> or \<open>on_message\<close> for the requests.

  \<^bold>\<open>What is shown.\<close> Parsing: encoded logs are read back, logs stay well formed, a TXT log never panics
  and exactly when a UEFI log does. From the boot to the quote: what init collects is what is served
  (\<open>init_is_served\<close>), a deployed tag is quoted and covered by the nonce (below). Services: only permitted
  requests change the agent, every request is answered, both services have the same effect, and the
  server runs with the saved settings (\<open>settings_reach_server\<close>). Concurrency: the processes are the sequential
  handlers when nothing interleaves (lemma \<open>request_alone\<close>); under any interleaving a quote is signed over a tag the TPM held, answers have the
  payload of their kind, and manifests written to other files do not matter, while two with the same
  UUID can mix. Setup: tags survive the re-creation of their index, a provisioned identity key is
  served, what HVS encrypted is recovered, saved settings are read back, and after a full setup the agent has all it needs
  to serve (\<open>setup_makes_ready\<close>). Process: invariants of the
  retry goroutine over all interleavings, that in every fair execution in which HVS accepts it ends within
  four steps of its own, returned when its ticks are far enough apart, that the service stops in
  order, and what a user other than root can do (\<open>unprivileged_user\<close>). Several theorems and lemmas state what the
  code does where it differs from what it means to do: panics on crafted event logs and replies, banks
  that stay in a request, a hang after a failed start, a crash after overlapping retries, a stale event
  log after a failed collection, a shutdown that may cut requests, a panic that exits with status 0, a
  security log that depends on the ordinary log.

  \<^bold>\<open>Bounds and fuel.\<close> The JSON scanner gets twice the length of its input plus two as fuel; every second
  call consumes a character, and \<open>json_accepts\<close> shows it enough for every encoded value. The limit of
  nesting and the range of numbers of \<^verbatim>\<open>encoding/json\<close> are not modelled. All other loops are structural
  or have a measure. The number of runes of a variable name is bounded as the run-time system bounds
  slices (\<open>max_runes\<close>); the DER encoder that specifies the certificate parser has contents below 65536
  bytes.

  \<^bold>\<open>Not modelled.\<close> Sockets, the TLS handshake and the scheduling of goroutines by the libraries: the settings
  given to them are modelled, and requests interleave at every call. The text of log messages and of
  progress messages on the console; the log files, the usage text and the output of the commands are
  modelled. \<^verbatim>\<open>swagger/docs\<close>: annotations for a generator. The times of the ticker: its ticks come in any
  order with the other steps, or as \<open>prompt\<close> restricts them. A write to an opened file is one step that
  succeeds; the setup library's runner is a parameter that is given the tasks.
\<close>

section \<open>From a request to the agent's state\<close>

text \<open>The error handler answers 200 only when the endpoint returned no error.\<close>

lemma errorHandler_OK:
  assumes "errorHandler eh r w ag = (w', ag')" and "rw_status w' = Some StatusOK" and "rw_status w = None"
    and "\<And>e w1 ag1. eh r w ag = (Fail e, w1, ag1) \<Longrightarrow> w1 = w \<and> (\<exists>msg code. e = EndpointErr msg code \<and> code \<noteq> StatusOK)"
    and "\<And>q w1 ag1. eh r w ag = (Panic q, w1, ag1) \<Longrightarrow> w1 = w"
  shows "\<exists>u w1. eh r w ag = (Ret u, w1, ag')"
proof -
  obtain res w1 ag1 where run: "eh r w ag = (res, w1, ag1)" by (metis prod_cases3)
  show ?thesis
    using run assms
    by (cases res)
      (auto simp: errorHandler_def handle_endpoint_error http_Error_status StatusInternalServerError_def
        StatusOK_def)
qed

lemma DeployAssetTag_Fail:
  assumes "DeployAssetTag env ag tag = (Fail e, ag')" and "NewTpmFactory (tpm_lib env) = None"
  shows "\<exists>msg code. e = EndpointErr msg code \<and> code \<noteq> StatusOK"
  using assms unfolding DeployAssetTag_def Let_def
  by (auto simp: thenS_eq_Fail endpoint_error_eq_Fail status_defs split: prod.splits if_splits)

text \<open>A tag request that is answered with status 200 has written the tag.\<close>

lemma tag_request_deployed:
  assumes "serve web env r ag = Some (w, ag')" and "req_method r = ''POST''" and "req_path r = ''/v2/tag''"
    and "rw_status w = Some StatusOK" and "NewTpmFactory (tpm_lib env) = None"
    and "req_body r = Ret data" and "decode_tag_request web data = Ret tag"
  shows "DeployAssetTag env ag tag = (Ret (), ag')"
proof -
  have new: "rw_status (sts_header new_response) = None" by (simp add: new_response_def)
  obtain res ag2 where dep: "DeployAssetTag env ag tag = (res, ag2)" by fastforce
  have w: "errorHandler (requiresPermission web (setAssetTag web env) [''deploy_tag:create'']) r new_response ag = (w, ag')"
    using assms(1-3) by (simp add: serve_def routes_def route_handler_def)
  obtain p where p: "user_permissions r = Ret p" "match_permission web p [''deploy_tag:create'']"
    using w assms(4) requiresPermission_OK [of web _ _ r ag w ag'] by blast
  then have "errorHandler (setAssetTag web env) r (sts_header new_response) ag = (w, ag')"
    using w by (simp add: errorHandler_def requiresPermission_def)
  then have "\<exists>u w1. setAssetTag web env r (sts_header new_response) ag = (Ret u, w1, ag')"
    using assms(4) new
  proof (rule errorHandler_OK)
    fix e w1 ag1
    assume f: "setAssetTag web env r (sts_header new_response) ag = (Fail e, w1, ag1)"
    then show "w1 = sts_header new_response \<and> (\<exists>msg code. e = EndpointErr msg code \<and> code \<noteq> StatusOK)"
      using asset_tag.fails [OF f] DeployAssetTag_Fail [OF _ assms(5), of ag tag e ag2] assms(6,7) dep
      by (auto simp: setAssetTag_def on_Ret_eq check_content_type_def status_defs split: if_splits)
  qed (rule asset_tag.panics)
  then show ?thesis
    using assms(6,7) dep by (auto simp: setAssetTag_def on_Ret_eq)
qed


lemma default_banks_sha256_only:
  "\<not> act ''SHA384'' \<Longrightarrow> \<not> act ''SHA1'' \<Longrightarrow> strip_banks act default_banks = Panic SliceBounds"
  by (cases "act ''SHA256''") (simp_all add: eval_simps)

section \<open>Properties\<close>

text \<open>
  C1: an asset tag deployed through the service is what the quotes made in the state it leaves report and
  sign. After a tag request with a tag of 48 bytes, not all zero, that was answered with status 200, every
  quote of that state that succeeds names the tag in Base64, and the TPM signed the SHA-1 of the hashed
  nonce followed by the tag. (C4 is about quotes with other requests in between.)
\<close>

theorem deployed_tag_is_quoted:
  assumes "nv_laws (tpm_lib env)" and "NewTpmFactory (tpm_lib env) = None"
    and "serve web env r ag = Some (w, ag')" and "req_method r = ''POST''" and "req_path r = ''/v2/tag''"
    and "rw_status w = Some StatusOK"
    and "req_body r = Ret data" and "decode_tag_request web data = Ret tag"
    and "length (Tag tag) = TagIndexSize" and "\<exists>b \<in> set (Tag tag). b \<noteq> 0"
    and "handlerGetTpmQuote env ag' (Some q) = Ret resp"
  shows "AssetTag resp = base64_encode (Tag tag) \<and> IsTagProvisioned resp \<and>
    (\<exists>sig. GetTpmQuote (tpm_lib env) (ag_tpm ag') (sha1_Sum (sha1_Sum (Nonce q) @ Tag tag))
        (SelectedPcrBanks resp) (Pcrs q) = Ret sig \<and> Quote resp = base64_encode sig)"
proof -
  have dep: "DeployAssetTag env ag tag = (Ret (), ag')"
    by (rule tag_request_deployed [OF assms(3-6,2,7,8)])
  have tag: "getAssetTags (tpm_lib env) (ag_tpm ag') (TagSecretKey env) = Ret (base64_encode (Tag tag))"
    by (rule deployed_tag_read_back [OF assms(1) dep assms(9,10)])
  have resp: "CreateTpmQuoteResponse (tpm_lib env) (ag_tpm ag') (ag_host ag') (TagSecretKey env) q = Ret resp"
    using assms(11) by (auto simp: handlerGetTpmQuote_def handleGetTpmQuote_def andThen_eq_Ret)
  have rep: "AssetTag resp = base64_encode (Tag tag)" using quote_parts [OF resp] tag by auto
  moreover from this have "AssetTag resp \<noteq> []" using assms(10) by auto
  ultimately show ?thesis using quote_parts [OF resp] by (auto simp: getNonce_def Let_def)
qed

theorem deployed_tag_is_quoted_witness:
  "\<exists>w ag' resp. serve sample_web sample_agent_env (sample_request ''/v2/tag'' [''deploy_tag:create''])
        sample_agent = Some (w, ag') \<and>
     handlerGetTpmQuote sample_agent_env ag' (Some \<lparr>Nonce = [5], Pcrs = [0], PcrBanks = [''SHA256'']\<rparr>) = Ret resp \<and>
     AssetTag resp = base64_encode (replicate 48 9) \<and> IsTagProvisioned resp"
proof -
  let ?r = "sample_request ''/v2/tag'' [''deploy_tag:create'']"
  let ?q = "\<lparr>Nonce = [5], Pcrs = [0], PcrBanks = [''SHA256'']\<rparr>"
  have strip: "strip_banks (\<lambda>b. b = ''SHA256'' \<or> b = ''SHA1'') [''SHA256''] = Ret [''SHA256'']"
    by (simp add: eval_simps)
  have zeros: "\<not> allZeros (replicate 48 9)" by (simp add: replicate_numeral)
  have "\<exists>w ag'. serve sample_web sample_agent_env ?r sample_agent = Some (w, ag') \<and>
      rw_status w = Some StatusOK \<and> ag' = \<lparr>ag_tpm = sample_tpm\<lparr>st_nv := (0x1c10110, ''k'', replicate 48 9) # st_nv sample_tpm\<rparr>,
        ag_host = sample_host\<rparr>"
    by (simp add: serve_def routes_def sample_request_def route_handler_def requiresPermission_def
      sample_web_def errorHandler_def setAssetTag_def check_content_type_def DeployAssetTag_def
      sample_agent_env_def sample_agent_def sample_uuid_def soft_provider_def soft_write_def
      sample_tpm_def open_tpm_def new_response_def)
  then obtain w ag' where w: "serve sample_web sample_agent_env ?r sample_agent = Some (w, ag')"
    "rw_status w = Some StatusOK" and ag': "ag' = \<lparr>ag_tpm = sample_tpm\<lparr>st_nv := (0x1c10110, ''k'', replicate 48 9) # st_nv sample_tpm\<rparr>,
        ag_host = sample_host\<rparr>" by blast
  have "\<exists>resp. handlerGetTpmQuote sample_agent_env ag' (Some ?q) = Ret resp"
    by (simp add: ag' handlerGetTpmQuote_def handleGetTpmQuote_def CreateTpmQuoteResponse_def strip createTpmQuote_def
        getAssetTags_def zeros getNonce_def getQuote_def readAikAsBase64_def readEventLog_def
        getTcbMeasurements_def soft_provider_def soft_read_def sample_tpm_def sample_host_def
        os_Stat_def os_Open_def ioutil_ReadFile_def TagIndexSize_def constants_defs sample_agent_env_def
        open_tpm_def)
  then obtain resp where resp: "handlerGetTpmQuote sample_agent_env ag' (Some ?q) = Ret resp" by blast
  have "AssetTag resp = base64_encode (Tag \<lparr>Tag = replicate 48 9, HardwareUUID = sample_uuid\<rparr>) \<and> IsTagProvisioned resp"
    using deployed_tag_is_quoted [OF _ _ w(1) _ _ w(2) _ _ _ _ resp, of "replicate 48 9"
        "\<lparr>Tag = replicate 48 9, HardwareUUID = sample_uuid\<rparr>"] soft_nv_laws
    by (simp add: sample_agent_env_def sample_request_def sample_web_def TagIndexSize_def soft_provider_def)
  then show ?thesis using w resp by auto
qed

text \<open>
  On a TPM where neither SHA384 nor SHA1 is active, a permitted quote request that names no bank
  is answered with status 500 and the text Unknown Error: the loop that drops inactive banks panics
  and the error handler recovers. The agent does not change.
\<close>

lemma default_quote_needs_outer_banks:
  assumes "req_method r = ''POST''" and "req_path r = ''/v2/tpm/quote''" and "content_type r = ''application/json''"
    and "user_permissions r = Ret p" and "match_permission web p [''quote:create'']"
    and "req_body r = Ret data" and "decode_quote_request web data = Ret q"
    and "Nonce q \<noteq> []" and "PcrBanks q = []"
    and "NewTpmFactory (tpm_lib env) = None" and "NewTpmProvider (tpm_lib env) (ag_tpm ag) = None"
    and "\<not> fst (IsPcrBankActive (tpm_lib env) (ag_tpm ag) ''SHA384'')"
    and "\<not> fst (IsPcrBankActive (tpm_lib env) (ag_tpm ag) ''SHA1'')"
  shows "\<exists>w. serve web env r ag = Some (w, ag) \<and> rw_status w = Some StatusInternalServerError \<and>
    rw_body w = ''Unknown Error'' @ [LF]"
proof -
  have "handlerGetTpmQuote env ag (Some q) = Panic SliceBounds"
    using assms(8-11) default_banks_sha256_only
        [of "\<lambda>b. fst (IsPcrBankActive (tpm_lib env) (ag_tpm ag) b)", OF assms(12,13)]
    by (simp add: handlerGetTpmQuote_def handleGetTpmQuote_def open_tpm_def CreateTpmQuoteResponse_def)
  then have "getTpmQuote web env r w ag = (Panic SliceBounds, w, ag)" for w
    using assms(3,6,7) by (simp add: getTpmQuote_def check_content_type_def)
  then have "serve web env r ag = Some (http_Error (sts_header new_response) ''Unknown Error'' StatusInternalServerError, ag)"
    using assms(1,2,4,5)
    by (simp add: serve_def routes_def route_handler_def errorHandler_def requiresPermission_def)
  then show ?thesis
    by (simp add: http_Error_def write_body_def write_header_def header_set_def header_add_def sts_header_def
        new_response_def Let_def)
qed

end
